(* ===== verification/Prelude.thy ===== *)
theory Prelude
  imports Main "HOL-Library.Word"
begin

text \<open>
  Shared vocabulary of the development. Rust strings are \<^typ>\<open>string\<close>, read as their bytes;
  a text outside ASCII is its UTF-8 bytes, and white space is the ASCII white space of
  \<open>char::is_whitespace\<close>. The standard-library operations the sources use on strings
  (\<open>trim\<close>, \<open>split\<close>, \<open>split_once\<close>, \<open>starts_with\<close>, \<open>contains\<close>, \<open>replace\<close>, \<open>join\<close>,
  \<open>parse::<usize>\<close>, decimal formatting) are written out here, with the lemmas that the
  components share. Results are \<open>'e + 'a\<close>, \<open>Inl\<close> for \<open>Err\<close> and \<open>Inr\<close> for \<open>Ok\<close>.
\<close>

named_theorems text_simps "evaluation rules for the string operations"
named_theorems wf_intros "preservation of the components' invariants"

type_synonym i32 = "32 word"
type_synonym u64 = "64 word"
type_synonym u16 = "16 word"
type_synonym ('k, 'v) hash_map = "('k \<times> 'v) list" \<comment> \<open>in the map's iteration order\<close>

abbreviation unwrap_or :: "'a \<Rightarrow> 'a option \<Rightarrow> 'a" where
  "unwrap_or d x \<equiv> (case x of None \<Rightarrow> d | Some v \<Rightarrow> v)"

section \<open>Results\<close>

text \<open>The question mark operator: an error leaves the function with it.\<close>

definition try_then :: "'e + 'a \<Rightarrow> ('a \<Rightarrow> 'e + 'b) \<Rightarrow> 'e + 'b" where
  "try_then r f = (case r of Inl e \<Rightarrow> Inl e | Inr v \<Rightarrow> f v)"

definition map_err :: "('e \<Rightarrow> 'f) \<Rightarrow> 'e + 'a \<Rightarrow> 'f + 'a" where
  "map_err f r = (case r of Inl e \<Rightarrow> Inl (f e) | Inr v \<Rightarrow> Inr v)"

definition is_ok :: "'e + 'a \<Rightarrow> bool" where
  "is_ok r = (case r of Inl _ \<Rightarrow> False | Inr _ \<Rightarrow> True)"

text \<open>A loop whose body may fail: it stops at the first error.\<close>

fun for_each :: "('a \<Rightarrow> 'e + unit) \<Rightarrow> 'a list \<Rightarrow> 'e + unit" where
  "for_each f [] = Inr ()"
| "for_each f (x # xs) = try_then (f x) (\<lambda>_. for_each f xs)"

lemma try_then_simps [simp]:
  "try_then (Inl e) f = Inl e" "try_then (Inr v) f = f v"
  by (simp_all add: try_then_def)

lemma try_then_eq_Inr [simp]:
  "try_then r f = Inr w \<longleftrightarrow> (\<exists>v. r = Inr v \<and> f v = Inr w)"
  by (cases r) simp_all

lemma map_err_simps [simp]:
  "map_err f (Inl e) = Inl (f e)" "map_err f (Inr v) = Inr v"
  by (simp_all add: map_err_def)

lemma map_err_eq_Inr [simp]: "map_err f r = Inr v \<longleftrightarrow> r = Inr v"
  by (cases r) simp_all

lemma is_ok_simps [simp]: "is_ok (Inl e) = False" "is_ok (Inr v) = True"
  by (simp_all add: is_ok_def)

lemma is_ok_iff: "is_ok r \<longleftrightarrow> (\<exists>v. r = Inr v)"
  by (cases r) simp_all

lemma for_each_ok [simp]: "for_each f xs = Inr u \<longleftrightarrow> (\<forall>x \<in> set xs. f x = Inr ())"
  by (induction xs) auto

lemma for_each_find:
  "for_each f xs = (case find (\<lambda>x. \<not> is_ok (f x)) xs of None \<Rightarrow> Inr () | Some x \<Rightarrow> f x)"
proof (induction xs)
  case Nil
  then show ?case by simp
next
  case (Cons a xs)
  then show ?case by (cases "f a") simp_all
qed

section \<open>Characters and trimming\<close>

definition is_ws :: "char \<Rightarrow> bool" where
  "is_ws c \<longleftrightarrow> c \<in> {CHR 0x09, CHR 0x0A, CHR 0x0B, CHR 0x0C, CHR 0x0D, CHR '' ''}"

definition trim_start :: "string \<Rightarrow> string" where
  "trim_start s = dropWhile is_ws s"

definition trim_end :: "string \<Rightarrow> string" where
  "trim_end s = rev (dropWhile is_ws (rev s))"

definition trim :: "string \<Rightarrow> string" where
  "trim s = trim_end (trim_start s)"

lemmas [text_simps] = is_ws_def trim_start_def trim_end_def trim_def

definition trimmed :: "string \<Rightarrow> bool" where
  "trimmed s \<longleftrightarrow> s = [] \<or> \<not> is_ws (hd s) \<and> \<not> is_ws (last s)"

lemma trim_start_Nil_iff: "trim_start s = [] \<longleftrightarrow> (\<forall>c \<in> set s. is_ws c)"
  by (simp add: trim_start_def dropWhile_eq_Nil_conv)

lemma hd_trim_end:
  assumes "trim_end s \<noteq> []"
  shows "hd (trim_end s) = hd s"
proof -
  have "takeWhile is_ws (rev s) @ dropWhile is_ws (rev s) = rev s" by simp
  then have "s = trim_end s @ rev (takeWhile is_ws (rev s))"
    by (metis rev_append rev_rev_ident trim_end_def)
  with assms show ?thesis by (metis hd_append2)
qed

lemma trimmed_trim [simp]: "trimmed (trim s)"
proof (cases "trim s = []")
  case True
  then show ?thesis by (simp add: trimmed_def)
next
  case False
  then have ne: "dropWhile is_ws (rev (trim_start s)) \<noteq> []"
    by (simp add: trim_def trim_end_def)
  then have "\<not> is_ws (hd (dropWhile is_ws (rev (trim_start s))))"
    by (rule hd_dropWhile)
  then have l: "\<not> is_ws (last (trim s))"
    using ne by (simp add: trim_def trim_end_def last_rev)
  from False have "trim_start s \<noteq> []"
    by (auto simp: trim_def trim_end_def)
  then have "\<not> is_ws (hd (trim_start s))"
    by (simp add: trim_start_def hd_dropWhile)
  moreover have "hd (trim s) = hd (trim_start s)"
    using False by (simp add: trim_def hd_trim_end)
  ultimately show ?thesis using l by (simp add: trimmed_def)
qed

lemma trim_trimmed: "trimmed s \<Longrightarrow> trim s = s"
proof -
  assume t: "trimmed s"
  have "trim_start s = s"
    using t by (cases s) (auto simp: trimmed_def trim_start_def)
  moreover have "trim_end s = s"
    using t by (cases s rule: rev_cases) (auto simp: trimmed_def trim_end_def)
  ultimately show ?thesis by (simp add: trim_def)
qed

lemma trim_idem [simp]: "trim (trim s) = trim s"
  by (simp add: trim_trimmed)

lemma trim_Nil [simp]: "trim [] = []"
  by (simp add: text_simps)

section \<open>Prefixes, suffixes, substrings\<close>

definition starts_with :: "string \<Rightarrow> string \<Rightarrow> bool" where
  "starts_with s p \<longleftrightarrow> take (length p) s = p"

definition ends_with :: "string \<Rightarrow> string \<Rightarrow> bool" where
  "ends_with s p \<longleftrightarrow> starts_with (rev s) (rev p)"

fun contains_str :: "string \<Rightarrow> string \<Rightarrow> bool" where
  "contains_str [] p \<longleftrightarrow> p = []"
| "contains_str (c # s) p \<longleftrightarrow> starts_with (c # s) p \<or> contains_str s p"

lemmas [text_simps] = starts_with_def ends_with_def

lemma starts_with_iff: "starts_with s p \<longleftrightarrow> (\<exists>t. s = p @ t)"
  unfolding starts_with_def by (metis append_eq_conv_conj)

lemma starts_with_append [simp]: "starts_with (p @ t) p"
  by (simp add: starts_with_iff)

lemma starts_with_Nil [simp]: "starts_with s []"
  by (simp add: starts_with_def)

lemma ends_with_iff: "ends_with s p \<longleftrightarrow> (\<exists>t. s = t @ p)"
proof
  assume "ends_with s p"
  then obtain t where "rev s = rev p @ t"
    by (auto simp: ends_with_def starts_with_iff)
  then have "s = rev t @ p" by (metis rev_append rev_rev_ident)
  then show "\<exists>t. s = t @ p" by blast
next
  assume "\<exists>t. s = t @ p"
  then show "ends_with s p" by (auto simp: ends_with_def)
qed

lemma contains_str_iff: "contains_str s p \<longleftrightarrow> (\<exists>u v. s = u @ p @ v)"
proof (induction s)
  case Nil
  then show ?case by auto
next
  case (Cons c s)
  have "starts_with (c # s) p \<longleftrightarrow> (\<exists>v. c # s = [] @ p @ v)"
    by (simp add: starts_with_iff)
  moreover have "(\<exists>u v. c # s = (c # u) @ p @ v) \<longleftrightarrow> contains_str s p"
    using Cons.IH by simp
  ultimately show ?case
    by (auto simp: Cons_eq_append_conv)
qed

lemma contains_str_single: "contains_str s [c] \<longleftrightarrow> c \<in> set s"
  by (auto simp: contains_str_iff in_set_conv_decomp)

section \<open>Splitting and joining\<close>

fun split_on :: "char \<Rightarrow> string \<Rightarrow> string list" where
  "split_on c [] = [[]]"
| "split_on c (x # xs) =
     (if x = c then [] # split_on c xs
      else case split_on c xs of [] \<Rightarrow> [[x]] | y # ys \<Rightarrow> (x # y) # ys)"

fun split_once :: "char \<Rightarrow> string \<Rightarrow> (string \<times> string) option" where
  "split_once c [] = None"
| "split_once c (x # xs) =
     (if x = c then Some ([], xs)
      else map_option (\<lambda>(a, b). (x # a, b)) (split_once c xs))"

fun join :: "string \<Rightarrow> string list \<Rightarrow> string" where
  "join sep [] = []"
| "join sep [x] = x"
| "join sep (x # y # ys) = x @ sep @ join sep (y # ys)"

text \<open>\<open>str::split_whitespace\<close>: the maximal runs of characters that are not white space.\<close>

fun words_go :: "string \<Rightarrow> string \<Rightarrow> string list" where
  "words_go acc [] = (if acc = [] then [] else [rev acc])"
| "words_go acc (c # s) =
     (if is_ws c then (if acc = [] then words_go [] s else rev acc # words_go [] s)
      else words_go (c # acc) s)"

definition split_whitespace :: "string \<Rightarrow> string list" where
  "split_whitespace s = words_go [] s"

lemma split_on_ne [simp]: "split_on c s \<noteq> []"
  by (induction s) (auto split: list.splits)

lemma join_Cons: "join sep (x # xs) = (if xs = [] then x else x @ sep @ join sep xs)"
  by (cases xs) simp_all

lemma join_split_on [simp]: "join [c] (split_on c s) = s"
proof (induction s)
  case Nil
  then show ?case by simp
next
  case (Cons x xs)
  obtain y ys where "split_on c xs = y # ys"
    by (cases "split_on c xs") auto
  with Cons.IH show ?case by (auto simp: join_Cons)
qed

lemma split_on_no_sep: "c \<notin> set s \<Longrightarrow> split_on c s = [s]"
  by (induction s) auto

lemma split_on_append: "c \<notin> set s \<Longrightarrow> split_on c (s @ c # t) = s # split_on c t"
  by (induction s) auto

lemma split_on_parts: "p \<in> set (split_on c s) \<Longrightarrow> c \<notin> set p"
proof (induction s arbitrary: p)
  case Nil
  then show ?case by simp
next
  case (Cons x xs)
  then show ?case by (auto split: if_splits list.splits)
qed

lemma split_on_join:
  "xs \<noteq> [] \<Longrightarrow> (\<And>x. x \<in> set xs \<Longrightarrow> c \<notin> set x) \<Longrightarrow> split_on c (join [c] xs) = xs"
proof (induction xs)
  case Nil
  then show ?case by simp
next
  case (Cons x xs)
  then show ?case
    by (cases xs) (auto simp: split_on_no_sep split_on_append)
qed

lemma split_once_Some_iff:
  "split_once c s = Some (a, b) \<longleftrightarrow> s = a @ c # b \<and> c \<notin> set a"
proof (induction s arbitrary: a)
  case Nil
  then show ?case by simp
next
  case (Cons x xs)
  show ?case
  proof (cases "x = c")
    case True
    then show ?thesis by (cases a) auto
  next
    case False
    with Cons.IH show ?thesis by (cases a) auto
  qed
qed

lemma split_once_None_iff: "split_once c s = None \<longleftrightarrow> c \<notin> set s"
  by (induction s) auto

lemma split_once_append: "c \<notin> set a \<Longrightarrow> split_once c (a @ c # b) = Some (a, b)"
  by (simp add: split_once_Some_iff)

section \<open>Replacing\<close>

text \<open>
  \<open>str::replace\<close>: the non-overlapping occurrences from the left; the empty pattern matches
  at every boundary.
\<close>

fun replace_go :: "nat \<Rightarrow> string \<Rightarrow> string \<Rightarrow> string \<Rightarrow> string" where
  "replace_go k p r [] = []"
| "replace_go (Suc k) p r (c # s) = replace_go k p r s"
| "replace_go 0 p r (c # s) =
     (if starts_with (c # s) p then r @ replace_go (length p - 1) p r s
      else c # replace_go 0 p r s)"

definition replace_all :: "string \<Rightarrow> string \<Rightarrow> string \<Rightarrow> string" where
  "replace_all s p r =
     (if p = [] then r @ concat (map (\<lambda>c. c # r) s) else replace_go 0 p r s)"

lemma replace_go_absent: "\<not> contains_str s p \<Longrightarrow> replace_go 0 p r s = s"
  by (induction s) auto

lemma replace_all_absent: "\<not> contains_str s p \<Longrightarrow> replace_all s p r = s"
  by (cases "p = []") (auto simp: replace_all_def replace_go_absent contains_str_iff)

lemma replace_go_skip: "replace_go k p r s = replace_go 0 p r (drop k s)"
  by (induction k p r s rule: replace_go.induct) auto

lemma replace_all_prefix:
  assumes "p \<noteq> []"
  shows "replace_all (p @ s) p r = r @ replace_all s p r"
proof -
  from assms obtain c q where p: "p = c # q" by (cases p) auto
  have "replace_go 0 p r (p @ s) = r @ replace_go (length q) p r (q @ s)"
    using starts_with_append[of p s] by (simp add: p)
  also have "replace_go (length q) p r (q @ s) = replace_go 0 p r s"
    by (subst replace_go_skip) simp
  finally show ?thesis using assms by (simp add: replace_all_def)
qed

section \<open>Decimal numbers\<close>

definition digit_char :: "nat \<Rightarrow> char" where
  "digit_char d = char_of (48 + d)"

definition is_digit :: "char \<Rightarrow> bool" where
  "is_digit c \<longleftrightarrow> 48 \<le> (of_char c :: nat) \<and> (of_char c :: nat) \<le> 57"

definition digit_val :: "char \<Rightarrow> nat" where
  "digit_val c = of_char c - 48"

fun show_nat :: "nat \<Rightarrow> string" where
  "show_nat n = (if n < 10 then [digit_char n] else show_nat (n div 10) @ [digit_char (n mod 10)])"

declare show_nat.simps [simp del]
lemmas [text_simps] = show_nat.simps digit_char_def

definition show_int :: "int \<Rightarrow> string" where
  "show_int i = (if i < 0 then CHR ''-'' # show_nat (nat (- i)) else show_nat (nat i))"

definition digits_val :: "string \<Rightarrow> nat" where
  "digits_val s = foldl (\<lambda>a c. 10 * a + digit_val c) 0 s"

text \<open>
  \<open>parse\<close> to an unsigned integer of \<open>w\<close> bits: an optional plus sign, then at least one
  digit; a value that does not fit is an error.
\<close>

definition parse_unsigned :: "nat \<Rightarrow> string \<Rightarrow> nat option" where
  "parse_unsigned w s =
     (let t = (case s of c # r \<Rightarrow> if c = CHR ''+'' then r else s | [] \<Rightarrow> s) in
      if t \<noteq> [] \<and> list_all is_digit t \<and> digits_val t < 2 ^ w then Some (digits_val t) else None)"

abbreviation parse_usize :: "string \<Rightarrow> nat option" where
  "parse_usize \<equiv> parse_unsigned 64"

lemma of_char_digit_char [simp]: "d < 10 \<Longrightarrow> (of_char (digit_char d) :: nat) = 48 + d"
  by (simp add: digit_char_def)

lemma is_digit_digit_char [simp]: "d < 10 \<Longrightarrow> is_digit (digit_char d)"
  by (simp add: is_digit_def)

lemma digit_val_digit_char [simp]: "d < 10 \<Longrightarrow> digit_val (digit_char d) = d"
  by (simp add: digit_val_def)

lemma show_nat_ne [simp]: "show_nat n \<noteq> []"
  by (subst show_nat.simps) simp

lemma digits_show_nat: "list_all is_digit (show_nat n)"
proof (induction n rule: show_nat.induct)
  case (1 n)
  then show ?case by (subst show_nat.simps) simp
qed

lemma digits_val_snoc: "digits_val (s @ [c]) = 10 * digits_val s + digit_val c"
  by (simp add: digits_val_def)

lemma digits_val_show_nat [simp]: "digits_val (show_nat n) = n"
proof (induction n rule: show_nat.induct)
  case (1 n)
  show ?case
  proof (cases "n < 10")
    case True
    then show ?thesis by (subst show_nat.simps) (simp add: digits_val_def)
  next
    case False
    with "1.IH" show ?thesis
      by (subst show_nat.simps) (simp add: digits_val_snoc)
  qed
qed

lemma show_nat_digit_set: "c \<in> set (show_nat n) \<Longrightarrow> is_digit c"
  using digits_show_nat by (simp add: list_all_iff)

lemma show_nat_inj [simp]: "show_nat m = show_nat n \<longleftrightarrow> m = n"
  by (metis digits_val_show_nat)

lemma parse_show_nat: "n < 2 ^ w \<Longrightarrow> parse_unsigned w (show_nat n) = Some n"
proof -
  assume n: "n < 2 ^ w"
  obtain c r where cr: "show_nat n = c # r"
    by (cases "show_nat n") auto
  have "is_digit c" using digits_show_nat[of n] cr by simp
  then have "c \<noteq> CHR ''+''" by (auto simp: is_digit_def)
  moreover have "list_all is_digit (c # r)" using digits_show_nat[of n] cr by simp
  moreover have "digits_val (c # r) = n" using digits_val_show_nat[of n] cr by simp
  ultimately show ?thesis using n by (simp add: parse_unsigned_def cr)
qed

lemma parse_unsigned_bound: "parse_unsigned w s = Some n \<Longrightarrow> n < 2 ^ w"
  by (auto simp: parse_unsigned_def Let_def split: if_splits list.splits)

section \<open>Case folding\<close>

definition ascii_lower_char :: "char \<Rightarrow> char" where
  "ascii_lower_char c = (let n = (of_char c :: nat) in
     if 65 \<le> n \<and> n \<le> 90 then char_of (n + 32) else c)"

definition ascii_upper_char :: "char \<Rightarrow> char" where
  "ascii_upper_char c = (let n = (of_char c :: nat) in
     if 97 \<le> n \<and> n \<le> 122 then char_of (n - 32) else c)"

definition ascii_lower :: "string \<Rightarrow> string" where
  "ascii_lower s = map ascii_lower_char s"

definition ascii_upper :: "string \<Rightarrow> string" where
  "ascii_upper s = map ascii_upper_char s"

lemmas [text_simps] = ascii_lower_char_def ascii_upper_char_def ascii_lower_def ascii_upper_def

lemma ascii_lower_char_idem [simp]: "ascii_lower_char (ascii_lower_char c) = ascii_lower_char c"
  by (simp add: ascii_lower_char_def Let_def)

lemma ascii_lower_idem [simp]: "ascii_lower (ascii_lower s) = ascii_lower s"
  by (simp add: ascii_lower_def)

section \<open>UTF-8\<close>

definition in_range :: "nat \<Rightarrow> nat \<Rightarrow> char \<Rightarrow> bool" where
  "in_range lo hi c \<longleftrightarrow> lo \<le> of_char c \<and> of_char c \<le> hi"

abbreviation cont_byte :: "char \<Rightarrow> bool" where
  "cont_byte \<equiv> in_range 128 191"

text \<open>The validity test of \<open>std::str::from_utf8\<close>.\<close>

fun utf8_valid :: "string \<Rightarrow> bool" where
  "utf8_valid [] \<longleftrightarrow> True"
| "utf8_valid (a # s) \<longleftrightarrow>
     (if in_range 0 127 a then utf8_valid s
      else case s of
        [] \<Rightarrow> False
      | b # s2 \<Rightarrow>
        (if in_range 194 223 a then cont_byte b \<and> utf8_valid s2
         else case s2 of
           [] \<Rightarrow> False
         | d # s3 \<Rightarrow>
           (if in_range 224 239 a then
              (if in_range 224 224 a then in_range 160 191 b
               else if in_range 237 237 a then in_range 128 159 b else cont_byte b)
              \<and> cont_byte d \<and> utf8_valid s3
            else case s3 of
              [] \<Rightarrow> False
            | e # s4 \<Rightarrow>
              in_range 240 244 a
              \<and> (if in_range 240 240 a then in_range 144 191 b
                 else if in_range 244 244 a then in_range 128 143 b else cont_byte b)
              \<and> cont_byte d \<and> cont_byte e \<and> utf8_valid s4)))"

definition from_utf8 :: "string \<Rightarrow> string option" where
  "from_utf8 s = (if utf8_valid s then Some s else None)"

lemma utf8_valid_ascii: "list_all (in_range 0 127) s \<Longrightarrow> utf8_valid s"
  by (induction s) auto

section \<open>Hash maps in iteration order\<close>

definition keys_of :: "('k, 'v) hash_map \<Rightarrow> 'k list" where
  "keys_of m = map fst m"

definition wf_map :: "('k, 'v) hash_map \<Rightarrow> bool" where
  "wf_map m \<longleftrightarrow> distinct (keys_of m)"

fun map_insert :: "'k \<Rightarrow> 'v \<Rightarrow> ('k, 'v) hash_map \<Rightarrow> ('k, 'v) hash_map" where
  "map_insert k v [] = [(k, v)]"
| "map_insert k v ((k', v') # m) =
     (if k = k' then (k, v) # m else (k', v') # map_insert k v m)"

definition map_remove :: "'k \<Rightarrow> ('k, 'v) hash_map \<Rightarrow> ('k, 'v) hash_map" where
  "map_remove k m = filter (\<lambda>(k', _). k' \<noteq> k) m"

lemma keys_of_simps [simp]: "keys_of [] = []" "keys_of (p # m) = fst p # keys_of m"
  by (simp_all add: keys_of_def)

lemma map_of_map_insert [simp]: "map_of (map_insert k v m) = (map_of m)(k \<mapsto> v)"
  by (induction m) (auto simp: fun_eq_iff)

lemma map_of_map_remove [simp]: "map_of (map_remove k m) = (map_of m)(k := None)"
  by (induction m) (auto simp: fun_eq_iff map_remove_def)

lemma set_keys_map_insert [simp]: "set (keys_of (map_insert k v m)) = insert k (set (keys_of m))"
proof (induction m)
  case Nil
  then show ?case by (simp add: keys_of_def)
next
  case (Cons p m)
  then show ?case by (cases p) (auto simp: keys_of_def)
qed

lemma wf_map_insert [wf_intros]: "wf_map m \<Longrightarrow> wf_map (map_insert k v m)"
proof (induction m)
  case Nil
  then show ?case by (simp add: wf_map_def keys_of_def)
next
  case (Cons p m)
  obtain k' v' where p: "p = (k', v')" by (cases p)
  have "set (keys_of (map_insert k v m)) = insert k (set (keys_of m))" by simp
  with Cons p show ?case by (auto simp: wf_map_def keys_of_def)
qed

lemma wf_map_remove [wf_intros]: "wf_map m \<Longrightarrow> wf_map (map_remove k m)"
  by (simp add: wf_map_def keys_of_def map_remove_def distinct_map_filter)

lemma map_of_eq_Some_iff_wf: "wf_map m \<Longrightarrow> map_of m k = Some v \<longleftrightarrow> (k, v) \<in> set m"
  by (simp add: wf_map_def keys_of_def)

lemma map_of_filter_wf:
  "wf_map m \<Longrightarrow> map_of (filter P m) n = (case map_of m n of Some v \<Rightarrow> if P (n, v) then Some v else None | None \<Rightarrow> None)"
proof (induction m)
  case (Cons kv m)
  then have "fst kv \<notin> fst ` set m" "wf_map m" by (auto simp: wf_map_def keys_of_def)
  then have "map_of (filter P m) (fst kv) = None" by (auto simp: map_of_eq_None_iff)
  with Cons \<open>wf_map m\<close> show ?case by (cases kv) (auto split: option.split)
qed simp

lemma wf_map_filter [wf_intros, simp]: "wf_map m \<Longrightarrow> wf_map (filter P m)"
  by (simp add: wf_map_def keys_of_def distinct_map_filter)

section \<open>Actions: state with an early exit\<close>

text \<open>
  The body of a fallible method on mutable state: a result or an error, and the state it
  leaves in both cases. \<open>act_bind\<close> is the sequence with \<open>?\<close> after its first part.
\<close>

type_synonym ('x, 'e, 'a) action = "'x \<Rightarrow> ('e + 'a) \<times> 'x"

definition act_return :: "'a \<Rightarrow> ('x, 'e, 'a) action" where
  "act_return v = (\<lambda>x. (Inr v, x))"

definition act_fail :: "'e \<Rightarrow> ('x, 'e, 'a) action" where
  "act_fail e = (\<lambda>x. (Inl e, x))"

definition act_modify :: "('x \<Rightarrow> 'x) \<Rightarrow> ('x, 'e, unit) action" where
  "act_modify f = (\<lambda>x. (Inr (), f x))"

definition act_bind :: "('x, 'e, 'a) action \<Rightarrow> ('a \<Rightarrow> ('x, 'e, 'b) action) \<Rightarrow> ('x, 'e, 'b) action" where
  "act_bind m f = (\<lambda>x. case m x of (Inl e, x') \<Rightarrow> (Inl e, x') | (Inr v, x') \<Rightarrow> f v x')"

lemma act_simps [simp]:
  "act_return v x = (Inr v, x)" "act_fail e x = (Inl e, x)" "act_modify f x = (Inr (), f x)"
  by (simp_all add: act_return_def act_fail_def act_modify_def)

lemma act_bind_simps:
  "m x = (Inr v, x') \<Longrightarrow> act_bind m f x = f v x'"
  "m x = (Inl e, x') \<Longrightarrow> act_bind m f x = (Inl e, x')"
  by (simp_all add: act_bind_def)

text \<open>An action keeps a relation between the states before and after.\<close>

definition act_keeps :: "('x \<Rightarrow> 'x \<Rightarrow> bool) \<Rightarrow> ('x, 'e, 'a) action \<Rightarrow> bool" where
  "act_keeps R m \<longleftrightarrow> (\<forall>x. R x (snd (m x)))"

named_theorems keeps_intros "frame rules of actions"

lemma act_keepsD: "act_keeps R m \<Longrightarrow> R x (snd (m x))"
  by (simp add: act_keeps_def)

lemma act_keeps_return [keeps_intros]: "reflp R \<Longrightarrow> act_keeps R (act_return v)"
  by (simp add: act_keeps_def reflp_def)

lemma act_keeps_fail [keeps_intros]: "reflp R \<Longrightarrow> act_keeps R (act_fail e)"
  by (simp add: act_keeps_def reflp_def)

lemma act_keeps_Pair [keeps_intros]: "reflp R \<Longrightarrow> act_keeps R (Pair r)"
  by (simp add: act_keeps_def reflp_def)

lemma act_keeps_bind [keeps_intros]:
  assumes "transp R" "act_keeps R m" "\<And>v. act_keeps R (f v)"
  shows "act_keeps R (act_bind m f)"
  unfolding act_keeps_def
proof
  fix x
  obtain r x' where m: "m x = (r, x')" by force
  from act_keepsD[OF assms(2), of x] m have 1: "R x x'" by simp
  show "R x (snd (act_bind m f x))"
  proof (cases r)
    case (Inl e)
    with m 1 show ?thesis by (simp add: act_bind_simps(2))
  next
    case (Inr v)
    from act_keepsD[OF assms(3), of x' v] have "R x' (snd (f v x'))" .
    with 1 assms(1) have "R x (snd (f v x'))" by (meson transpD)
    with m Inr show ?thesis by (simp add: act_bind_simps(1))
  qed
qed

end
