(* ===== verification/Http_Types.thy ===== *)
theory Http_Types
  imports Prelude
begin

text \<open>
  What the proxy sees of an HTTP exchange. Header names are case-insensitive and kept in
  lower case; a header map sends a name to its values in order (\<open>http::HeaderMap\<close>, read as
  the multimap it is documented to be). A \<open>http::Uri\<close> is the four views of it the sources
  read. Parsers of the \<open>http\<close> crate are fields of \<open>http_lib\<close>, an argument of every
  definition that calls one; the clock, the environment and the host name are fields of
  \<open>sys_env\<close>. A \<open>Duration\<close> is its nanoseconds. The pingora session is its request header and
  the two socket addresses.
\<close>

type_synonym header_map = "string \<Rightarrow> string list"
type_synonym http_header = "string \<times> string"
type_synonym duration = nat

record uri =
  uri_host :: "string option"
  uri_path :: string
  uri_query :: "string option"
  uri_text :: string

record request_header =
  req_method :: string
  req_uri :: uri
  req_headers :: header_map

record response_header =
  resp_status :: nat
  resp_headers :: header_map

record session =
  req_header :: request_header
  client_addr :: "(string \<times> nat) option"
  server_sock :: "(string \<times> nat) option"
  is_upgrade_req :: bool

record http_lib =
  hname_from_str :: "string \<Rightarrow> string + string"
  hvalue_from_str :: "string \<Rightarrow> string + string"
  hvalue_from_bytes :: "string \<Rightarrow> string option"
  hvalue_to_str :: "string \<Rightarrow> string option"
  uri_parse :: "string \<Rightarrow> string + uri"

record sys_env =
  sys_now_ms :: nat
  sys_hostname :: string
  env_var :: "string \<Rightarrow> string option"
  fmt_ratio :: "nat \<Rightarrow> nat \<Rightarrow> string"

definition as_millis :: "duration \<Rightarrow> nat" where
  "as_millis d = d div 1000000"

definition as_secs :: "duration \<Rightarrow> nat" where
  "as_secs d = d div 1000000000"

text \<open>Subtraction on \<open>u64\<close>: the release build wraps.\<close>

definition sub_u64 :: "nat \<Rightarrow> nat \<Rightarrow> nat" where
  "sub_u64 a b = (a + 2 ^ 64 - b) mod 2 ^ 64"

lemma wrap_sub: "b \<le> a \<Longrightarrow> a < (m::nat) \<Longrightarrow> (a + m - b) mod m = a - b"
  by (metis Nat.add_diff_assoc2 less_imp_diff_less mod_add_self2 mod_less)

lemma sub_u64_le: "b \<le> a \<Longrightarrow> a < 2 ^ 64 \<Longrightarrow> sub_u64 a b = a - b"
  unfolding sub_u64_def by (rule wrap_sub)

lemma sub_u64_bound: "sub_u64 a b < 2 ^ 64"
  by (simp add: sub_u64_def)

section \<open>Header maps\<close>

definition hdr_get :: "header_map \<Rightarrow> string \<Rightarrow> string option" where
  "hdr_get m k = (case m (ascii_lower k) of [] \<Rightarrow> None | v # _ \<Rightarrow> Some v)"

definition hdr_insert :: "string \<Rightarrow> string \<Rightarrow> header_map \<Rightarrow> header_map" where
  "hdr_insert k v m = m(ascii_lower k := [v])"

definition hdr_append :: "string \<Rightarrow> string \<Rightarrow> header_map \<Rightarrow> header_map" where
  "hdr_append k v m = m(ascii_lower k := m (ascii_lower k) @ [v])"

definition hdr_remove :: "string \<Rightarrow> header_map \<Rightarrow> header_map" where
  "hdr_remove k m = m(ascii_lower k := [])"

definition no_headers :: header_map where
  "no_headers = (\<lambda>_. [])"

lemma hdr_get_insert [simp]:
  "hdr_get (hdr_insert k v m) j = (if ascii_lower j = ascii_lower k then Some v else hdr_get m j)"
  by (simp add: hdr_get_def hdr_insert_def)

lemma hdr_get_append [simp]:
  "hdr_get (hdr_append k v m) j =
     (if ascii_lower j = ascii_lower k then Some (unwrap_or v (hdr_get m k)) else hdr_get m j)"
  by (simp add: hdr_get_def hdr_append_def split: list.splits)

lemma hdr_get_remove [simp]:
  "hdr_get (hdr_remove k m) j = (if ascii_lower j = ascii_lower k then None else hdr_get m j)"
  by (simp add: hdr_get_def hdr_remove_def)

lemma hdr_get_no_headers [simp]: "hdr_get no_headers k = None"
  by (simp add: hdr_get_def no_headers_def)

text \<open>The contract of a header map that the proxy's header rewriting relies on.\<close>

locale header_store =
  fixes get :: "'m \<Rightarrow> string \<Rightarrow> 'v option"
    and put :: "string \<Rightarrow> 'v \<Rightarrow> 'm \<Rightarrow> 'm"
    and add :: "string \<Rightarrow> 'v \<Rightarrow> 'm \<Rightarrow> 'm"
    and norm :: "string \<Rightarrow> string"
  assumes get_norm: "norm j = norm k \<Longrightarrow> get m j = get m k"
    and get_put: "get (put k v m) j = (if norm j = norm k then Some v else get m j)"
    and get_add: "get (add k v m) j =
      (if norm j = norm k then Some (unwrap_or v (get m k)) else get m j)"
begin

definition put_all :: "(string \<times> 'v) list \<Rightarrow> 'm \<Rightarrow> 'm" where
  "put_all kvs m = fold (\<lambda>(k, v). put k v) kvs m"

definition add_all :: "(string \<times> 'v) list \<Rightarrow> 'm \<Rightarrow> 'm" where
  "add_all kvs m = fold (\<lambda>(k, v). add k v) kvs m"

lemma put_all_Nil [simp]: "put_all [] m = m"
  by (simp add: put_all_def)

lemma put_all_Cons [simp]: "put_all ((k, v) # kvs) m = put_all kvs (put k v m)"
  by (simp add: put_all_def)

lemma add_all_Nil [simp]: "add_all [] m = m"
  by (simp add: add_all_def)

lemma add_all_Cons [simp]: "add_all ((k, v) # kvs) m = add_all kvs (add k v m)"
  by (simp add: add_all_def)

lemma get_put_all_other:
  "(\<forall>(k, v) \<in> set kvs. norm k \<noteq> norm j) \<Longrightarrow> get (put_all kvs m) j = get m j"
proof (induction kvs arbitrary: m)
  case Nil
  then show ?case by simp
next
  case (Cons p kvs)
  obtain k v where p: "p = (k, v)" by (cases p)
  from Cons.prems p have "norm j \<noteq> norm k" by auto
  with Cons p show ?case by (simp add: get_put)
qed

lemma get_put_all_last:
  assumes "\<forall>(k', v') \<in> set post. norm k' \<noteq> norm k"
  shows "get (put_all (pre @ (k, v) # post) m) k = Some v"
proof -
  have "put_all (pre @ (k, v) # post) m = put_all post (put k v (put_all pre m))"
    by (simp add: put_all_def)
  with assms show ?thesis
    by (simp add: get_put_all_other get_put)
qed

lemma get_add_all_present:
  "get m j = Some v \<Longrightarrow> get (add_all kvs m) j = Some v"
proof (induction kvs arbitrary: m)
  case Nil
  then show ?case by simp
next
  case (Cons p kvs)
  obtain k w where p: "p = (k, w)" by (cases p)
  have "get (add k w m) j = Some v"
    using Cons.prems by (cases "norm j = norm k") (simp_all add: get_add get_norm[of k j])
  then show ?case using Cons.IH by (simp add: p)
qed

end

interpretation hdr: header_store hdr_get hdr_insert hdr_append ascii_lower
  by unfold_locales (simp_all, simp add: hdr_get_def)

section \<open>A concrete library\<close>

text \<open>
  A small instance of the two library records, for evaluating the model on concrete input:
  every text is a header value, a name is lower-cased, and a URI is split at its first
  question mark.
\<close>

definition sample_uri_parse :: "string \<Rightarrow> string + uri" where
  "sample_uri_parse s =
     (case split_once CHR ''?'' s of
        None \<Rightarrow> Inr \<lparr>uri_host = None, uri_path = s, uri_query = None, uri_text = s\<rparr>
      | Some (p, q) \<Rightarrow> Inr \<lparr>uri_host = None, uri_path = p, uri_query = Some q, uri_text = s\<rparr>)"

definition sample_http :: http_lib where
  "sample_http = \<lparr>hname_from_str = (\<lambda>s. Inr (ascii_lower s)), hvalue_from_str = Inr,
     hvalue_from_bytes = Some, hvalue_to_str = Some, uri_parse = sample_uri_parse\<rparr>"

definition sample_env :: sys_env where
  "sample_env = \<lparr>sys_now_ms = 1700000000000, sys_hostname = ''box'', env_var = (\<lambda>_. None),
     fmt_ratio = (\<lambda>_ _. ''1.0'')\<rparr>"

definition sample_request :: "string \<Rightarrow> string \<Rightarrow> request_header" where
  "sample_request host path =
     \<lparr>req_method = ''GET'',
      req_uri = \<lparr>uri_host = Some host, uri_path = path, uri_query = None, uri_text = path\<rparr>,
      req_headers = no_headers\<rparr>"

definition sample_session :: "string \<Rightarrow> string \<Rightarrow> session" where
  "sample_session host path =
     \<lparr>req_header = sample_request host path, client_addr = Some (''10.0.0.1'', 40000),
      server_sock = Some (''10.0.0.2'', 80), is_upgrade_req = False\<rparr>"

lemmas sample_http_simps = sample_http_def sample_env_def sample_uri_parse_def sample_request_def
  sample_session_def

end
