(* ===== verification/Discovery.thy ===== *)
theory Discovery
  imports Http_Types
begin

text \<open>
  \<open>pingap-discovery\<close>: the syntax of upstream addresses, the kinds of discovery, and the
  static, DNS and Docker discoveries. Name resolution is the argument \<open>resolve\<close>; a resolved
  address is its text and whether it is IPv4. The system resolver of the DNS discovery and the
  Docker daemon are functions of \<open>discovery_lib\<close>.
\<close>

record sock_addr =
  sock_text :: string
  sock_is_ipv4 :: bool

record backend =
  backend_addr :: sock_addr
  backend_weight :: nat

record discovery =
  disc_addr :: "string list"
  disc_tls :: bool
  disc_ipv4_only :: bool

datatype discovery_error =
    DiscIo string string
  | DiscResolve string
  | DiscInvalid string
  | DiscDocker string

type_synonym resolver = "string \<Rightarrow> string + sock_addr list"

definition DNS_DISCOVERY :: string where "DNS_DISCOVERY = ''dns''"
definition DOCKER_DISCOVERY :: string where "DOCKER_DISCOVERY = ''docker''"
definition STATIC_DISCOVERY :: string where "STATIC_DISCOVERY = ''static''"
definition TRANSPARENT_DISCOVERY :: string where "TRANSPARENT_DISCOVERY = ''transparent''"

lemmas discovery_names =
  DNS_DISCOVERY_def DOCKER_DISCOVERY_def STATIC_DISCOVERY_def TRANSPARENT_DISCOVERY_def

definition is_static_discovery :: "string \<Rightarrow> bool" where
  "is_static_discovery v \<longleftrightarrow> v = [] \<or> v = ''common'' \<or> v = STATIC_DISCOVERY"

definition format_addr :: "bool \<Rightarrow> string \<Rightarrow> string \<times> string \<times> nat" where
  "format_addr tls addr =
     (let arr = split_on CHR '' '' addr;
          weight = (if length arr = 2 then unwrap_or 1 (parse_usize (arr ! 1)) else 1)
      in case split_once CHR '':'' (arr ! 0) of
           Some (host, port) \<Rightarrow> (host, port, weight)
         | None \<Rightarrow> (arr ! 0, if tls then ''443'' else ''80'', weight))"

definition format_addrs :: "string list \<Rightarrow> bool \<Rightarrow> (string \<times> string \<times> nat) list" where
  "format_addrs addrs tls = map (format_addr tls) addrs"

fun resolve_all ::
  "resolver \<Rightarrow> bool \<Rightarrow> (string \<times> string \<times> nat) list \<Rightarrow> discovery_error + backend list" where
  "resolve_all resolve v4 [] = Inr []"
| "resolve_all resolve v4 ((ip, port, weight) # rest) =
     (let addr = ip @ '':'' @ port in
      try_then (map_err (\<lambda>e. DiscIo e (addr @ '' to socket addr fail'')) (resolve addr)) (\<lambda>socks.
      try_then (resolve_all resolve v4 rest) (\<lambda>bs.
      Inr (map (\<lambda>a. \<lparr>backend_addr = a, backend_weight = weight\<rparr>)
             (filter (\<lambda>a. \<not> v4 \<or> sock_is_ipv4 a) socks) @ bs))))"

text \<open>The set of backends handed to pingora.\<close>

definition new_static_discovery :: "resolver \<Rightarrow> discovery \<Rightarrow> discovery_error + backend set" where
  "new_static_discovery resolve d =
     try_then (resolve_all resolve (disc_ipv4_only d) (format_addrs (disc_addr d) (disc_tls d)))
       (\<lambda>bs. Inr (set bs))"

section \<open>The DNS discovery\<close>

text \<open>
  \<open>dl_dns v4 host\<close> is the system resolver for a host, under the strategy IPv4 only or both;
  \<open>dl_docker_list label\<close> the containers with a label.
\<close>

record port_summary =
  private_port :: nat
  public_port :: "nat option"

record endpoint =
  ep_gateway :: "string option"
  ep_ip_address :: "string option"

record container_summary =
  cs_ports :: "port_summary list option"
  cs_networks :: "(string, endpoint) hash_map option option"

record discovery_lib =
  dl_resolve :: resolver
  dl_system_conf :: "string + unit"
  dl_dns :: "bool \<Rightarrow> string \<Rightarrow> string + sock_addr list"
  dl_docker_connect :: "string + unit"
  dl_docker_list :: "string \<Rightarrow> string + container_summary list"

record dns =
  dns_ipv4_only :: bool
  dns_hosts :: "(string \<times> string \<times> nat) list"

definition is_dns_discovery :: "string \<Rightarrow> bool" where
  "is_dns_discovery v \<longleftrightarrow> v = DNS_DISCOVERY"

definition new_dns :: "string list \<Rightarrow> bool \<Rightarrow> bool \<Rightarrow> dns" where
  "new_dns addrs tls v4 = \<lparr>dns_ipv4_only = v4, dns_hosts = format_addrs addrs tls\<rparr>"

text \<open>The lookups that succeeded, in the order of the hosts, and the hosts that failed.\<close>

definition lookup_hosts ::
  "discovery_lib \<Rightarrow> dns \<Rightarrow> (string \<times> string \<times> nat) list \<Rightarrow> sock_addr list list \<times> string list" where
  "lookup_hosts lib d hs =
     (concat (map (\<lambda>(h, _, _). case dl_dns lib (dns_ipv4_only d) h of Inr ips \<Rightarrow> [ips] | Inl _ \<Rightarrow> []) hs),
      concat (map (\<lambda>(h, _, _). case dl_dns lib (dns_ipv4_only d) h of Inr _ \<Rightarrow> [] | Inl _ \<Rightarrow> [h]) hs))"

definition tokio_lookup_ip ::
  "discovery_lib \<Rightarrow> dns \<Rightarrow> discovery_error + sock_addr list list \<times> string list" where
  "tokio_lookup_ip lib d =
     try_then (map_err DiscResolve (dl_system_conf lib)) (\<lambda>_.
     let (lookup_ips, failed_hosts) = lookup_hosts lib d (dns_hosts d) in
     if lookup_ips = [] then Inl (DiscInvalid ''resolve dns failed'')
     else Inr (lookup_ips, failed_hosts))"

fun backends_of_ips ::
  "discovery_lib \<Rightarrow> bool \<Rightarrow> string \<Rightarrow> nat \<Rightarrow> sock_addr list \<Rightarrow> discovery_error + backend list" where
  "backends_of_ips lib v4 port weight [] = Inr []"
| "backends_of_ips lib v4 port weight (ip # ips) =
     (if v4 \<and> \<not> sock_is_ipv4 ip then backends_of_ips lib v4 port weight ips
      else let addr = (if port = [] then sock_text ip else sock_text ip @ '':'' @ port) in
      try_then (map_err (\<lambda>e. DiscIo e (''Failed to convert '' @ addr @ '' to socket address''))
                 (dl_resolve lib addr)) (\<lambda>socks.
      try_then (backends_of_ips lib v4 port weight ips) (\<lambda>bs.
      Inr (map (\<lambda>a. \<lparr>backend_addr = a, backend_weight = weight\<rparr>) socks @ bs))))"

fun backends_of_hosts ::
  "discovery_lib \<Rightarrow> bool \<Rightarrow> ((string \<times> string \<times> nat) \<times> sock_addr list) list
     \<Rightarrow> discovery_error + backend list" where
  "backends_of_hosts lib v4 [] = Inr []"
| "backends_of_hosts lib v4 (((host, port, weight), ips) # rest) =
     try_then (backends_of_ips lib v4 port weight ips) (\<lambda>bs.
     try_then (backends_of_hosts lib v4 rest) (\<lambda>bs'. Inr (bs @ bs')))"

text \<open>The hosts and the lookups that succeeded are paired by position.\<close>

definition dns_run_discover ::
  "discovery_lib \<Rightarrow> dns \<Rightarrow> discovery_error + backend set \<times> string list" where
  "dns_run_discover lib d =
     try_then (tokio_lookup_ip lib d) (\<lambda>(lookup_ips, failed_hosts).
     try_then (backends_of_hosts lib (dns_ipv4_only d) (zip (dns_hosts d) lookup_ips)) (\<lambda>bs.
     Inr (set bs, failed_hosts)))"

section \<open>The Docker discovery\<close>

record container =
  ct_label :: string
  ct_weight :: nat
  ct_port :: nat
  ct_addrs :: "string list"

definition is_docker_discovery :: "string \<Rightarrow> bool" where
  "is_docker_discovery v \<longleftrightarrow> v = DOCKER_DISCOVERY"

definition container_parse_addr :: "string \<Rightarrow> nat \<times> string \<times> nat" where
  "container_parse_addr addr =
     (let parts = split_on CHR '' '' addr;
          weight = (if length parts > 1 then unwrap_or 1 (parse_usize (parts ! 1)) else 1);
          (label, port) = (case split_once CHR '':'' (parts ! 0) of
             Some (l, p) \<Rightarrow> (l, unwrap_or 0 (parse_unsigned 16 p))
           | None \<Rightarrow> (parts ! 0, 0))
      in (weight, label, port))"

definition new_container :: "string \<Rightarrow> container" where
  "new_container addr =
     (let (weight, label, port) = container_parse_addr addr
      in \<lparr>ct_label = label, ct_weight = weight, ct_port = port, ct_addrs = []\<rparr>)"

record docker =
  docker_ipv4_only :: bool
  docker_containers :: "container list"

definition new_docker :: "discovery_lib \<Rightarrow> string list \<Rightarrow> bool \<Rightarrow> discovery_error + docker" where
  "new_docker lib addrs v4 =
     try_then (map_err DiscDocker (dl_docker_connect lib)) (\<lambda>_.
     Inr \<lparr>docker_ipv4_only = v4, docker_containers = map new_container addrs\<rparr>)"

definition get_container_ports :: "container_summary \<Rightarrow> nat \<Rightarrow> (nat \<times> nat) option" where
  "get_container_ports c default_port =
     (case cs_ports c of
        None \<Rightarrow> None
      | Some ports \<Rightarrow>
          if default_port > 0 then Some (default_port, 0)
          else case find (\<lambda>p. private_port p > 0) ports of
                 None \<Rightarrow> None
               | Some p \<Rightarrow> Some (private_port p, unwrap_or 0 (public_port p)))"

definition container_addrs :: "nat \<Rightarrow> container_summary \<Rightarrow> string list" where
  "container_addrs port item =
     (case get_container_ports item port of
        None \<Rightarrow> []
      | Some (private, public) \<Rightarrow>
          (case cs_networks item of
             Some (Some networks) \<Rightarrow>
               concat (map (\<lambda>(_, n).
                 if public > 0 then (case ep_gateway n of Some g \<Rightarrow> [g @ '':'' @ show_nat public] | None \<Rightarrow> [])
                 else (case ep_ip_address n of Some ip \<Rightarrow> [ip @ '':'' @ show_nat private] | None \<Rightarrow> [])) networks)
           | _ \<Rightarrow> []))"

fun list_containers :: "discovery_lib \<Rightarrow> container list \<Rightarrow> discovery_error + container list" where
  "list_containers lib [] = Inr []"
| "list_containers lib (c # cs) =
     try_then (map_err DiscDocker (dl_docker_list lib (ct_label c))) (\<lambda>items.
     try_then (list_containers lib cs) (\<lambda>rest.
     Inr (c\<lparr>ct_addrs := concat (map (container_addrs (ct_port c)) items)\<rparr> # rest)))"

fun backends_of_addrs ::
  "discovery_lib \<Rightarrow> bool \<Rightarrow> nat \<Rightarrow> string list \<Rightarrow> discovery_error + backend list" where
  "backends_of_addrs lib v4 weight [] = Inr []"
| "backends_of_addrs lib v4 weight (addr # addrs) =
     try_then (map_err (\<lambda>e. DiscIo e (addr @ '' to socket addr fail'')) (dl_resolve lib addr)) (\<lambda>socks.
     try_then (backends_of_addrs lib v4 weight addrs) (\<lambda>bs.
     Inr (map (\<lambda>a. \<lparr>backend_addr = a, backend_weight = weight\<rparr>)
            (filter (\<lambda>a. \<not> (v4 \<and> \<not> sock_is_ipv4 a)) socks) @ bs)))"

fun backends_of_containers :: "discovery_lib \<Rightarrow> bool \<Rightarrow> container list \<Rightarrow> discovery_error + backend list" where
  "backends_of_containers lib v4 [] = Inr []"
| "backends_of_containers lib v4 (c # cs) =
     try_then (backends_of_addrs lib v4 (ct_weight c) (ct_addrs c)) (\<lambda>bs.
     try_then (backends_of_containers lib v4 cs) (\<lambda>bs'. Inr (bs @ bs')))"

definition docker_run_discover :: "discovery_lib \<Rightarrow> docker \<Rightarrow> discovery_error + backend set" where
  "docker_run_discover lib d =
     try_then (list_containers lib (docker_containers d)) (\<lambda>cs.
     try_then (backends_of_containers lib (docker_ipv4_only d) cs) (\<lambda>bs. Inr (set bs)))"

text \<open>The discovery a set of backends is built on; pingora runs it at every update.\<close>

datatype backends = StaticBackends "backend set" | DnsBackends dns | DockerBackends docker

definition new_dns_discover_backends :: "discovery \<Rightarrow> discovery_error + backends" where
  "new_dns_discover_backends d = Inr (DnsBackends (new_dns (disc_addr d) (disc_tls d) (disc_ipv4_only d)))"

definition new_docker_discover_backends :: "discovery_lib \<Rightarrow> discovery \<Rightarrow> discovery_error + backends" where
  "new_docker_discover_backends lib d =
     try_then (new_docker lib (disc_addr d) (disc_ipv4_only d)) (\<lambda>dk. Inr (DockerBackends dk))"

section \<open>Lemmas\<close>

lemma format_addr_host_port:
  assumes "CHR '' '' \<notin> set host" "CHR '' '' \<notin> set port" "CHR '':'' \<notin> set host"
  shows "format_addr tls (host @ '':'' @ port) = (host, port, 1)"
proof -
  have "split_on CHR '' '' (host @ CHR '':'' # port) = [host @ CHR '':'' # port]"
    using assms by (intro split_on_no_sep) auto
  then show ?thesis using assms
    by (simp add: format_addr_def split_once_append)
qed

lemma format_addr_weight:
  assumes "CHR '' '' \<notin> set host" "CHR '' '' \<notin> set port" "CHR '':'' \<notin> set host" "w < 2 ^ 64"
  shows "format_addr tls (host @ '':'' @ port @ '' '' @ show_nat w) = (host, port, w)"
proof -
  have "CHR '' '' \<notin> set (show_nat w)"
    using show_nat_digit_set[of "CHR '' ''" w] by (auto simp: is_digit_def)
  moreover have "CHR '' '' \<notin> set (host @ CHR '':'' # port)" using assms by auto
  ultimately have "split_on CHR '' '' ((host @ CHR '':'' # port) @ CHR '' '' # show_nat w)
      = [host @ CHR '':'' # port, show_nat w]"
    by (metis split_on_append split_on_no_sep)
  then show ?thesis using assms
    by (simp add: format_addr_def split_once_append parse_show_nat)
qed

lemma format_addr_default_port:
  assumes "CHR '' '' \<notin> set host" "CHR '':'' \<notin> set host"
  shows "format_addr tls host = (host, if tls then ''443'' else ''80'', 1)"
  using assms by (simp add: format_addr_def split_on_no_sep split_once_None_iff[THEN iffD2])

lemma resolve_all_ipv4:
  "resolve_all resolve True addrs = Inr bs \<Longrightarrow> b \<in> set bs \<Longrightarrow> sock_is_ipv4 (backend_addr b)"
proof (induction addrs arbitrary: bs)
  case Nil
  then show ?case by simp
next
  case (Cons a addrs)
  obtain ip port w where a: "a = (ip, port, w)" by (cases a)
  from Cons show ?case by (auto simp: a Let_def)
qed

lemma lookup_hosts_all_ok:
  "(\<And>h. h \<in> fst ` set hs \<Longrightarrow> dl_dns lib (dns_ipv4_only d) h = Inr (ips h)) \<Longrightarrow>
     lookup_hosts lib d hs = (map (ips \<circ> fst) hs, [])"
  by (induction hs) (auto simp: lookup_hosts_def split: prod.splits)

lemma backends_of_ips_weight:
  "backends_of_ips lib v4 port w ips = Inr bs \<Longrightarrow> b \<in> set bs \<Longrightarrow>
     backend_weight b = w \<and>
     (\<exists>ip \<in> set ips. (v4 \<longrightarrow> sock_is_ipv4 ip) \<and>
        (\<exists>socks. dl_resolve lib (if port = [] then sock_text ip else sock_text ip @ '':'' @ port) = Inr socks
           \<and> backend_addr b \<in> set socks))"
proof (induction ips arbitrary: bs)
  case Nil
  then show ?case by simp
next
  case (Cons ip ips)
  show ?case
  proof (cases "v4 \<and> \<not> sock_is_ipv4 ip")
    case True
    then have "backends_of_ips lib v4 port w ips = Inr bs" using Cons.prems(1) by simp
    from Cons.IH[OF this Cons.prems(2)] show ?thesis by auto
  next
    case False
    then obtain socks bs' where s: "dl_resolve lib (if port = [] then sock_text ip else sock_text ip @ '':'' @ port) = Inr socks"
      and r: "backends_of_ips lib v4 port w ips = Inr bs'"
      and bs: "bs = map (\<lambda>a. \<lparr>backend_addr = a, backend_weight = w\<rparr>) socks @ bs'"
      using Cons.prems(1) by (auto simp: Let_def)
    show ?thesis
    proof (cases "b \<in> set bs'")
      case True
      from Cons.IH[OF r this] show ?thesis by auto
    next
      case no: False
      with bs Cons.prems(2) obtain a where "a \<in> set socks" "b = \<lparr>backend_addr = a, backend_weight = w\<rparr>" by auto
      with s False show ?thesis by auto
    qed
  qed
qed

lemma backends_of_hosts_mem:
  "backends_of_hosts lib v4 ps = Inr bs \<Longrightarrow> b \<in> set bs \<Longrightarrow>
     \<exists>h port w ips bs'. ((h, port, w), ips) \<in> set ps \<and> backends_of_ips lib v4 port w ips = Inr bs' \<and> b \<in> set bs'"
proof (induction ps arbitrary: bs)
  case Nil
  then show ?case by simp
next
  case (Cons p ps)
  obtain h port w ips where p: "p = ((h, port, w), ips)" by (cases p) auto
  from Cons.prems(1) obtain b1 b2 where b: "backends_of_ips lib v4 port w ips = Inr b1"
      "backends_of_hosts lib v4 ps = Inr b2" "bs = b1 @ b2"
    by (auto simp: p)
  show ?case
  proof (cases "b \<in> set b1")
    case True
    with b(1) p show ?thesis by fastforce
  next
    case False
    with b Cons.prems(2) have "b \<in> set b2" by simp
    from Cons.IH[OF b(2) this] show ?thesis by (meson list.set_intros(2))
  qed
qed

section \<open>A concrete library\<close>

text \<open>Every socket address resolves to itself; the host \<open>down\<close> does not resolve.\<close>

definition sample_disc :: discovery_lib where
  "sample_disc = \<lparr>dl_resolve = (\<lambda>a. Inr [\<lparr>sock_text = a, sock_is_ipv4 = True\<rparr>]), dl_system_conf = Inr (),
     dl_dns = (\<lambda>_ h. if h = ''down'' then Inl ''no such host'' else Inr [\<lparr>sock_text = ''10.1.1.1'', sock_is_ipv4 = True\<rparr>]),
     dl_docker_connect = Inr (), dl_docker_list = (\<lambda>_. Inr [])\<rparr>"

section \<open>Properties\<close>

text \<open>
  An upstream address reads back as it is written, in all three forms: host with port and
  weight, host with port, and host alone, which gets weight 1 and the default port of the
  scheme.
\<close>

theorem format_addr_forms:
  assumes "CHR '' '' \<notin> set host" "CHR '':'' \<notin> set host" "CHR '' '' \<notin> set port" "w < 2 ^ 64"
  shows "format_addrs [host @ '':'' @ port @ '' '' @ show_nat w, host @ '':'' @ port, host] tls =
    [(host, port, w), (host, port, 1), (host, if tls then ''443'' else ''80'', 1)]"
  using format_addr_weight[OF assms(1,3,2,4)] format_addr_host_port[OF assms(1,3,2)]
    format_addr_default_port[OF assms(1,2)]
  by (simp add: format_addrs_def)

theorem format_addr_forms_witness:
  "format_addrs [''a.com:8080 10'', ''a.com:8080'', ''a.com''] True =
     [(''a.com'', ''8080'', 10), (''a.com'', ''8080'', 1), (''a.com'', ''443'', 1)]"
proof -
  have "show_nat 10 = ''10''" by code_simp
  then show ?thesis using format_addr_forms[of "''a.com''" "''8080''" 10 True] by simp
qed

text \<open>
  When every host resolves, DNS discovery gives each backend the port and the weight of the
  host it was resolved from, keeps to IPv4 when asked to, and reports no failed host.
\<close>

theorem dns_discover_aligned:
  assumes "dl_system_conf lib = Inr ()" "dns_hosts d \<noteq> []"
    and "\<forall>(h, port, w) \<in> set (dns_hosts d). dl_dns lib (dns_ipv4_only d) h = Inr (ips h)"
    and "dns_run_discover lib d = Inr (bs, failed)" "b \<in> bs"
  shows "failed = [] \<and> (\<exists>(h, port, w) \<in> set (dns_hosts d). backend_weight b = w \<and>
     (\<exists>ip \<in> set (ips h). (dns_ipv4_only d \<longrightarrow> sock_is_ipv4 ip) \<and>
        (\<exists>socks. dl_resolve lib (if port = [] then sock_text ip else sock_text ip @ '':'' @ port) = Inr socks
           \<and> backend_addr b \<in> set socks)))"
proof -
  have "dl_dns lib (dns_ipv4_only d) h = Inr (ips h)" if "h \<in> fst ` set (dns_hosts d)" for h
    using that assms(3) by auto
  then have "lookup_hosts lib d (dns_hosts d) = (map (ips \<circ> fst) (dns_hosts d), [])"
    by (rule lookup_hosts_all_ok)
  with assms(1,2) have t: "tokio_lookup_ip lib d = Inr (map (ips \<circ> fst) (dns_hosts d), [])"
    by (simp add: tokio_lookup_ip_def)
  with assms(4) obtain l where l: "backends_of_hosts lib (dns_ipv4_only d)
      (zip (dns_hosts d) (map (ips \<circ> fst) (dns_hosts d))) = Inr l" "bs = set l" "failed = []"
    by (auto simp: dns_run_discover_def)
  with assms(5) obtain h port w xs bs' where "((h, port, w), xs) \<in> set (zip (dns_hosts d) (map (ips \<circ> fst) (dns_hosts d)))"
      and b: "backends_of_ips lib (dns_ipv4_only d) port w xs = Inr bs'" "b \<in> set bs'"
    using backends_of_hosts_mem[OF l(1)] by blast
  then have "(h, port, w) \<in> set (dns_hosts d)" "xs = ips h"
    by (auto simp: zip_map2 zip_same_conv_map)
  with backends_of_ips_weight[OF b] l(3) show ?thesis by blast
qed

theorem dns_discover_aligned_witness:
  "\<exists>b. dns_run_discover sample_disc (new_dns [''a.com:81 7''] False False) = Inr ({b}, []) \<and> backend_weight b = 7"
proof -
  let ?d = "new_dns [''a.com:81 7''] False False"
  let ?b = "\<lparr>backend_addr = \<lparr>sock_text = ''10.1.1.1:81'', sock_is_ipv4 = True\<rparr>, backend_weight = 7\<rparr>"
  have h: "dns_hosts ?d = [(''a.com'', ''81'', 7)]" and v: "dns_ipv4_only ?d = False"
    by (simp_all add: new_dns_def format_addrs_def format_addr_def parse_unsigned_def is_digit_def digits_val_def
        digit_val_def)
  have r: "dns_run_discover sample_disc ?d = Inr ({?b}, [])"
    unfolding dns_run_discover_def tokio_lookup_ip_def lookup_hosts_def h v by (simp add: sample_disc_def)
  from dns_discover_aligned[OF _ _ _ r, of "\<lambda>_. [\<lparr>sock_text = ''10.1.1.1'', sock_is_ipv4 = True\<rparr>]" ?b] h r
  show ?thesis by (auto simp: sample_disc_def)
qed

text \<open>
  A host that does not resolve shifts the others: the addresses of the second host are paired
  with the port and the weight of the first, because the hosts are paired by position with the
  lookups that succeeded.
\<close>

theorem dns_failed_host_shifts:
  assumes "dl_system_conf lib = Inr ()" "dns_hosts d = [(h1, p1, w1), (h2, p2, w2)]"
    and "dl_dns lib (dns_ipv4_only d) h1 = Inl e" "dl_dns lib (dns_ipv4_only d) h2 = Inr ips"
  shows "dns_run_discover lib d =
    try_then (backends_of_ips lib (dns_ipv4_only d) p1 w1 ips) (\<lambda>bs. Inr (set bs, [h1]))"
  using assms by (simp add: dns_run_discover_def tokio_lookup_ip_def lookup_hosts_def)
    (cases "backends_of_ips lib (dns_ipv4_only d) p1 w1 ips"; simp)

theorem dns_failed_host_shifts_witness:
  "dns_run_discover sample_disc \<lparr>dns_ipv4_only = False, dns_hosts = [(''down'', ''8001'', 1), (''a.com'', ''8002'', 9)]\<rparr> =
     Inr ({\<lparr>backend_addr = \<lparr>sock_text = ''10.1.1.1:8001'', sock_is_ipv4 = True\<rparr>, backend_weight = 1\<rparr>}, [''down''])"
  using dns_failed_host_shifts[of sample_disc
      "\<lparr>dns_ipv4_only = False, dns_hosts = [(''down'', ''8001'', 1), (''a.com'', ''8002'', 9)]\<rparr>"
      "''down''" "''8001''" 1 "''a.com''" "''8002''" 9 "''no such host''"
      "[\<lparr>sock_text = ''10.1.1.1'', sock_is_ipv4 = True\<rparr>]"]
  by (simp add: sample_disc_def)

end
