(* ===== verification/Config.thy ===== *)
theory Config
  imports Discovery
begin

text \<open>
  \<open>pingap-config/src/common.rs\<close>: the configuration structs, their validation, the weight
  that orders locations, and the removal of an entry. A \<open>HashMap\<close> of the configuration is
  an association list in its iteration order. What other crates decide (socket address
  resolution, URLs, regular expressions, header syntax, PEM files, hashing) is a field of
  \<open>config_lib\<close>; an indexing that panics is the error \<open>ConfigPanic\<close>.
\<close>

datatype config_error =
    ConfigInvalid string
  | ConfigIo string string
  | ConfigUrlParse string string
  | ConfigRegex string
  | ConfigDe string
  | ConfigSer string
  | ConfigPattern string string
  | ConfigGlob string
  | ConfigEtcd string
  | ConfigPanic

record certificate_conf =
  cc_domains :: "string option"
  cc_tls_cert :: "string option"
  cc_tls_key :: "string option"
  cc_tls_chain :: "string option"
  cc_is_default :: "bool option"
  cc_is_ca :: "bool option"
  cc_acme :: "string option"
  cc_buffer_days :: "nat option"
  cc_remark :: "string option"

record upstream_conf =
  uc_addrs :: "string list"
  uc_discovery :: "string option"
  uc_update_frequency :: "duration option"
  uc_algo :: "string option"
  uc_sni :: "string option"
  uc_verify_cert :: "bool option"
  uc_health_check :: "string option"
  uc_ipv4_only :: "bool option"
  uc_enable_tracer :: "bool option"
  uc_alpn :: "string option"
  uc_connection_timeout :: "duration option"
  uc_total_connection_timeout :: "duration option"
  uc_read_timeout :: "duration option"
  uc_idle_timeout :: "duration option"
  uc_write_timeout :: "duration option"
  uc_tcp_idle :: "duration option"
  uc_tcp_interval :: "duration option"
  uc_tcp_probe_count :: "nat option"
  uc_tcp_recv_buf :: "nat option"
  uc_tcp_fast_open :: "bool option"
  uc_includes :: "string list option"
  uc_remark :: "string option"

record location_conf =
  lc_upstream :: "string option"
  lc_path :: "string option"
  lc_host :: "string option"
  lc_proxy_set_headers :: "string list option"
  lc_proxy_add_headers :: "string list option"
  lc_rewrite :: "string option"
  lc_weight :: "u16 option"
  lc_plugins :: "string list option"
  lc_client_max_body_size :: "nat option"
  lc_max_processing :: "i32 option"
  lc_includes :: "string list option"
  lc_grpc_web :: "bool option"
  lc_enable_reverse_proxy_headers :: "bool option"
  lc_remark :: "string option"

record server_conf =
  sc_addr :: string
  sc_access_log :: "string option"
  sc_locations :: "string list option"
  sc_threads :: "nat option"
  sc_tls_cipher_list :: "string option"
  sc_tls_ciphersuites :: "string option"
  sc_tls_min_version :: "string option"
  sc_tls_max_version :: "string option"
  sc_global_certificates :: "bool option"
  sc_enabled_h2 :: "bool option"
  sc_tcp_idle :: "duration option"
  sc_tcp_interval :: "duration option"
  sc_tcp_probe_count :: "nat option"
  sc_tcp_fastopen :: "nat option"
  sc_prometheus_metrics :: "string option"
  sc_otlp_exporter :: "string option"
  sc_includes :: "string list option"
  sc_modules :: "string list option"
  sc_enable_server_timing :: "bool option"
  sc_remark :: "string option"

record basic_conf =
  bc_name :: "string option"
  bc_error_template :: "string option"
  bc_pid_file :: "string option"
  bc_upgrade_sock :: "string option"
  bc_user :: "string option"
  bc_group :: "string option"
  bc_threads :: "nat option"
  bc_work_stealing :: "bool option"
  bc_listener_tasks_per_fd :: "nat option"
  bc_grace_period :: "duration option"
  bc_graceful_shutdown_timeout :: "duration option"
  bc_upstream_keepalive_pool_size :: "nat option"
  bc_webhook :: "string option"
  bc_webhook_type :: "string option"
  bc_webhook_notifications :: "string list option"
  bc_log_level :: "string option"
  bc_log_buffered_size :: "nat option"
  bc_log_format_json :: "bool option"
  bc_sentry :: "string option"
  bc_pyroscope :: "string option"
  bc_auto_restart_check_interval :: "duration option"
  bc_cache_directory :: "string option"
  bc_cache_max_size :: "nat option"

record storage_conf =
  st_category :: string
  st_value :: string
  st_secret :: "string option"
  st_remark :: "string option"

text \<open>A TOML value, as far as the sources look into one.\<close>

datatype toml =
    TString string
  | TInteger int
  | TBoolean bool
  | TOther string
  | TArray "toml list"
  | TTable "(string \<times> toml) list"

type_synonym plugin_conf = "(string, toml) hash_map"

record pingap_conf =
  basic :: basic_conf
  upstreams :: "(string, upstream_conf) hash_map"
  locations :: "(string, location_conf) hash_map"
  servers :: "(string, server_conf) hash_map"
  plugins :: "(string, plugin_conf) hash_map"
  certificates :: "(string, certificate_conf) hash_map"
  storages :: "(string, storage_conf) hash_map"

record toml_config =
  tc_basic :: "basic_conf option"
  tc_servers :: "(string \<times> toml) list option"
  tc_upstreams :: "(string \<times> toml) list option"
  tc_locations :: "(string \<times> toml) list option"
  tc_plugins :: "(string \<times> toml) list option"
  tc_certificates :: "(string \<times> toml) list option"
  tc_storages :: "(string \<times> toml) list option"

record config_lib =
  cl_http :: http_lib
  cl_resolve :: resolver
  cl_url_parse :: "string \<Rightarrow> string + unit"
  cl_regex :: "string \<Rightarrow> string + unit"
  cl_convert_pem :: "string \<Rightarrow> string + string"
  cl_private_key :: "string \<Rightarrow> string + unit"
  cl_certs :: "string \<Rightarrow> string + string list"
  cl_toml_print :: "(string \<times> toml) list \<Rightarrow> string"
  cl_toml_table :: "string \<Rightarrow> string + (string \<times> toml) list"
  cl_toml_config :: "string \<Rightarrow> string + toml_config"
  cl_de_storage :: "string \<Rightarrow> string + storage_conf"
  cl_de_upstream :: "string \<Rightarrow> string + upstream_conf"
  cl_de_location :: "string \<Rightarrow> string + location_conf"
  cl_de_server :: "string \<Rightarrow> string + server_conf"
  cl_de_plugin :: "string \<Rightarrow> string + plugin_conf"
  cl_de_certificate :: "string \<Rightarrow> string + certificate_conf"
  cl_ser_conf :: "pingap_conf \<Rightarrow> string + string"
  cl_aes_decrypt :: "string \<Rightarrow> string \<Rightarrow> string + string"

definition default_basic :: basic_conf where
  "default_basic = \<lparr>bc_name = None, bc_error_template = None, bc_pid_file = None,
     bc_upgrade_sock = None, bc_user = None, bc_group = None, bc_threads = None,
     bc_work_stealing = None, bc_listener_tasks_per_fd = None, bc_grace_period = None,
     bc_graceful_shutdown_timeout = None, bc_upstream_keepalive_pool_size = None,
     bc_webhook = None, bc_webhook_type = None, bc_webhook_notifications = None,
     bc_log_level = None, bc_log_buffered_size = None, bc_log_format_json = None,
     bc_sentry = None, bc_pyroscope = None, bc_auto_restart_check_interval = None,
     bc_cache_directory = None, bc_cache_max_size = None\<rparr>"

definition default_conf :: pingap_conf where
  "default_conf = \<lparr>basic = default_basic, upstreams = [], locations = [], servers = [],
     plugins = [], certificates = [], storages = []\<rparr>"

section \<open>Loading\<close>

definition as_str :: "toml \<Rightarrow> string option" where
  "as_str v = (case v of TString s \<Rightarrow> Some s | _ \<Rightarrow> None)"

definition format_toml :: "config_lib \<Rightarrow> toml \<Rightarrow> string" where
  "format_toml lib v = (case v of TTable m \<Rightarrow> cl_toml_print lib m | _ \<Rightarrow> [])"

definition get_include_toml :: "(string, string) hash_map \<Rightarrow> toml \<Rightarrow> string option" where
  "get_include_toml data includes =
     (case includes of
        TArray vs \<Rightarrow>
          Some (join ''\<newline>''
            (map (\<lambda>item. unwrap_or [] (map_of data (unwrap_or [] (as_str item)))) vs))
      | _ \<Rightarrow> None)"

definition convert_include_toml ::
  "config_lib \<Rightarrow> (string, string) hash_map \<Rightarrow> bool \<Rightarrow> toml \<Rightarrow> string" where
  "convert_include_toml lib data replace_includes value =
     (case value of
        TTable m \<Rightarrow>
          if \<not> replace_includes then cl_toml_print lib m
          else (case map_of m ''includes'' of
              None \<Rightarrow> cl_toml_print lib m
            | Some includes \<Rightarrow>
              (let m' = map_remove ''includes'' m in
               case get_include_toml data includes of
                 None \<Rightarrow> cl_toml_print lib m'
               | Some text \<Rightarrow>
                 (case cl_toml_table lib text of
                    Inl _ \<Rightarrow> cl_toml_print lib m'
                  | Inr kvs \<Rightarrow> cl_toml_print lib (fold (\<lambda>(k, v). map_insert k v) kvs m'))))
      | _ \<Rightarrow> [])"

text \<open>One of the loops of \<open>convert_pingap_config\<close>: deserialize each entry, insert it.\<close>

fun load_entries ::
  "(string \<Rightarrow> string + 'a) \<Rightarrow> (toml \<Rightarrow> string) \<Rightarrow> (string \<times> toml) list \<Rightarrow> (string, 'a) hash_map
     \<Rightarrow> config_error + (string, 'a) hash_map" where
  "load_entries de print [] acc = Inr acc"
| "load_entries de print ((name, value) # rest) acc =
     try_then (map_err ConfigDe (de (print value))) (\<lambda>x.
     load_entries de print rest (map_insert name x acc))"

definition convert_pingap_config ::
  "config_lib \<Rightarrow> string \<Rightarrow> bool \<Rightarrow> config_error + pingap_conf" where
  "convert_pingap_config lib text replace_includes =
     try_then (map_err ConfigDe (cl_toml_config lib text)) (\<lambda>data.
     try_then (load_entries (cl_de_storage lib) (format_toml lib)
                 (unwrap_or [] (tc_storages data)) []) (\<lambda>sts.
     let includes = map (\<lambda>(name, st). (name, st_value st)) sts;
         print = convert_include_toml lib includes replace_includes
     in
     try_then (load_entries (cl_de_upstream lib) print
                 (unwrap_or [] (tc_upstreams data)) []) (\<lambda>ups.
     try_then (load_entries (cl_de_location lib) print
                 (unwrap_or [] (tc_locations data)) []) (\<lambda>locs.
     try_then (load_entries (cl_de_server lib) print
                 (unwrap_or [] (tc_servers data)) []) (\<lambda>srvs.
     try_then (load_entries (cl_de_plugin lib) (format_toml lib)
                 (unwrap_or [] (tc_plugins data)) []) (\<lambda>pls.
     try_then (load_entries (cl_de_certificate lib) (format_toml lib)
                 (unwrap_or [] (tc_certificates data)) []) (\<lambda>certs.
     Inr \<lparr>basic = unwrap_or default_basic (tc_basic data), upstreams = ups, locations = locs,
          servers = srvs, plugins = pls, certificates = certs, storages = sts\<rparr>)))))))"

section \<open>Certificates\<close>

definition validate_cert :: "config_lib \<Rightarrow> string \<Rightarrow> config_error + unit" where
  "validate_cert lib value =
     try_then (map_err ConfigInvalid (cl_convert_pem lib value)) (\<lambda>buf.
     try_then (map_err (\<lambda>e. ConfigInvalid (''Failed to parse certificate: '' @ e)) (cl_certs lib buf))
       (\<lambda>certs. if certs = [] then Inl (ConfigInvalid ''No valid certificates found in input'')
                else Inr ()))"

definition validate_certificate_conf :: "config_lib \<Rightarrow> certificate_conf \<Rightarrow> config_error + unit" where
  "validate_certificate_conf lib c =
     (let key = unwrap_or [] (cc_tls_key c);
          cert = unwrap_or [] (cc_tls_cert c);
          chain = unwrap_or [] (cc_tls_chain c)
      in
      try_then (if key = [] then Inr ()
                else try_then (map_err ConfigInvalid (cl_convert_pem lib key))
                       (\<lambda>buf. map_err ConfigInvalid (cl_private_key lib buf))) (\<lambda>_.
      try_then (if cert = [] then Inr () else validate_cert lib cert) (\<lambda>_.
      if chain = [] then Inr () else validate_cert lib chain)))"

section \<open>Upstreams\<close>

text \<open>\<open>Ipv4Addr::from_str\<close>: four decimal octets without leading zeros.\<close>

definition parse_octet :: "string \<Rightarrow> nat option" where
  "parse_octet s =
     (if s \<noteq> [] \<and> length s \<le> 3 \<and> list_all is_digit s \<and> (hd s = CHR ''0'' \<longrightarrow> length s = 1)
         \<and> digits_val s < 256
      then Some (digits_val s) else None)"

definition is_ipv4 :: "string \<Rightarrow> bool" where
  "is_ipv4 s \<longleftrightarrow> (let ps = split_on CHR ''.'' s in
     length ps = 4 \<and> list_all (\<lambda>p. parse_octet p \<noteq> None) ps)"

text \<open>
  The host part has no colon, so of the two forms of \<open>IpAddr\<close> only IPv4 can parse.
\<close>

definition guess_discovery :: "upstream_conf \<Rightarrow> string" where
  "guess_discovery c =
     (case uc_discovery c of
        Some d \<Rightarrow> d
      | None \<Rightarrow>
        (if list_ex (\<lambda>addr. \<not> is_ipv4 (case split_once CHR '':'' addr of None \<Rightarrow> addr | Some (h, _) \<Rightarrow> h))
              (uc_addrs c)
         then DNS_DISCOVERY else []))"

definition validate_address :: "config_lib \<Rightarrow> string \<Rightarrow> string \<Rightarrow> config_error + unit" where
  "validate_address lib name addr =
     (case split_whitespace addr of
        [] \<Rightarrow> Inl ConfigPanic
      | host_port # _ \<Rightarrow>
        (let check = (if CHR '':'' \<notin> set host_port then host_port @ '':80'' else host_port) in
         try_then (map_err (\<lambda>e. ConfigIo e (host_port @ ''(upstream:'' @ name @ '')'')) (cl_resolve lib check))
           (\<lambda>_. Inr ())))"

definition validate_addresses :: "config_lib \<Rightarrow> string \<Rightarrow> upstream_conf \<Rightarrow> config_error + unit" where
  "validate_addresses lib name c =
     (if uc_addrs c = [] then Inl (ConfigInvalid ''upstream addrs is empty'')
      else if \<not> is_static_discovery (guess_discovery c) then Inr ()
      else for_each (validate_address lib name) (uc_addrs c))"

definition validate_health_check :: "config_lib \<Rightarrow> upstream_conf \<Rightarrow> config_error + unit" where
  "validate_health_check lib c =
     (case uc_health_check c of
        None \<Rightarrow> Inr ()
      | Some url \<Rightarrow>
        if url = [] then Inr ()
        else map_err (\<lambda>e. ConfigUrlParse e url) (cl_url_parse lib url))"

definition MAX_TCP_PROBE_COUNT :: nat where
  "MAX_TCP_PROBE_COUNT = 16"

definition validate_tcp_probe_count :: "upstream_conf \<Rightarrow> config_error + unit" where
  "validate_tcp_probe_count c =
     (case uc_tcp_probe_count c of
        None \<Rightarrow> Inr ()
      | Some n \<Rightarrow>
        if n > MAX_TCP_PROBE_COUNT
        then Inl (ConfigInvalid (''tcp probe count should be <= '' @ show_nat MAX_TCP_PROBE_COUNT))
        else Inr ())"

definition validate_upstream :: "config_lib \<Rightarrow> string \<Rightarrow> upstream_conf \<Rightarrow> config_error + unit" where
  "validate_upstream lib name c =
     try_then (validate_addresses lib name c) (\<lambda>_.
     try_then (validate_health_check lib c) (\<lambda>_.
     validate_tcp_probe_count c))"

section \<open>Locations\<close>

definition validate_header :: "config_lib \<Rightarrow> string \<Rightarrow> string \<Rightarrow> config_error + unit" where
  "validate_header lib name header =
     (case split_once CHR '':'' header of
        None \<Rightarrow> Inl (ConfigInvalid (''header '' @ header @ '' is invalid(location:'' @ name @ '')''))
      | Some (k, v) \<Rightarrow>
        try_then (map_err (\<lambda>err. ConfigInvalid (''header name('' @ trim k @ '') is invalid, error: ''
                     @ err @ ''(location:'' @ name @ '')'')) (hname_from_str (cl_http lib) (trim k))) (\<lambda>_.
        try_then (map_err (\<lambda>err. ConfigInvalid (''header value('' @ trim v @ '') is invalid, error: ''
                     @ err @ ''(location:'' @ name @ '')'')) (hvalue_from_str (cl_http lib) (trim v))) (\<lambda>_.
        Inr ())))"

definition validate_headers ::
  "config_lib \<Rightarrow> string \<Rightarrow> string list option \<Rightarrow> config_error + unit" where
  "validate_headers lib name headers =
     (case headers of None \<Rightarrow> Inr () | Some hs \<Rightarrow> for_each (validate_header lib name) hs)"

definition validate_location ::
  "config_lib \<Rightarrow> string \<Rightarrow> string list \<Rightarrow> location_conf \<Rightarrow> config_error + unit" where
  "validate_location lib name upstream_names c =
     (let upstream = unwrap_or [] (lc_upstream c) in
      if upstream \<noteq> [] \<and> \<not> starts_with upstream ''$'' \<and> upstream \<notin> set upstream_names
      then Inl (ConfigInvalid (''upstream('' @ upstream @ '') is not found(location:'' @ name @ '')''))
      else
      try_then (validate_headers lib name (lc_proxy_add_headers c)) (\<lambda>_.
      try_then (validate_headers lib name (lc_proxy_set_headers c)) (\<lambda>_.
      case lc_rewrite c of
        None \<Rightarrow> Inr ()
      | Some value \<Rightarrow> map_err ConfigRegex (cl_regex lib (hd (split_on CHR '' '' value))))))"

definition path_weight :: "string \<Rightarrow> u16" where
  "path_weight path =
     (if length path > 1 then
        (if starts_with path ''='' then 1024 else if starts_with path ''~'' then 256 else 512)
        + of_nat (min (length path) 64)
      else 0)"

definition host_weight :: "string option \<Rightarrow> u16" where
  "host_weight host =
     (case host of
        None \<Rightarrow> 0
      | Some h \<Rightarrow>
        (let exist_regex = list_ex (\<lambda>item. starts_with item ''~'') (split_on CHR '','' h) in
         if \<not> exist_regex \<and> h \<noteq> [] then 128 else of_nat (length h)))"

definition get_weight :: "location_conf \<Rightarrow> u16" where
  "get_weight c =
     (case lc_weight c of
        Some w \<Rightarrow> w
      | None \<Rightarrow> path_weight (unwrap_or [] (lc_path c)) + host_weight (lc_host c))"

section \<open>Servers\<close>

definition validate_server ::
  "config_lib \<Rightarrow> string \<Rightarrow> string list \<Rightarrow> server_conf \<Rightarrow> config_error + unit" where
  "validate_server lib name location_names c =
     try_then (for_each (\<lambda>addr. try_then (map_err (\<lambda>e. ConfigIo e (sc_addr c)) (cl_resolve lib addr))
                 (\<lambda>_. Inr ())) (split_on CHR '','' (sc_addr c))) (\<lambda>_.
     for_each (\<lambda>item. if item \<notin> set location_names
         then Inl (ConfigInvalid (''location('' @ item @ '') is not found(server:'' @ name @ '')''))
         else Inr ()) (unwrap_or [] (sc_locations c)))"

section \<open>The whole configuration\<close>

fun claim_addrs :: "string list \<Rightarrow> string list \<Rightarrow> config_error + string list" where
  "claim_addrs listen [] = Inr listen"
| "claim_addrs listen (addr # addrs) =
     (if addr \<in> set listen then Inl (ConfigInvalid (addr @ '' is inused by other server''))
      else claim_addrs (listen @ [addr]) addrs)"

fun validate_servers ::
  "config_lib \<Rightarrow> string list \<Rightarrow> string list \<Rightarrow> (string, server_conf) hash_map \<Rightarrow> config_error + unit" where
  "validate_servers lib location_names listen [] = Inr ()"
| "validate_servers lib location_names listen ((name, c) # rest) =
     try_then (claim_addrs listen (split_on CHR '','' (sc_addr c))) (\<lambda>listen'.
     try_then (validate_server lib name location_names c) (\<lambda>_.
     validate_servers lib location_names listen' rest))"

definition validate_conf :: "config_lib \<Rightarrow> pingap_conf \<Rightarrow> config_error + unit" where
  "validate_conf lib c =
     try_then (for_each (\<lambda>(name, u). validate_upstream lib name u) (upstreams c)) (\<lambda>_.
     try_then (for_each (\<lambda>(name, l). validate_location lib name (keys_of (upstreams c)) l) (locations c)) (\<lambda>_.
     try_then (validate_servers lib (keys_of (locations c)) [] (servers c)) (\<lambda>_.
     try_then (for_each (\<lambda>(_, cert). validate_certificate_conf lib cert) (certificates c)) (\<lambda>_.
     try_then (map_err ConfigSer (cl_ser_conf lib c)) (\<lambda>text.
     try_then (convert_pingap_config lib text True) (\<lambda>_.
     Inr ()))))))"

definition CATEGORY_BASIC :: string where "CATEGORY_BASIC = ''basic''"
definition CATEGORY_SERVER :: string where "CATEGORY_SERVER = ''server''"
definition CATEGORY_LOCATION :: string where "CATEGORY_LOCATION = ''location''"
definition CATEGORY_UPSTREAM :: string where "CATEGORY_UPSTREAM = ''upstream''"
definition CATEGORY_PLUGIN :: string where "CATEGORY_PLUGIN = ''plugin''"
definition CATEGORY_CERTIFICATE :: string where "CATEGORY_CERTIFICATE = ''certificate''"
definition CATEGORY_STORAGE :: string where "CATEGORY_STORAGE = ''storage''"

lemmas category_names =
  CATEGORY_BASIC_def CATEGORY_SERVER_def CATEGORY_LOCATION_def CATEGORY_UPSTREAM_def
  CATEGORY_PLUGIN_def CATEGORY_CERTIFICATE_def CATEGORY_STORAGE_def

text \<open>The name of the first entry that uses \<open>x\<close>, in iteration order.\<close>

definition first_user :: "('a \<Rightarrow> bool) \<Rightarrow> (string, 'a) hash_map \<Rightarrow> string option" where
  "first_user uses m = map_option fst (find (\<lambda>(_, v). uses v) m)"

definition in_used :: "string \<Rightarrow> string \<Rightarrow> string \<Rightarrow> string \<Rightarrow> config_error" where
  "in_used what name who user =
     ConfigInvalid (what @ ''('' @ name @ '') is in used by '' @ who @ ''('' @ user @ '')'')"

definition remove_conf :: "string \<Rightarrow> string \<Rightarrow> pingap_conf \<Rightarrow> config_error + pingap_conf" where
  "remove_conf category name c =
     (if category = CATEGORY_UPSTREAM then
        (case first_user (\<lambda>l. lc_upstream l = Some name) (locations c) of
           Some user \<Rightarrow> Inl (in_used ''upstream'' name ''location'' user)
         | None \<Rightarrow> Inr (c\<lparr>upstreams := map_remove name (upstreams c)\<rparr>))
      else if category = CATEGORY_LOCATION then
        (case first_user (\<lambda>s. name \<in> set (unwrap_or [] (sc_locations s))) (servers c) of
           Some user \<Rightarrow> Inl (in_used ''location'' name ''server'' user)
         | None \<Rightarrow> Inr (c\<lparr>locations := map_remove name (locations c)\<rparr>))
      else if category = CATEGORY_SERVER then Inr (c\<lparr>servers := map_remove name (servers c)\<rparr>)
      else if category = CATEGORY_PLUGIN then
        (case first_user (\<lambda>l. name \<in> set (unwrap_or [] (lc_plugins l))) (locations c) of
           Some user \<Rightarrow> Inl (in_used ''proxy plugin'' name ''location'' user)
         | None \<Rightarrow> Inr (c\<lparr>plugins := map_remove name (plugins c)\<rparr>))
      else if category = CATEGORY_CERTIFICATE then
        Inr (c\<lparr>certificates := map_remove name (certificates c)\<rparr>)
      else Inr c)"

definition get_storage_value :: "config_lib \<Rightarrow> pingap_conf \<Rightarrow> string \<Rightarrow> config_error + string" where
  "get_storage_value lib c name =
     (case find (\<lambda>(k, _). k = name) (storages c) of
        None \<Rightarrow> Inr []
      | Some (_, item) \<Rightarrow>
        (case st_secret item of
           Some key \<Rightarrow> map_err ConfigInvalid (cl_aes_decrypt lib key (st_value item))
         | None \<Rightarrow> Inr (st_value item)))"

section \<open>Specification: what a valid configuration promises\<close>

definition upstream_ref_ok :: "string list \<Rightarrow> location_conf \<Rightarrow> bool" where
  "upstream_ref_ok names l \<longleftrightarrow>
     (let u = unwrap_or [] (lc_upstream l) in u = [] \<or> starts_with u ''$'' \<or> u \<in> set names)"

definition location_refs_ok :: "string list \<Rightarrow> server_conf \<Rightarrow> bool" where
  "location_refs_ok names s \<longleftrightarrow> set (unwrap_or [] (sc_locations s)) \<subseteq> set names"

definition refs_ok :: "pingap_conf \<Rightarrow> bool" where
  "refs_ok c \<longleftrightarrow>
     list_all (\<lambda>(_, l). upstream_ref_ok (keys_of (upstreams c)) l) (locations c)
     \<and> list_all (\<lambda>(_, s). location_refs_ok (keys_of (locations c)) s) (servers c)"

definition listen_addrs :: "pingap_conf \<Rightarrow> string list" where
  "listen_addrs c = concat (map (\<lambda>(_, s). split_on CHR '','' (sc_addr s)) (servers c))"

definition plain_host :: "location_conf \<Rightarrow> bool" where
  "plain_host c =
     (case lc_host c of
        None \<Rightarrow> True
      | Some h \<Rightarrow> list_all (\<lambda>item. \<not> starts_with item ''~'') (split_on CHR '','' h))"

text \<open>The kind of a path pattern: none, regular expression, prefix, exact.\<close>

definition path_class :: "string \<Rightarrow> nat" where
  "path_class p =
     (if length p \<le> 1 then 0 else if starts_with p ''='' then 3 else if starts_with p ''~'' then 1 else 2)"

section \<open>Lemmas\<close>

lemma first_user_None: "first_user uses m = None \<longleftrightarrow> (\<forall>(k, v) \<in> set m. \<not> uses v)"
  by (auto simp: first_user_def find_None_iff)

lemma keys_map_remove: "set (keys_of (map_remove k m)) = set (keys_of m) - {k}"
  by (force simp: keys_of_def map_remove_def)

lemma set_map_remove: "set (map_remove k m) = {(k', v) \<in> set m. k' \<noteq> k}"
  by (auto simp: map_remove_def)

lemma validate_location_ref:
  "validate_location lib name names c = Inr u \<Longrightarrow> upstream_ref_ok names c"
  by (auto simp: validate_location_def upstream_ref_ok_def Let_def split: if_splits)

lemma validate_server_refs:
  "validate_server lib name names c = Inr u \<Longrightarrow> location_refs_ok names c"
  by (auto simp: validate_server_def location_refs_ok_def split: if_splits)

lemma validate_servers_refs:
  "validate_servers lib names listen ss = Inr u \<Longrightarrow> (n, s) \<in> set ss \<Longrightarrow> location_refs_ok names s"
proof (induction lib names listen ss rule: validate_servers.induct)
  case (1 lib names listen)
  then show ?case by simp
next
  case (2 lib names listen name c rest)
  then show ?case by (auto dest: validate_server_refs)
qed

lemma claim_addrs_ok:
  "claim_addrs listen addrs = Inr l' \<Longrightarrow> distinct listen \<Longrightarrow> l' = listen @ addrs \<and> distinct l'"
  by (induction listen addrs rule: claim_addrs.induct) (auto split: if_splits)

lemma validate_servers_listen:
  "validate_servers lib names listen ss = Inr u \<Longrightarrow> distinct listen \<Longrightarrow>
     distinct (listen @ concat (map (\<lambda>(_, s). split_on CHR '','' (sc_addr s)) ss))"
proof (induction lib names listen ss rule: validate_servers.induct)
  case (1 lib names listen)
  then show ?case by simp
next
  case (2 lib names listen name c rest)
  then obtain l' where l': "claim_addrs listen (split_on CHR '','' (sc_addr c)) = Inr l'"
    and rest: "validate_servers lib names l' rest = Inr u" by auto
  from claim_addrs_ok[OF l' "2.prems"(2)]
  have eq: "l' = listen @ split_on CHR '','' (sc_addr c)" and "distinct l'" by auto
  from "2.prems" l' rest have "validate_server lib name names c = Inr ()" by auto
  with "2.IH" l' rest \<open>distinct l'\<close>
  have "distinct (l' @ concat (map (\<lambda>(_, s). split_on CHR '','' (sc_addr s)) rest))" by blast
  then show ?case by (simp add: eq)
qed

lemma remove_conf_cases:
  assumes "remove_conf category name c = Inr c'"
  obtains (ups) "c' = c\<lparr>upstreams := map_remove name (upstreams c)\<rparr>"
      "\<forall>(k, l) \<in> set (locations c). lc_upstream l \<noteq> Some name"
  | (locs) "c' = c\<lparr>locations := map_remove name (locations c)\<rparr>"
      "\<forall>(k, s) \<in> set (servers c). name \<notin> set (unwrap_or [] (sc_locations s))"
  | (srvs) "c' = c\<lparr>servers := map_remove name (servers c)\<rparr>"
  | (rest) "upstreams c' = upstreams c" "locations c' = locations c" "servers c' = servers c"
proof -
  from assms consider
      "category = CATEGORY_UPSTREAM" | "category = CATEGORY_LOCATION" | "category = CATEGORY_SERVER"
    | "category \<notin> {CATEGORY_UPSTREAM, CATEGORY_LOCATION, CATEGORY_SERVER}" by blast
  then show thesis
  proof cases
    case 1
    with assms show ?thesis
      by (intro ups) (auto simp: remove_conf_def first_user_None split: option.splits)
  next
    case 2
    with assms show ?thesis
      by (intro locs) (auto simp: remove_conf_def category_names first_user_None split: option.splits)
  next
    case 3
    with assms show ?thesis
      by (intro srvs) (auto simp: remove_conf_def category_names)
  next
    case 4
    with assms show ?thesis
      by (intro rest) (auto simp: remove_conf_def split: option.splits if_splits)
  qed
qed

lemma unat_path_weight:
  "unat (path_weight p) =
     (if length p > 1 then
        (if starts_with p ''='' then 1024 else if starts_with p ''~'' then 256 else 512)
        + min (length p) 64
      else 0)"
proof -
  have m: "min (length p) 64 < 2 ^ 16" by (simp add: min_def)
  then have u: "unat (of_nat (min (length p) 64) :: u16) = min (length p) 64"
    by (simp add: unsigned_of_nat take_bit_eq_mod)
  have "unat (k + of_nat (min (length p) 64) :: u16) = unat k + min (length p) 64"
    if "unat k \<le> 1024" for k :: u16
    using that u by (simp add: unat_word_ariths min_def)
  then show ?thesis by (simp add: path_weight_def)
qed

lemma unat_host_weight_plain: "plain_host c \<Longrightarrow> unat (host_weight (lc_host c)) \<le> 128"
  by (auto simp: plain_host_def host_weight_def list_all_iff list_ex_iff Let_def split: option.splits)

lemma unat_path_weight_le: "unat (path_weight p) \<le> 1088"
  by (auto simp: unat_path_weight min_def)

lemma unat_get_weight:
  assumes "lc_weight c = None" and "plain_host c"
  shows "unat (get_weight c) =
    unat (path_weight (unwrap_or [] (lc_path c))) + unat (host_weight (lc_host c))"
proof -
  let ?p = "path_weight (unwrap_or [] (lc_path c))" and ?h = "host_weight (lc_host c)"
  have "unat ?p \<le> 1088" by (rule unat_path_weight_le)
  moreover have "unat ?h \<le> 128" using assms(2) by (rule unat_host_weight_plain)
  ultimately have "unat ?p + unat ?h < 2 ^ 16" by simp
  then have "unat (?p + ?h) = unat ?p + unat ?h" by (simp add: unat_word_ariths)
  with assms(1) show ?thesis by (simp add: get_weight_def)
qed

lemma remove_conf_refs:
  assumes "remove_conf category name c = Inr c'" "refs_ok c"
  shows "refs_ok c'"
  using assms(1)
proof (cases rule: remove_conf_cases)
  case ups
  then show ?thesis using assms(2)
    by (fastforce simp: refs_ok_def upstream_ref_ok_def list_all_iff keys_map_remove Let_def split: option.splits)
next
  case locs
  then show ?thesis using assms(2)
    by (fastforce simp: refs_ok_def location_refs_ok_def list_all_iff keys_map_remove set_map_remove)
next
  case srvs
  then show ?thesis using assms(2)
    by (fastforce simp: refs_ok_def location_refs_ok_def list_all_iff set_map_remove)
next
  case rest
  then show ?thesis using assms(2) by (simp add: refs_ok_def)
qed

section \<open>A concrete configuration\<close>

definition sample_toml :: toml_config where
  "sample_toml = \<lparr>tc_basic = None, tc_servers = None, tc_upstreams = None, tc_locations = None,
     tc_plugins = None, tc_certificates = None, tc_storages = None\<rparr>"

definition sample_config_lib :: config_lib where
  "sample_config_lib = \<lparr>cl_http = sample_http, cl_resolve = (\<lambda>_. Inr []), cl_url_parse = (\<lambda>_. Inr ()),
     cl_regex = (\<lambda>_. Inr ()), cl_convert_pem = Inr, cl_private_key = (\<lambda>_. Inr ()), cl_certs = (\<lambda>s. Inr [s]),
     cl_toml_print = (\<lambda>_. []), cl_toml_table = (\<lambda>_. Inr []), cl_toml_config = (\<lambda>_. Inr sample_toml),
     cl_de_storage = Inl, cl_de_upstream = Inl, cl_de_location = Inl, cl_de_server = Inl,
     cl_de_plugin = Inl, cl_de_certificate = Inl, cl_ser_conf = (\<lambda>_. Inr []),
     cl_aes_decrypt = (\<lambda>_. Inl)\<rparr>"

definition sample_upstream_conf :: upstream_conf where
  "sample_upstream_conf = \<lparr>uc_addrs = [''10.0.0.1:80''], uc_discovery = None, uc_update_frequency = None,
     uc_algo = None, uc_sni = None, uc_verify_cert = None, uc_health_check = None, uc_ipv4_only = None,
     uc_enable_tracer = None, uc_alpn = None, uc_connection_timeout = None,
     uc_total_connection_timeout = None, uc_read_timeout = None, uc_idle_timeout = None,
     uc_write_timeout = None, uc_tcp_idle = None, uc_tcp_interval = None, uc_tcp_probe_count = None,
     uc_tcp_recv_buf = None, uc_tcp_fast_open = None, uc_includes = None, uc_remark = None\<rparr>"

definition sample_location_conf :: location_conf where
  "sample_location_conf = \<lparr>lc_upstream = Some ''u'', lc_path = Some ''/api'', lc_host = None,
     lc_proxy_set_headers = None, lc_proxy_add_headers = None, lc_rewrite = None, lc_weight = None,
     lc_plugins = None, lc_client_max_body_size = None, lc_max_processing = None, lc_includes = None,
     lc_grpc_web = None, lc_enable_reverse_proxy_headers = None, lc_remark = None\<rparr>"

definition sample_server_conf :: server_conf where
  "sample_server_conf = \<lparr>sc_addr = ''0.0.0.0:80,0.0.0.0:81'', sc_access_log = None, sc_locations = Some [''l''],
     sc_threads = None, sc_tls_cipher_list = None, sc_tls_ciphersuites = None, sc_tls_min_version = None,
     sc_tls_max_version = None, sc_global_certificates = None, sc_enabled_h2 = None, sc_tcp_idle = None,
     sc_tcp_interval = None, sc_tcp_probe_count = None, sc_tcp_fastopen = None,
     sc_prometheus_metrics = None, sc_otlp_exporter = None, sc_includes = None, sc_modules = None,
     sc_enable_server_timing = None, sc_remark = None\<rparr>"

definition sample_conf :: pingap_conf where
  "sample_conf = default_conf\<lparr>upstreams := [(''u'', sample_upstream_conf)],
     locations := [(''l'', sample_location_conf)], servers := [(''s'', sample_server_conf)]\<rparr>"

lemmas sample_conf_simps =
  sample_conf_def sample_server_conf_def sample_location_conf_def sample_upstream_conf_def
  sample_config_lib_def sample_toml_def default_conf_def default_basic_def sample_http_def

lemma sample_conf_valid: "validate_conf sample_config_lib sample_conf = Inr ()"
  by code_simp

section \<open>Properties\<close>

text \<open>
  C18: A configuration that passes validation has no dangling reference: every location names an
  existing upstream (or none, or a variable), every server only existing locations.
\<close>

theorem validate_conf_refs:
  assumes "validate_conf lib c = Inr ()"
  shows "refs_ok c"
proof -
  from assms have l: "for_each (\<lambda>(name, l). validate_location lib name (keys_of (upstreams c)) l) (locations c) = Inr ()"
    and s: "validate_servers lib (keys_of (locations c)) [] (servers c) = Inr ()"
    by (auto simp: validate_conf_def)
  have "upstream_ref_ok (keys_of (upstreams c)) loc" if "(n, loc) \<in> set (locations c)" for n loc
    using l that by (auto simp: for_each_ok intro: validate_location_ref)
  moreover have "location_refs_ok (keys_of (locations c)) srv" if "(n, srv) \<in> set (servers c)" for n srv
    using validate_servers_refs[OF s that] .
  ultimately show ?thesis by (auto simp: refs_ok_def list_all_iff)
qed

theorem validate_conf_refs_witness: "refs_ok sample_conf"
  by (rule validate_conf_refs[OF sample_conf_valid])



text \<open>
  In a configuration that passes validation no two listening addresses are the same, within
  a server or across servers.
\<close>

theorem validate_conf_listen_distinct:
  assumes "validate_conf lib c = Inr ()"
  shows "distinct (listen_addrs c)"
proof -
  from assms have "validate_servers lib (keys_of (locations c)) [] (servers c) = Inr ()"
    by (auto simp: validate_conf_def)
  from validate_servers_listen[OF this] show ?thesis by (simp add: listen_addrs_def)
qed

theorem validate_conf_listen_distinct_witness:
  "distinct (listen_addrs sample_conf) \<and> listen_addrs sample_conf = [''0.0.0.0:80'', ''0.0.0.0:81'']"
  using validate_conf_listen_distinct[OF sample_conf_valid] by (simp add: sample_conf_simps listen_addrs_def)

text \<open>
  Locations without an explicit weight and without regular expression hosts are ordered by
  the kind of their path: exact before prefix before regular expression before none, whatever
  the lengths of the paths and the hosts. The weight does not wrap.
\<close>

theorem weight_class_order:
  assumes "lc_weight a = None" "lc_weight b = None" "plain_host a" "plain_host b"
    and "path_class (unwrap_or [] (lc_path b)) < path_class (unwrap_or [] (lc_path a))"
  shows "get_weight b < get_weight a"
proof -
  have h: "unat (host_weight (lc_host b)) \<le> 128" using assms(4) by (rule unat_host_weight_plain)
  have "unat (path_weight (unwrap_or [] (lc_path b))) + 128 < unat (path_weight (unwrap_or [] (lc_path a)))"
    using assms(5) by (auto simp: unat_path_weight path_class_def min_def split: if_splits)
  with h have "unat (get_weight b) < unat (get_weight a)"
    using assms(1-4) by (simp add: unat_get_weight)
  then show ?thesis by (simp add: word_less_nat_alt)
qed

theorem weight_class_order_witness:
  "get_weight (sample_location_conf\<lparr>lc_host := Some ''a.com,b.com''\<rparr>)
     < get_weight (sample_location_conf\<lparr>lc_path := Some ''=/a''\<rparr>)"
  by (rule weight_class_order) (simp_all add: sample_location_conf_def plain_host_def path_class_def starts_with_def)

end
