(* ===== verification/Registry.thy ===== *)
theory Registry
  imports Prelude
begin

text \<open>
  The reload contract that locations and upstreams share: the new map is built from the
  configurations one by one, an entry whose running object has the hash key of its
  configuration keeps that object, every other entry gets a new one and is listed as updated,
  and the first construction that fails ends the build.
\<close>

locale registry =
  fixes running :: "string \<Rightarrow> 'item option"
    and key_of :: "'item \<Rightarrow> string"
    and conf_key :: "'conf \<Rightarrow> string"
    and make :: "string \<Rightarrow> 'conf \<Rightarrow> 'err + 'item"
    and build :: "(string, 'conf) hash_map \<Rightarrow> (string, 'item) hash_map \<Rightarrow> string list
       \<Rightarrow> 'err + (string, 'item) hash_map \<times> string list"
  assumes build_Nil: "build [] m upd = Inr (m, upd)"
    and build_kept: "running n = Some x \<Longrightarrow> key_of x = conf_key conf \<Longrightarrow>
      build ((n, conf) # rest) m upd = build rest (map_insert n x m) upd"
    and build_fresh: "\<nexists>x. running n = Some x \<and> key_of x = conf_key conf \<Longrightarrow>
      build ((n, conf) # rest) m upd =
        try_then (make n conf) (\<lambda>x. build rest (map_insert n x m) (upd @ [n]))"
begin

abbreviation unchanged :: "string \<Rightarrow> 'conf \<Rightarrow> bool" where
  "unchanged n conf \<equiv> (\<exists>x. running n = Some x \<and> key_of x = conf_key conf)"

lemma build_Cons_ok:
  assumes "build ((n, conf) # rest) m upd = Inr r"
  obtains (kept) x where "running n = Some x" "key_of x = conf_key conf"
      "build rest (map_insert n x m) upd = Inr r"
  | (fresh) x where "\<not> unchanged n conf" "make n conf = Inr x"
      "build rest (map_insert n x m) (upd @ [n]) = Inr r"
proof (cases "unchanged n conf")
  case True
  then obtain x where "running n = Some x" "key_of x = conf_key conf" by auto
  with assms kept show ?thesis by (simp add: build_kept)
next
  case False
  with assms fresh show ?thesis by (auto simp: build_fresh)
qed

lemma build_keys:
  "build confs m upd = Inr (m', upd') \<Longrightarrow> set (keys_of m') = set (keys_of m) \<union> set (keys_of confs)"
proof (induction confs arbitrary: m upd)
  case Nil
  then show ?case by (simp add: build_Nil keys_of_def)
next
  case (Cons p confs)
  obtain n conf where p: "p = (n, conf)" by (cases p)
  from Cons.prems p have "build ((n, conf) # confs) m upd = Inr (m', upd')" by simp
  then show ?case
  proof (cases rule: build_Cons_ok)
    case (kept x)
    from Cons.IH[OF kept(3)] show ?thesis by (simp add: p)
  next
    case (fresh x)
    from Cons.IH[OF fresh(3)] show ?thesis by (simp add: p)
  qed
qed

lemma build_other:
  "build confs m upd = Inr (m', upd') \<Longrightarrow> k \<notin> set (keys_of confs) \<Longrightarrow> map_of m' k = map_of m k"
proof (induction confs arbitrary: m upd)
  case Nil
  then show ?case by (simp add: build_Nil)
next
  case (Cons p confs)
  obtain n conf where p: "p = (n, conf)" by (cases p)
  from Cons.prems(2) p have ne: "k \<noteq> n" "k \<notin> set (keys_of confs)" by (auto simp: keys_of_def)
  from Cons.prems p have "build ((n, conf) # confs) m upd = Inr (m', upd')" by simp
  then show ?case
    by (cases rule: build_Cons_ok) (use ne in \<open>auto dest!: Cons.IH\<close>)
qed

lemma build_lookup:
  "build confs m upd = Inr (m', upd') \<Longrightarrow> wf_map confs \<Longrightarrow> (k, conf) \<in> set confs \<Longrightarrow>
     if unchanged k conf then map_of m' k = running k
     else \<exists>x. make k conf = Inr x \<and> map_of m' k = Some x"
proof (induction confs arbitrary: m upd)
  case Nil
  then show ?case by simp
next
  case (Cons p confs)
  obtain n c where p: "p = (n, c)" by (cases p)
  from Cons.prems(2) p have wf: "wf_map confs" and new: "n \<notin> set (keys_of confs)"
    by (auto simp: wf_map_def keys_of_def)
  from Cons.prems p have b: "build ((n, c) # confs) m upd = Inr (m', upd')" by simp
  show ?case
  proof (cases "(k, conf) = (n, c)")
    case True
    from b show ?thesis
    proof (cases rule: build_Cons_ok)
      case (kept x)
      with build_other[OF kept(3) new] True show ?thesis by auto
    next
      case (fresh x)
      with build_other[OF fresh(3) new] True show ?thesis by auto
    qed
  next
    case False
    with Cons.prems(3) p have k: "(k, conf) \<in> set confs" by auto
    from b show ?thesis
      by (cases rule: build_Cons_ok) (use Cons.IH wf k in blast)+
  qed
qed

lemma build_updated:
  "build confs m upd = Inr (m', upd') \<Longrightarrow>
     upd' = upd @ map fst (filter (\<lambda>(n, conf). \<not> unchanged n conf) confs)"
proof (induction confs arbitrary: m upd)
  case Nil
  then show ?case by (simp add: build_Nil)
next
  case (Cons p confs)
  obtain n conf where p: "p = (n, conf)" by (cases p)
  from Cons.prems p have "build ((n, conf) # confs) m upd = Inr (m', upd')" by simp
  then show ?case
  proof (cases rule: build_Cons_ok)
    case (kept x)
    from Cons.IH[OF kept(3)] kept(1,2) show ?thesis by (simp add: p)
  next
    case (fresh x)
    from Cons.IH[OF fresh(3)] fresh(1) show ?thesis by (simp add: p)
  qed
qed

lemma updated_iff:
  "build confs m [] = Inr (m', upd) \<Longrightarrow> wf_map confs \<Longrightarrow> (k, conf) \<in> set confs \<Longrightarrow>
     k \<in> set upd \<longleftrightarrow> \<not> unchanged k conf"
proof -
  assume b: "build confs m [] = Inr (m', upd)" and wf: "wf_map confs" and k: "(k, conf) \<in> set confs"
  from wf k have u: "(k, c) \<in> set confs \<Longrightarrow> c = conf" for c
    by (metis map_of_eq_Some_iff_wf option.inject)
  have "k \<in> set upd \<longleftrightarrow> (\<exists>c. (k, c) \<in> set confs \<and> \<not> unchanged k c)"
    using build_updated[OF b] by force
  with u k show "k \<in> set upd \<longleftrightarrow> \<not> unchanged k conf" by blast
qed

lemma build_wf:
  "build confs m upd = Inr (m', upd') \<Longrightarrow> wf_map m \<Longrightarrow> wf_map m'"
proof (induction confs arbitrary: m upd)
  case Nil
  then show ?case by (simp add: build_Nil)
next
  case (Cons p confs)
  obtain n conf where p: "p = (n, conf)" by (cases p)
  from Cons.prems p have "build ((n, conf) # confs) m upd = Inr (m', upd')" by simp
  then show ?case
  proof (cases rule: build_Cons_ok)
    case (kept x)
    from Cons.IH[OF kept(3) wf_map_insert[OF Cons.prems(2)]] show ?thesis .
  next
    case (fresh x)
    from Cons.IH[OF fresh(3) wf_map_insert[OF Cons.prems(2)]] show ?thesis .
  qed
qed

text \<open>The build succeeds exactly when every new object can be made.\<close>

lemma build_succeeds:
  "is_ok (build confs m upd) \<longleftrightarrow>
     (\<forall>(n, conf) \<in> set confs. unchanged n conf \<or> is_ok (make n conf))"
proof (induction confs arbitrary: m upd)
  case Nil
  then show ?case by (simp add: build_Nil)
next
  case (Cons p confs)
  obtain n conf where p: "p = (n, conf)" by (cases p)
  show ?case
  proof (cases "unchanged n conf")
    case True
    then obtain x where "running n = Some x" "key_of x = conf_key conf" by auto
    then show ?thesis using True Cons.IH by (simp add: p build_kept)
  next
    case False
    then have b: "build ((n, conf) # confs) m upd =
        try_then (make n conf) (\<lambda>x. build confs (map_insert n x m) (upd @ [n]))"
      by (simp add: build_fresh)
    show ?thesis using False Cons.IH by (cases "make n conf") (simp_all add: p b)
  qed
qed

end

text \<open>
  When a new object carries the key of its configuration, a built map implements its
  configurations: forgetting everything but the keys gives the keys of the configurations.
\<close>

locale keyed_registry = registry +
  assumes make_key: "make n conf = Inr x \<Longrightarrow> key_of x = conf_key conf"
begin

lemma build_refines:
  assumes b: "build confs [] [] = Inr (m, upd)" and wf: "wf_map confs"
  shows "map_option key_of (map_of m n) = map_option conf_key (map_of confs n)"
proof (cases "map_of confs n")
  case None
  then have "n \<notin> set (keys_of confs)" by (simp add: keys_of_def map_of_eq_None_iff)
  with build_other[OF b] None show ?thesis by simp
next
  case (Some conf)
  then have c: "(n, conf) \<in> set confs" by (rule map_of_SomeD)
  from build_lookup[OF b wf c] make_key Some show ?thesis by (auto split: if_splits)
qed

end

end
