(* ===== verification/Ctx.thy ===== *)
theory Ctx
  imports Http_Types
begin

text \<open>
  \<open>pingap-core/src/ctx.rs\<close>: the state of one request/response cycle. The record keeps the
  fields of \<open>Ctx\<close> under their names, with the prefix \<open>ctx_\<close> where other structs of the
  program use the same name; the tracing handles of the optional feature are left out. The
  operations append a named value to a log buffer, collect variables and plugin times, and
  build the \<open>Server-Timing\<close> header and the cache key.
\<close>

record compression_stat =
  in_bytes :: nat
  out_bytes :: nat
  stat_duration :: duration

record ctx =
  connection_id :: nat
  ctx_processing :: i32
  ctx_accepted :: u64
  location_processing :: i32
  location_accepted :: u64
  created_at :: nat
  tls_version :: "string option"
  tls_cipher :: "string option"
  tls_handshake_time :: "nat option"
  ctx_status :: "nat option"
  connection_time :: nat
  connection_reused :: bool
  ctx_location :: string
  upstream_address :: string
  client_ip :: "string option"
  remote_port :: "nat option"
  remote_addr :: "string option"
  server_port :: "nat option"
  server_addr :: "string option"
  guard :: "(string \<times> string) option"
  ctx_request_id :: "string option"
  cache_namespace :: "string option"
  cache_keys :: "string list option"
  check_cache_control :: bool
  cache_lookup_time :: "nat option"
  cache_lock_time :: "nat option"
  cache_max_ttl :: "duration option"
  ctx_upstream :: string
  upstream_reused :: bool
  upstream_processing :: "i32 option"
  upstream_connect_time :: "nat option"
  upstream_connected :: "i32 option"
  upstream_tcp_connect_time :: "nat option"
  upstream_tls_handshake_time :: "nat option"
  upstream_processing_time :: "nat option"
  upstream_response_time :: "nat option"
  upstream_connection_time :: "nat option"
  payload_size :: nat
  ctx_compression_stat :: "compression_stat option"
  modify_response_body :: "(string \<Rightarrow> string) option"
  modify_upstream_response_body :: "(string \<Rightarrow> string) option"
  response_body :: "string option"
  cache_reading :: "nat option"
  cache_writing :: "nat option"
  variables :: "(string, string) hash_map option"
  plugin_processing_times :: "(string \<times> nat) list option"

definition new_ctx :: "sys_env \<Rightarrow> ctx" where
  "new_ctx env = \<lparr>
     connection_id = 0, ctx_processing = 0, ctx_accepted = 0, location_processing = 0,
     location_accepted = 0, created_at = sys_now_ms env, tls_version = None, tls_cipher = None,
     tls_handshake_time = None, ctx_status = None, connection_time = 0,
     connection_reused = False, ctx_location = [], upstream_address = [], client_ip = None,
     remote_port = None, remote_addr = None, server_port = None, server_addr = None,
     guard = None, ctx_request_id = None, cache_namespace = None, cache_keys = None,
     check_cache_control = False, cache_lookup_time = None, cache_lock_time = None,
     cache_max_ttl = None, ctx_upstream = [], upstream_reused = False,
     upstream_processing = None, upstream_connect_time = None, upstream_connected = None,
     upstream_tcp_connect_time = None, upstream_tls_handshake_time = None,
     upstream_processing_time = None, upstream_response_time = None,
     upstream_connection_time = None, payload_size = 0, ctx_compression_stat = None,
     modify_response_body = None, modify_upstream_response_body = None,
     response_body = None, cache_reading = None, cache_writing = None, variables = None,
     plugin_processing_times = None \<rparr>"

section \<open>Variables and plugin times\<close>

definition add_variable :: "string \<Rightarrow> string \<Rightarrow> ctx \<Rightarrow> ctx" where
  "add_variable key value c =
     (let k = CHR ''$'' # key in
      case variables c of
        Some vs \<Rightarrow> c\<lparr>variables := Some (map_insert k value vs)\<rparr>
      | None \<Rightarrow> c\<lparr>variables := Some (map_insert k value [])\<rparr>)"

definition get_variable :: "ctx \<Rightarrow> string \<Rightarrow> string option" where
  "get_variable c key = (case variables c of None \<Rightarrow> None | Some vs \<Rightarrow> map_of vs key)"

definition add_plugin_processing_time :: "string \<Rightarrow> nat \<Rightarrow> ctx \<Rightarrow> ctx" where
  "add_plugin_processing_time name time c =
     (case plugin_processing_times c of
        Some ts \<Rightarrow> c\<lparr>plugin_processing_times := Some (ts @ [(name, time)])\<rparr>
      | None \<Rightarrow> c\<lparr>plugin_processing_times := Some [(name, time)]\<rparr>)"

section \<open>Durations for people\<close>

definition SECOND :: nat where "SECOND = 1000"
definition MINUTE :: nat where "MINUTE = 60 * SECOND"
definition HOUR :: nat where "HOUR = 60 * MINUTE"
definition ONE_HOUR_MS :: nat where "ONE_HOUR_MS = 60 * 60 * 1000"

lemmas duration_units = SECOND_def MINUTE_def HOUR_def ONE_HOUR_MS_def

definition tenth :: "nat \<Rightarrow> string" where
  "tenth v = (if v \<noteq> 0 then ''.'' @ show_nat v else [])"

definition format_duration :: "string \<Rightarrow> nat \<Rightarrow> string" where
  "format_duration buf ms =
     (if ms \<ge> HOUR then buf @ show_nat (ms div HOUR) @ tenth (ms mod HOUR * 10 div HOUR) @ ''h''
      else if ms \<ge> MINUTE then
        buf @ show_nat (ms div MINUTE) @ tenth (ms mod MINUTE * 10 div MINUTE) @ ''m''
      else if ms \<ge> SECOND then
        buf @ show_nat (ms div SECOND) @ tenth (ms mod SECOND div 100) @ ''s''
      else buf @ show_nat ms @ ''ms'')"

section \<open>Timings that are plausible\<close>

definition under_one_hour :: "nat option \<Rightarrow> nat option" where
  "under_one_hour t = (case t of Some v \<Rightarrow> if v < ONE_HOUR_MS then Some v else None | None \<Rightarrow> None)"

definition get_upstream_response_time :: "ctx \<Rightarrow> nat option" where
  "get_upstream_response_time c = under_one_hour (upstream_response_time c)"

definition get_upstream_connect_time :: "ctx \<Rightarrow> nat option" where
  "get_upstream_connect_time c = under_one_hour (upstream_connect_time c)"

definition get_upstream_processing_time :: "ctx \<Rightarrow> nat option" where
  "get_upstream_processing_time c = under_one_hour (upstream_processing_time c)"

definition append_value :: "sys_env \<Rightarrow> ctx \<Rightarrow> string \<Rightarrow> string \<Rightarrow> string" where
  "append_value env c buf key = (
      if key = ''connection_id'' then buf @ show_nat (connection_id c) else
      if key = ''upstream_reused'' then buf @ (if upstream_reused c then ''true'' else ''false'') else
      if key = ''upstream_addr'' then buf @ upstream_address c else
      if key = ''processing'' then buf @ show_int (sint (ctx_processing c)) else
      if key = ''upstream_connect_time'' then (case get_upstream_connect_time c of None \<Rightarrow> buf | Some ms \<Rightarrow> buf @ show_nat ms) else
      if key = ''upstream_connect_time_human'' then (case get_upstream_connect_time c of None \<Rightarrow> buf | Some ms \<Rightarrow> format_duration buf ms) else
      if key = ''upstream_connected'' then (case upstream_connected c of None \<Rightarrow> buf | Some v \<Rightarrow> buf @ show_int (sint v)) else
      if key = ''upstream_processing_time'' then (case get_upstream_processing_time c of None \<Rightarrow> buf | Some ms \<Rightarrow> buf @ show_nat ms) else
      if key = ''upstream_processing_time_human'' then (case get_upstream_processing_time c of None \<Rightarrow> buf | Some ms \<Rightarrow> format_duration buf ms) else
      if key = ''upstream_response_time'' then (case get_upstream_response_time c of None \<Rightarrow> buf | Some ms \<Rightarrow> buf @ show_nat ms) else
      if key = ''upstream_response_time_human'' then (case get_upstream_response_time c of None \<Rightarrow> buf | Some ms \<Rightarrow> format_duration buf ms) else
      if key = ''upstream_tcp_connect_time'' then (case upstream_tcp_connect_time c of None \<Rightarrow> buf | Some ms \<Rightarrow> buf @ show_nat ms) else
      if key = ''upstream_tcp_connect_time_human'' then (case upstream_tcp_connect_time c of None \<Rightarrow> buf | Some ms \<Rightarrow> format_duration buf ms) else
      if key = ''upstream_tls_handshake_time'' then (case upstream_tls_handshake_time c of None \<Rightarrow> buf | Some ms \<Rightarrow> buf @ show_nat ms) else
      if key = ''upstream_tls_handshake_time_human'' then (case upstream_tls_handshake_time c of None \<Rightarrow> buf | Some ms \<Rightarrow> format_duration buf ms) else
      if key = ''upstream_connection_time'' then (case upstream_connection_time c of None \<Rightarrow> buf | Some ms \<Rightarrow> buf @ show_nat ms) else
      if key = ''upstream_connection_time_human'' then (case upstream_connection_time c of None \<Rightarrow> buf | Some ms \<Rightarrow> format_duration buf ms) else
      if key = ''location'' then (if ctx_location c \<noteq> [] then buf @ ctx_location c else buf) else
      if key = ''connection_time'' then buf @ show_nat (connection_time c) else
      if key = ''connection_time_human'' then format_duration buf (connection_time c) else
      if key = ''connection_reused'' then buf @ (if connection_reused c then ''true'' else ''false'') else
      if key = ''tls_version'' then (case tls_version c of None \<Rightarrow> buf | Some v \<Rightarrow> buf @ v) else
      if key = ''tls_cipher'' then (case tls_cipher c of None \<Rightarrow> buf | Some v \<Rightarrow> buf @ v) else
      if key = ''tls_handshake_time'' then (case tls_handshake_time c of None \<Rightarrow> buf | Some ms \<Rightarrow> buf @ show_nat ms) else
      if key = ''tls_handshake_time_human'' then (case tls_handshake_time c of None \<Rightarrow> buf | Some ms \<Rightarrow> format_duration buf ms) else
      if key = ''compression_time'' then (case ctx_compression_stat c of None \<Rightarrow> buf
        | Some s \<Rightarrow> buf @ show_nat (as_millis (stat_duration s) mod 2 ^ 64)) else
      if key = ''compression_time_human'' then (case ctx_compression_stat c of None \<Rightarrow> buf
        | Some s \<Rightarrow> format_duration buf (as_millis (stat_duration s) mod 2 ^ 64)) else
      if key = ''compression_ratio'' then (case ctx_compression_stat c of None \<Rightarrow> buf
        | Some s \<Rightarrow> buf @ fmt_ratio env (in_bytes s) (out_bytes s)) else
      if key = ''cache_lookup_time'' then (case cache_lookup_time c of None \<Rightarrow> buf | Some ms \<Rightarrow> buf @ show_nat ms) else
      if key = ''cache_lookup_time_human'' then (case cache_lookup_time c of None \<Rightarrow> buf | Some ms \<Rightarrow> format_duration buf ms) else
      if key = ''cache_lock_time'' then (case cache_lock_time c of None \<Rightarrow> buf | Some ms \<Rightarrow> buf @ show_nat ms) else
      if key = ''cache_lock_time_human'' then (case cache_lock_time c of None \<Rightarrow> buf | Some ms \<Rightarrow> format_duration buf ms) else
      if key = ''service_time'' then buf @ show_nat (sub_u64 (sys_now_ms env) (created_at c)) else
      if key = ''service_time_human'' then format_duration buf (sub_u64 (sys_now_ms env) (created_at c)) else
      buf)"

section \<open>Server timing and cache key\<close>

definition dur :: "string \<Rightarrow> nat \<Rightarrow> string" where
  "dur name t = name @ '';dur='' @ show_nat t"

definition time_entry :: "string \<Rightarrow> nat option \<Rightarrow> string list" where
  "time_entry name t = (case t of None \<Rightarrow> [] | Some v \<Rightarrow> [dur name v])"

definition time_total :: "string \<Rightarrow> nat option \<Rightarrow> nat option \<Rightarrow> string list" where
  "time_total name a b =
     (if a = None \<and> b = None then []
      else [dur name ((unwrap_or 0 a + unwrap_or 0 b) mod 2 ^ 64)])"

text \<open>The plugin times are \<open>u32\<close> and their sum is one too.\<close>

definition plugin_entries :: "(string \<times> nat) list option \<Rightarrow> string list" where
  "plugin_entries ts =
     (case ts of None \<Rightarrow> []
      | Some ts \<Rightarrow> map (\<lambda>(name, t). dur (''plugin.'' @ name) t) ts
          @ [dur ''plugin'' (sum_list (map snd ts) mod 2 ^ 32)])"

definition server_timings :: "sys_env \<Rightarrow> ctx \<Rightarrow> string list" where
  "server_timings env c =
     time_entry ''upstream.connect'' (get_upstream_connect_time c)
     @ time_entry ''upstream.processing'' (get_upstream_processing_time c)
     @ time_total ''upstream'' (get_upstream_connect_time c) (get_upstream_processing_time c)
     @ time_entry ''cache.lookup'' (cache_lookup_time c)
     @ time_entry ''cache.lock'' (cache_lock_time c)
     @ time_total ''cache'' (cache_lookup_time c) (cache_lock_time c)
     @ plugin_entries (plugin_processing_times c)
     @ [dur ''total'' (sub_u64 (sys_now_ms env) (created_at c))]"

definition generate_server_timing :: "sys_env \<Rightarrow> ctx \<Rightarrow> string" where
  "generate_server_timing env c = join '', '' (server_timings env c)"

text \<open>The cache key is the pair of namespace and primary key; the user tag is empty.\<close>

definition get_cache_key :: "ctx \<Rightarrow> string \<Rightarrow> uri \<Rightarrow> string \<times> string" where
  "get_cache_key c method u =
     (unwrap_or [] (cache_namespace c),
      (case cache_keys c of
         Some ks \<Rightarrow> join '':'' ks @ '':'' @ method @ '':'' @ uri_text u
       | None \<Rightarrow> method @ '':'' @ uri_text u))"

section \<open>Lemmas\<close>

lemma get_variable_add [simp]:
  "get_variable (add_variable k v c) j =
     (if j = CHR ''$'' # k then Some v else get_variable c j)"
  by (simp add: add_variable_def get_variable_def Let_def split: option.splits)

lemma add_variable_frame [simp]:
  "ctx_location (add_variable k v c) = ctx_location c"
  "ctx_upstream (add_variable k v c) = ctx_upstream c"
  "ctx_status (add_variable k v c) = ctx_status c"
  "ctx_processing (add_variable k v c) = ctx_processing c"
  "ctx_accepted (add_variable k v c) = ctx_accepted c"
  by (simp_all add: add_variable_def Let_def split: option.splits)

lemma plugin_time_frame [simp]:
  "ctx_location (add_plugin_processing_time n t c) = ctx_location c"
  "ctx_upstream (add_plugin_processing_time n t c) = ctx_upstream c"
  "ctx_status (add_plugin_processing_time n t c) = ctx_status c"
  "variables (add_plugin_processing_time n t c) = variables c"
  by (simp_all add: add_plugin_processing_time_def split: option.splits)

lemma format_duration_appends: "format_duration buf ms = buf @ format_duration [] ms"
  by (simp add: format_duration_def)

lemma appends_if:
  "x = buf @ x' \<Longrightarrow> y = buf @ y' \<Longrightarrow> (if b then x else y) = buf @ (if b then x' else y')"
  by simp

lemma appends_case:
  "n = buf @ n' \<Longrightarrow> (\<And>v. s v = buf @ s' v) \<Longrightarrow>
     (case t of None \<Rightarrow> n | Some v \<Rightarrow> s v) = buf @ (case t of None \<Rightarrow> n' | Some v \<Rightarrow> s' v)"
  by (cases t) simp_all

lemma under_one_hour_bound: "under_one_hour t = Some v \<Longrightarrow> v < 3600000 \<and> t = Some v"
  by (auto simp: under_one_hour_def ONE_HOUR_MS_def split: option.splits if_splits)

lemma tenths_of: "0 < u \<Longrightarrow> 10 * (ms div u) + ms mod u * 10 div u = ms * 10 div (u::nat)"
proof -
  assume u: "0 < u"
  have "ms * 10 = ms mod u * 10 + (10 * (ms div u)) * u"
    by (metis (no_types, lifting) add.commute distrib_right div_mult_mod_eq mult.commute mult.left_commute)
  then show ?thesis using u by (metis add.commute div_mult_self1 gr_implies_not0)
qed

lemma tenth_digit: "0 < u \<Longrightarrow> ms mod u * 10 div u < (10::nat)"
  by (simp add: div_less_iff_less_mult)

section \<open>Properties\<close>

text \<open>
  The durations of the access log are exact: below a second the milliseconds, above it the
  whole number of tenths of the largest unit that fits, rounded down, with the tenths digit
  left out when it is zero.
\<close>

theorem format_duration_tenths:
  "format_duration [] ms =
     (if ms < SECOND then show_nat ms @ ''ms''
      else let (u, s) = (if ms \<ge> HOUR then (HOUR, ''h'') else if ms \<ge> MINUTE then (MINUTE, ''m'') else (SECOND, ''s''));
               t = ms * 10 div u
           in show_nat (t div 10) @ tenth (t mod 10) @ s)"
proof -
  have split: "ms * 10 div u div 10 = ms div u \<and> ms * 10 div u mod 10 = ms mod u * 10 div u" if "0 < u" for u :: nat
    using tenths_of[OF that, of ms] tenth_digit[OF that, of ms]
    by (metis add.commute div_mult_self2 div_less mod_less mod_mult_self2 add_cancel_right_left zero_neq_numeral)
  have sec: "ms mod SECOND div 100 = ms mod SECOND * 10 div SECOND"
    by (simp add: SECOND_def)
  have u: "0 < HOUR" "0 < MINUTE" "0 < SECOND" by (simp_all add: duration_units)
  show ?thesis
    using split[OF u(1)] split[OF u(2)] split[OF u(3)]
    by (auto simp: format_duration_def sec Let_def) (simp_all add: duration_units)
qed

text \<open>
  A log value is appended: whatever the key, the buffer written so far is kept and what is
  added depends on the context alone.
\<close>

theorem append_value_appends:
  "append_value env c buf key = buf @ append_value env c [] key"
  unfolding append_value_def
  by (intro appends_if appends_case) (simp_all add: format_duration_appends[of buf])

text \<open>
  Cache keys do not collide: with the same context, requests with the same key have the same
  method and the same URI. A method has no colon.
\<close>

theorem get_cache_key_inj:
  assumes "get_cache_key c m u = get_cache_key c m' u'" "CHR '':'' \<notin> set m" "CHR '':'' \<notin> set m'"
  shows "m = m' \<and> uri_text u = uri_text u'"
proof -
  from assms(1) have "m @ CHR '':'' # uri_text u = m' @ CHR '':'' # uri_text u'"
    by (auto simp: get_cache_key_def split: option.splits)
  then have "split_once CHR '':'' (m @ CHR '':'' # uri_text u) = split_once CHR '':'' (m' @ CHR '':'' # uri_text u')"
    by simp
  with assms(2,3) show ?thesis by (simp add: split_once_append)
qed

theorem get_cache_key_inj_witness:
  "get_cache_key (new_ctx sample_env) ''GET'' (req_uri (sample_request ''a.com'' ''/x''))
     \<noteq> get_cache_key (new_ctx sample_env) ''GET'' (req_uri (sample_request ''a.com'' ''/y''))"
  using get_cache_key_inj[of "new_ctx sample_env" "''GET''" "req_uri (sample_request ''a.com'' ''/x'')"
      "''GET''" "req_uri (sample_request ''a.com'' ''/y'')"]
  by (auto simp: sample_request_def)

end
