(* ===== verification/Http_Header.thy ===== *)
theory Http_Header
  imports Ctx
begin

text \<open>
  \<open>pingap-core/src/http_header.rs\<close>: reading the host, the client address, cookies and query
  parameters of a request, parsing configured headers, expanding the dynamic header values
  (\<open>$host\<close>, \<open>$scheme\<close>, \<open>$http_...\<close>, \<open>:key\<close>, \dots) and removing a query parameter. The
  \<open>url\<close> and \<open>urlencoding\<close> crates are the arguments of \<open>convert_query_map\<close>.
\<close>

datatype header_error =
    InvalidHeaderValue string string
  | InvalidHeaderName string string

definition to_str_or_default :: "http_lib \<Rightarrow> string \<Rightarrow> string" where
  "to_str_or_default lib v = unwrap_or [] (hvalue_to_str lib v)"

definition get_header :: "session \<Rightarrow> string \<Rightarrow> string option" where
  "get_header s k = hdr_get (req_headers (req_header s)) k"

definition get_host :: "http_lib \<Rightarrow> request_header \<Rightarrow> string option" where
  "get_host lib h =
     (case uri_host (req_uri h) of
        Some host \<Rightarrow> Some host
      | None \<Rightarrow>
        (case hdr_get (req_headers h) ''host'' of
           None \<Rightarrow> None
         | Some v \<Rightarrow>
           (case hvalue_to_str lib v of
              None \<Rightarrow> None
            | Some host \<Rightarrow> Some (hd (split_on CHR '':'' host)))))"

section \<open>Configured headers\<close>

definition convert_header :: "http_lib \<Rightarrow> string \<Rightarrow> header_error + http_header option" where
  "convert_header lib value =
     (case split_once CHR '':'' value of
        None \<Rightarrow> Inr None
      | Some (k, v) \<Rightarrow>
        try_then (map_err (InvalidHeaderName k) (hname_from_str lib (trim k))) (\<lambda>name.
        try_then (map_err (InvalidHeaderValue v) (hvalue_from_str lib (trim v))) (\<lambda>val.
        Inr (Some (name, val)))))"

fun convert_headers :: "http_lib \<Rightarrow> string list \<Rightarrow> header_error + http_header list" where
  "convert_headers lib [] = Inr []"
| "convert_headers lib (x # xs) =
     try_then (convert_header lib x) (\<lambda>item.
     try_then (convert_headers lib xs) (\<lambda>arr.
     Inr (case item of None \<Rightarrow> arr | Some h \<Rightarrow> h # arr)))"

section \<open>Dynamic header values\<close>

definition to_header_value :: "http_lib \<Rightarrow> string \<Rightarrow> string option" where
  "to_header_value lib s = (case hvalue_from_str lib s of Inl _ \<Rightarrow> None | Inr v \<Rightarrow> Some v)"

definition HTTP_HEADER_PREFIX :: string where
  "HTTP_HEADER_PREFIX = ''$http_''"

definition handle_http_header :: "string \<Rightarrow> session \<Rightarrow> string option" where
  "handle_http_header buf s =
     Option.bind (from_utf8 (drop (length HTTP_HEADER_PREFIX) buf)) (get_header s)"

definition handle_env_var :: "http_lib \<Rightarrow> sys_env \<Rightarrow> string \<Rightarrow> string option" where
  "handle_env_var lib env buf =
     Option.bind (from_utf8 (drop 1 buf)) (\<lambda>name.
     Option.bind (env_var env name) (to_header_value lib))"

definition handle_context_value :: "http_lib \<Rightarrow> sys_env \<Rightarrow> string \<Rightarrow> ctx \<Rightarrow> string option" where
  "handle_context_value lib env buf c =
     Option.bind (from_utf8 (drop 1 buf)) (\<lambda>key.
     let value = append_value env c [] key in
     if value \<noteq> [] then hvalue_from_bytes lib value else None)"

definition handle_special_headers ::
  "http_lib \<Rightarrow> sys_env \<Rightarrow> string \<Rightarrow> session \<Rightarrow> ctx \<Rightarrow> string option" where
  "handle_special_headers lib env buf s c =
     (if starts_with buf HTTP_HEADER_PREFIX then handle_http_header buf s
      else if starts_with buf ''$'' then handle_env_var lib env buf
      else if starts_with buf '':'' then handle_context_value lib env buf c
      else None)"

definition forwarded_for :: "http_lib \<Rightarrow> session \<Rightarrow> string \<Rightarrow> string" where
  "forwarded_for lib s addr =
     (case get_header s ''x-forwarded-for'' of
        Some existing \<Rightarrow> to_str_or_default lib existing @ '', '' @ addr
      | None \<Rightarrow> addr)"

definition convert_header_value ::
  "http_lib \<Rightarrow> sys_env \<Rightarrow> string \<Rightarrow> session \<Rightarrow> ctx \<Rightarrow> string option" where
  "convert_header_value lib env buf s c =
     (if buf = [] \<or> \<not> (hd buf = CHR ''$'' \<or> hd buf = CHR '':'') then None
      else if buf = ''$host'' then Option.bind (get_host lib (req_header s)) (to_header_value lib)
      else if buf = ''$scheme'' then
        Some (if tls_version c \<noteq> None then ''https'' else ''http'')
      else if buf = ''$hostname'' then to_header_value lib (sys_hostname env)
      else if buf = ''$remote_addr'' then Option.bind (remote_addr c) (to_header_value lib)
      else if buf = ''$remote_port'' then
        Option.bind (remote_port c) (\<lambda>p. to_header_value lib (show_nat p))
      else if buf = ''$server_addr'' then Option.bind (server_addr c) (to_header_value lib)
      else if buf = ''$server_port'' then
        Option.bind (server_port c) (\<lambda>p. to_header_value lib (show_nat p))
      else if buf = ''$upstream_addr'' then
        (if upstream_address c \<noteq> [] then to_header_value lib (upstream_address c) else None)
      else if buf = ''$proxy_add_x_forwarded_for'' then
        Option.bind (remote_addr c) (\<lambda>addr. to_header_value lib (forwarded_for lib s addr))
      else handle_special_headers lib env buf s c)"

section \<open>The client\<close>

definition get_remote_addr :: "session \<Rightarrow> (string \<times> nat) option" where
  "get_remote_addr s = client_addr s"

definition get_client_ip :: "http_lib \<Rightarrow> session \<Rightarrow> string" where
  "get_client_ip lib s =
     (case get_header s ''x-forwarded-for'' of
        Some v \<Rightarrow> trim (hd (split_on CHR '','' (to_str_or_default lib v)))
      | None \<Rightarrow>
        (case get_header s ''x-real-ip'' of
           Some v \<Rightarrow> to_str_or_default lib v
         | None \<Rightarrow> (case get_remote_addr s of Some (addr, _) \<Rightarrow> addr | None \<Rightarrow> [])))"

section \<open>Headers, cookies and queries by name\<close>

definition get_req_header_value :: "http_lib \<Rightarrow> request_header \<Rightarrow> string \<Rightarrow> string option" where
  "get_req_header_value lib h key =
     (case hdr_get (req_headers h) key of None \<Rightarrow> None | Some v \<Rightarrow> hvalue_to_str lib v)"

text \<open>The loop over \<open>name=value\<close> items that cookies and queries share.\<close>

fun find_param :: "string \<Rightarrow> string list \<Rightarrow> string option" where
  "find_param name [] = None"
| "find_param name (item # items) =
     (case split_once CHR ''='' item of
        Some (k, v) \<Rightarrow> if k = name then Some (trim v) else find_param name items
      | None \<Rightarrow> find_param name items)"

definition get_cookie_value :: "http_lib \<Rightarrow> request_header \<Rightarrow> string \<Rightarrow> string option" where
  "get_cookie_value lib h cookie_name =
     (case get_req_header_value lib h ''Cookie'' of
        None \<Rightarrow> None
      | Some v \<Rightarrow> find_param cookie_name (split_on CHR '';'' v))"

definition get_query_value :: "request_header \<Rightarrow> string \<Rightarrow> string option" where
  "get_query_value h name =
     (case uri_query (req_uri h) of
        None \<Rightarrow> None
      | Some q \<Rightarrow> find_param name (split_on CHR ''&'' q))"

definition convert_query_map ::
  "(string \<Rightarrow> string option option) \<Rightarrow> (string \<Rightarrow> string) \<Rightarrow> string \<Rightarrow> (string, string) hash_map" where
  "convert_query_map url_query url_encode value =
     (let value = (if CHR ''?'' \<notin> set value then ''http://host?'' @ value else value) in
      case url_query value of
        None \<Rightarrow> []
      | Some q \<Rightarrow>
        fold (\<lambda>item m. case split_once CHR ''='' item of
                 Some (k, v) \<Rightarrow> map_insert k (url_encode v) m
               | None \<Rightarrow> map_insert item [] m)
          (split_on CHR ''&'' (unwrap_or [] q)) [])"

definition keep_param :: "string \<Rightarrow> string \<Rightarrow> bool" where
  "keep_param name item =
     (case split_once CHR ''='' item of Some (k, _) \<Rightarrow> k \<noteq> name | None \<Rightarrow> item \<noteq> name)"

definition set_uri :: "uri \<Rightarrow> request_header \<Rightarrow> request_header" where
  "set_uri u h = h\<lparr>req_uri := u\<rparr>"

text \<open>
  The pair of the result (\<open>None\<close> on success) and the header afterwards. A kept \<open>k=v\<close> item is
  rebuilt as the item itself.
\<close>

definition remove_query_from_header ::
  "http_lib \<Rightarrow> request_header \<Rightarrow> string \<Rightarrow> string option \<times> request_header" where
  "remove_query_from_header lib h name =
     (case uri_query (req_uri h) of
        None \<Rightarrow> (None, h)
      | Some query \<Rightarrow>
        (let q = join ''&'' (filter (keep_param name) (split_on CHR ''&'' query));
             new_path = (if q \<noteq> [] then uri_path (req_uri h) @ ''?'' @ q else uri_path (req_uri h))
         in case uri_parse lib new_path of
              Inl e \<Rightarrow> (Some e, h)
            | Inr u \<Rightarrow> (None, set_uri u h)))"

section \<open>Lemmas\<close>

lemma convert_headers_ok:
  "convert_headers lib xs = Inr hs \<Longrightarrow>
     hs = List.map_filter (\<lambda>x. case convert_header lib x of Inr h \<Rightarrow> h | Inl _ \<Rightarrow> None) xs"
proof (induction xs arbitrary: hs)
  case Nil
  then show ?case by (simp add: map_filter_def)
next
  case (Cons x xs)
  then show ?case by (auto simp: map_filter_def split: option.splits)
qed

lemma convert_headers_Inr_iff:
  "is_ok (convert_headers lib xs) \<longleftrightarrow> (\<forall>x \<in> set xs. is_ok (convert_header lib x))"
proof (induction xs)
  case Nil
  then show ?case by simp
next
  case (Cons x xs)
  then show ?case
    by (cases "convert_header lib x"; cases "convert_headers lib xs") simp_all
qed

lemma find_param_Some:
  "find_param name items = Some v \<Longrightarrow>
     \<exists>item w. item \<in> set items \<and> split_once CHR ''='' item = Some (name, w) \<and> v = trim w"
  by (induction items) (fastforce split: option.splits if_splits)+

lemma find_param_filter: "find_param name (filter (keep_param name) items) = None"
  by (induction items) (auto simp: keep_param_def split: option.splits)

lemma find_param_keep_other:
  "other \<noteq> name \<Longrightarrow> find_param other (filter (keep_param name) items) = find_param other items"
  by (induction items) (auto simp: keep_param_def split: option.splits)

lemma split_filtered_query:
  "filter P (split_on c q) \<noteq> [] \<Longrightarrow> split_on c (join [c] (filter P (split_on c q))) = filter P (split_on c q)"
  by (rule split_on_join) (auto dest: split_on_parts)

lemma find_param_spaced:
  "\<forall>item \<in> set items. \<exists>r. item = CHR '' '' # r \<Longrightarrow> \<not> starts_with name '' '' \<Longrightarrow> find_param name items = None"
proof (induction items)
  case Nil
  then show ?case by simp
next
  case (Cons item items)
  then obtain r where item: "item = CHR '' '' # r" by auto
  have "fst kv \<noteq> name" if "split_once CHR ''='' item = Some kv" for kv
    using that Cons.prems(2) by (cases kv) (auto simp: item starts_with_def split: option.splits prod.splits)
  with Cons show ?case by (auto split: option.split)
qed

lemma split_spaced_cookies:
  "\<forall>c \<in> set cs. CHR '';'' \<notin> set c \<Longrightarrow> cs \<noteq> [] \<Longrightarrow>
     split_on CHR '';'' (join ''; '' cs) = hd cs # map (Cons CHR '' '') (tl cs)"
proof (induction cs)
  case Nil
  then show ?case by simp
next
  case (Cons c cs)
  show ?case
  proof (cases cs)
    case Nil
    with Cons.prems show ?thesis by (simp add: split_on_no_sep)
  next
    case (Cons d ds)
    have sp: "split_on CHR '';'' (CHR '' '' # s) = (CHR '' '' # hd (split_on CHR '';'' s)) # tl (split_on CHR '';'' s)" for s
      by (cases "split_on CHR '';'' s") simp_all
    show ?thesis using Cons.IH Cons.prems Cons
      by (simp add: join_Cons split_on_append sp)
  qed
qed

section \<open>Properties\<close>

text \<open>What the \<open>http\<close> crate promises of a URI in origin form: its path and query are the parts.\<close>

definition uri_parse_splits :: "http_lib \<Rightarrow> bool" where
  "uri_parse_splits lib \<longleftrightarrow>
     (\<forall>p q u. CHR ''?'' \<notin> set p \<longrightarrow> uri_parse lib (p @ ''?'' @ q) = Inr u \<longrightarrow> uri_path u = p \<and> uri_query u = Some q) \<and>
     (\<forall>p u. CHR ''?'' \<notin> set p \<longrightarrow> uri_parse lib p = Inr u \<longrightarrow> uri_path u = p \<and> uri_query u = None)"

lemma sample_uri_parse_splits: "uri_parse_splits sample_http"
  by (auto simp: uri_parse_splits_def sample_http_def sample_uri_parse_def split_once_append
      split_once_None_iff[THEN iffD2] split: option.splits)

text \<open>
  Removing a query parameter removes exactly that parameter: it is gone, every other
  parameter reads as before, and the path is untouched.
\<close>

theorem remove_query_exact:
  assumes "uri_parse_splits lib" "CHR ''?'' \<notin> set (uri_path (req_uri h))"
    and "remove_query_from_header lib h name = (None, h')"
  shows "get_query_value h' name = None \<and>
    (\<forall>other. other \<noteq> name \<longrightarrow> get_query_value h' other = get_query_value h other) \<and>
    uri_path (req_uri h') = uri_path (req_uri h)"
proof (cases "uri_query (req_uri h)")
  case None
  with assms(3) show ?thesis by (simp add: remove_query_from_header_def get_query_value_def)
next
  case (Some query)
  let ?items = "filter (keep_param name) (split_on CHR ''&'' query)"
  have others: "find_param other ?items = find_param other (split_on CHR ''&'' query)" if "other \<noteq> name" for other
    using that by (rule find_param_keep_other)
  show ?thesis
  proof (cases "join ''&'' ?items = []")
    case True
    with Some assms(3) obtain u where u: "uri_parse lib (uri_path (req_uri h)) = Inr u" "h' = set_uri u h"
      by (cases "uri_parse lib (uri_path (req_uri h))") (simp_all add: remove_query_from_header_def)
    with assms(1,2) have "uri_path u = uri_path (req_uri h)" "uri_query u = None"
      unfolding uri_parse_splits_def by blast+
    moreover have "find_param other ?items = None" for other
    proof (cases "?items = []")
      case False
      with True have "split_on CHR ''&'' [] = ?items" by (metis split_filtered_query)
      then have "?items = [[]]" by simp
      then show ?thesis by simp
    qed simp
    ultimately show ?thesis using u others Some by (simp add: get_query_value_def set_uri_def)
  next
    case False
    then have ne: "?items \<noteq> []" by auto
    from False Some assms(3) obtain u
      where u: "uri_parse lib (uri_path (req_uri h) @ ''?'' @ join ''&'' ?items) = Inr u" "h' = set_uri u h"
      by (cases "uri_parse lib (uri_path (req_uri h) @ ''?'' @ join ''&'' ?items)")
        (simp_all add: remove_query_from_header_def)
    with assms(1,2) have "uri_path u = uri_path (req_uri h)" "uri_query u = Some (join ''&'' ?items)"
      unfolding uri_parse_splits_def by blast+
    with u others Some find_param_filter[of name] split_filtered_query[OF ne]
    show ?thesis by (simp add: get_query_value_def set_uri_def)
  qed
qed

theorem remove_query_exact_witness:
  "get_query_value (snd (remove_query_from_header sample_http
      ((sample_request ''a.com'' ''/x'')\<lparr>req_uri := \<lparr>uri_host = None, uri_path = ''/x'',
         uri_query = Some ''k=1&a=2'', uri_text = ''/x?k=1&a=2''\<rparr>\<rparr>) ''k'')) ''k'' = None"
proof -
  let ?h = "(sample_request ''a.com'' ''/x'')\<lparr>req_uri := \<lparr>uri_host = None, uri_path = ''/x'',
      uri_query = Some ''k=1&a=2'', uri_text = ''/x?k=1&a=2''\<rparr>\<rparr>"
  have "fst (remove_query_from_header sample_http ?h ''k'') = None"
    by (simp add: remove_query_from_header_def keep_param_def sample_http_simps Let_def)
  then obtain h' where "remove_query_from_header sample_http ?h ''k'' = (None, h')"
    by (metis prod.collapse)
  with remove_query_exact[OF sample_uri_parse_splits _ this] show ?thesis by simp
qed

text \<open>
  Only the first cookie of a header can be read. Browsers separate cookies by a semicolon
  and a space; the names after the first keep that space and match nothing.
\<close>

theorem get_cookie_value_first_only:
  assumes "get_req_header_value lib h ''Cookie'' = Some (join ''; '' (first # rest))"
    and "\<forall>c \<in> set (first # rest). CHR '';'' \<notin> set c" "\<not> starts_with name '' ''"
  shows "get_cookie_value lib h name = find_param name [first]"
proof -
  have "find_param name (map (Cons CHR '' '') rest) = None"
    by (rule find_param_spaced) (use assms(3) in auto)
  with assms(1,2) show ?thesis
    by (simp add: get_cookie_value_def split_spaced_cookies split: option.split)
qed

theorem get_cookie_value_first_only_witness:
  "get_cookie_value sample_http
     ((sample_request ''a.com'' ''/x'')\<lparr>req_headers := hdr_insert ''Cookie'' ''a=1; session=2'' no_headers\<rparr>) ''session'' = None"
proof -
  let ?h = "(sample_request ''a.com'' ''/x'')\<lparr>req_headers := hdr_insert ''Cookie'' ''a=1; session=2'' no_headers\<rparr>"
  have "get_req_header_value sample_http ?h ''Cookie'' = Some (join ''; '' [''a=1'', ''session=2''])"
    by (simp add: get_req_header_value_def sample_http_def)
  from get_cookie_value_first_only[OF this, of "''session''"] show ?thesis
    by (simp add: starts_with_def)
qed

end
