(* ===== verification/Location.thy ===== *)
theory Location
  imports Config Registry Http_Header
begin

text \<open>
  \<open>pingap-location\<close>: the locations a server routes to. \<open>regex.rs\<close> and \<open>location.rs\<close> are
  translated whole. The \<open>regex\<close> crate is the record \<open>regex_lib\<close> over an opaque type of
  compiled expressions; \<open>LocationConf::hash_key\<close> (the standard hasher over every field) is
  the field \<open>ll_hash\<close>. The atomic counters of a location are the words of its record, and
  the global \<open>LOCATION_MAP\<close> is passed and returned.
\<close>

record 're regex_lib =
  re_new :: "string \<Rightarrow> string + 're"
  re_capture_names :: "'re \<Rightarrow> string option list"
  re_is_match :: "'re \<Rightarrow> string \<Rightarrow> bool"
  re_captures :: "'re \<Rightarrow> string \<Rightarrow> string option list option"
  re_replace :: "'re \<Rightarrow> string \<Rightarrow> string \<Rightarrow> string"
  re_text :: "'re \<Rightarrow> string"

record 're location_lib =
  ll_http :: http_lib
  ll_re :: "'re regex_lib"
  ll_hash :: "location_conf \<Rightarrow> string"

datatype location_error =
    LocInvalid string
  | LocRegex string string
  | TooManyRequest i32
  | BodyTooLarge nat

section \<open>Regular expressions with named captures\<close>

record 're regex_capture =
  rc_re :: 're
  rc_keys :: "string list"

definition new_regex_capture :: "'re regex_lib \<Rightarrow> string \<Rightarrow> string + 're regex_capture" where
  "new_regex_capture rl value =
     try_then (re_new rl value) (\<lambda>re.
     Inr \<lparr>rc_re = re, rc_keys = map (unwrap_or []) (re_capture_names rl re)\<rparr>)"

definition named_captures :: "string list \<Rightarrow> string option list \<Rightarrow> (string \<times> string) list" where
  "named_captures keys caps =
     List.map_filter (\<lambda>(key, value). if key = [] then None else map_option (Pair key) value)
       (zip keys caps)"

definition captures ::
  "'re regex_lib \<Rightarrow> 're regex_capture \<Rightarrow> string \<Rightarrow> bool \<times> (string \<times> string) list option" where
  "captures rl rc value =
     (if \<not> re_is_match rl (rc_re rc) value then (False, None)
      else case re_captures rl (rc_re rc) value of
             None \<Rightarrow> (True, Some [])
           | Some caps \<Rightarrow> (True, Some (named_captures (rc_keys rc) caps)))"

section \<open>Selectors\<close>

datatype 're path_selector =
    RegexPath "'re regex_capture"
  | PrefixPath string
  | EqualPath string
  | EmptyPath

datatype 're host_selector =
    RegexHost "'re regex_capture"
  | EqualHost string

definition new_path_selector :: "'re regex_lib \<Rightarrow> string \<Rightarrow> location_error + 're path_selector" where
  "new_path_selector rl p =
     (let path = trim p in
      if path = [] then Inr EmptyPath
      else let first = hd path; last = trim (drop 1 path) in
        if first = CHR ''~'' then
          try_then (map_err (LocRegex last) (new_regex_capture rl last)) (\<lambda>re. Inr (RegexPath re))
        else if first = CHR ''='' then Inr (EqualPath last)
        else Inr (PrefixPath path))"

definition new_host_selector :: "'re regex_lib \<Rightarrow> string \<Rightarrow> location_error + 're host_selector" where
  "new_host_selector rl h =
     (let host = trim h in
      if host = [] then Inr (EqualHost host)
      else let first = hd host; last = trim (drop 1 host) in
        if first = CHR ''~'' then
          try_then (map_err (LocRegex last) (new_regex_capture rl last)) (\<lambda>re. Inr (RegexHost re))
        else Inr (EqualHost host))"

section \<open>Locations\<close>

record 're location =
  loc_name :: string
  loc_key :: string
  loc_upstream :: string
  loc_path :: string
  path_selector :: "'re path_selector"
  hosts :: "'re host_selector list"
  reg_rewrite :: "('re \<times> string) option"
  proxy_add_headers :: "http_header list option"
  proxy_set_headers :: "http_header list option"
  loc_plugins :: "string list option"
  accepted :: u64
  processing :: i32
  max_processing :: i32
  grpc_web :: bool
  client_max_body_size :: nat
  enable_reverse_proxy_headers :: bool

definition header_error_text :: "header_error \<Rightarrow> string" where
  "header_error_text e =
     (case e of
        InvalidHeaderValue value src \<Rightarrow> ''Invalid header value: '' @ value @ '' - '' @ src
      | InvalidHeaderName value src \<Rightarrow> ''Invalid header name: '' @ value @ '' - '' @ src)"

definition format_headers ::
  "http_lib \<Rightarrow> string list option \<Rightarrow> location_error + http_header list option" where
  "format_headers lib values =
     (case values of
        Some hs \<Rightarrow>
          try_then (map_err (\<lambda>e. LocInvalid (header_error_text e)) (convert_headers lib hs))
            (\<lambda>arr. Inr (Some arr))
      | None \<Rightarrow> Inr None)"

definition get_content_length :: "http_lib \<Rightarrow> request_header \<Rightarrow> nat option" where
  "get_content_length lib h =
     (case hdr_get (req_headers h) ''content-length'' of
        Some v \<Rightarrow> parse_usize (to_str_or_default lib v)
      | None \<Rightarrow> None)"

definition parse_rewrite :: "'re regex_lib \<Rightarrow> string \<Rightarrow> ('re \<times> string) option" where
  "parse_rewrite rl value =
     (let arr0 = split_on CHR '' '' value;
          arr = (if length arr0 = 1 \<and> contains_str (arr0 ! 0) ''$'' then [''.*'', arr0 ! 0] else arr0);
          v = (if length arr = 2 then arr ! 1 else [])
      in case re_new rl (arr ! 0) of Inr re \<Rightarrow> Some (re, v) | Inl _ \<Rightarrow> None)"

fun new_hosts :: "'re regex_lib \<Rightarrow> string list \<Rightarrow> location_error + 're host_selector list" where
  "new_hosts rl [] = Inr []"
| "new_hosts rl (item # items) =
     (let host = trim item in
      if host = [] then new_hosts rl items
      else try_then (new_host_selector rl host) (\<lambda>h.
           try_then (new_hosts rl items) (\<lambda>hs. Inr (h # hs))))"

definition new_location ::
  "'re location_lib \<Rightarrow> string \<Rightarrow> location_conf \<Rightarrow> location_error + 're location" where
  "new_location lib name conf =
     (if name = [] then Inl (LocInvalid ''Name is required'')
      else
      try_then (new_hosts (ll_re lib) (split_on CHR '','' (unwrap_or [] (lc_host conf)))) (\<lambda>hs.
      let path = unwrap_or [] (lc_path conf) in
      try_then (new_path_selector (ll_re lib) path) (\<lambda>sel.
      try_then (format_headers (ll_http lib) (lc_proxy_add_headers conf)) (\<lambda>add.
      try_then (format_headers (ll_http lib) (lc_proxy_set_headers conf)) (\<lambda>set.
      Inr \<lparr>loc_name = name, loc_key = ll_hash lib conf,
           loc_upstream = unwrap_or [] (lc_upstream conf), loc_path = path,
           path_selector = sel, hosts = hs,
           reg_rewrite = (case lc_rewrite conf of None \<Rightarrow> None | Some v \<Rightarrow> parse_rewrite (ll_re lib) v),
           proxy_add_headers = add, proxy_set_headers = set, loc_plugins = lc_plugins conf,
           accepted = 0, processing = 0, max_processing = unwrap_or 0 (lc_max_processing conf),
           grpc_web = unwrap_or False (lc_grpc_web conf),
           client_max_body_size = unwrap_or 0 (lc_client_max_body_size conf),
           enable_reverse_proxy_headers = unwrap_or False (lc_enable_reverse_proxy_headers conf)\<rparr>)))))"

definition support_grpc_web :: "'re location \<Rightarrow> bool" where
  "support_grpc_web l = grpc_web l"

definition client_body_size_limit :: "'re location \<Rightarrow> nat \<Rightarrow> location_error + unit" where
  "client_body_size_limit l payload =
     (if client_max_body_size l = 0 then Inr ()
      else if payload > client_max_body_size l then Inl (BodyTooLarge (client_max_body_size l))
      else Inr ())"

definition validate_content_length ::
  "http_lib \<Rightarrow> 're location \<Rightarrow> request_header \<Rightarrow> location_error + unit" where
  "validate_content_length lib l h =
     (if client_max_body_size l = 0 then Inr ()
      else if unwrap_or 0 (get_content_length lib h) > client_max_body_size l
      then Inl (BodyTooLarge (client_max_body_size l))
      else Inr ())"

text \<open>The counters wrap as the atomics do; the comparison with the limit is signed.\<close>

definition add_processing :: "'re location \<Rightarrow> (location_error + u64 \<times> i32) \<times> 're location" where
  "add_processing l =
     (let a = accepted l + 1; p = processing l + 1; l' = l\<lparr>accepted := a, processing := p\<rparr> in
      if max_processing l \<noteq> 0 \<and> sint p > sint (max_processing l)
      then (Inl (TooManyRequest (max_processing l)), l')
      else (Inr (a, p), l'))"

definition sub_processing :: "'re location \<Rightarrow> 're location" where
  "sub_processing l = l\<lparr>processing := processing l - 1\<rparr>"

definition match_path ::
  "'re regex_lib \<Rightarrow> 're path_selector \<Rightarrow> string \<Rightarrow> bool \<times> (string \<times> string) list" where
  "match_path rl sel path =
     (case sel of
        EqualPath v \<Rightarrow> (v = path, [])
      | RegexPath re \<Rightarrow>
        (case captures rl re path of
           (True, Some vars) \<Rightarrow> (True, vars)
         | (m, _) \<Rightarrow> (m, []))
      | PrefixPath v \<Rightarrow> (starts_with path v, [])
      | EmptyPath \<Rightarrow> (True, []))"

definition match_host ::
  "'re regex_lib \<Rightarrow> 're host_selector \<Rightarrow> string \<Rightarrow> bool \<times> (string \<times> string) list" where
  "match_host rl sel host =
     (case sel of
        RegexHost re \<Rightarrow>
        (case captures rl re host of
           (True, Some vars) \<Rightarrow> (True, vars)
         | (m, _) \<Rightarrow> (m, []))
      | EqualHost v \<Rightarrow> (v = [] \<or> v = host, []))"

fun match_any_host ::
  "'re regex_lib \<Rightarrow> 're host_selector list \<Rightarrow> string \<Rightarrow> (string \<times> string) list
     \<Rightarrow> bool \<times> (string \<times> string) list" where
  "match_any_host rl [] host vars = (False, vars)"
| "match_any_host rl (sel # sels) host vars =
     (case match_host rl sel host of
        (True, vs) \<Rightarrow> (True, vars @ vs)
      | (False, vs) \<Rightarrow> match_any_host rl sels host (vars @ vs))"

definition match_host_path ::
  "'re regex_lib \<Rightarrow> 're location \<Rightarrow> string \<Rightarrow> string \<Rightarrow> bool \<times> (string \<times> string) list option" where
  "match_host_path rl l host path =
     (let (pm, pvars) = (if loc_path l \<noteq> [] then match_path rl (path_selector l) path else (True, [])) in
      if \<not> pm then (False, None)
      else if hosts l = [] then (True, None)
      else let (m, vars) = match_any_host rl (hosts l) host pvars in
        if vars = [] then (m, None) else (m, Some vars))"

definition rewrite ::
  "'re location_lib \<Rightarrow> 're location \<Rightarrow> request_header \<Rightarrow> (string, string) hash_map option
     \<Rightarrow> bool \<times> request_header" where
  "rewrite lib l header vars =
     (case reg_rewrite l of
        None \<Rightarrow> (False, header)
      | Some (re, value) \<Rightarrow>
        (let replace_value =
               (case vars of None \<Rightarrow> value | Some vs \<Rightarrow> fold (\<lambda>(k, v) s. replace_all s k v) vs value);
             path = uri_path (req_uri header);
             new_path = (if re_text (ll_re lib) re = ''.*'' then replace_value
                         else re_replace (ll_re lib) re path replace_value)
         in if path = new_path then (False, header)
            else let full = (case uri_query (req_uri header) of
                               Some q \<Rightarrow> new_path @ ''?'' @ q | None \<Rightarrow> new_path)
                 in case uri_parse (ll_http lib) full of
                      Inl _ \<Rightarrow> (True, header)
                    | Inr u \<Rightarrow> (True, set_uri u header)))"

section \<open>The location map\<close>

type_synonym 're location_map = "(string, 're location) hash_map"

definition get_location :: "'re location_map \<Rightarrow> string \<Rightarrow> 're location option" where
  "get_location m name = (if name = [] then None else map_of m name)"

definition get_locations_stats :: "'re location_map \<Rightarrow> (string, i32 \<times> u64) hash_map" where
  "get_locations_stats m = fold (\<lambda>(k, l) st. map_insert k (processing l, accepted l) st) m []"

fun build_locations ::
  "'re location_lib \<Rightarrow> 're location_map \<Rightarrow> (string, location_conf) hash_map \<Rightarrow> 're location_map
     \<Rightarrow> string list \<Rightarrow> location_error + 're location_map \<times> string list" where
  "build_locations lib old [] m updated = Inr (m, updated)"
| "build_locations lib old ((name, conf) # rest) m updated =
     (case get_location old name of
        Some found \<Rightarrow>
          if loc_key found = ll_hash lib conf
          then build_locations lib old rest (map_insert name found m) updated
          else try_then (new_location lib name conf) (\<lambda>lo.
               build_locations lib old rest (map_insert name lo m) (updated @ [name]))
      | None \<Rightarrow>
          try_then (new_location lib name conf) (\<lambda>lo.
          build_locations lib old rest (map_insert name lo m) (updated @ [name])))"

text \<open>The result and the map afterwards: a failure leaves the running locations in place.\<close>

definition try_init_locations ::
  "'re location_lib \<Rightarrow> (string, location_conf) hash_map \<Rightarrow> 're location_map
     \<Rightarrow> (location_error + string list) \<times> 're location_map" where
  "try_init_locations lib confs old =
     (case build_locations lib old confs [] [] of
        Inl e \<Rightarrow> (Inl e, old)
      | Inr (m, updated) \<Rightarrow> (Inr updated, m))"

section \<open>Specification of the match\<close>

definition path_matches :: "'re regex_lib \<Rightarrow> 're location \<Rightarrow> string \<Rightarrow> bool" where
  "path_matches rl l path \<longleftrightarrow>
     loc_path l = [] \<or>
     (case path_selector l of
        EqualPath v \<Rightarrow> path = v
      | PrefixPath v \<Rightarrow> (\<exists>rest. path = v @ rest)
      | RegexPath re \<Rightarrow> re_is_match rl (rc_re re) path
      | EmptyPath \<Rightarrow> True)"

definition host_matches :: "'re regex_lib \<Rightarrow> 're location \<Rightarrow> string \<Rightarrow> bool" where
  "host_matches rl l host \<longleftrightarrow>
     hosts l = [] \<or>
     (\<exists>sel \<in> set (hosts l). case sel of
        EqualHost v \<Rightarrow> v = [] \<or> v = host
      | RegexHost re \<Rightarrow> re_is_match rl (rc_re re) host)"

section \<open>Lemmas\<close>

lemma fst_captures [simp]: "fst (captures rl rc v) = re_is_match rl (rc_re rc) v"
  by (simp add: captures_def split: option.splits)

lemma captures_False: "captures rl rc v = (False, r) \<Longrightarrow> r = None"
  by (auto simp: captures_def split: if_splits option.splits)

lemma fst_match_path:
  "fst (match_path rl sel path) =
     (case sel of
        EqualPath v \<Rightarrow> path = v
      | PrefixPath v \<Rightarrow> (\<exists>rest. path = v @ rest)
      | RegexPath re \<Rightarrow> re_is_match rl (rc_re re) path
      | EmptyPath \<Rightarrow> True)"
  by (auto simp: match_path_def starts_with_iff captures_def split: path_selector.splits option.splits)

lemma fst_match_host:
  "fst (match_host rl sel host) =
     (case sel of
        EqualHost v \<Rightarrow> v = [] \<or> v = host
      | RegexHost re \<Rightarrow> re_is_match rl (rc_re re) host)"
  by (auto simp: match_host_def captures_def split: host_selector.splits option.splits)

lemma match_host_False: "match_host rl sel host = (False, vs) \<Longrightarrow> vs = []"
  by (auto simp: match_host_def captures_def split: host_selector.splits option.splits if_splits)

lemma match_any_host_fst:
  "fst (match_any_host rl sels host vars) \<longleftrightarrow> (\<exists>sel \<in> set sels. fst (match_host rl sel host))"
proof (induction sels arbitrary: vars)
  case Nil
  then show ?case by simp
next
  case (Cons sel sels)
  obtain b vs where m: "match_host rl sel host = (b, vs)" by force
  show ?case
  proof (cases b)
    case True
    with m show ?thesis by simp
  next
    case False
    with m Cons.IH show ?thesis by simp
  qed
qed

lemma match_any_host_snd:
  "\<exists>vs. snd (match_any_host rl sels host vars) = vars @ vs"
proof (induction sels arbitrary: vars)
  case Nil
  then show ?case by simp
next
  case (Cons sel sels)
  obtain b vs where m: "match_host rl sel host = (b, vs)" by force
  show ?case
  proof (cases b)
    case True
    with m show ?thesis by simp
  next
    case False
    with m Cons.IH[of "vars @ vs"] show ?thesis by auto
  qed
qed

lemma loc_frame [simp]:
  "loc_name (sub_processing l) = loc_name l"
  "accepted (sub_processing l) = accepted l"
  "max_processing (sub_processing l) = max_processing l"
  "processing (sub_processing l) = processing l - 1"
  by (simp_all add: sub_processing_def)

lemma snd_add_processing [simp]:
  "snd (add_processing l) = l\<lparr>accepted := accepted l + 1, processing := processing l + 1\<rparr>"
  by (simp add: add_processing_def Let_def)

lemma fst_add_processing:
  "fst (add_processing l) =
     (if max_processing l \<noteq> 0 \<and> sint (processing l + 1) > sint (max_processing l)
      then Inl (TooManyRequest (max_processing l)) else Inr (accepted l + 1, processing l + 1))"
  by (simp add: add_processing_def Let_def)

lemma new_hosts_no_empty:
  "new_hosts rl items = Inr hs \<Longrightarrow> EqualHost [] \<notin> set hs"
proof (induction items arbitrary: hs)
  case Nil
  then show ?case by simp
next
  case (Cons item items)
  then show ?case
    by (auto simp: Let_def new_host_selector_def split: if_splits)
qed

lemma new_location_ok:
  assumes "new_location lib name conf = Inr l"
  shows "loc_name l = name" "loc_key l = ll_hash lib conf" "processing l = 0" "accepted l = 0"
    "name \<noteq> []"
  using assms by (auto simp: new_location_def Let_def split: if_splits)

text \<open>The locations are a registry, keyed by the hash of their configuration.\<close>

interpretation loc_reg: registry "get_location old" loc_key "ll_hash lib" "new_location lib"
    "build_locations lib old"
  for lib :: "'re location_lib" and old
  by unfold_locales (auto split: option.splits)

interpretation loc_keyed: keyed_registry "get_location old" loc_key "ll_hash lib" "new_location lib"
    "build_locations lib old"
  for lib :: "'re location_lib" and old
  by unfold_locales (simp add: new_location_ok)

lemma try_init_locations_refines:
  assumes "try_init_locations lib confs old = (Inr updated, m)" "wf_map confs"
  shows "map_option loc_key (map_of m n) = map_option (ll_hash lib) (map_of confs n)"
proof -
  from assms(1) have b: "build_locations lib old confs [] [] = Inr (m, updated)"
    by (auto simp: try_init_locations_def split: sum.splits)
  show ?thesis by (rule loc_keyed.build_refines[OF b assms(2)])
qed

lemmas location_registry =
  loc_reg.build_keys loc_reg.build_lookup loc_reg.build_updated loc_reg.build_wf

lemma match_host_path_iff:
  "fst (match_host_path rl l host path) \<longleftrightarrow> path_matches rl l path \<and> host_matches rl l host"
proof -
  have h: "fst (match_any_host rl (hosts l) host vs) \<longleftrightarrow> host_matches rl l host" if "hosts l \<noteq> []" for vs
    using that by (auto simp: match_any_host_fst host_matches_def fst_match_host split: host_selector.splits)
  have p: "fst (if loc_path l \<noteq> [] then match_path rl (path_selector l) path else (True, [])) \<longleftrightarrow>
      path_matches rl l path"
    by (simp add: fst_match_path path_matches_def)
  obtain pm pv where pm: "(if loc_path l \<noteq> [] then match_path rl (path_selector l) path else (True, [])) = (pm, pv)"
    by force
  obtain m vs where m: "match_any_host rl (hosts l) host pv = (m, vs)" by force
  have "fst (match_host_path rl l host path) = (pm \<and> (hosts l = [] \<or> m))"
    using pm m by (simp add: match_host_path_def Let_def)
  then show ?thesis
    using p h[of pv] pm m by (auto simp: host_matches_def)
qed

lemma add_processing_pow:
  "((\<lambda>l. snd (add_processing l)) ^^ k) l =
     l\<lparr>accepted := accepted l + of_nat k, processing := processing l + of_nat k\<rparr>"
  by (induction k) (simp_all add: algebra_simps)

section \<open>A concrete library\<close>

text \<open>Regular expressions read as literal texts, each matching the texts that contain it.\<close>

definition sample_re :: "string regex_lib" where
  "sample_re = \<lparr>re_new = Inr, re_capture_names = (\<lambda>_. []), re_is_match = (\<lambda>re s. contains_str s re),
     re_captures = (\<lambda>_ _. None), re_replace = (\<lambda>re s v. replace_all s re v), re_text = id\<rparr>"

definition sample_loc_lib :: "string location_lib" where
  "sample_loc_lib = \<lparr>ll_http = sample_http, ll_re = sample_re, ll_hash = (\<lambda>c. unwrap_or [] (lc_path c))\<rparr>"

definition sample_location :: "string location" where
  "sample_location = \<lparr>loc_name = ''l'', loc_key = ''/api'', loc_upstream = ''u'', loc_path = ''/api'',
     path_selector = PrefixPath ''/api'', hosts = [], reg_rewrite = None, proxy_add_headers = None,
     proxy_set_headers = None, loc_plugins = None, accepted = 0, processing = 0, max_processing = 0,
     grpc_web = False, client_max_body_size = 0, enable_reverse_proxy_headers = False\<rparr>"

lemmas sample_loc_simps =
  sample_loc_lib_def sample_re_def sample_location_def sample_location_conf_def sample_http_def

lemma sample_new_location: "new_location sample_loc_lib ''l'' sample_location_conf = Inr sample_location"
  by (simp add: new_location_def sample_loc_simps new_path_selector_def format_headers_def Let_def
      trim_def trim_start_def trim_end_def is_ws_def)

section \<open>Properties\<close>

text \<open>
  C9: The matcher decides exactly the specified match: the path selector accepts the path (any
  path when none is configured) and one of the hosts accepts the host (any host when none is
  configured).
\<close>

theorem match_host_path_spec:
  "fst (match_host_path rl l host path) \<longleftrightarrow> path_matches rl l path \<and> host_matches rl l host"
  by (rule match_host_path_iff)

text \<open>
  C19: A reload that succeeds installs exactly the configured locations: a location whose
  configuration has not changed keeps its running object, counters included, and is not listed
  as updated; every other one is built anew and listed.
\<close>

theorem try_init_locations_reload:
  assumes "wf_map confs" "try_init_locations lib confs old = (Inr updated, m)"
  shows "set (keys_of m) = set (keys_of confs) \<and>
    (\<forall>(n, conf) \<in> set confs.
       if \<exists>l. get_location old n = Some l \<and> loc_key l = ll_hash lib conf
       then map_of m n = get_location old n \<and> n \<notin> set updated
       else (\<exists>l. new_location lib n conf = Inr l \<and> map_of m n = Some l) \<and> n \<in> set updated)"
proof -
  from assms(2) have b: "build_locations lib old confs [] [] = Inr (m, updated)"
    by (auto simp: try_init_locations_def split: sum.splits)
  have keys: "set (keys_of m) = set (keys_of confs)"
    using loc_reg.build_keys[OF b] by (simp add: keys_of_def)
  have "n \<in> set updated \<longleftrightarrow> \<not> (\<exists>l. get_location old n = Some l \<and> loc_key l = ll_hash lib conf)"
    if "(n, conf) \<in> set confs" for n conf
    using loc_reg.updated_iff[OF b assms(1) that] .
  with loc_reg.build_lookup[OF b assms(1)] keys show ?thesis by auto
qed

theorem try_init_locations_reload_witness:
  "\<exists>m. try_init_locations sample_loc_lib [(''l'', sample_location_conf)] [] = (Inr [''l''], m) \<and>
     set (keys_of m) = {''l''}"
proof -
  have r: "try_init_locations sample_loc_lib [(''l'', sample_location_conf)] []
      = (Inr [''l''], [(''l'', sample_location)])"
    by (simp add: try_init_locations_def get_location_def sample_new_location)
  have "wf_map [(''l'', sample_location_conf)]" by (simp add: wf_map_def keys_of_def)
  from try_init_locations_reload[OF this r] r show ?thesis by (auto simp: keys_of_def)
qed

text \<open>
  C20: A reload succeeds exactly when every location that has to be rebuilt can be built; a
  reload that fails changes nothing, so the running locations keep serving.
\<close>

theorem try_init_locations_atomic:
  "(is_ok (fst (try_init_locations lib confs old)) \<longleftrightarrow>
      (\<forall>(n, conf) \<in> set confs. (\<exists>l. get_location old n = Some l \<and> loc_key l = ll_hash lib conf)
         \<or> is_ok (new_location lib n conf))) \<and>
   (\<not> is_ok (fst (try_init_locations lib confs old)) \<longrightarrow> snd (try_init_locations lib confs old) = old)"
proof -
  have "is_ok (fst (try_init_locations lib confs old)) \<longleftrightarrow> is_ok (build_locations lib old confs [] [])"
    by (simp add: try_init_locations_def is_ok_def split: sum.split)
  moreover have "\<not> is_ok (fst (try_init_locations lib confs old)) \<Longrightarrow> snd (try_init_locations lib confs old) = old"
    by (auto simp: try_init_locations_def is_ok_def split: sum.splits prod.splits)
  ultimately show ?thesis using loc_reg.build_succeeds[of lib old confs "[]" "[]"] by simp
qed

theorem try_init_locations_atomic_witness:
  "\<not> is_ok (fst (try_init_locations sample_loc_lib [([], sample_location_conf)] [(''l'', sample_location)])) \<and>
   snd (try_init_locations sample_loc_lib [([], sample_location_conf)] [(''l'', sample_location)])
     = [(''l'', sample_location)]"
  using try_init_locations_atomic[of sample_loc_lib "[([], sample_location_conf)]" "[(''l'', sample_location)]"]
  by (simp add: get_location_def new_location_def)

text \<open>
  C28: The limit on concurrent requests: from an idle location with a positive limit, the request
  that arrives while \<open>k\<close> others are counted is admitted exactly when \<open>k\<close> is below the limit, and
  a refused request is counted like an admitted one until it ends.
\<close>

theorem add_processing_limit:
  assumes "processing l = 0" "0 < sint (max_processing l)" "k < 2 ^ 31 - 1"
  defines "busy \<equiv> ((\<lambda>l. snd (add_processing l)) ^^ k) l"
  shows "(is_ok (fst (add_processing busy)) \<longleftrightarrow> int k < sint (max_processing l))
    \<and> sint (processing (snd (add_processing busy))) = int k + 1"
proof -
  have b: "processing busy = of_nat k" "max_processing busy = max_processing l"
    using assms(1) unfolding busy_def add_processing_pow by simp_all
  have "sint (of_nat (Suc k) :: i32) = int (Suc k)"
    using assms(3) by (simp add: signed_of_nat signed_take_bit_int_eq_self_iff del: of_nat_Suc)
  then have s: "sint (processing busy + 1) = int k + 1" by (simp add: b algebra_simps)
  have "max_processing l \<noteq> 0" using assms(2) by auto
  then show ?thesis using s b by (simp add: fst_add_processing is_ok_def)
qed

theorem add_processing_limit_witness:
  "\<not> is_ok (fst (add_processing (((\<lambda>l. snd (add_processing l)) ^^ 2) (sample_location\<lparr>max_processing := 2\<rparr>))))"
  using add_processing_limit[of "sample_location\<lparr>max_processing := 2\<rparr>" 2]
  by (simp add: sample_location_def)

end
