(* ===== verification/Health.thy ===== *)
theory Health
  imports Http_Types
begin

text \<open>
  \<open>pingap-health\<close>: the health check configuration read from a URL, and the kind of check it
  selects. The \<open>url\<close> crate is \<open>hl_url\<close>, whose value carries the parts the code reads;
  \<open>humantime\<close> is \<open>hl_duration\<close>; \<open>http::Uri\<close> parsing is \<open>hl_uri_ok\<close>. The network side of a check
  is pingora's and not modelled.
\<close>

record url =
  url_scheme :: string
  url_host :: "string option"
  url_path :: string
  url_query_pairs :: "(string \<times> string) list"

record health_lib =
  hl_url :: "string \<Rightarrow> string + url"
  hl_duration :: "string \<Rightarrow> string + duration"
  hl_uri_ok :: "string \<Rightarrow> string + unit"

datatype health_check_schema = Tcp | Http | Https | Grpc

datatype health_error =
    HealthUrlParse string string
  | InvalidSchema string string

record health_check_conf =
  hc_schema :: health_check_schema
  hc_host :: string
  hc_path :: string
  hc_connection_timeout :: duration
  hc_read_timeout :: duration
  hc_check_frequency :: duration
  hc_reuse_connection :: bool
  hc_consecutive_success :: nat
  hc_consecutive_failure :: nat
  hc_service :: string
  hc_tls :: bool
  hc_parallel_check :: bool

definition from_secs :: "nat \<Rightarrow> duration" where
  "from_secs s = s * 1000000000"

definition DEFAULT_CONNECTION_TIMEOUT :: duration where "DEFAULT_CONNECTION_TIMEOUT = from_secs 3"
definition DEFAULT_READ_TIMEOUT :: duration where "DEFAULT_READ_TIMEOUT = from_secs 3"
definition DEFAULT_CHECK_FREQUENCY :: duration where "DEFAULT_CHECK_FREQUENCY = from_secs 10"
definition DEFAULT_CONSECUTIVE_SUCCESS :: nat where "DEFAULT_CONSECUTIVE_SUCCESS = 1"
definition DEFAULT_CONSECUTIVE_FAILURE :: nat where "DEFAULT_CONSECUTIVE_FAILURE = 2"

lemmas health_defaults =
  from_secs_def DEFAULT_CONNECTION_TIMEOUT_def DEFAULT_READ_TIMEOUT_def
  DEFAULT_CHECK_FREQUENCY_def DEFAULT_CONSECUTIVE_SUCCESS_def DEFAULT_CONSECUTIVE_FAILURE_def

definition schema_from_str :: "string \<Rightarrow> health_check_schema option" where
  "schema_from_str s =
     (if s = ''tcp'' then Some Tcp else if s = ''http'' then Some Http
      else if s = ''https'' then Some Https else if s = ''grpc'' then Some Grpc else None)"

text \<open>The loop over the query pairs: the configuration so far and the pairs kept for the path.\<close>

definition health_param ::
  "health_lib \<Rightarrow> string \<times> string \<Rightarrow> health_check_conf \<times> string list \<Rightarrow> health_check_conf \<times> string list" where
  "health_param lib kv st =
     (let (key, value) = kv; (c, qs) = st;
          set_duration = (\<lambda>f. case hl_duration lib value of Inr d \<Rightarrow> f d | Inl _ \<Rightarrow> c);
          set_count = (\<lambda>f. case parse_usize value of Some n \<Rightarrow> f n | None \<Rightarrow> c)
      in
      if key = ''connection_timeout'' then (set_duration (\<lambda>d. c\<lparr>hc_connection_timeout := d\<rparr>), qs)
      else if key = ''read_timeout'' then (set_duration (\<lambda>d. c\<lparr>hc_read_timeout := d\<rparr>), qs)
      else if key = ''check_frequency'' then (set_duration (\<lambda>d. c\<lparr>hc_check_frequency := d\<rparr>), qs)
      else if key = ''success'' then (set_count (\<lambda>n. c\<lparr>hc_consecutive_success := n\<rparr>), qs)
      else if key = ''failure'' then (set_count (\<lambda>n. c\<lparr>hc_consecutive_failure := n\<rparr>), qs)
      else if key = ''reuse'' then (c\<lparr>hc_reuse_connection := True\<rparr>, qs)
      else if key = ''tls'' then (c\<lparr>hc_tls := True\<rparr>, qs)
      else if key = ''service'' then (c\<lparr>hc_service := value\<rparr>, qs)
      else if key = ''parallel'' then (c\<lparr>hc_parallel_check := True\<rparr>, qs)
      else (c, qs @ [if value = [] then key else key @ ''='' @ value]))"

definition health_defaults_conf :: health_check_conf where
  "health_defaults_conf = \<lparr>hc_schema = Tcp, hc_host = [], hc_path = [],
     hc_connection_timeout = DEFAULT_CONNECTION_TIMEOUT, hc_read_timeout = DEFAULT_READ_TIMEOUT,
     hc_check_frequency = DEFAULT_CHECK_FREQUENCY, hc_reuse_connection = False,
     hc_consecutive_success = DEFAULT_CONSECUTIVE_SUCCESS,
     hc_consecutive_failure = DEFAULT_CONSECUTIVE_FAILURE,
     hc_service = [], hc_tls = False, hc_parallel_check = False\<rparr>"

definition health_conf_try_from :: "health_lib \<Rightarrow> string \<Rightarrow> health_error + health_check_conf" where
  "health_conf_try_from lib value =
     try_then (map_err (\<lambda>e. HealthUrlParse e value) (hl_url lib value)) (\<lambda>u.
     let (c, qs) = fold (health_param lib) (url_query_pairs u) (health_defaults_conf, []);
         path = (if qs \<noteq> [] then url_path u @ ''?'' @ join ''&'' qs else url_path u)
     in case schema_from_str (url_scheme u) of
          None \<Rightarrow> Inl (InvalidSchema (url_scheme u) ''Matching variant not found'')
        | Some s \<Rightarrow>
          Inr (c\<lparr>hc_schema := s, hc_host := unwrap_or [] (url_host u), hc_path := path\<rparr>))"

text \<open>
  The kind of check with the parameters this code sets on it. An empty URL gives the default
  TCP check; its configuration has the derived defaults, so all times but the frequency are zero.
\<close>

datatype health_check =
    DefaultTcpCheck duration
  | TcpCheck health_check_conf
  | HttpCheck health_check_conf
  | GrpcCheck health_check_conf string

definition empty_health_conf :: health_check_conf where
  "empty_health_conf = \<lparr>hc_schema = Tcp, hc_host = [], hc_path = [],
     hc_connection_timeout = 0, hc_read_timeout = 0, hc_check_frequency = DEFAULT_CHECK_FREQUENCY,
     hc_reuse_connection = False, hc_consecutive_success = 0, hc_consecutive_failure = 0,
     hc_service = [], hc_tls = False, hc_parallel_check = False\<rparr>"

definition new_grpc_health_check :: "health_lib \<Rightarrow> health_check_conf \<Rightarrow> health_error + health_check" where
  "new_grpc_health_check lib c =
     (let scheme = (if hc_tls c then ''https'' else ''http'');
          uri = scheme @ ''://'' @ hc_host c
      in try_then (map_err (InvalidSchema uri) (hl_uri_ok lib uri)) (\<lambda>_. Inr (GrpcCheck c scheme)))"

definition new_health_check ::
  "health_lib \<Rightarrow> string \<Rightarrow> health_error + health_check_conf \<times> health_check" where
  "new_health_check lib health_check =
     (if health_check = [] then Inr (empty_health_conf, DefaultTcpCheck (from_secs 3))
      else try_then (health_conf_try_from lib health_check) (\<lambda>c.
        case hc_schema c of
          Http \<Rightarrow> Inr (c, HttpCheck c)
        | Https \<Rightarrow> Inr (c, HttpCheck c)
        | Grpc \<Rightarrow> try_then (new_grpc_health_check lib c) (\<lambda>hc. Inr (c, hc))
        | Tcp \<Rightarrow> Inr (c, TcpCheck c)))"

section \<open>When a check is due\<close>

text \<open>
  \<open>check_frequency_matched\<close> of the health check task: the frequency in task periods, rounded
  up, divides the count of runs; \<open>None\<close> where the remainder by zero panics.
\<close>

definition check_frequency_matched :: "nat \<Rightarrow> nat \<Rightarrow> nat \<Rightarrow> bool option" where
  "check_frequency_matched interval check_count frequency =
     (if interval = 0 then None
      else let count0 = frequency div interval mod 2 ^ 32;
               count = (if frequency mod interval \<noteq> 0 then (count0 + 1) mod 2 ^ 32 else count0)
           in if count = 0 then None else Some (check_count mod count = 0))"

section \<open>Lemmas\<close>

lemma health_param_schema [simp]:
  "hc_schema (fst (health_param lib kv st)) = hc_schema (fst st)"
  by (simp add: health_param_def Let_def split: prod.splits sum.splits option.splits)

lemma health_conf_schema:
  "health_conf_try_from lib s = Inr c \<Longrightarrow>
     \<exists>u. hl_url lib s = Inr u \<and> schema_from_str (url_scheme u) = Some (hc_schema c)"
proof (cases "hl_url lib s")
  case (Inr u)
  obtain d qs where f: "fold (health_param lib) (url_query_pairs u) (health_defaults_conf, []) = (d, qs)"
    by force
  assume "health_conf_try_from lib s = Inr c"
  then show ?thesis using Inr f
    by (cases "schema_from_str (url_scheme u)") (auto simp: health_conf_try_from_def Let_def)
qed (simp add: health_conf_try_from_def)

lemma due_iff:
  assumes "0 < interval" "0 < frequency" "frequency < 2 ^ 32"
  shows "check_frequency_matched interval n frequency =
     Some (n mod ((frequency + interval - 1) div interval) = 0)"
proof -
  have le: "frequency div interval \<le> frequency" by simp
  have m: "frequency div interval mod 2 ^ 32 = frequency div interval"
    by (rule mod_less) (rule le_less_trans[OF le assms(3)])
  show ?thesis
  proof (cases "frequency mod interval = 0")
    case True
    then obtain k where k: "frequency = interval * k" by auto
    with assms have "0 < k" by (cases k) auto
    have "(frequency + interval - 1) div interval = k"
      using assms(1) k by (simp add: div_nat_eqI)
    then show ?thesis using True assms m k \<open>0 < k\<close>
      by (simp add: check_frequency_matched_def Let_def)
  next
    case False
    then have "interval \<noteq> 1" by auto
    with assms(1) have "2 \<le> interval" by simp
    then have "frequency div interval \<le> frequency div 2" by (rule div_le_mono2[rotated]) simp
    moreover have "frequency < 4294967296" using assms(3) by simp
    ultimately have "frequency div interval + 1 < 4294967296" by linarith
    then have small: "frequency div interval + 1 < 2 ^ 32" by simp
    obtain q r where q: "frequency div interval = q" and r: "frequency mod interval = r" by simp
    have f: "frequency = interval * q + r" using q r mult_div_mod_eq[of interval frequency] by simp
    have "(interval * q + r + interval - 1) div interval = q + 1"
      using False r mod_less_divisor[OF assms(1), of frequency]
      by (intro div_nat_eqI) (simp_all add: algebra_simps)
    then have "(frequency + interval - 1) div interval = frequency div interval + 1"
      using f q by simp
    then show ?thesis using False assms m small
      by (simp add: check_frequency_matched_def Let_def)
  qed
qed

end
