(* ===== verification/Upstream.thy ===== *)
theory Upstream
  imports Config Http_Header Health Registry
begin

text \<open>
  \<open>pingap-upstream/src/upstream.rs\<close>: the upstreams, the peers they hand out, their reload and
  the health check task. The load balancer is pingora's: its state is the type variable \<open>'b\<close>,
  its operations are fields of \<open>upstream_lib\<close>, and the three public fields the sources set on
  it are the record \<open>load_balancer\<close>. The atomic counters are words of the upstream's record;
  the global \<open>UPSTREAM_MAP\<close> is passed and returned.
\<close>

datatype lb_kind = RoundRobinKind | ConsistentKind

record 'b load_balancer =
  lb_state :: 'b
  lb_parallel_health_check :: bool
  lb_update_frequency :: "duration option"
  lb_health_check_frequency :: "duration option"
  lb_health_check :: health_check

datatype 'b selection_lb =
    RoundRobin "'b load_balancer"
  | Consistent "'b load_balancer"
  | Transparent

record 'b upstream_lib =
  ul_http :: http_lib
  ul_disc :: discovery_lib
  ul_health :: health_lib
  ul_hash :: "upstream_conf \<Rightarrow> string"
  ul_from_backends :: "lb_kind \<Rightarrow> backends \<Rightarrow> 'b"
  ul_update :: "'b \<Rightarrow> (string + unit) \<times> 'b"
  ul_select :: "'b \<Rightarrow> string \<Rightarrow> nat \<Rightarrow> backend option \<times> 'b"
  ul_backends :: "'b \<Rightarrow> backend list"
  ul_ready :: "'b \<Rightarrow> backend \<Rightarrow> bool"
  ul_run_health_check :: "'b \<Rightarrow> bool \<Rightarrow> 'b"

datatype upstream_error = UpCommon string string | UpPanic string

datatype alpn = H1 | H2 | H2H1

record tcp_keepalive =
  ka_idle :: duration
  ka_interval :: duration
  ka_count :: nat

record 'b upstream =
  up_name :: string
  up_key :: string
  up_hash :: string
  up_hash_key :: string
  up_tls :: bool
  up_sni :: string
  up_lb :: "'b selection_lb"
  up_connection_timeout :: "duration option"
  up_total_connection_timeout :: "duration option"
  up_read_timeout :: "duration option"
  up_idle_timeout :: "duration option"
  up_write_timeout :: "duration option"
  up_verify_cert :: "bool option"
  up_alpn :: alpn
  up_tcp_keepalive :: "tcp_keepalive option"
  up_tcp_recv_buf :: "nat option"
  up_tcp_fast_open :: "bool option"
  up_peer_tracer :: "i32 option"
  up_processing :: i32

type_synonym 'b upstream_map = "(string, 'b upstream) hash_map"

section \<open>Notifications\<close>

datatype notification_level = NInfo | NWarn | NError

record notification =
  nt_category :: string
  nt_level :: notification_level
  nt_title :: string
  nt_message :: string

text \<open>\<open>BackendObserveNotification::observe\<close>: what is sent when a backend changes its state.\<close>

definition observe :: "string \<Rightarrow> backend \<Rightarrow> bool \<Rightarrow> notification" where
  "observe name backend healthy =
     (let template = ''upstream '' @ name @ ''('' @ sock_text (backend_addr backend) @ '') becomes '';
          (level, message) = (if healthy then (NInfo, template @ ''healthy'')
                              else (NError, template @ ''unhealthy''))
      in \<lparr>nt_category = ''backend_status'', nt_level = level,
          nt_title = ''Upstream backend status changed'', nt_message = message\<rparr>)"

section \<open>Construction\<close>

definition discovery_error_text :: "discovery_error \<Rightarrow> string" where
  "discovery_error_text e = (case e of
     DiscIo s c \<Rightarrow> ''Io error '' @ s @ '', '' @ c
   | DiscResolve s \<Rightarrow> ''Resolve error '' @ s
   | DiscInvalid m \<Rightarrow> m
   | DiscDocker s \<Rightarrow> ''Docker error '' @ s)"

definition health_error_text :: "health_error \<Rightarrow> string" where
  "health_error_text e = (case e of
     HealthUrlParse s u \<Rightarrow> ''Url parse error '' @ s @ '', '' @ u
   | InvalidSchema s m \<Rightarrow> ''Invalid health check schema: '' @ s @ '', '' @ m)"

definition new_backends ::
  "'b upstream_lib \<Rightarrow> string \<Rightarrow> discovery \<Rightarrow> upstream_error + backends" where
  "new_backends lib discovery_category d =
     (let (result, category) =
        (if is_dns_discovery discovery_category then (new_dns_discover_backends d, ''dns_discovery'')
         else if is_docker_discovery discovery_category
         then (new_docker_discover_backends (ul_disc lib) d, ''docker_discovery'')
         else (try_then (new_static_discovery (dl_resolve (ul_disc lib)) d) (\<lambda>bs. Inr (StaticBackends bs)),
               ''static_discovery''))
      in map_err (\<lambda>e. UpCommon (discovery_error_text e) category) result)"

definition get_hash_value ::
  "http_lib \<Rightarrow> string \<Rightarrow> string \<Rightarrow> session \<Rightarrow> string option \<Rightarrow> string" where
  "get_hash_value lib hash hash_key s ip_opt =
     (if hash = ''url'' then uri_text (req_uri (req_header s))
      else if hash = ''ip'' then (case ip_opt of Some ip \<Rightarrow> ip | None \<Rightarrow> get_client_ip lib s)
      else if hash = ''header'' then
        (case get_header s hash_key of Some v \<Rightarrow> to_str_or_default lib v | None \<Rightarrow> [])
      else if hash = ''cookie'' then unwrap_or [] (get_cookie_value lib (req_header s) hash_key)
      else if hash = ''query'' then unwrap_or [] (get_query_value (req_header s) hash_key)
      else uri_path (req_uri (req_header s)))"

text \<open>
  A static discovery is updated at once; a failure of that update is a panic. The rest sets the
  health check and the two frequencies.
\<close>

definition update_health_check_params ::
  "'b upstream_lib \<Rightarrow> 'b \<Rightarrow> upstream_conf \<Rightarrow> upstream_error + 'b load_balancer" where
  "update_health_check_params lib b conf =
     try_then (if is_static_discovery (guess_discovery conf) then
        (case ul_update lib b of
           (Inl _, _) \<Rightarrow> Inl (UpPanic ''static should not error'')
         | (Inr _, b') \<Rightarrow> Inr b')
       else Inr b) (\<lambda>b'.
     try_then (map_err (\<lambda>e. UpCommon (health_error_text e) ''health'')
        (new_health_check (ul_health lib) (unwrap_or [] (uc_health_check conf)))) (\<lambda>(hconf, hc).
     Inr \<lparr>lb_state = b', lb_parallel_health_check = hc_parallel_check hconf,
          lb_update_frequency = uc_update_frequency conf,
          lb_health_check_frequency = Some (hc_check_frequency hconf),
          lb_health_check = hc\<rparr>))"

definition new_load_balancer ::
  "'b upstream_lib \<Rightarrow> upstream_conf \<Rightarrow> upstream_error + 'b selection_lb \<times> string \<times> string" where
  "new_load_balancer lib conf =
     (if uc_addrs conf = [] then Inl (UpCommon ''upstream addrs is empty'' ''new_upstream'')
      else if guess_discovery conf = TRANSPARENT_DISCOVERY then Inr (Transparent, [], [])
      else
        let tls = (case uc_sni conf of Some s \<Rightarrow> s \<noteq> [] | None \<Rightarrow> False);
            d = \<lparr>disc_addr = uc_addrs conf, disc_tls = tls, disc_ipv4_only = unwrap_or False (uc_ipv4_only conf)\<rparr>
        in try_then (new_backends lib (guess_discovery conf) d) (\<lambda>bs.
        let algo_params = split_on CHR '':'' (unwrap_or [] (uc_algo conf))
        in if algo_params ! 0 = ''hash'' then
             let hash = (if length algo_params > 1 then algo_params ! 1 else []);
                 hash_key = (if length algo_params > 2 then algo_params ! 2 else [])
             in try_then (update_health_check_params lib (ul_from_backends lib ConsistentKind bs) conf) (\<lambda>lb.
                Inr (Consistent lb, hash, hash_key))
           else
             try_then (update_health_check_params lib (ul_from_backends lib RoundRobinKind bs) conf) (\<lambda>lb.
             Inr (RoundRobin lb, [], []))))"

definition parse_alpn :: "string option \<Rightarrow> alpn" where
  "parse_alpn a = (case a of
     Some s \<Rightarrow> if ascii_upper s = ''H2H1'' then H2H1 else if ascii_upper s = ''H2'' then H2 else H1
   | None \<Rightarrow> H1)"

definition new_tcp_keepalive ::
  "duration option \<Rightarrow> nat option \<Rightarrow> duration option \<Rightarrow> tcp_keepalive option" where
  "new_tcp_keepalive idle count interval =
     (if idle \<noteq> None \<and> count \<noteq> None \<and> interval \<noteq> None
      then Some \<lparr>ka_idle = unwrap_or 0 idle, ka_interval = unwrap_or 0 interval, ka_count = unwrap_or 0 count\<rparr>
      else None)"

definition new_upstream ::
  "'b upstream_lib \<Rightarrow> string \<Rightarrow> upstream_conf \<Rightarrow> upstream_error + 'b upstream" where
  "new_upstream lib name conf =
     try_then (new_load_balancer lib conf) (\<lambda>(lb, hash, hash_key).
     let sni = unwrap_or [] (uc_sni conf) in
     Inr \<lparr>up_name = name, up_key = ul_hash lib conf, up_hash = hash, up_hash_key = hash_key,
          up_tls = (sni \<noteq> []), up_sni = sni, up_lb = lb,
          up_connection_timeout = uc_connection_timeout conf,
          up_total_connection_timeout = uc_total_connection_timeout conf,
          up_read_timeout = uc_read_timeout conf, up_idle_timeout = uc_idle_timeout conf,
          up_write_timeout = uc_write_timeout conf, up_verify_cert = uc_verify_cert conf,
          up_alpn = parse_alpn (uc_alpn conf),
          up_tcp_keepalive = new_tcp_keepalive (uc_tcp_idle conf) (uc_tcp_probe_count conf) (uc_tcp_interval conf),
          up_tcp_recv_buf = uc_tcp_recv_buf conf, up_tcp_fast_open = uc_tcp_fast_open conf,
          up_peer_tracer = (if unwrap_or False (uc_enable_tracer conf) then Some 0 else None),
          up_processing = 0\<rparr>)"

section \<open>Peers\<close>

text \<open>An \<open>HttpPeer\<close> with the options set on it; \<open>None\<close> is an option left at pingora's default.\<close>

datatype peer_addr = BackendAddr backend | HostAddr string

record http_peer =
  hp_addr :: peer_addr
  hp_tls :: bool
  hp_sni :: string
  hp_connection_timeout :: "duration option"
  hp_total_connection_timeout :: "duration option"
  hp_read_timeout :: "duration option"
  hp_idle_timeout :: "duration option"
  hp_write_timeout :: "duration option"
  hp_verify_cert :: "bool option"
  hp_alpn :: alpn
  hp_tcp_keepalive :: "tcp_keepalive option"
  hp_tcp_recv_buf :: "nat option"
  hp_tcp_fast_open :: "bool option"
  hp_traced :: bool

definition configure_peer :: "'b upstream \<Rightarrow> peer_addr \<Rightarrow> string \<Rightarrow> http_peer" where
  "configure_peer up addr sni =
     \<lparr>hp_addr = addr, hp_tls = up_tls up, hp_sni = sni,
      hp_connection_timeout = up_connection_timeout up,
      hp_total_connection_timeout = up_total_connection_timeout up,
      hp_read_timeout = up_read_timeout up, hp_idle_timeout = up_idle_timeout up,
      hp_write_timeout = up_write_timeout up, hp_verify_cert = up_verify_cert up,
      hp_alpn = up_alpn up, hp_tcp_keepalive = up_tcp_keepalive up,
      hp_tcp_recv_buf = up_tcp_recv_buf up, hp_tcp_fast_open = up_tcp_fast_open up,
      hp_traced = (up_peer_tracer up \<noteq> None)\<rparr>"

definition select_backend ::
  "'b upstream_lib \<Rightarrow> 'b upstream \<Rightarrow> session \<Rightarrow> string option \<Rightarrow> backend option \<times> 'b selection_lb" where
  "select_backend lib up s ip_opt =
     (case up_lb up of
        RoundRobin lb \<Rightarrow>
          (let (r, b) = ul_select lib (lb_state lb) [] 256 in (r, RoundRobin (lb\<lparr>lb_state := b\<rparr>)))
      | Consistent lb \<Rightarrow>
          (let value = get_hash_value (ul_http lib) (up_hash up) (up_hash_key up) s ip_opt;
               (r, b) = ul_select lib (lb_state lb) value 256
           in (r, Consistent (lb\<lparr>lb_state := b\<rparr>)))
      | Transparent \<Rightarrow> (None, Transparent))"

definition new_http_peer ::
  "'b upstream_lib \<Rightarrow> 'b upstream \<Rightarrow> session \<Rightarrow> string option \<Rightarrow> http_peer option \<times> 'b upstream" where
  "new_http_peer lib up s ip_opt =
     (let (selected, lb) = select_backend lib up s ip_opt;
          up' = up\<lparr>up_lb := lb, up_processing := up_processing up + 1\<rparr>
      in case up_lb up of
           Transparent \<Rightarrow>
             (case get_host (ul_http lib) (req_header s) of
                None \<Rightarrow> (None, up')
              | Some host \<Rightarrow>
                  let sni = (if up_sni up = ''$host'' then host else up_sni up);
                      port = (if up_tls up then ''443'' else ''80'')
                  in (Some (configure_peer up (HostAddr (host @ '':'' @ port)) sni), up'))
         | _ \<Rightarrow> (map_option (\<lambda>b. configure_peer up (BackendAddr b) (up_sni up)) selected, up'))"

definition on_connected :: "'b upstream \<Rightarrow> 'b upstream" where
  "on_connected up = up\<lparr>up_peer_tracer := map_option (\<lambda>n. n + 1) (up_peer_tracer up)\<rparr>"

definition on_disconnected :: "'b upstream \<Rightarrow> 'b upstream" where
  "on_disconnected up = up\<lparr>up_peer_tracer := map_option (\<lambda>n. n - 1) (up_peer_tracer up)\<rparr>"

definition connected :: "'b upstream \<Rightarrow> i32 option" where
  "connected up = up_peer_tracer up"

definition as_round_robin :: "'b upstream \<Rightarrow> 'b load_balancer option" where
  "as_round_robin up = (case up_lb up of RoundRobin lb \<Rightarrow> Some lb | _ \<Rightarrow> None)"

definition as_consistent :: "'b upstream \<Rightarrow> 'b load_balancer option" where
  "as_consistent up = (case up_lb up of Consistent lb \<Rightarrow> Some lb | _ \<Rightarrow> None)"

text \<open>\<open>completed\<close> answers with the count before the decrement.\<close>

definition completed :: "'b upstream \<Rightarrow> i32 \<times> 'b upstream" where
  "completed up = (up_processing up, up\<lparr>up_processing := up_processing up - 1\<rparr>)"

section \<open>The map of upstreams\<close>

definition get_upstream :: "'b upstream_map \<Rightarrow> string \<Rightarrow> 'b upstream option" where
  "get_upstream m name = (if name = [] then None else map_of m name)"

record healthy_status =
  hs_healthy :: nat
  hs_total :: nat
  hs_unhealthy_backends :: "string list"

definition lb_status :: "'b upstream_lib \<Rightarrow> 'b load_balancer \<Rightarrow> healthy_status" where
  "lb_status lib lb =
     (let bs = ul_backends lib (lb_state lb); ready = ul_ready lib (lb_state lb)
      in \<lparr>hs_healthy = length (filter ready bs), hs_total = length bs,
          hs_unhealthy_backends = map (sock_text \<circ> backend_addr) (filter (\<lambda>b. \<not> ready b) bs)\<rparr>)"

definition upstream_status :: "'b upstream_lib \<Rightarrow> 'b upstream \<Rightarrow> healthy_status" where
  "upstream_status lib up =
     (case as_round_robin up of
        Some lb \<Rightarrow> lb_status lib lb
      | None \<Rightarrow> (case as_consistent up of
          Some lb \<Rightarrow> lb_status lib lb
        | None \<Rightarrow> \<lparr>hs_healthy = 0, hs_total = 0, hs_unhealthy_backends = []\<rparr>))"

definition get_upstream_healthy_status ::
  "'b upstream_lib \<Rightarrow> 'b upstream_map \<Rightarrow> (string, healthy_status) hash_map" where
  "get_upstream_healthy_status lib m =
     fold (\<lambda>(k, up) st. map_insert k (upstream_status lib up) st) m []"

definition get_upstreams_processing_connected ::
  "'b upstream_map \<Rightarrow> (string, i32 \<times> i32 option) hash_map" where
  "get_upstreams_processing_connected m =
     fold (\<lambda>(k, up) st. map_insert k (up_processing up, connected up) st) m []"

fun build_upstreams ::
  "'b upstream_lib \<Rightarrow> 'b upstream_map \<Rightarrow> (string, upstream_conf) hash_map \<Rightarrow> 'b upstream_map
     \<Rightarrow> string list \<Rightarrow> upstream_error + 'b upstream_map \<times> string list" where
  "build_upstreams lib old [] m updated = Inr (m, updated)"
| "build_upstreams lib old ((name, conf) # rest) m updated =
     (case get_upstream old name of
        Some found \<Rightarrow>
          if up_key found = ul_hash lib conf
          then build_upstreams lib old rest (map_insert name found m) updated
          else try_then (new_upstream lib name conf) (\<lambda>up.
               build_upstreams lib old rest (map_insert name up m) (updated @ [name]))
      | None \<Rightarrow>
          try_then (new_upstream lib name conf) (\<lambda>up.
          build_upstreams lib old rest (map_insert name up m) (updated @ [name])))"

definition new_ahash_upstreams ::
  "'b upstream_lib \<Rightarrow> 'b upstream_map \<Rightarrow> (string, upstream_conf) hash_map
     \<Rightarrow> upstream_error + 'b upstream_map \<times> string list" where
  "new_ahash_upstreams lib old confs = build_upstreams lib old confs [] []"

definition try_init_upstreams ::
  "'b upstream_lib \<Rightarrow> (string, upstream_conf) hash_map \<Rightarrow> 'b upstream_map
     \<Rightarrow> (upstream_error + unit) \<times> 'b upstream_map" where
  "try_init_upstreams lib confs old =
     (case new_ahash_upstreams lib old confs of
        Inl e \<Rightarrow> (Inl e, old)
      | Inr (m, _) \<Rightarrow> (Inr (), m))"

definition map_lb :: "('b load_balancer \<Rightarrow> 'b load_balancer) \<Rightarrow> 'b upstream \<Rightarrow> 'b upstream" where
  "map_lb f up = (case up_lb up of
     RoundRobin lb \<Rightarrow> up\<lparr>up_lb := RoundRobin (f lb)\<rparr>
   | Consistent lb \<Rightarrow> up\<lparr>up_lb := Consistent (f lb)\<rparr>
   | Transparent \<Rightarrow> up)"

definition lb_update :: "'b upstream_lib \<Rightarrow> 'b load_balancer \<Rightarrow> (string + unit) \<times> 'b load_balancer" where
  "lb_update lib lb = (let (r, b) = ul_update lib (lb_state lb) in (r, lb\<lparr>lb_state := b\<rparr>))"

definition lb_check :: "'b upstream_lib \<Rightarrow> 'b load_balancer \<Rightarrow> 'b load_balancer" where
  "lb_check lib lb = lb\<lparr>lb_state := ul_run_health_check lib (lb_state lb) (lb_parallel_health_check lb)\<rparr>"

text \<open>\<open>run_health_check\<close> of a new upstream: an update that fails skips the check.\<close>

definition run_health_check :: "'b upstream_lib \<Rightarrow> 'b upstream \<Rightarrow> 'b upstream" where
  "run_health_check lib up =
     map_lb (\<lambda>lb. case lb_update lib lb of (Inl _, lb') \<Rightarrow> lb' | (Inr _, lb') \<Rightarrow> lb_check lib lb') up"

definition try_update_upstreams ::
  "'b upstream_lib \<Rightarrow> (string, upstream_conf) hash_map \<Rightarrow> 'b upstream_map
     \<Rightarrow> (upstream_error + string list) \<times> 'b upstream_map" where
  "try_update_upstreams lib confs old =
     (case new_ahash_upstreams lib old confs of
        Inl e \<Rightarrow> (Inl e, old)
      | Inr (m, updated) \<Rightarrow>
          (Inr updated, map (\<lambda>(n, up). (n, if n \<in> set updated then run_health_check lib up else up)) m))"

section \<open>Lemmas\<close>

lemma new_upstream_ok:
  assumes "new_upstream lib name conf = Inr up"
  shows "up_name up = name" "up_key up = ul_hash lib conf" "up_processing up = 0"
  using assms by (auto simp: new_upstream_def Let_def)

interpretation up_reg: registry "get_upstream old" up_key "ul_hash lib" "new_upstream lib"
    "build_upstreams lib old"
  for lib :: "'b upstream_lib" and old
  by unfold_locales (auto split: option.splits)

interpretation up_keyed: keyed_registry "get_upstream old" up_key "ul_hash lib" "new_upstream lib"
    "build_upstreams lib old"
  for lib :: "'b upstream_lib" and old
  by unfold_locales (rule new_upstream_ok(2))

lemma run_health_check_key [simp]: "up_key (run_health_check lib up) = up_key up"
  by (simp add: run_health_check_def map_lb_def split: selection_lb.split)

lemma try_update_upstreams_refines:
  assumes "try_update_upstreams lib confs old = (Inr updated, m)" "wf_map confs"
  shows "map_option up_key (map_of m n) = map_option (ul_hash lib) (map_of confs n)"
proof -
  from assms(1) obtain m0 where b: "build_upstreams lib old confs [] [] = Inr (m0, updated)"
    and m: "m = map (\<lambda>(n, up). (n, if n \<in> set updated then run_health_check lib up else up)) m0"
    by (auto simp: try_update_upstreams_def new_ahash_upstreams_def split: sum.splits)
  have "map_option up_key (map_of m n) = map_option up_key (map_of m0 n)"
    unfolding m by (induction m0) auto
  then show ?thesis using up_keyed.build_refines[OF b assms(2)] by simp
qed

lemma new_http_peer_counts [simp]:
  "up_processing (snd (new_http_peer lib up s ip)) = up_processing up + 1"
  by (simp add: new_http_peer_def Let_def split: prod.splits selection_lb.splits option.splits)

lemma new_http_peer_frame [simp]:
  "up_name (snd (new_http_peer lib up s ip)) = up_name up"
  "up_key (snd (new_http_peer lib up s ip)) = up_key up"
  by (simp_all add: new_http_peer_def Let_def split: prod.splits selection_lb.splits option.splits)

lemma run_health_check_frame [simp]:
  "up_name (run_health_check lib up) = up_name up"
  "up_key (run_health_check lib up) = up_key up"
  "up_processing (run_health_check lib up) = up_processing up"
  by (simp_all add: run_health_check_def map_lb_def split: selection_lb.splits)

lemma map_of_map_snd_key:
  "map_of (map (\<lambda>(n, x). (n, f n x)) m) k = map_option (f k) (map_of m k)"
  by (induction m) auto

lemma fold_map_insert_values:
  "map_of (fold (\<lambda>(k, x) st. map_insert k (f x) st) m acc) n =
     (case map_of (rev m) n of Some x \<Rightarrow> Some (f x) | None \<Rightarrow> map_of acc n)"
proof (induction m arbitrary: acc)
  case Nil
  then show ?case by simp
next
  case (Cons p m)
  obtain k x where p: "p = (k, x)" by (cases p)
  show ?case using Cons.IH[of "map_insert k (f x) acc"]
    by (auto simp: p map_add_def split: option.splits)
qed

lemma map_of_rev_wf: "wf_map m \<Longrightarrow> map_of (rev m) = map_of m"
  by (simp add: wf_map_def keys_of_def map_of_inject_set distinct_map rev_map[symmetric])

lemma healthy_status_lookup:
  "wf_map m \<Longrightarrow> map_of (get_upstream_healthy_status lib m) n = map_option (upstream_status lib) (map_of m n)"
  by (simp add: get_upstream_healthy_status_def fold_map_insert_values map_of_rev_wf
      split: option.splits)

lemma fold_map_insert_wf:
  "wf_map acc \<Longrightarrow> wf_map (fold (\<lambda>(k, x) st. map_insert k (f x) st) m acc)"
  by (induction m arbitrary: acc) (auto intro: wf_map_insert)

end
