(* ===== verification/Http_Response.thy ===== *)
theory Http_Response
  imports Http_Header
begin

text \<open>
  \<open>pingap-core/src/http_response.rs\<close>, \<open>new_internal_error\<close> of its \<open>lib.rs\<close> and the clock
  helpers of \<open>pingap-util/src/datetime.rs\<close>: the responses the proxy makes itself, whole or in
  chunks, and the errors it raises. The side of the connection a response is written to is
  the record \<open>conn\<close>: the session, what was written to it so far, and the error the next
  write meets, if any.
\<close>

datatype error_type = HTTPStatus nat | ConnectTimedout | ConnectionClosed | OtherError string
datatype error_source = ErrUpstream | ErrDownstream | ErrInternal | ErrUnset

record pingora_error =
  pe_type :: error_type
  pe_source :: error_source
  pe_context :: string

definition new_internal_error :: "nat \<Rightarrow> string \<Rightarrow> pingora_error" where
  "new_internal_error status message =
     \<lparr>pe_type = HTTPStatus status, pe_source = ErrUnset, pe_context = message\<rparr>"

section \<open>Clock\<close>

definition get_super_ts :: "sys_env \<Rightarrow> nat" where
  "get_super_ts env =
     (let secs = sys_now_ms env div 1000 in
      if 1651852800 \<le> secs then (secs - 1651852800) mod 2 ^ 32 else 0)"

definition get_latency :: "sys_env \<Rightarrow> nat option \<Rightarrow> nat option" where
  "get_latency env value =
     (case value of Some v \<Rightarrow> Some (sub_u64 (sys_now_ms env) v) | None \<Rightarrow> Some (sys_now_ms env))"

section \<open>Whole responses\<close>

definition HTTP_HEADER_NO_STORE :: http_header where
  "HTTP_HEADER_NO_STORE = (''cache-control'', ''private, no-store'')"
definition HTTP_HEADER_NO_CACHE :: http_header where
  "HTTP_HEADER_NO_CACHE = (''cache-control'', ''private, no-cache'')"
definition HTTP_HEADER_CONTENT_JSON :: http_header where
  "HTTP_HEADER_CONTENT_JSON = (''content-type'', ''application/json; charset=utf-8'')"
definition HTTP_HEADER_CONTENT_HTML :: http_header where
  "HTTP_HEADER_CONTENT_HTML = (''content-type'', ''text/html; charset=utf-8'')"
definition HTTP_HEADER_CONTENT_TEXT :: http_header where
  "HTTP_HEADER_CONTENT_TEXT = (''content-type'', ''text/plain; charset=utf-8'')"
definition HTTP_HEADER_TRANSFER_CHUNKED :: http_header where
  "HTTP_HEADER_TRANSFER_CHUNKED = (''transfer-encoding'', ''chunked'')"

lemmas http_header_consts =
  HTTP_HEADER_NO_STORE_def HTTP_HEADER_NO_CACHE_def HTTP_HEADER_CONTENT_JSON_def
  HTTP_HEADER_CONTENT_HTML_def HTTP_HEADER_CONTENT_TEXT_def HTTP_HEADER_TRANSFER_CHUNKED_def

definition new_cache_control_header :: "http_lib \<Rightarrow> nat option \<Rightarrow> bool option \<Rightarrow> http_header" where
  "new_cache_control_header lib max_age cache_private =
     (case max_age of
        None \<Rightarrow> HTTP_HEADER_NO_CACHE
      | Some age \<Rightarrow>
          if age = 0 then HTTP_HEADER_NO_CACHE
          else let category = (if unwrap_or False cache_private then ''private'' else ''public'')
               in case hvalue_from_str lib (category @ '', max-age='' @ show_nat age) of
                    Inr value \<Rightarrow> (''cache-control'', value)
                  | Inl _ \<Rightarrow> HTTP_HEADER_NO_CACHE)"

record http_response =
  hr_status :: nat
  hr_body :: string
  hr_max_age :: "nat option"
  hr_created_at :: "nat option"
  hr_cache_private :: "bool option"
  hr_headers :: "http_header list option"

definition default_response :: http_response where
  "default_response = \<lparr>hr_status = 200, hr_body = [], hr_max_age = None, hr_created_at = None,
     hr_cache_private = None, hr_headers = None\<rparr>"

definition no_content :: http_response where
  "no_content = default_response\<lparr>hr_status := 204, hr_headers := Some [HTTP_HEADER_NO_STORE]\<rparr>"

definition bad_request :: "string \<Rightarrow> http_response" where
  "bad_request body = default_response\<lparr>hr_status := 400, hr_headers := Some [HTTP_HEADER_NO_STORE], hr_body := body\<rparr>"

definition not_found :: "string \<Rightarrow> http_response" where
  "not_found body = default_response\<lparr>hr_status := 404, hr_headers := Some [HTTP_HEADER_NO_STORE], hr_body := body\<rparr>"

definition unknown_error :: "string \<Rightarrow> http_response" where
  "unknown_error body = default_response\<lparr>hr_status := 500, hr_headers := Some [HTTP_HEADER_NO_STORE], hr_body := body\<rparr>"

definition html :: "string \<Rightarrow> http_response" where
  "html body = default_response\<lparr>hr_status := 200,
     hr_headers := Some [HTTP_HEADER_CONTENT_HTML, HTTP_HEADER_NO_CACHE], hr_body := body\<rparr>"

definition redirect_to :: "http_lib \<Rightarrow> string \<Rightarrow> pingora_error + http_response" where
  "redirect_to lib loc =
     try_then (map_err (new_internal_error 500) (hvalue_from_str lib loc)) (\<lambda>value.
     Inr (default_response\<lparr>hr_status := 307,
       hr_headers := Some [(''location'', value), HTTP_HEADER_NO_CACHE]\<rparr>))"

definition text_response :: "string \<Rightarrow> http_response" where
  "text_response body = default_response\<lparr>hr_status := 200,
     hr_headers := Some [HTTP_HEADER_CONTENT_TEXT, HTTP_HEADER_NO_CACHE], hr_body := body\<rparr>"

text \<open>The serialiser's result is the argument.\<close>

definition try_from_json :: "string + string \<Rightarrow> pingora_error + http_response" where
  "try_from_json encoded =
     try_then (map_err (new_internal_error 400) encoded) (\<lambda>buf.
     Inr (default_response\<lparr>hr_status := 200, hr_body := buf, hr_headers := Some [HTTP_HEADER_CONTENT_JSON]\<rparr>))"

definition try_from_json_status :: "string + string \<Rightarrow> nat \<Rightarrow> pingora_error + http_response" where
  "try_from_json_status encoded status =
     try_then (try_from_json encoded) (\<lambda>resp. Inr (resp\<lparr>hr_status := status\<rparr>))"

definition insert_headers :: "http_header list \<Rightarrow> header_map \<Rightarrow> header_map" where
  "insert_headers hs m = fold (\<lambda>(k, v). hdr_insert k v) hs m"

definition new_response_header :: "http_lib \<Rightarrow> sys_env \<Rightarrow> http_response \<Rightarrow> response_header" where
  "new_response_header lib env r =
     (let m1 = hdr_insert ''content-length'' (show_nat (length (hr_body r))) no_headers;
          (ck, cv) = new_cache_control_header lib (hr_max_age r) (hr_cache_private r);
          m2 = hdr_insert ck cv m1;
          m3 = (case hr_created_at r of
                  None \<Rightarrow> m2
                | Some created \<Rightarrow>
                    let secs = (get_super_ts env + 2 ^ 32 - created) mod 2 ^ 32
                    in case hvalue_from_str lib (show_nat secs) of
                         Inr value \<Rightarrow> hdr_insert ''age'' value m2
                       | Inl _ \<Rightarrow> m2)
      in \<lparr>resp_status = hr_status r, resp_headers = insert_headers (unwrap_or [] (hr_headers r)) m3\<rparr>)"

section \<open>Writing to the client\<close>

record conn =
  cn_session :: session
  cn_written :: "(response_header \<times> string) list"
  cn_write_error :: "pingora_error option"

definition send :: "http_lib \<Rightarrow> sys_env \<Rightarrow> http_response \<Rightarrow> conn \<Rightarrow> (pingora_error + nat) \<times> conn" where
  "send lib env r c =
     (case cn_write_error c of
        Some e \<Rightarrow> (Inl e, c)
      | None \<Rightarrow> (Inr (length (hr_body r)),
                 c\<lparr>cn_written := cn_written c @ [(new_response_header lib env r, hr_body r)]\<rparr>))"

section \<open>Chunked responses\<close>

definition DEFAULT_BUF_SIZE :: nat where "DEFAULT_BUF_SIZE = 8 * 1024"

record chunk_response =
  ch_chunk_size :: nat
  ch_max_age :: "nat option"
  ch_cache_private :: "bool option"
  ch_headers :: "http_header list option"

definition new_chunk_response :: chunk_response where
  "new_chunk_response = \<lparr>ch_chunk_size = DEFAULT_BUF_SIZE, ch_max_age = None, ch_cache_private = None, ch_headers = None\<rparr>"

definition chunk_response_header :: "http_lib \<Rightarrow> chunk_response \<Rightarrow> response_header" where
  "chunk_response_header lib r =
     (let m1 = insert_headers (unwrap_or [] (ch_headers r)) no_headers;
          m2 = insert_headers [HTTP_HEADER_TRANSFER_CHUNKED] m1;
          m3 = insert_headers [new_cache_control_header lib (ch_max_age r) (ch_cache_private r)] m2
      in \<lparr>resp_status = 200, resp_headers = m3\<rparr>)"

text \<open>
  The loop of \<open>HttpChunkResponse::send\<close>. The reader is the list of what its successive reads
  give (an error ends it; after the list it is at its end and gives nothing); each read is at
  most a buffer. The result is the body written and the bytes counted.
\<close>

fun chunk_loop :: "nat \<Rightarrow> (string + string) list \<Rightarrow> string \<Rightarrow> nat \<Rightarrow> (pingora_error + nat) \<times> string" where
  "chunk_loop chunk_size [] body sent = (Inr sent, body)"
| "chunk_loop chunk_size (Inl e # rs) body sent = (Inl (new_internal_error 400 e), body)"
| "chunk_loop chunk_size (Inr d # rs) body sent =
     (if length d < chunk_size then (Inr (sent + length d), body @ d)
      else chunk_loop chunk_size rs (body @ d) (sent + length d))"

definition chunk_send ::
  "http_lib \<Rightarrow> chunk_response \<Rightarrow> (string + string) list \<Rightarrow> conn \<Rightarrow> (pingora_error + nat) \<times> conn" where
  "chunk_send lib r reads c =
     (case cn_write_error c of
        Some e \<Rightarrow> (Inl e, c)
      | None \<Rightarrow>
          (let (res, body) = chunk_loop (max (ch_chunk_size r) 512) reads [] 0
           in (res, c\<lparr>cn_written := cn_written c @ [(chunk_response_header lib r, body)]\<rparr>)))"

section \<open>Lemmas\<close>

lemma insert_headers_hdr: "insert_headers hs m = hdr.put_all hs m"
  by (simp add: insert_headers_def hdr.put_all_def)

lemma insert_headers_other:
  "(\<forall>(k, v) \<in> set hs. ascii_lower k \<noteq> ascii_lower j) \<Longrightarrow> hdr_get (insert_headers hs m) j = hdr_get m j"
  unfolding insert_headers_hdr by (rule hdr.get_put_all_other)

lemma fst_new_cache_control_header [simp]: "fst (new_cache_control_header lib a p) = ''cache-control''"
  by (simp add: new_cache_control_header_def http_header_consts Let_def split: option.splits sum.splits)

lemma send_Inr_iff: "fst (send lib env r c) = Inr n \<longleftrightarrow> cn_write_error c = None \<and> n = length (hr_body r)"
  by (auto simp: send_def split: option.splits)

lemma send_session [simp]: "cn_session (snd (send lib env r c)) = cn_session c"
  by (simp add: send_def split: option.splits)

lemma chunk_loop_full:
  "\<forall>d \<in> set ds. chunk_size \<le> length d \<Longrightarrow>
     chunk_loop chunk_size (map Inr ds @ rest) body sent
       = chunk_loop chunk_size rest (body @ concat ds) (sent + length (concat ds))"
  by (induction ds arbitrary: body sent) (auto simp: add.assoc not_less)

lemma chunk_loop_complete:
  assumes "\<forall>d \<in> set ds. length d = chunk_size" "length fin < chunk_size"
  shows "chunk_loop chunk_size (map Inr ds @ [Inr fin]) [] 0
     = (Inr (length (concat ds @ fin)), concat ds @ fin)"
  using chunk_loop_full[of ds chunk_size "[Inr fin]" "[]" 0] assms by simp

lemma chunk_loop_short:
  assumes "\<forall>d \<in> set ds. length d = chunk_size" "length short < chunk_size"
  shows "chunk_loop chunk_size (map Inr ds @ Inr short # rest) [] 0
     = (Inr (length (concat ds @ short)), concat ds @ short)"
  using chunk_loop_full[of ds chunk_size "Inr short # rest" "[]" 0] assms by simp

end
