(* ===== verification/Plugin.thy ===== *)
theory Plugin
  imports Http_Response
begin

text \<open>
  \<open>pingap-core/src/plugin.rs\<close>: the steps of a request at which plugins run and the interface
  of a plugin. A plugin is the record of its key and its three handlers; \<open>'s\<close> is the state plugins keep
  between requests (counters, caches). A handler may change the connection, the request
  context and that state, whether it succeeds or not.
\<close>

datatype plugin_step = EarlyRequest | Request | ProxyUpstream | UpstreamResponse | Response

definition step_text :: "plugin_step \<Rightarrow> string" where
  "step_text s = (case s of
     EarlyRequest \<Rightarrow> ''early_request'' | Request \<Rightarrow> ''request'' | ProxyUpstream \<Rightarrow> ''proxy_upstream''
   | UpstreamResponse \<Rightarrow> ''upstream_response'' | Response \<Rightarrow> ''response'')"

definition parse_step :: "string \<Rightarrow> plugin_step option" where
  "parse_step s = find (\<lambda>st. step_text st = s) [EarlyRequest, Request, ProxyUpstream, UpstreamResponse, Response]"

type_synonym 's req_handler =
  "plugin_step \<Rightarrow> conn \<times> ctx \<times> 's \<Rightarrow> (pingora_error + bool \<times> http_response option) \<times> conn \<times> ctx \<times> 's"

type_synonym 's resp_handler =
  "plugin_step \<Rightarrow> conn \<times> ctx \<times> 's \<times> response_header \<Rightarrow> (pingora_error + bool) \<times> conn \<times> ctx \<times> 's \<times> response_header"

record 's plugin =
  hash_key :: string
  handle_request :: "'s req_handler"
  handle_response :: "'s resp_handler"
  handle_upstream_response :: "'s resp_handler"

text \<open>The default methods of the trait.\<close>

definition default_handle_request :: "'s req_handler" where
  "default_handle_request step st = (Inr (False, None), st)"

definition default_handle_response :: "'s resp_handler" where
  "default_handle_response step st = (Inr False, st)"

definition default_plugin :: "'s plugin" where
  "default_plugin = \<lparr>hash_key = [], handle_request = default_handle_request,
     handle_response = default_handle_response,
     handle_upstream_response = default_handle_response\<rparr>"

lemma parse_step_text [simp]: "parse_step (step_text s) = Some s"
  by (cases s) (simp_all add: parse_step_def step_text_def)

end
