(* ===== verification/Server.thy ===== *)
theory Server
  imports Location Upstream Plugin
begin

text \<open>
  \<open>src/proxy/server_conf.rs\<close> and \<open>src/proxy/server.rs\<close>: the server built from the configuration
  and the callbacks pingora makes for a request. A callback is an action on \<open>exch\<close>: the
  connection, the request context and the shared world (the maps of locations and upstreams,
  the server's counters, the process counters, the state of the plugins). What pingora tells a
  callback (the digest of the connection, the phase of the cache, the response written) is an
  argument; what pingora computes is a field of \<open>server_lib\<close>. Tracing and metrics of the
  optional features are left out, apart from the metrics endpoint.
\<close>

section \<open>Server configuration\<close>

record proxy_server_conf =
  psc_admin :: bool
  psc_name :: string
  psc_addr :: string
  psc_access_log :: "string option"
  psc_locations :: "string list"
  psc_tls_cipher_list :: "string option"
  psc_tls_ciphersuites :: "string option"
  psc_tls_min_version :: "string option"
  psc_tls_max_version :: "string option"
  psc_threads :: "nat option"
  psc_error_template :: string
  psc_tcp_keepalive :: "tcp_keepalive option"
  psc_tcp_fastopen :: "nat option"
  psc_global_certificates :: bool
  psc_enabled_h2 :: bool
  psc_prometheus_metrics :: "string option"
  psc_otlp_exporter :: "string option"
  psc_modules :: "string list option"
  psc_enable_server_timing :: bool

definition parse_from_conf :: "string \<Rightarrow> pingap_conf \<Rightarrow> proxy_server_conf list" where
  "parse_from_conf default_template conf =
     map (\<lambda>(name, item).
       let template0 = unwrap_or [] (bc_error_template (basic conf));
           template = (if template0 = [] then default_template else template0)
       in \<lparr>psc_admin = False, psc_name = name, psc_addr = sc_addr item,
           psc_access_log = sc_access_log item, psc_locations = unwrap_or [] (sc_locations item),
           psc_tls_cipher_list = sc_tls_cipher_list item, psc_tls_ciphersuites = sc_tls_ciphersuites item,
           psc_tls_min_version = sc_tls_min_version item, psc_tls_max_version = sc_tls_max_version item,
           psc_threads = sc_threads item, psc_error_template = template,
           psc_tcp_keepalive = new_tcp_keepalive (sc_tcp_idle item) (sc_tcp_probe_count item) (sc_tcp_interval item),
           psc_tcp_fastopen = sc_tcp_fastopen item,
           psc_global_certificates = unwrap_or False (sc_global_certificates item),
           psc_enabled_h2 = unwrap_or False (sc_enabled_h2 item),
           psc_prometheus_metrics = sc_prometheus_metrics item,
           psc_otlp_exporter = sc_otlp_exporter item, psc_modules = sc_modules item,
           psc_enable_server_timing = unwrap_or False (sc_enable_server_timing item)\<rparr>) (servers conf)"

record server =
  srv_name :: string
  srv_admin :: bool
  srv_addr :: string
  srv_accepted :: u64
  srv_processing :: i32
  srv_log_format :: "string option"
  srv_error_template :: string
  srv_threads :: "nat option"
  srv_tls :: "string option \<times> string option \<times> string option \<times> string option"
  srv_enabled_h2 :: bool
  srv_lets_encrypt_enabled :: bool
  srv_global_certificates :: bool
  srv_tcp_socket_options :: "(nat option \<times> tcp_keepalive option) option"
  srv_prometheus_push_mode :: bool
  srv_prometheus_metrics :: string
  srv_modules :: "string list option"
  srv_enable_server_timing :: bool

definition new_server :: "proxy_server_conf \<Rightarrow> server" where
  "new_server conf =
     (let access_log = unwrap_or [] (psc_access_log conf);
          metrics = unwrap_or [] (psc_prometheus_metrics conf)
      in \<lparr>srv_name = psc_name conf, srv_admin = psc_admin conf, srv_addr = psc_addr conf,
          srv_accepted = 0, srv_processing = 0,
          srv_log_format = (if access_log \<noteq> [] then Some access_log else None),
          srv_error_template = psc_error_template conf, srv_threads = psc_threads conf,
          srv_tls = (psc_tls_cipher_list conf, psc_tls_ciphersuites conf,
                     psc_tls_min_version conf, psc_tls_max_version conf),
          srv_enabled_h2 = psc_enabled_h2 conf, srv_lets_encrypt_enabled = False,
          srv_global_certificates = psc_global_certificates conf,
          srv_tcp_socket_options =
            (if psc_tcp_fastopen conf \<noteq> None \<or> psc_tcp_keepalive conf \<noteq> None
             then Some (psc_tcp_fastopen conf, psc_tcp_keepalive conf) else None),
          srv_prometheus_push_mode = contains_str metrics ''://'',
          srv_prometheus_metrics = metrics, srv_modules = psc_modules conf,
          srv_enable_server_timing = psc_enable_server_timing conf\<rparr>)"

definition enable_lets_encrypt :: "server \<Rightarrow> server" where
  "enable_lets_encrypt s = s\<lparr>srv_lets_encrypt_enabled := True\<rparr>"

section \<open>The locations of a server, in the order they are tried\<close>

type_synonym server_locations = "(string, string list) hash_map"

definition get_server_locations :: "server_locations \<Rightarrow> string \<Rightarrow> string list option" where
  "get_server_locations m name = map_of m name"

definition location_weights :: "(string, location_conf) hash_map \<Rightarrow> (string, u16) hash_map" where
  "location_weights locs = fold (\<lambda>(name, item) m. map_insert name (get_weight item) m) locs []"

definition weight_of :: "(string, u16) hash_map \<Rightarrow> string \<Rightarrow> nat" where
  "weight_of ws name = unat (unwrap_or 0 (map_of ws name))"

text \<open>\<open>sort_by_key\<close> with \<open>Reverse\<close>: a stable sort by falling weight.\<close>

definition sort_locations :: "(string, u16) hash_map \<Rightarrow> string list \<Rightarrow> string list" where
  "sort_locations ws items = sort_key (\<lambda>item. - int (weight_of ws item)) items"

fun build_server_locations ::
  "(string, u16) hash_map \<Rightarrow> server_locations \<Rightarrow> (string, server_conf) hash_map
     \<Rightarrow> server_locations \<Rightarrow> string list \<Rightarrow> server_locations \<times> string list" where
  "build_server_locations ws old [] m updated = (m, updated)"
| "build_server_locations ws old ((name, srv) # rest) m updated =
     (case sc_locations srv of
        None \<Rightarrow> build_server_locations ws old rest m updated
      | Some items0 \<Rightarrow>
          let items = sort_locations ws items0;
              not_modified = (case get_server_locations old name of
                 Some current \<Rightarrow> join '','' current = join '','' items | None \<Rightarrow> False)
          in build_server_locations ws old rest (map_insert name items m)
               (if not_modified then updated else updated @ [name]))"

definition try_init_server_locations ::
  "(string, server_conf) hash_map \<Rightarrow> (string, location_conf) hash_map \<Rightarrow> server_locations
     \<Rightarrow> string list \<times> server_locations" where
  "try_init_server_locations srvs locs old =
     (let (m, updated) = build_server_locations (location_weights locs) old srvs [] []
      in (updated, m))"

section \<open>The exchange\<close>

record ('re, 'b, 's) world =
  w_server :: server
  w_server_locations :: server_locations
  w_locations :: "'re location_map"
  w_upstreams :: "'b upstream_map"
  w_accepted :: u64
  w_processing :: i32
  w_plugins :: 's

record ('re, 'b, 's) exch =
  x_conn :: conn
  x_ctx :: ctx
  x_world :: "('re, 'b, 's) world"

type_synonym ('re, 'b, 's, 'a) callback = "(('re, 'b, 's) exch, pingora_error, 'a) action"

record digest =
  timing_digest :: "nat option list"
  ssl_digest :: "(string \<times> string) option"

text \<open>
  \<open>sl_plugin\<close> is the map of plugins, \<open>sl_elapsed\<close> the milliseconds a plugin took; the storage of
  the ACME tokens is \<open>sl_acme_load\<close>, and \<open>sl_metrics\<close> the metrics of the server when they are
  collected.
\<close>

record ('re, 'b, 's) server_lib =
  sl_loc :: "'re location_lib"
  sl_up :: "'b upstream_lib"
  sl_env :: sys_env
  sl_plugin :: "string \<Rightarrow> 's plugin option"
  sl_elapsed :: "string \<Rightarrow> plugin_step \<Rightarrow> nat"
  sl_admin_plugin :: string
  sl_acme_load :: "(string \<Rightarrow> string + string) option"
  sl_metrics :: "(string + string) option"
  sl_peer_text :: "peer_addr \<Rightarrow> string"
  sl_error_text :: "pingora_error \<Rightarrow> string"
  sl_error_name :: "error_type \<Rightarrow> string"
  sl_error_resp :: "nat \<Rightarrow> response_header"
  sl_pkg_version :: string

definition upd_ctx :: "(ctx \<Rightarrow> ctx) \<Rightarrow> ('re, 'b, 's) exch \<Rightarrow> ('re, 'b, 's) exch" where
  "upd_ctx f x = x\<lparr>x_ctx := f (x_ctx x)\<rparr>"

definition upd_world :: "(('re, 'b, 's) world \<Rightarrow> ('re, 'b, 's) world) \<Rightarrow> ('re, 'b, 's) exch \<Rightarrow> ('re, 'b, 's) exch" where
  "upd_world f x = x\<lparr>x_world := f (x_world x)\<rparr>"

definition map_update :: "string \<Rightarrow> ('v \<Rightarrow> 'v) \<Rightarrow> (string, 'v) hash_map \<Rightarrow> (string, 'v) hash_map" where
  "map_update k f m = map (\<lambda>(n, v). (n, if n = k then f v else v)) m"

abbreviation sl_http :: "('re, 'b, 's) server_lib \<Rightarrow> http_lib" where
  "sl_http lib \<equiv> ll_http (sl_loc lib)"

abbreviation x_req :: "('re, 'b, 's) exch \<Rightarrow> request_header" where
  "x_req x \<equiv> req_header (cn_session (x_conn x))"

abbreviation current_location :: "('re, 'b, 's) exch \<Rightarrow> 're location option" where
  "current_location x \<equiv> get_location (w_locations (x_world x)) (ctx_location (x_ctx x))"

definition location_error_text :: "location_error \<Rightarrow> string" where
  "location_error_text e = (case e of
     LocInvalid m \<Rightarrow> ''Invalid error '' @ m
   | LocRegex v s \<Rightarrow> ''Regex value: '' @ v @ '', '' @ s
   | TooManyRequest m \<Rightarrow> ''Too Many Requests, max:'' @ show_int (sint m)
   | BodyTooLarge m \<Rightarrow> ''Request Entity Too Large, max:'' @ show_nat m)"

section \<open>Connection details\<close>

record digest_detail =
  dd_connection_reused :: bool
  dd_connection_time :: nat
  dd_tcp_established :: nat
  dd_tls_established :: nat
  dd_tls_version :: "string option"
  dd_tls_cipher :: "string option"

definition get_established :: "nat option option \<Rightarrow> nat" where
  "get_established v = (case v of Some (Some ts) \<Rightarrow> ts | _ \<Rightarrow> 0)"

definition list_first :: "'a list \<Rightarrow> 'a option" where
  "list_first xs = (case xs of [] \<Rightarrow> None | x # _ \<Rightarrow> Some x)"

definition list_last :: "'a list \<Rightarrow> 'a option" where
  "list_last xs = (if xs = [] then None else Some (last xs))"

definition get_digest_detail :: "sys_env \<Rightarrow> digest \<Rightarrow> digest_detail" where
  "get_digest_detail env d =
     (let tcp = get_established (list_first (timing_digest d));
          time = (if tcp > 0 then sub_u64 (sys_now_ms env) tcp else 0);
          reused = (time > 100)
      in case ssl_digest d of
           None \<Rightarrow> \<lparr>dd_connection_reused = reused, dd_connection_time = time, dd_tcp_established = tcp,
                    dd_tls_established = 0, dd_tls_version = None, dd_tls_cipher = None\<rparr>
         | Some (version, cipher) \<Rightarrow>
             \<lparr>dd_connection_reused = reused, dd_connection_time = time, dd_tcp_established = tcp,
              dd_tls_established = get_established (list_last (timing_digest d)),
              dd_tls_version = Some version, dd_tls_cipher = Some cipher\<rparr>)"

definition record_digest :: "sys_env \<Rightarrow> digest \<Rightarrow> ctx \<Rightarrow> ctx" where
  "record_digest env dg c =
     (let d = get_digest_detail env dg;
          c1 = c\<lparr>connection_time := dd_connection_time d, connection_reused := dd_connection_reused d\<rparr>;
          c2 = (if \<not> dd_connection_reused d \<and> dd_tls_established d \<ge> dd_tcp_established d
                then c1\<lparr>tls_handshake_time := Some (dd_tls_established d - dd_tcp_established d)\<rparr> else c1)
      in c2\<lparr>tls_cipher := dd_tls_cipher d, tls_version := dd_tls_version d\<rparr>)"

section \<open>Headers sent to the upstream\<close>

definition DEFAULT_PROXY_SET_HEADERS :: "http_lib \<Rightarrow> http_header list" where
  "DEFAULT_PROXY_SET_HEADERS lib =
     (case convert_headers lib
        [''X-Real-IP:$remote_addr'', ''X-Forwarded-For:$proxy_add_x_forwarded_for'',
         ''X-Forwarded-Proto:$scheme'', ''X-Forwarded-Host:$host'', ''X-Forwarded-Port:$server_port''] of
        Inr hs \<Rightarrow> hs | Inl _ \<Rightarrow> [])"

definition dynamic_value :: "http_lib \<Rightarrow> sys_env \<Rightarrow> session \<Rightarrow> ctx \<Rightarrow> http_header \<Rightarrow> http_header" where
  "dynamic_value lib env s c kv = (fst kv, unwrap_or (snd kv) (convert_header_value lib env (snd kv) s c))"

definition set_append_proxy_headers ::
  "http_lib \<Rightarrow> sys_env \<Rightarrow> 're location option \<Rightarrow> session \<Rightarrow> ctx \<Rightarrow> header_map \<Rightarrow> header_map" where
  "set_append_proxy_headers lib env loc s c m =
     (case loc of
        None \<Rightarrow> m
      | Some l \<Rightarrow>
          let dv = dynamic_value lib env s c;
              insert = (\<lambda>hs m. fold (\<lambda>(k, v). hdr_insert k v) (map dv hs) m);
              append = (\<lambda>hs m. fold (\<lambda>(k, v). hdr_append k v) (map dv hs) m);
              m1 = (if enable_reverse_proxy_headers l then insert (DEFAULT_PROXY_SET_HEADERS lib) m else m);
              m2 = insert (unwrap_or [] (proxy_set_headers l)) m1
          in append (unwrap_or [] (proxy_add_headers l)) m2)"

section \<open>Plugin chains\<close>

definition call_request_plugin ::
  "'s plugin \<Rightarrow> plugin_step \<Rightarrow> ('re, 'b, 's, bool \<times> http_response option) callback" where
  "call_request_plugin p step x =
     (let (r, cn, c, s) = handle_request p step (x_conn x, x_ctx x, w_plugins (x_world x))
      in (r, x\<lparr>x_conn := cn, x_ctx := c, x_world := (x_world x)\<lparr>w_plugins := s\<rparr>\<rparr>))"

definition send_response :: "('re, 'b, 's) server_lib \<Rightarrow> http_response \<Rightarrow> ('re, 'b, 's, nat) callback" where
  "send_response lib resp x =
     (let (r, cn) = send (sl_http lib) (sl_env lib) resp (x_conn x) in (r, x\<lparr>x_conn := cn\<rparr>))"

definition note_time :: "('re, 'b, 's) server_lib \<Rightarrow> plugin_step \<Rightarrow> string \<Rightarrow> bool \<Rightarrow> ('re, 'b, 's, unit) callback" where
  "note_time lib step name executed =
     act_modify (upd_ctx (if executed
       then add_plugin_processing_time name (sl_elapsed lib name step mod 2 ^ 32) else id))"

fun run_request_plugins ::
  "('re, 'b, 's) server_lib \<Rightarrow> plugin_step \<Rightarrow> string list \<Rightarrow> ('re, 'b, 's, bool) callback" where
  "run_request_plugins lib step [] = act_return False"
| "run_request_plugins lib step (name # names) =
     (case sl_plugin lib name of
        None \<Rightarrow> run_request_plugins lib step names
      | Some p \<Rightarrow>
          act_bind (call_request_plugin p step) (\<lambda>(executed, result).
          act_bind (note_time lib step name executed) (\<lambda>_.
          case result of
            None \<Rightarrow> run_request_plugins lib step names
          | Some resp \<Rightarrow>
              if hr_status resp < 900 then
                act_bind (act_modify (upd_ctx (\<lambda>c. c\<lparr>ctx_status := Some (hr_status resp)\<rparr>))) (\<lambda>_.
                act_bind (send_response lib resp) (\<lambda>_. act_return True))
              else act_return True)))"

definition handle_request_plugin ::
  "('re, 'b, 's) server_lib \<Rightarrow> plugin_step \<Rightarrow> 're location \<Rightarrow> ('re, 'b, 's, bool) callback" where
  "handle_request_plugin lib step l x =
     (if is_upgrade_req (cn_session (x_conn x)) then (Inr False, x)
      else case loc_plugins l of
             None \<Rightarrow> (Inr False, x)
           | Some names \<Rightarrow> run_request_plugins lib step names x)"

type_synonym ('re, 'b, 's) resp_exch = "('re, 'b, 's) exch \<times> response_header"

definition call_response_plugin ::
  "'s resp_handler \<Rightarrow> plugin_step \<Rightarrow> (('re, 'b, 's) resp_exch, pingora_error, bool) action" where
  "call_response_plugin h step xr =
     (let (x, hdr) = xr; (r, cn, c, s, hdr') = h step (x_conn x, x_ctx x, w_plugins (x_world x), hdr)
      in (r, x\<lparr>x_conn := cn, x_ctx := c, x_world := (x_world x)\<lparr>w_plugins := s\<rparr>\<rparr>, hdr'))"

fun run_response_plugins ::
  "('re, 'b, 's) server_lib \<Rightarrow> ('s plugin \<Rightarrow> 's resp_handler) \<Rightarrow> plugin_step \<Rightarrow> string list
     \<Rightarrow> (('re, 'b, 's) resp_exch, pingora_error, unit) action" where
  "run_response_plugins lib sel step [] = act_return ()"
| "run_response_plugins lib sel step (name # names) =
     (case sl_plugin lib name of
        None \<Rightarrow> run_response_plugins lib sel step names
      | Some p \<Rightarrow>
          act_bind (call_response_plugin (sel p) step) (\<lambda>executed.
          act_bind (act_modify (\<lambda>(x, hdr). (upd_ctx (if executed
            then add_plugin_processing_time name (sl_elapsed lib name step mod 2 ^ 32) else id) x, hdr))) (\<lambda>_.
          run_response_plugins lib sel step names)))"

definition response_chain ::
  "('re, 'b, 's) server_lib \<Rightarrow> ('s plugin \<Rightarrow> 's resp_handler) \<Rightarrow> plugin_step \<Rightarrow> 're location
     \<Rightarrow> (('re, 'b, 's) resp_exch, pingora_error, unit) action" where
  "response_chain lib sel step l xr =
     (if is_upgrade_req (cn_session (x_conn (fst xr))) then (Inr (), xr)
      else case loc_plugins l of
             None \<Rightarrow> (Inr (), xr)
           | Some names \<Rightarrow> run_response_plugins lib sel step names xr)"

definition handle_response_plugin ::
  "('re, 'b, 's) server_lib \<Rightarrow> plugin_step \<Rightarrow> 're location \<Rightarrow> (('re, 'b, 's) resp_exch, pingora_error, unit) action" where
  "handle_response_plugin lib = response_chain lib handle_response"

definition handle_upstream_response_plugin ::
  "('re, 'b, 's) server_lib \<Rightarrow> plugin_step \<Rightarrow> 're location \<Rightarrow> (('re, 'b, 's) resp_exch, pingora_error, unit) action" where
  "handle_upstream_response_plugin lib = response_chain lib handle_upstream_response"

end
