(* ===== verification/Proxy.thy ===== *)
theory Proxy
  imports Server
begin

text \<open>
  The callbacks of \<open>impl ProxyHttp for Server\<close> in \<open>src/proxy/server.rs\<close>, in the order of the
  source, with \<open>serve_admin\<close>, \<open>get_upstream_with_variables\<close> and the ACME challenge answer of
  \<open>pingap-acme\<close> they call.
\<close>

definition get_upstream_with_variables :: "'b upstream_map \<Rightarrow> string \<Rightarrow> ctx \<Rightarrow> 'b upstream option" where
  "get_upstream_with_variables m name c =
     (if starts_with name ''$'' then
        (case get_variable c name of Some value \<Rightarrow> get_upstream m value | None \<Rightarrow> get_upstream m name)
      else get_upstream m name)"

definition MODULE_GRPC_WEB :: string where "MODULE_GRPC_WEB = ''grpc-web''"

datatype http_module = CompressionModule nat | GrpcWebModule

definition init_downstream_modules :: "server \<Rightarrow> http_module list" where
  "init_downstream_modules srv =
     CompressionModule 0 #
     concat (map (\<lambda>item. if item = MODULE_GRPC_WEB then [GrpcWebModule] else [])
       (unwrap_or [] (srv_modules srv)))"

section \<open>Arrival\<close>

definition count_request :: "('re, 'b, 's) exch \<Rightarrow> ('re, 'b, 's) exch" where
  "count_request x =
     (let w = x_world x; srv = w_server w;
          srv' = srv\<lparr>srv_processing := srv_processing srv + 1, srv_accepted := srv_accepted srv + 1\<rparr>
      in x\<lparr>x_world := w\<lparr>w_accepted := w_accepted w + 1, w_processing := w_processing w + 1, w_server := srv'\<rparr>,
           x_ctx := (x_ctx x)\<lparr>ctx_processing := srv_processing srv', ctx_accepted := srv_accepted srv'\<rparr>\<rparr>)"

definition record_addrs :: "session \<Rightarrow> ctx \<Rightarrow> ctx" where
  "record_addrs s c =
     (let c1 = (case get_remote_addr s of
                  Some (addr, port) \<Rightarrow> c\<lparr>remote_addr := Some addr, remote_port := Some port\<rparr> | None \<Rightarrow> c)
      in case server_sock s of
           Some (addr, port) \<Rightarrow> c1\<lparr>server_addr := Some addr, server_port := Some port\<rparr> | None \<Rightarrow> c1)"

text \<open>
  The loop over the locations: the name of the location it leaves in \<open>current_location\<close> (the
  matched one, or else the last one that exists) and the context.
\<close>

fun find_location ::
  "'re regex_lib \<Rightarrow> 're location_map \<Rightarrow> string \<Rightarrow> string \<Rightarrow> string list \<Rightarrow> string option \<Rightarrow> ctx
     \<Rightarrow> string option \<times> ctx" where
  "find_location rl m host path [] cur c = (cur, c)"
| "find_location rl m host path (name # names) cur c =
     (case get_location m name of
        None \<Rightarrow> find_location rl m host path names cur c
      | Some l \<Rightarrow>
          (case match_host_path rl l host path of
             (True, vars) \<Rightarrow>
               (Some name, fold (\<lambda>(k, v). add_variable k v) (unwrap_or [] vars) (c\<lparr>ctx_location := loc_name l\<rparr>))
           | (False, _) \<Rightarrow> find_location rl m host path names (Some name) c))"

text \<open>The block under \<open>if let Some(location) = &current_location\<close>.\<close>

definition enter_location ::
  "('re, 'b, 's) server_lib \<Rightarrow> string \<Rightarrow> 're location \<Rightarrow> ('re, 'b, 's, unit) callback" where
  "enter_location lib name l x =
     (case validate_content_length (sl_http lib) l (x_req x) of
        Inl e \<Rightarrow> (Inl (new_internal_error 413 (location_error_text e)), x)
      | Inr _ \<Rightarrow>
          let (res, l') = add_processing l;
              x1 = upd_world (\<lambda>w. w\<lparr>w_locations := map_update name (\<lambda>_. l') (w_locations w)\<rparr>) x
          in case res of
               Inl e \<Rightarrow> (Inl (new_internal_error 429 (location_error_text e)), x1)
             | Inr (a, p) \<Rightarrow>
                 let x2 = upd_ctx (\<lambda>c. c\<lparr>location_accepted := a, location_processing := p\<rparr>) x1
                 in if support_grpc_web l \<and> GrpcWebModule \<notin> set (init_downstream_modules (w_server (x_world x)))
                    then (Inl (new_internal_error 500 ''grpc web bridge module should be added''), x2)
                    else act_bind (handle_request_plugin lib EarlyRequest l') (\<lambda>_. act_return ()) x2)"

definition note_arrival ::
  "('re, 'b, 's) server_lib \<Rightarrow> nat option \<Rightarrow> digest option \<Rightarrow> ('re, 'b, 's) exch \<Rightarrow> ('re, 'b, 's) exch" where
  "note_arrival lib stream dg x =
     (let c0 = x_ctx x;
          c1 = (case stream of Some i \<Rightarrow> c0\<lparr>connection_id := i\<rparr> | None \<Rightarrow> c0);
          c2 = (case dg of Some d \<Rightarrow> record_digest (sl_env lib) d c1 | None \<Rightarrow> c1)
      in upd_ctx (record_addrs (cn_session (x_conn x))) (count_request (x\<lparr>x_ctx := c2\<rparr>)))"

definition route_request :: "('re, 'b, 's) server_lib \<Rightarrow> ('re, 'b, 's, unit) callback" where
  "route_request lib x =
     (let w = x_world x;
          host = unwrap_or [] (get_host (sl_http lib) (x_req x));
          path = uri_path (req_uri (x_req x))
      in case get_server_locations (w_server_locations w) (srv_name (w_server w)) of
           None \<Rightarrow> (Inr (), x)
         | Some names \<Rightarrow>
             let (cur, c) = find_location (ll_re (sl_loc lib)) (w_locations w) host path names None (x_ctx x);
                 x' = x\<lparr>x_ctx := c\<rparr>
             in case cur of
                  None \<Rightarrow> (Inr (), x')
                | Some name \<Rightarrow>
                    (case get_location (w_locations w) name of
                       None \<Rightarrow> (Inr (), x')
                     | Some l \<Rightarrow> enter_location lib name l x'))"

definition early_request_filter ::
  "('re, 'b, 's) server_lib \<Rightarrow> nat option \<Rightarrow> digest option \<Rightarrow> ('re, 'b, 's, unit) callback" where
  "early_request_filter lib stream dg x = route_request lib (note_arrival lib stream dg x)"

section \<open>The request\<close>

definition serve_admin :: "('re, 'b, 's) server_lib \<Rightarrow> ('re, 'b, 's, bool) callback" where
  "serve_admin lib =
     (case sl_plugin lib (sl_admin_plugin lib) of
        None \<Rightarrow> act_return False
      | Some p \<Rightarrow>
          act_bind (call_request_plugin p Request) (\<lambda>(_, result).
          case result of
            None \<Rightarrow> act_return False
          | Some resp \<Rightarrow>
              act_bind (act_modify (upd_ctx (\<lambda>c. c\<lparr>ctx_status := Some (hr_status resp)\<rparr>))) (\<lambda>_.
              act_bind (send_response lib resp) (\<lambda>_. act_return True))))"

definition WELL_KNOWN_PATH_PREFIX :: string where
  "WELL_KNOWN_PATH_PREFIX = ''/.well-known/acme-challenge/''"

definition get_token_path :: "string \<Rightarrow> string" where
  "get_token_path key = ''pingap-acme-tokens/'' @ key"

definition handle_lets_encrypt ::
  "('re, 'b, 's) server_lib \<Rightarrow> (string \<Rightarrow> string + string) \<Rightarrow> ('re, 'b, 's, bool) callback" where
  "handle_lets_encrypt lib load x =
     (let path = uri_path (req_uri (x_req x)) in
      if starts_with path WELL_KNOWN_PATH_PREFIX then
        (case load (get_token_path (drop (length WELL_KNOWN_PATH_PREFIX) path)) of
           Inl e \<Rightarrow> (Inl (new_internal_error 500 e), x)
         | Inr value \<Rightarrow>
             act_bind (send_response lib (default_response\<lparr>hr_body := value\<rparr>)) (\<lambda>_. act_return True) x)
      else (Inr False, x))"

definition run_lets_encrypt :: "('re, 'b, 's) server_lib \<Rightarrow> ('re, 'b, 's, bool) callback" where
  "run_lets_encrypt lib x =
     (if srv_lets_encrypt_enabled (w_server (x_world x)) then
        (case sl_acme_load lib of
           None \<Rightarrow> (Inl (new_internal_error 500 ''get config storage fail''), x)
         | Some load \<Rightarrow> handle_lets_encrypt lib load x)
      else (Inr False, x))"

definition serve_metrics :: "('re, 'b, 's) server_lib \<Rightarrow> ('re, 'b, 's, bool) callback" where
  "serve_metrics lib x =
     (let srv = w_server (x_world x) in
      case sl_metrics lib of
        Some metrics \<Rightarrow>
          if \<not> srv_prometheus_push_mode srv \<and> uri_path (req_uri (x_req x)) = srv_prometheus_metrics srv then
            (case metrics of
               Inl e \<Rightarrow> (Inl (new_internal_error 500 e), x)
             | Inr body \<Rightarrow> act_bind (send_response lib (text_response body)) (\<lambda>_. act_return True) x)
          else (Inr False, x)
      | None \<Rightarrow> (Inr False, x))"

definition serve_location :: "('re, 'b, 's) server_lib \<Rightarrow> ('re, 'b, 's, bool) callback" where
  "serve_location lib x =
     (case current_location x of
        None \<Rightarrow>
          (let host = unwrap_or [] (get_host (sl_http lib) (x_req x));
               body = ''Location not found, host:'' @ host @ '' path:'' @ uri_path (req_uri (x_req x))
           in act_bind (send_response lib (unknown_error body)) (\<lambda>_. act_return True) x)
      | Some l \<Rightarrow>
          (let (_, header) = rewrite (sl_loc lib) l (x_req x) (variables (x_ctx x));
               cn = x_conn x;
               x' = x\<lparr>x_conn := cn\<lparr>cn_session := (cn_session cn)\<lparr>req_header := header\<rparr>\<rparr>\<rparr>
           in handle_request_plugin lib Request l x'))"

definition or_else :: "('x, 'e, bool) action \<Rightarrow> ('x, 'e, bool) action \<Rightarrow> ('x, 'e, bool) action" where
  "or_else m n = act_bind m (\<lambda>done. if done then act_return True else n)"

definition request_filter :: "('re, 'b, 's) server_lib \<Rightarrow> ('re, 'b, 's, bool) callback" where
  "request_filter lib x =
     or_else (if srv_admin (w_server (x_world x)) then serve_admin lib else act_return False)
       (or_else (run_lets_encrypt lib) (or_else (serve_metrics lib) (serve_location lib))) x"

definition proxy_upstream_filter :: "('re, 'b, 's) server_lib \<Rightarrow> ('re, 'b, 's, bool) callback" where
  "proxy_upstream_filter lib x =
     (case current_location x of
        None \<Rightarrow> (Inr True, x)
      | Some l \<Rightarrow> act_bind (handle_request_plugin lib ProxyUpstream l) (\<lambda>done. act_return (\<not> done)) x)"

section \<open>The upstream\<close>

definition take_peer ::
  "('re, 'b, 's) server_lib \<Rightarrow> 're location \<Rightarrow> ('re, 'b, 's) exch \<Rightarrow> http_peer option \<times> ('re, 'b, 's) exch" where
  "take_peer lib l x =
     (let w = x_world x; c = x_ctx x in
      case get_upstream_with_variables (w_upstreams w) (loc_upstream l) c of
        None \<Rightarrow> (None, x)
      | Some up \<Rightarrow>
          let (peer, up') = new_http_peer (sl_up lib) up (cn_session (x_conn x)) (client_ip c);
              c1 = c\<lparr>upstream_connected := connected up\<rparr>;
              c2 = (case peer of Some p \<Rightarrow> c1\<lparr>upstream_address := sl_peer_text lib (hp_addr p)\<rparr> | None \<Rightarrow> c1)
          in (peer, x\<lparr>x_ctx := c2\<lparr>ctx_upstream := up_name up\<rparr>,
                      x_world := w\<lparr>w_upstreams := map_update (up_name up) (\<lambda>_. up') (w_upstreams w)\<rparr>\<rparr>))"

definition upstream_peer :: "('re, 'b, 's) server_lib \<Rightarrow> ('re, 'b, 's, http_peer) callback" where
  "upstream_peer lib x =
     (let (name, peer, x1) = (case current_location x of
             None \<Rightarrow> (''unknown'', None, x)
           | Some l \<Rightarrow> (let (p, x') = take_peer lib l x in (loc_name l, p, x')))
      in case peer of
           None \<Rightarrow> (Inl (new_internal_error 503 (''No available upstream for '' @ name)), x1)
         | Some p \<Rightarrow>
             (Inr p, upd_ctx (\<lambda>c. c\<lparr>upstream_connect_time := get_latency (sl_env lib) (upstream_connect_time c)\<rparr>) x1))"

definition connected_to_upstream :: "sys_env \<Rightarrow> bool \<Rightarrow> digest option \<Rightarrow> ctx \<Rightarrow> ctx" where
  "connected_to_upstream env reused dg c =
     (let c3 = (case dg of
                  None \<Rightarrow> c
                | Some d0 \<Rightarrow>
                    let d = get_digest_detail env d0;
                        start = unwrap_or 0 (upstream_connect_time c);
                        c1 = (if \<not> reused \<and> start > 0 \<and> dd_tcp_established d > start
                              then c\<lparr>upstream_tcp_connect_time := Some (dd_tcp_established d - start)\<rparr> else c);
                        c2 = (if \<not> reused \<and> dd_tls_established d > dd_tcp_established d
                              then c1\<lparr>upstream_tls_handshake_time := Some (dd_tls_established d - dd_tcp_established d)\<rparr> else c1)
                    in c2\<lparr>upstream_connection_time := Some (dd_connection_time d)\<rparr>)
      in c3\<lparr>upstream_reused := reused,
            upstream_connect_time := get_latency env (upstream_connect_time c3),
            upstream_processing_time := get_latency env (upstream_processing_time c3)\<rparr>)"

definition upstream_request_filter :: "('re, 'b, 's) server_lib \<Rightarrow> request_header \<Rightarrow> ('re, 'b, 's) exch \<Rightarrow> request_header" where
  "upstream_request_filter lib h x =
     h\<lparr>req_headers := set_append_proxy_headers (sl_http lib) (sl_env lib) (current_location x)
        (cn_session (x_conn x)) (x_ctx x) (req_headers h)\<rparr>"

text \<open>The size is a \<open>usize\<close>; the addition wraps.\<close>

definition request_body_filter :: "string option \<Rightarrow> ('re, 'b, 's, unit) callback" where
  "request_body_filter body x =
     (case body of
        None \<Rightarrow> (Inr (), x)
      | Some buf \<Rightarrow>
          let size = (payload_size (x_ctx x) + length buf) mod 2 ^ 64;
              x' = upd_ctx (\<lambda>c. c\<lparr>payload_size := size\<rparr>) x
          in case current_location x of
               None \<Rightarrow> (Inr (), x')
             | Some l \<Rightarrow>
                 (case client_body_size_limit l size of
                    Inl e \<Rightarrow> (Inl (new_internal_error 413 (location_error_text e)), x')
                  | Inr _ \<Rightarrow> (Inr (), x')))"

definition cache_key_callback :: "('re, 'b, 's) exch \<Rightarrow> string \<times> string" where
  "cache_key_callback x = get_cache_key (x_ctx x) (req_method (x_req x)) (req_uri (x_req x))"

section \<open>The response\<close>

text \<open>
  Cache control of \<open>pingora-cache\<close>: the directives of a response in order, and what pingora
  reads from them. \<open>cc_max_age\<close> is \<open>Inl\<close> when the directive is malformed.
\<close>

type_synonym directives = "(string, string option) hash_map"

record 'cacheable cache_lib =
  cc_from_resp :: "response_header \<Rightarrow> directives option"
  cc_no_cache :: "directives \<Rightarrow> bool"
  cc_no_store :: "directives \<Rightarrow> bool"
  cc_private :: "directives \<Rightarrow> bool"
  cc_max_age :: "directives \<Rightarrow> string + nat option"
  cc_fresh_sec :: "directives \<Rightarrow> nat option"
  cc_resp_cacheable :: "directives option \<Rightarrow> response_header \<Rightarrow> 'cacheable"

datatype 'cacheable cache_verdict = OriginNotCache | RespCacheable 'cacheable

definition limit_ttl :: "'c cache_lib \<Rightarrow> duration option \<Rightarrow> directives \<Rightarrow> directives" where
  "limit_ttl cl max_ttl ds =
     (case max_ttl of
        None \<Rightarrow> ds
      | Some d \<Rightarrow>
          if unwrap_or 0 (cc_fresh_sec cl ds) > as_secs d mod 2 ^ 32
          then map_insert ''s-maxage'' (Some (show_nat (as_secs d))) ds else ds)"

definition response_cache_filter ::
  "'c cache_lib \<Rightarrow> response_header \<Rightarrow> ctx \<Rightarrow> 'c cache_verdict" where
  "response_cache_filter cl resp c =
     (if check_cache_control c \<and> hdr_get (resp_headers resp) ''Cache-Control'' = None then OriginNotCache
      else case cc_from_resp cl resp of
             None \<Rightarrow> RespCacheable (cc_resp_cacheable cl None resp)
           | Some ds \<Rightarrow>
               if cc_no_cache cl ds \<or> cc_no_store cl ds \<or> cc_private cl ds then OriginNotCache
               else (case cc_max_age cl ds of
                       Inr age \<Rightarrow>
                         if unwrap_or 0 age = 0 then OriginNotCache
                         else RespCacheable (cc_resp_cacheable cl (Some (limit_ttl cl (cache_max_ttl c) ds)) resp)
                     | Inl _ \<Rightarrow> RespCacheable (cc_resp_cacheable cl (Some (limit_ttl cl (cache_max_ttl c) ds)) resp)))"

text \<open>What the session reports of the cache: its phase and the two durations.\<close>

record cache_view =
  cv_enabled :: bool
  cv_phase :: string
  cv_lookup_duration :: "duration option"
  cv_lock_duration :: "duration option"

definition set_resp_header :: "string \<Rightarrow> string \<Rightarrow> response_header \<Rightarrow> response_header" where
  "set_resp_header k v h = h\<lparr>resp_headers := hdr_insert k v (resp_headers h)\<rparr>"

definition note_cache :: "cache_view \<Rightarrow> ctx \<times> response_header \<Rightarrow> ctx \<times> response_header" where
  "note_cache cv ch =
     (let (c, h) = ch in
      if \<not> cv_enabled cv then (c, h)
      else let h1 = set_resp_header ''X-Cache-Status'' (cv_phase cv) h;
               (c2, h2) = (case cv_lookup_duration cv of
                  None \<Rightarrow> (c, h1)
                | Some d \<Rightarrow> (c\<lparr>cache_lookup_time := Some (as_millis d mod 2 ^ 64)\<rparr>,
                            set_resp_header ''X-Cache-Lookup'' (show_nat (as_millis d mod 2 ^ 64) @ ''ms'') h1))
           in case cv_lock_duration cv of
                None \<Rightarrow> (c2, h2)
              | Some d \<Rightarrow> (c2\<lparr>cache_lock_time := Some (as_millis d mod 2 ^ 64)\<rparr>,
                          set_resp_header ''X-Cache-Lock'' (show_nat (as_millis d mod 2 ^ 64) @ ''ms'') h2))"

definition response_filter ::
  "('re, 'b, 's) server_lib \<Rightarrow> cache_view \<Rightarrow> (('re, 'b, 's) resp_exch, pingora_error, unit) action" where
  "response_filter lib cv xr =
     (let (x, h) = xr;
          (c1, h1) = note_cache cv (x_ctx x, h);
          x1 = x\<lparr>x_ctx := c1\<rparr>
      in act_bind (\<lambda>xr. case current_location (fst xr) of
            None \<Rightarrow> (Inr (), xr)
          | Some l \<Rightarrow> handle_response_plugin lib Response l xr) (\<lambda>_ xr.
         (Inr (), (fst xr, if srv_enable_server_timing (w_server (x_world (fst xr)))
            then set_resp_header ''Server-Timing'' (generate_server_timing (sl_env lib) (x_ctx (fst xr))) (snd xr)
            else snd xr))) (x1, h1))"

definition note_upstream_response :: "sys_env \<Rightarrow> nat \<Rightarrow> ctx \<Rightarrow> ctx" where
  "note_upstream_response env status c =
     (let c1 = (if ctx_status c = None
                then c\<lparr>ctx_status := Some status,
                       upstream_response_time := get_latency env (upstream_response_time c)\<rparr> else c)
      in c1\<lparr>upstream_processing_time := get_latency env (upstream_processing_time c1)\<rparr>)"

definition upstream_response_filter ::
  "('re, 'b, 's) server_lib \<Rightarrow> (('re, 'b, 's) resp_exch, pingora_error, unit) action" where
  "upstream_response_filter lib =
     act_bind (\<lambda>xr. case current_location (fst xr) of
         None \<Rightarrow> (Inr (), xr)
       | Some l \<Rightarrow> handle_upstream_response_plugin lib UpstreamResponse l xr) (\<lambda>_ xr.
     let (x, h) = xr;
         h' = (case ctx_request_id (x_ctx x) of Some i \<Rightarrow> set_resp_header ''X-Request-Id'' i h | None \<Rightarrow> h)
     in (Inr (), (upd_ctx (note_upstream_response (sl_env lib) (resp_status h)) x, h')))"

text \<open>
  The two body filters. The chunks are collected in \<open>response_body\<close> and cleared; the end of the
  stream replaces the body by what the modifier makes of the whole.
\<close>

definition collect_body :: "string option \<Rightarrow> ctx \<Rightarrow> string option \<times> ctx" where
  "collect_body body c =
     (let buf = unwrap_or [] (response_body c) @ unwrap_or [] body
      in (map_option (\<lambda>_. []) body, c\<lparr>response_body := Some buf\<rparr>))"

definition upstream_response_body_filter ::
  "sys_env \<Rightarrow> string option \<Rightarrow> bool \<Rightarrow> ctx \<Rightarrow> string option \<times> ctx" where
  "upstream_response_body_filter env body eos c =
     (let (body1, c1) = (case modify_upstream_response_body c of
             None \<Rightarrow> (body, c)
           | Some modify \<Rightarrow>
               let (b, c') = collect_body body c in
               if eos then (map_option modify (response_body c'),
                            c'\<lparr>response_body := None, modify_upstream_response_body := None\<rparr>)
               else (b, c'))
      in (body1, if eos then c1\<lparr>upstream_response_time := get_latency env (upstream_response_time c1)\<rparr> else c1))"

definition response_body_filter :: "string option \<Rightarrow> bool \<Rightarrow> ctx \<Rightarrow> string option \<times> ctx" where
  "response_body_filter body eos c =
     (case modify_response_body c of
        None \<Rightarrow> (body, c)
      | Some modify \<Rightarrow>
          let (b, c') = collect_body body c in
          if eos then (map_option modify (response_body c'), c'\<lparr>modify_response_body := None\<rparr>)
          else (b, c'))"

section \<open>Failure and the end of the request\<close>

definition fail_code :: "pingora_error \<Rightarrow> nat" where
  "fail_code e =
     (case pe_type e of
        HTTPStatus code \<Rightarrow> code
      | t \<Rightarrow> (case pe_source e of
          ErrUpstream \<Rightarrow> 502
        | ErrDownstream \<Rightarrow> (case t of ConnectTimedout \<Rightarrow> 408 | ConnectionClosed \<Rightarrow> 499 | _ \<Rightarrow> 500)
        | ErrInternal \<Rightarrow> 500
        | ErrUnset \<Rightarrow> 500))"

definition error_page :: "('re, 'b, 's) server_lib \<Rightarrow> string \<Rightarrow> pingora_error \<Rightarrow> string" where
  "error_page lib template e =
     replace_all (replace_all (replace_all template ''{{version}}'' (sl_pkg_version lib))
       ''{{content}}'' (sl_error_text lib e)) ''{{error_type}}'' (sl_error_name lib (pe_type e))"

text \<open>The answer of \<open>fail_to_proxy\<close>; a failure to write it is only logged.\<close>

definition fail_to_proxy ::
  "('re, 'b, 's) server_lib \<Rightarrow> pingora_error \<Rightarrow> ('re, 'b, 's) exch \<Rightarrow> nat \<times> ('re, 'b, 's) exch" where
  "fail_to_proxy lib e x =
     (let code = fail_code e;
          buf = error_page lib (srv_error_template (w_server (x_world x))) e;
          h1 = set_resp_header ''content-type''
                 (if starts_with buf ''{'' then ''application/json; charset=utf-8''
                  else ''text/html; charset=utf-8'') (sl_error_resp lib code);
          h2 = set_resp_header ''X-Pingap-EType'' (sl_error_name lib (pe_type e)) h1;
          h3 = set_resp_header ''content-length'' (show_nat (length buf)) h2;
          status = (if 100 \<le> code \<and> code \<le> 999 then code else 500);
          cn = x_conn x;
          cn' = (case cn_write_error cn of
                   None \<Rightarrow> cn\<lparr>cn_written := cn_written cn @ [(h3, buf)]\<rparr> | Some _ \<Rightarrow> cn)
      in (code, x\<lparr>x_ctx := (x_ctx x)\<lparr>ctx_status := Some status\<rparr>, x_conn := cn'\<rparr>))"

definition end_counters :: "('re, 'b, 's) world \<Rightarrow> ('re, 'b, 's) world" where
  "end_counters w =
     w\<lparr>w_processing := w_processing w - 1,
       w_server := (w_server w)\<lparr>srv_processing := srv_processing (w_server w) - 1\<rparr>\<rparr>"

definition release_location :: "('re, 'b, 's) exch \<Rightarrow> ('re, 'b, 's) exch" where
  "release_location x =
     (case current_location x of
        None \<Rightarrow> x
      | Some l \<Rightarrow> upd_world (\<lambda>w. w\<lparr>w_locations := map_update (ctx_location (x_ctx x)) sub_processing (w_locations w)\<rparr>) x)"

definition release_upstream :: "('re, 'b, 's) exch \<Rightarrow> ('re, 'b, 's) exch" where
  "release_upstream x =
     (let w = x_world x; c = x_ctx x in
      case get_upstream_with_variables (w_upstreams w) (ctx_upstream c) c of
        None \<Rightarrow> x
      | Some up \<Rightarrow>
          let (n, up') = completed up
          in x\<lparr>x_ctx := c\<lparr>upstream_processing := Some n\<rparr>,
               x_world := w\<lparr>w_upstreams := map_update (up_name up) (\<lambda>_. up') (w_upstreams w)\<rparr>\<rparr>)"

text \<open>
  \<open>written\<close> is the response header pingora wrote, \<open>compressed\<close> the bytes in and out and the time of an
  enabled compression module.
\<close>

definition logging ::
  "response_header option \<Rightarrow> (nat \<times> nat \<times> duration) option \<Rightarrow> ('re, 'b, 's) exch \<Rightarrow> ('re, 'b, 's) exch" where
  "logging written compressed x =
     (let x1 = release_upstream (release_location (upd_world end_counters x));
          x2 = upd_ctx (\<lambda>c. if ctx_status c = None
                 then (case written of Some h \<Rightarrow> c\<lparr>ctx_status := Some (resp_status h)\<rparr> | None \<Rightarrow> c) else c) x1
      in upd_ctx (\<lambda>c. case compressed of
           Some (i, out, took) \<Rightarrow> c\<lparr>ctx_compression_stat := Some \<lparr>in_bytes = i, out_bytes = out, stat_duration = took\<rparr>\<rparr>
         | None \<Rightarrow> c) x2)"

end
