(* ===== verification/Lifecycle.thy ===== *)
theory Lifecycle
  imports Proxy
begin

text \<open>
  A server with its requests in flight, as a transition system. Pingora runs the callbacks of a
  request in turn and those of different requests interleaved; a step is one callback of one
  request, an arrival (\<open>early_request_filter\<close> on a new context), the end of a request
  (\<open>logging\<close>, which pingora runs for every request it started) or a reload of the maps. The
  counters are atomics and each callback touches a counter at most once, so whole callbacks are
  the grain of interleaving. The lemmas are the frame of every callback and the invariants of
  the counters.
\<close>

section \<open>What callbacks leave alone\<close>

definition same_world :: "('re, 'b, 's) exch \<Rightarrow> ('re, 'b, 's) exch \<Rightarrow> bool" where
  "same_world x x' \<longleftrightarrow> x_world x' = (x_world x)\<lparr>w_plugins := w_plugins (x_world x')\<rparr>"

definition same_route :: "('re, 'b, 's) exch \<Rightarrow> ('re, 'b, 's) exch \<Rightarrow> bool" where
  "same_route x x' \<longleftrightarrow> ctx_location (x_ctx x') = ctx_location (x_ctx x)"

lemma same_world_refl [simp]: "same_world x x"
  by (simp add: same_world_def)

lemma same_world_trans: "same_world x y \<Longrightarrow> same_world y z \<Longrightarrow> same_world x z"
  unfolding same_world_def by (metis (no_types, lifting) world.surjective world.update_convs(7))

lemma same_world_order [keeps_intros]: "reflp same_world" "transp same_world"
  by (auto intro: reflpI transpI same_world_trans)

lemma same_route_order [keeps_intros]: "reflp same_route" "transp same_route"
  by (auto intro!: reflpI transpI simp: same_route_def)

text \<open>No plugin of the repository assigns the location of a context.\<close>

definition plugins_keep_route :: "('re, 'b, 's) server_lib \<Rightarrow> bool" where
  "plugins_keep_route lib \<longleftrightarrow>
     (\<forall>n p. sl_plugin lib n = Some p \<longrightarrow>
        (\<forall>step cn c s. ctx_location (fst (snd (snd (handle_request p step (cn, c, s))))) = ctx_location c) \<and>
        (\<forall>step cn c s h. ctx_location (fst (snd (snd (handle_response p step (cn, c, s, h))))) = ctx_location c) \<and>
        (\<forall>step cn c s h. ctx_location (fst (snd (snd (handle_upstream_response p step (cn, c, s, h))))) = ctx_location c))"

lemma same_world_upd_ctx [simp]: "same_world x (upd_ctx f x)"
  by (simp add: same_world_def upd_ctx_def)

lemma keeps_modify_ctx [keeps_intros]: "act_keeps same_world (act_modify (upd_ctx f))"
  by (simp add: act_keeps_def)

lemma keeps_note_time [keeps_intros]:
  "act_keeps same_world (note_time lib step name e)" "act_keeps same_route (note_time lib step name e)"
  by (auto simp: act_keeps_def note_time_def same_route_def same_world_def upd_ctx_def
      add_plugin_processing_time_def split: option.splits)

lemma keeps_send [keeps_intros]:
  "act_keeps same_world (send_response lib r)" "act_keeps same_route (send_response lib r)"
  by (auto simp: act_keeps_def send_response_def same_world_def same_route_def split: prod.splits)

lemma keeps_status [keeps_intros]:
  "act_keeps same_route (act_modify (upd_ctx (\<lambda>c. c\<lparr>ctx_status := s\<rparr>)))"
  by (simp add: act_keeps_def same_route_def upd_ctx_def)

lemma keeps_call_world [keeps_intros]: "act_keeps same_world (call_request_plugin p step)"
  by (auto simp: act_keeps_def call_request_plugin_def same_world_def split: prod.splits)

lemma keeps_call_route [keeps_intros]:
  "plugins_keep_route lib \<Longrightarrow> sl_plugin lib n = Some p \<Longrightarrow> act_keeps same_route (call_request_plugin p step)"
  by (auto simp: act_keeps_def call_request_plugin_def same_route_def plugins_keep_route_def split: prod.splits)
    (metis fst_conv snd_conv)

lemma keeps_case_prod [keeps_intros]:
  "(\<And>a b. act_keeps R (f a b)) \<Longrightarrow> act_keeps R (case p of (a, b) \<Rightarrow> f a b)"
  by (cases p) simp

lemma keeps_case_option [keeps_intros]:
  "act_keeps R f \<Longrightarrow> (\<And>a. act_keeps R (g a)) \<Longrightarrow> act_keeps R (case p of None \<Rightarrow> f | Some a \<Rightarrow> g a)"
  by (cases p) simp_all

lemma keeps_if [keeps_intros]:
  "act_keeps R f \<Longrightarrow> act_keeps R g \<Longrightarrow> act_keeps R (if b then f else g)"
  by simp

lemma run_request_plugins_world: "act_keeps same_world (run_request_plugins lib step names)"
  by (induction names) (auto intro!: keeps_intros split: option.split)

lemma run_request_plugins_route:
  "plugins_keep_route lib \<Longrightarrow> act_keeps same_route (run_request_plugins lib step names)"
  by (induction names) (auto intro!: keeps_intros split: option.split)

lemma handle_request_plugin_world [simp]: "same_world x (snd (handle_request_plugin lib step l x))"
  using act_keepsD[OF run_request_plugins_world]
  by (auto simp: handle_request_plugin_def split: option.split)

lemma handle_request_plugin_route:
  "plugins_keep_route lib \<Longrightarrow> same_route x (snd (handle_request_plugin lib step l x))"
  using act_keepsD[OF run_request_plugins_route]
  by (auto simp: handle_request_plugin_def same_route_def split: option.split)

text \<open>The response side: the same two frames on pairs of an exchange and a response header.\<close>

definition on_exch :: "(('re, 'b, 's) exch \<Rightarrow> ('re, 'b, 's) exch \<Rightarrow> bool) \<Rightarrow> ('re, 'b, 's) resp_exch \<Rightarrow> ('re, 'b, 's) resp_exch \<Rightarrow> bool" where
  "on_exch R a b \<longleftrightarrow> R (fst a) (fst b)"

lemma on_exch_order [keeps_intros]:
  "reflp R \<Longrightarrow> reflp (on_exch R)" "transp R \<Longrightarrow> transp (on_exch R)"
  unfolding on_exch_def reflp_def transp_def by blast+

lemma keeps_call_response_world [keeps_intros]:
  "act_keeps (on_exch same_world) (call_response_plugin h step)"
  by (auto simp: act_keeps_def on_exch_def call_response_plugin_def same_world_def split: prod.splits)

lemma keeps_call_response_route [keeps_intros]:
  assumes "\<And>step cn c s h'. ctx_location (fst (snd (snd (h step (cn, c, s, h'))))) = ctx_location c"
  shows "act_keeps (on_exch same_route) (call_response_plugin h step)"
  using assms
  by (auto simp: act_keeps_def on_exch_def call_response_plugin_def same_route_def split: prod.splits)
    (metis fst_conv snd_conv)

lemma keeps_modify_fst [keeps_intros]:
  "act_keeps (on_exch same_world) (act_modify (\<lambda>(x, h). (upd_ctx f x, h)))"
  "act_keeps (on_exch same_route) (act_modify (\<lambda>(x, h). (upd_ctx (if b then add_plugin_processing_time n t else id) x, h)))"
  by (auto simp: act_keeps_def on_exch_def same_world_def same_route_def upd_ctx_def
      add_plugin_processing_time_def split: option.splits)

lemma run_response_plugins_world: "act_keeps (on_exch same_world) (run_response_plugins lib sel step names)"
proof (induction names)
  case (Cons n names)
  then show ?case by (auto intro!: keeps_intros simp del: act_simps split: option.split)
qed (auto intro!: keeps_intros)

lemma run_response_plugins_route:
  assumes "\<And>n p step cn c s h. sl_plugin lib n = Some p \<Longrightarrow>
      ctx_location (fst (snd (snd (sel p step (cn, c, s, h))))) = ctx_location c"
  shows "act_keeps (on_exch same_route) (run_response_plugins lib sel step names)"
proof (induction names)
  case (Cons n names)
  then show ?case
    by (auto intro!: keeps_intros simp del: act_simps simp: assms split: option.split)
qed (auto intro!: keeps_intros)

lemma response_chain_world [simp]: "same_world (fst xr) (fst (snd (response_chain lib sel step l xr)))"
proof -
  have "on_exch same_world xr (snd (run_response_plugins lib sel step names xr))" for names
    by (rule act_keepsD, rule run_response_plugins_world)
  then show ?thesis by (simp add: response_chain_def on_exch_def split: option.split)
qed

lemma response_chain_route:
  assumes "\<And>n p step cn c s h. sl_plugin lib n = Some p \<Longrightarrow>
      ctx_location (fst (snd (snd (sel p step (cn, c, s, h))))) = ctx_location c"
  shows "same_route (fst xr) (fst (snd (response_chain lib sel step l xr)))"
proof -
  have "on_exch same_route xr (snd (run_response_plugins lib sel step names xr))" for names
    by (rule act_keepsD, rule run_response_plugins_route) (rule assms)
  then show ?thesis by (simp add: response_chain_def on_exch_def same_route_def split: option.split)
qed

section \<open>Frames of the callbacks\<close>

text \<open>\<open>keeps2 lib m\<close>: the action leaves the world alone, and the route too when plugins do.\<close>

definition keeps2 :: "('re, 'b, 's) server_lib \<Rightarrow> ('re, 'b, 's, 'a) callback \<Rightarrow> bool" where
  "keeps2 lib m \<longleftrightarrow> act_keeps same_world m \<and> (plugins_keep_route lib \<longrightarrow> act_keeps same_route m)"

lemma keeps2I:
  "(\<And>x. same_world x (snd (m x))) \<Longrightarrow>
   (\<And>x. plugins_keep_route lib \<Longrightarrow> same_route x (snd (m x))) \<Longrightarrow> keeps2 lib m"
  by (simp add: keeps2_def act_keeps_def)

lemma keeps2D:
  assumes "keeps2 lib m"
  shows "same_world x (snd (m x))" "plugins_keep_route lib \<Longrightarrow> same_route x (snd (m x))"
  using assms by (simp_all add: keeps2_def act_keeps_def)

lemma keeps2_bind: "keeps2 lib m \<Longrightarrow> (\<And>v. keeps2 lib (f v)) \<Longrightarrow> keeps2 lib (act_bind m f)"
  unfolding keeps2_def by (auto intro!: act_keeps_bind keeps_intros)

lemma keeps2_return: "keeps2 lib (act_return v)" "keeps2 lib (Pair r)"
  unfolding keeps2_def by (auto intro!: keeps_intros)

lemma keeps2_basic:
  "keeps2 lib (send_response lib r)"
  "keeps2 lib (act_modify (upd_ctx (\<lambda>c. c\<lparr>ctx_status := s\<rparr>)))"
  "sl_plugin lib n = Some p \<Longrightarrow> keeps2 lib (call_request_plugin p step)"
  "keeps2 lib (handle_request_plugin lib step l)"
  unfolding keeps2_def
  by (auto intro!: keeps_intros simp: handle_request_plugin_route act_keeps_def[of _ "handle_request_plugin _ _ _"])

lemmas keeps2_intros = keeps2_bind keeps2_return keeps2_basic

lemma serve_admin_keeps: "keeps2 lib (serve_admin lib)"
  unfolding serve_admin_def
  by (auto intro!: keeps2_intros simp del: act_simps split: option.splits prod.splits)

lemma send_then_keeps: "keeps2 lib (act_bind (send_response lib r) (\<lambda>_. act_return True))"
  by (intro keeps2_intros)

lemma lets_encrypt_keeps: "keeps2 lib (run_lets_encrypt lib)"
proof (rule keeps2I)
  fix x
  show "same_world x (snd (run_lets_encrypt lib x))"
    using keeps2D(1)[OF send_then_keeps]
    by (auto simp: run_lets_encrypt_def handle_lets_encrypt_def Let_def simp del: act_simps
        split: option.splits sum.splits)
  assume "plugins_keep_route lib"
  then show "same_route x (snd (run_lets_encrypt lib x))"
    using keeps2D(2)[OF send_then_keeps]
    by (auto simp: run_lets_encrypt_def handle_lets_encrypt_def Let_def same_route_def simp del: act_simps
        split: option.splits sum.splits)
qed

lemma metrics_keeps: "keeps2 lib (serve_metrics lib)"
proof (rule keeps2I)
  fix x
  show "same_world x (snd (serve_metrics lib x))"
    using keeps2D(1)[OF send_then_keeps]
    by (auto simp: serve_metrics_def Let_def simp del: act_simps split: option.splits sum.splits)
  assume "plugins_keep_route lib"
  then show "same_route x (snd (serve_metrics lib x))"
    using keeps2D(2)[OF send_then_keeps]
    by (auto simp: serve_metrics_def Let_def same_route_def simp del: act_simps
        split: option.splits sum.splits)
qed

lemma serve_location_keeps: "keeps2 lib (serve_location lib)"
proof (rule keeps2I)
  fix x
  have conn: "same_world x (snd (handle_request_plugin lib Request l (x\<lparr>x_conn := cn\<rparr>)))" for l cn
    using handle_request_plugin_world[of "x\<lparr>x_conn := cn\<rparr>" lib Request l] by (simp add: same_world_def)
  show "same_world x (snd (serve_location lib x))"
    using keeps2D(1)[OF send_then_keeps] conn
    by (auto simp: serve_location_def Let_def simp del: act_simps split: option.splits prod.splits)
  assume r: "plugins_keep_route lib"
  have route: "same_route x (snd (handle_request_plugin lib Request l (x\<lparr>x_conn := cn\<rparr>)))" for l cn
    using handle_request_plugin_route[OF r, of "x\<lparr>x_conn := cn\<rparr>" Request l] by (simp add: same_route_def)
  show "same_route x (snd (serve_location lib x))"
    using keeps2D(2)[OF send_then_keeps r] route
    by (auto simp: serve_location_def Let_def simp del: act_simps split: option.splits prod.splits)
qed

lemma request_filter_keeps: "keeps2 lib (request_filter lib)"
proof -
  have or: "keeps2 lib m \<Longrightarrow> keeps2 lib n \<Longrightarrow> keeps2 lib (or_else m n)" for m n
    unfolding or_else_def by (auto intro!: keeps2_intros simp del: act_simps)
  have "keeps2 lib (or_else (if b then serve_admin lib else act_return False)
      (or_else (run_lets_encrypt lib) (or_else (serve_metrics lib) (serve_location lib))))" for b
    by (auto intro!: or serve_admin_keeps lets_encrypt_keeps metrics_keeps serve_location_keeps keeps2_return
        simp del: act_simps)
  then show ?thesis
    unfolding request_filter_def by (auto intro!: keeps2I dest: keeps2D)
qed

lemma proxy_upstream_filter_keeps: "keeps2 lib (proxy_upstream_filter lib)"
proof -
  have b: "keeps2 lib (act_bind (handle_request_plugin lib ProxyUpstream l) (\<lambda>done. act_return (\<not> done)))" for l
    by (intro keeps2_intros)
  show ?thesis
    by (rule keeps2I; simp add: proxy_upstream_filter_def same_route_def del: act_simps split: option.split)
      (use keeps2D[OF b] in \<open>auto simp: same_route_def\<close>)
qed

text \<open>What no callback between the arrival and the end of a request changes.\<close>

definition same_counts :: "('re, 'b, 's) exch \<Rightarrow> ('re, 'b, 's) exch \<Rightarrow> bool" where
  "same_counts x x' \<longleftrightarrow>
     w_server (x_world x') = w_server (x_world x) \<and> w_processing (x_world x') = w_processing (x_world x) \<and>
     w_accepted (x_world x') = w_accepted (x_world x) \<and> w_locations (x_world x') = w_locations (x_world x) \<and>
     w_server_locations (x_world x') = w_server_locations (x_world x)"

lemma same_world_counts: "same_world x x' \<Longrightarrow> same_counts x x'"
  unfolding same_world_def same_counts_def
  by (metis world.select_convs(1-6) world.surjective world.update_convs(7))

text \<open>The callbacks between the arrival and the end, as transformers of the exchange.\<close>

inductive middle :: "('re, 'b, 's) server_lib \<Rightarrow> (('re, 'b, 's) exch \<Rightarrow> ('re, 'b, 's) exch) \<Rightarrow> bool"
  for lib :: "('re, 'b, 's) server_lib" where
  m_request: "middle lib (\<lambda>x. snd (request_filter lib x))"
| m_proxy: "middle lib (\<lambda>x. snd (proxy_upstream_filter lib x))"
| m_peer: "middle lib (\<lambda>x. snd (upstream_peer lib x))"
| m_connected: "middle lib (upd_ctx (connected_to_upstream (sl_env lib) reused dg))"
| m_body: "middle lib (\<lambda>x. snd (request_body_filter body x))"
| m_upstream_response: "middle lib (\<lambda>x. fst (snd (upstream_response_filter lib (x, h))))"
| m_upstream_body: "middle lib (upd_ctx (\<lambda>c. snd (upstream_response_body_filter (sl_env lib) b eos c)))"
| m_response: "middle lib (\<lambda>x. fst (snd (response_filter lib cv (x, h))))"
| m_response_body: "middle lib (upd_ctx (\<lambda>c. snd (response_body_filter b eos c)))"
| m_fail: "middle lib (\<lambda>x. snd (fail_to_proxy lib e x))"

lemma upstream_peer_frame:
  "same_counts x (snd (upstream_peer lib x)) \<and> same_route x (snd (upstream_peer lib x))"
  by (auto simp: upstream_peer_def take_peer_def Let_def same_counts_def same_route_def upd_ctx_def
      split: option.split prod.split)

lemma request_body_filter_frame:
  "same_counts x (snd (request_body_filter b x)) \<and> same_route x (snd (request_body_filter b x))"
  by (simp add: request_body_filter_def Let_def same_counts_def same_route_def upd_ctx_def
      split: option.split sum.split)

lemma upstream_response_filter_frame:
  "same_counts x (fst (snd (upstream_response_filter lib (x, h))))"
  "plugins_keep_route lib \<Longrightarrow> same_route x (fst (snd (upstream_response_filter lib (x, h))))"
proof -
  let ?m = "\<lambda>xr. case current_location (fst xr) of None \<Rightarrow> (Inr (), xr)
       | Some l \<Rightarrow> handle_upstream_response_plugin lib UpstreamResponse l xr"
  obtain r x' h' where m: "?m (x, h) = (r, x', h')" by (metis prod.exhaust)
  have w: "same_world x x'"
    using m response_chain_world[of "(x, h)" lib handle_upstream_response UpstreamResponse]
    by (auto simp: handle_upstream_response_plugin_def split: option.splits dest!: arg_cong[of _ _ "\<lambda>q. fst (snd q)"])
  have eq: "fst (snd (upstream_response_filter lib (x, h))) = (case r of Inl _ \<Rightarrow> x'
       | Inr _ \<Rightarrow> upd_ctx (note_upstream_response (sl_env lib) (resp_status h')) x')"
    using m by (simp add: upstream_response_filter_def act_bind_def Let_def split: sum.split)
  show "same_counts x (fst (snd (upstream_response_filter lib (x, h))))"
    unfolding eq using w
    by (auto intro!: same_world_counts intro: same_world_trans split: sum.split)
  assume "plugins_keep_route lib"
  then have "same_route x x'"
    using m response_chain_route[of lib handle_upstream_response "(x, h)" UpstreamResponse]
    by (auto simp: handle_upstream_response_plugin_def plugins_keep_route_def same_route_def
        split: option.splits dest!: arg_cong[of _ _ "\<lambda>q. fst (snd q)"])
  then show "same_route x (fst (snd (upstream_response_filter lib (x, h))))"
    unfolding eq by (auto simp: same_route_def upd_ctx_def note_upstream_response_def Let_def split: sum.split)
qed

lemma response_filter_frame:
  "same_counts x (fst (snd (response_filter lib cv (x, h))))"
  "plugins_keep_route lib \<Longrightarrow> same_route x (fst (snd (response_filter lib cv (x, h))))"
proof -
  obtain c1 h1 where n: "note_cache cv (x_ctx x, h) = (c1, h1)" by force
  have c1: "ctx_location c1 = ctx_location (x_ctx x)"
    using n by (auto simp: note_cache_def Let_def split: if_splits option.splits)
  let ?x1 = "x\<lparr>x_ctx := c1\<rparr>"
  let ?m = "\<lambda>xr. case current_location (fst xr) of None \<Rightarrow> (Inr (), xr)
       | Some l \<Rightarrow> handle_response_plugin lib Response l xr"
  obtain r x' h' where m: "?m (?x1, h1) = (r, x', h')" by (metis prod.exhaust)
  have w: "same_world ?x1 x'"
    using m response_chain_world[of "(?x1, h1)" lib handle_response Response]
    by (auto simp: handle_response_plugin_def split: option.splits dest!: arg_cong[of _ _ "\<lambda>q. fst (snd q)"])
  have eq: "fst (snd (response_filter lib cv (x, h))) = x'"
    using m n by (simp add: response_filter_def act_bind_def Let_def split: sum.split)
  have "same_world x ?x1" by (simp add: same_world_def)
  with w show "same_counts x (fst (snd (response_filter lib cv (x, h))))"
    unfolding eq by (blast intro: same_world_counts same_world_trans)
  assume "plugins_keep_route lib"
  then have "same_route ?x1 x'"
    using m response_chain_route[of lib handle_response "(?x1, h1)" Response]
    by (auto simp: handle_response_plugin_def plugins_keep_route_def same_route_def
        split: option.splits dest!: arg_cong[of _ _ "\<lambda>q. fst (snd q)"])
  then show "same_route x (fst (snd (response_filter lib cv (x, h))))"
    unfolding eq by (simp add: same_route_def c1)
qed

lemma same_counts_upd_ctx [simp]: "same_counts x (upd_ctx f x)"
  by (simp add: same_counts_def upd_ctx_def)

lemma fail_to_proxy_frame:
  "same_counts x (snd (fail_to_proxy lib e x)) \<and> same_route x (snd (fail_to_proxy lib e x))"
  by (simp add: fail_to_proxy_def Let_def same_counts_def same_route_def)

lemma ctx_filters_route:
  "ctx_location (connected_to_upstream env reused dg c) = ctx_location c"
  "ctx_location (snd (upstream_response_body_filter env b eos c)) = ctx_location c"
  "ctx_location (snd (response_body_filter b eos c)) = ctx_location c"
  by (simp_all add: connected_to_upstream_def upstream_response_body_filter_def response_body_filter_def
      collect_body_def Let_def split: option.split)

lemma middle_counts: "middle lib f \<Longrightarrow> same_counts x (f x)"
  by (induction rule: middle.induct)
    (simp_all add: same_world_counts keeps2D[OF request_filter_keeps] keeps2D[OF proxy_upstream_filter_keeps]
      upstream_peer_frame request_body_filter_frame upstream_response_filter_frame
      response_filter_frame fail_to_proxy_frame)

lemma middle_route: "middle lib f \<Longrightarrow> plugins_keep_route lib \<Longrightarrow> same_route x (f x)"
proof (induction rule: middle.induct)
  case m_connected
  then show ?case by (simp add: same_route_def upd_ctx_def ctx_filters_route)
next
  case m_upstream_body
  then show ?case by (simp add: same_route_def upd_ctx_def ctx_filters_route)
next
  case m_response_body
  then show ?case by (simp add: same_route_def upd_ctx_def ctx_filters_route)
qed (simp_all add: keeps2D[OF request_filter_keeps] keeps2D[OF proxy_upstream_filter_keeps]
      upstream_peer_frame request_body_filter_frame upstream_response_filter_frame
      response_filter_frame fail_to_proxy_frame)

section \<open>Arrival and end\<close>

lemma map_of_map_update:
  "map_of (map_update k f m) n = (if n = k then map_option f (map_of m n) else map_of m n)"
  by (induction m) (auto simp: map_update_def)

lemma keys_map_update [simp]: "keys_of (map_update k f m) = keys_of m"
  by (simp add: map_update_def keys_of_def comp_def case_prod_beta)

lemma map_update_id [simp]: "map_update k id m = m"
  by (auto simp: map_update_def intro!: map_idI)

lemma map_update_const:
  assumes "wf_map m" "map_of m k = Some v"
  shows "map_update k (\<lambda>_. f v) m = map_update k f m"
  unfolding map_update_def
proof (rule map_cong[OF refl])
  fix p assume "p \<in> set m"
  with assms show "(case p of (n, v') \<Rightarrow> (n, if n = k then f v else v')) = (case p of (n, v') \<Rightarrow> (n, if n = k then f v' else v'))"
    by (cases p) (auto dest: map_of_eq_Some_iff_wf[THEN iffD2, rotated])
qed

text \<open>Every location is stored under its own name.\<close>

definition wf_locations :: "'re location_map \<Rightarrow> bool" where
  "wf_locations m \<longleftrightarrow> wf_map m \<and> (\<forall>n l. map_of m n = Some l \<longrightarrow> loc_name l = n \<and> n \<noteq> [])"

lemma wf_locations_update:
  "wf_locations m \<Longrightarrow> (\<And>l. loc_name (f l) = loc_name l) \<Longrightarrow> wf_locations (map_update k f m)"
  by (auto simp: wf_locations_def wf_map_def map_of_map_update)

text \<open>The location on which the arrival of a request runs \<open>add_processing\<close>, if any.\<close>

definition counted :: "('re, 'b, 's) server_lib \<Rightarrow> conn \<Rightarrow> ('re, 'b, 's) world \<Rightarrow> string option" where
  "counted lib cn w =
     (let h = req_header (cn_session cn);
          host = unwrap_or [] (get_host (sl_http lib) h);
          names = unwrap_or [] (get_server_locations (w_server_locations w) (srv_name (w_server w)))
      in case fst (find_location (ll_re (sl_loc lib)) (w_locations w) host (uri_path (req_uri h)) names None
                     (new_ctx (sl_env lib))) of
           None \<Rightarrow> None
         | Some name \<Rightarrow>
             (case get_location (w_locations w) name of
                None \<Rightarrow> None
              | Some l \<Rightarrow> if is_ok (validate_content_length (sl_http lib) l h) then Some name else None))"

lemma find_location_ctx: "fst (find_location rl m host path names cur c) = fst (find_location rl m host path names cur c')"
  by (induction names arbitrary: cur) (auto split: option.splits bool.splits prod.splits)

definition arrival ::
  "('re, 'b, 's) server_lib \<Rightarrow> nat option \<Rightarrow> digest option \<Rightarrow> conn \<Rightarrow> ('re, 'b, 's) world
     \<Rightarrow> (pingora_error + unit) \<times> ('re, 'b, 's) exch" where
  "arrival lib stream dg cn w =
     early_request_filter lib stream dg \<lparr>x_conn = cn, x_ctx = new_ctx (sl_env lib), x_world = w\<rparr>"

definition bump :: "('re, 'b, 's) world \<Rightarrow> ('re, 'b, 's) world" where
  "bump w = w\<lparr>w_accepted := w_accepted w + 1, w_processing := w_processing w + 1,
     w_server := (w_server w)\<lparr>srv_processing := srv_processing (w_server w) + 1,
                             srv_accepted := srv_accepted (w_server w) + 1\<rparr>\<rparr>"

lemma enter_location_effect:
  assumes "wf_map (w_locations (x_world x))" "get_location (w_locations (x_world x)) name = Some l"
  shows "same_world (if is_ok (validate_content_length (sl_http lib) l (x_req x))
      then upd_world (\<lambda>w. w\<lparr>w_locations := map_update name (snd \<circ> add_processing) (w_locations w)\<rparr>) x else x)
    (snd (enter_location lib name l x))"
proof (cases "validate_content_length (sl_http lib) l (x_req x)")
  case (Inl e)
  then show ?thesis by (simp add: enter_location_def)
next
  case (Inr u)
  from assms(2) have "map_of (w_locations (x_world x)) name = Some l"
    by (auto simp: get_location_def split: if_splits)
  from map_update_const[OF assms(1) this, of "snd \<circ> add_processing"]
  have u: "map_update name (\<lambda>_. snd (add_processing l)) (w_locations (x_world x)) =
      map_update name (snd \<circ> add_processing) (w_locations (x_world x))" by (simp del: snd_add_processing)
  let ?x1 = "upd_world (\<lambda>w. w\<lparr>w_locations := map_update name (snd \<circ> add_processing) (w_locations w)\<rparr>) x"
  have x1: "upd_world (\<lambda>w. w\<lparr>w_locations := map_update name (\<lambda>_. snd (add_processing l)) (w_locations w)\<rparr>) x = ?x1"
    by (simp add: upd_world_def u del: snd_add_processing)
  have chain: "same_world y (snd (act_bind (handle_request_plugin lib step l') (\<lambda>_. act_return ()) y))" for y l' step
    by (rule keeps2D(1)[of lib]) (intro keeps2_intros)
  obtain res l' where a: "add_processing l = (res, l')" by force
  have x1': "upd_world (\<lambda>w. w\<lparr>w_locations := map_update name (\<lambda>_. l') (w_locations w)\<rparr>) x = ?x1"
    using x1 unfolding a by simp
  show ?thesis
  proof (cases res)
    case (Inl e)
    with \<open>validate_content_length _ _ _ = Inr u\<close> a x1' show ?thesis by (simp add: enter_location_def)
  next
    case (Inr ap)
    obtain acc pr where ap: "ap = (acc, pr)" by (cases ap)
    let ?x2 = "upd_ctx (\<lambda>c. c\<lparr>location_accepted := acc, location_processing := pr\<rparr>) ?x1"
    have "same_world ?x1 ?x2" by simp
    with same_world_trans[OF this chain] \<open>validate_content_length _ _ _ = Inr u\<close> a Inr ap x1'
    show ?thesis by (simp add: enter_location_def Let_def del: act_simps)
  qed
qed

lemma note_arrival_frame [simp]:
  "x_world (note_arrival lib stream dg x) = bump (x_world x)"
  "x_conn (note_arrival lib stream dg x) = x_conn x"
  by (simp_all add: note_arrival_def count_request_def bump_def upd_ctx_def Let_def)

lemma bump_frame [simp]:
  "w_locations (bump w) = w_locations w" "w_server_locations (bump w) = w_server_locations w"
  "srv_name (w_server (bump w)) = srv_name (w_server w)" "w_upstreams (bump w) = w_upstreams w"
  by (simp_all add: bump_def)

definition add_to :: "string option \<Rightarrow> 're location_map \<Rightarrow> 're location_map" where
  "add_to n m = (case n of None \<Rightarrow> m | Some k \<Rightarrow> map_update k (snd \<circ> add_processing) m)"

lemma route_request_effect:
  assumes "wf_map (w_locations (x_world x))"
  shows "same_world (upd_world (\<lambda>w. w\<lparr>w_locations := add_to (counted lib (x_conn x) (x_world x)) (w_locations w)\<rparr>) x)
     (snd (route_request lib x))"
proof (cases "get_server_locations (w_server_locations (x_world x)) (srv_name (w_server (x_world x)))")
  case None
  then show ?thesis by (simp add: route_request_def counted_def add_to_def upd_world_def same_world_def)
next
  case (Some names)
  let ?h = "req_header (cn_session (x_conn x))"
  let ?find = "find_location (ll_re (sl_loc lib)) (w_locations (x_world x))
      (unwrap_or [] (get_host (sl_http lib) ?h)) (uri_path (req_uri ?h)) names None"
  obtain cur c where f: "?find (x_ctx x) = (cur, c)" by force
  then have f': "fst (?find (new_ctx (sl_env lib))) = cur" by (metis find_location_ctx fst_conv)
  have ctx: "same_world (upd_world g x) (upd_world g x\<lparr>x_ctx := c\<rparr>)" for g by (simp add: same_world_def)
  show ?thesis
  proof (cases "Option.bind cur (get_location (w_locations (x_world x)))")
    case None
    then have "counted lib (x_conn x) (x_world x) = None" "snd (route_request lib x) = x\<lparr>x_ctx := c\<rparr>"
      using f f' Some by (auto simp: counted_def route_request_def Let_def split: option.splits)
    then show ?thesis by (simp add: add_to_def upd_world_def same_world_def)
  next
    case (Some l)
    then obtain name where name: "cur = Some name" "get_location (w_locations (x_world x)) name = Some l"
      by (cases cur) auto
    let ?ok = "is_ok (validate_content_length (sl_http lib) l ?h)"
    have cnt: "counted lib (x_conn x) (x_world x) = (if ?ok then Some name else None)"
      using f' name \<open>get_server_locations _ _ = Some names\<close> by (simp add: counted_def Let_def)
    have "snd (route_request lib x) = snd (enter_location lib name l (x\<lparr>x_ctx := c\<rparr>))"
      using f name \<open>get_server_locations _ _ = Some names\<close> by (simp add: route_request_def Let_def)
    then show ?thesis
      using enter_location_effect[of "x\<lparr>x_ctx := c\<rparr>" name l lib] assms name cnt
      by (auto simp: add_to_def upd_world_def same_world_def split: if_splits)
  qed
qed

lemma counted_bump [simp]: "counted lib cn (bump w) = counted lib cn w"
  by (simp add: counted_def cong: option.case_cong)

lemma arrival_effect:
  fixes lib :: "('re, 'b, 's) server_lib" and stream dg cn w
  assumes "wf_map (w_locations w)"
  defines "w' \<equiv> x_world (snd (arrival lib stream dg cn w))"
  shows "w_locations w' = add_to (counted lib cn w) (w_locations w)"
    "w_server w' = w_server (bump w)" "w_processing w' = w_processing w + 1" "w_accepted w' = w_accepted w + 1"
    "w_server_locations w' = w_server_locations w"
proof -
  have "same_counts (upd_world (\<lambda>v. v\<lparr>w_locations := add_to (counted lib cn w) (w_locations v)\<rparr>)
       (note_arrival lib stream dg \<lparr>x_conn = cn, x_ctx = new_ctx (sl_env lib), x_world = w\<rparr>))
     (snd (arrival lib stream dg cn w))"
    using same_world_counts[OF route_request_effect[of
        "note_arrival lib stream dg \<lparr>x_conn = cn, x_ctx = new_ctx (sl_env lib), x_world = w\<rparr>" lib]] assms(1)
    by (simp add: arrival_def early_request_filter_def)
  then show "w_locations w' = add_to (counted lib cn w) (w_locations w)"
    "w_server w' = w_server (bump w)" "w_processing w' = w_processing w + 1" "w_accepted w' = w_accepted w + 1"
    "w_server_locations w' = w_server_locations w"
    by (simp_all add: same_counts_def upd_world_def w'_def) (simp_all add: bump_def)
qed

lemma release_upstream_counts [simp]: "same_counts x (release_upstream x)"
  by (simp add: release_upstream_def completed_def same_counts_def Let_def split: option.split)

lemma logging_effect:
  fixes x :: "('re, 'b, 's) exch" and written compressed
  defines "w' \<equiv> x_world (logging written compressed x)"
  shows "w_locations w' = map_update (ctx_location (x_ctx x))
       (if ctx_location (x_ctx x) = [] then id else sub_processing) (w_locations (x_world x))"
    "w_server w' = (w_server (x_world x))\<lparr>srv_processing := srv_processing (w_server (x_world x)) - 1\<rparr>"
    "w_processing w' = w_processing (x_world x) - 1" "w_accepted w' = w_accepted (x_world x)"
proof -
  let ?x1 = "release_location (upd_world end_counters x)"
  have none: "map_of m k = None \<Longrightarrow> map_update k f m = m" for k and f :: "'v \<Rightarrow> 'v" and m
    unfolding map_update_def by (rule map_idI) (auto dest: map_of_SomeD simp: map_of_eq_None_iff image_iff)
  have "same_counts ?x1 (logging written compressed x)"
    using release_upstream_counts[of ?x1] unfolding same_counts_def logging_def
    by (simp add: Let_def upd_ctx_def)
  moreover have "w_locations (x_world ?x1) = map_update (ctx_location (x_ctx x))
       (if ctx_location (x_ctx x) = [] then id else sub_processing) (w_locations (x_world x))"
    by (auto simp: release_location_def upd_world_def end_counters_def get_location_def none split: option.split)
  moreover have "w_server (x_world ?x1) = (w_server (x_world x))\<lparr>srv_processing := srv_processing (w_server (x_world x)) - 1\<rparr>"
      "w_processing (x_world ?x1) = w_processing (x_world x) - 1" "w_accepted (x_world ?x1) = w_accepted (x_world x)"
    by (simp_all add: release_location_def upd_world_def end_counters_def split: option.split)
  ultimately show "w_locations w' = map_update (ctx_location (x_ctx x))
       (if ctx_location (x_ctx x) = [] then id else sub_processing) (w_locations (x_world x))"
    "w_server w' = (w_server (x_world x))\<lparr>srv_processing := srv_processing (w_server (x_world x)) - 1\<rparr>"
    "w_processing w' = w_processing (x_world x) - 1" "w_accepted w' = w_accepted (x_world x)"
    by (simp_all add: same_counts_def w'_def)
qed

section \<open>The transition system\<close>

text \<open>
  A label says what a step did to the counters: an arrival, the location it was counted on and
  the location of its context; the end of a request and the location of its context.
\<close>

datatype label = Arrived "string option" string | Worked | Ended string | Reloaded

type_synonym ('re, 'b, 's) sys = "('re, 'b, 's) world \<times> (conn \<times> ctx) list"

inductive sys_step ::
  "('re, 'b, 's) server_lib \<Rightarrow> ('re, 'b, 's) sys \<Rightarrow> label \<Rightarrow> ('re, 'b, 's) sys \<Rightarrow> bool"
  for lib :: "('re, 'b, 's) server_lib" where
  s_arrive: "x = snd (arrival lib stream dg cn w) \<Longrightarrow>
     sys_step lib (w, fl) (Arrived (counted lib cn w) (ctx_location (x_ctx x)))
       (x_world x, (x_conn x, x_ctx x) # fl)"
| s_work: "middle lib f \<Longrightarrow> x = f \<lparr>x_conn = cn, x_ctx = c, x_world = w\<rparr> \<Longrightarrow>
     sys_step lib (w, pre @ (cn, c) # post) Worked (x_world x, pre @ (x_conn x, x_ctx x) # post)"
| s_end: "x = logging written compressed \<lparr>x_conn = cn, x_ctx = c, x_world = w\<rparr> \<Longrightarrow>
     sys_step lib (w, pre @ (cn, c) # post) (Ended (ctx_location c)) (x_world x, pre @ post)"
| s_reload_locations: "sys_step lib (w, fl) Reloaded
     (w\<lparr>w_locations := snd (try_init_locations (sl_loc lib) confs (w_locations w))\<rparr>, fl)"
| s_reload_upstreams: "sys_step lib (w, fl) Reloaded
     (w\<lparr>w_upstreams := snd (try_update_upstreams (sl_up lib) ups (w_upstreams w))\<rparr>, fl)"
| s_reload_servers: "sys_step lib (w, fl) Reloaded
     (w\<lparr>w_server_locations := snd (try_init_server_locations srvs confs (w_server_locations w))\<rparr>, fl)"

inductive_cases sys_stepE: "sys_step lib s lbl s'"

inductive sys_run ::
  "('re, 'b, 's) server_lib \<Rightarrow> ('re, 'b, 's) sys \<Rightarrow> label list \<Rightarrow> ('re, 'b, 's) sys \<Rightarrow> bool"
  for lib :: "('re, 'b, 's) server_lib" where
  run_nil: "sys_run lib s [] s"
| run_step: "sys_run lib s ls s' \<Longrightarrow> sys_step lib s' l s'' \<Longrightarrow> sys_run lib s (ls @ [l]) s''"

definition arrivals :: "label list \<Rightarrow> nat" where
  "arrivals ls = length (filter (\<lambda>l. case l of Arrived _ _ \<Rightarrow> True | _ \<Rightarrow> False) ls)"

definition adds_on :: "string \<Rightarrow> label list \<Rightarrow> nat" where
  "adds_on n ls = length (filter (\<lambda>l. case l of Arrived c _ \<Rightarrow> c = Some n | _ \<Rightarrow> False) ls)"

definition routed_to :: "string \<Rightarrow> label list \<Rightarrow> nat" where
  "routed_to n ls = length (filter (\<lambda>l. case l of Arrived _ r \<Rightarrow> r = n | _ \<Rightarrow> False) ls)"

definition ended_on :: "string \<Rightarrow> label list \<Rightarrow> nat" where
  "ended_on n ls = length (filter (\<lambda>l. case l of Ended r \<Rightarrow> r = n | _ \<Rightarrow> False) ls)"

lemmas label_counts = arrivals_def adds_on_def routed_to_def ended_on_def

definition in_flight :: "string \<Rightarrow> (conn \<times> ctx) list \<Rightarrow> nat" where
  "in_flight n fl = length (filter (\<lambda>(cn, c). ctx_location c = n) fl)"

section \<open>Invariants of the counters\<close>

lemma add_to_keys [simp]: "keys_of (add_to n m) = keys_of m"
  by (simp add: add_to_def split: option.split)

lemma try_init_locations_wf: "wf_map m \<Longrightarrow> wf_map (snd (try_init_locations lib confs m))"
  using loc_reg.build_wf[of lib m confs "[]" "[]"]
  by (auto simp: try_init_locations_def wf_map_def keys_of_def split: sum.split)

lemma sys_step_wf: "sys_step lib s l s' \<Longrightarrow> wf_map (w_locations (fst s)) \<Longrightarrow> wf_map (w_locations (fst s'))"
proof (induction rule: sys_step.induct)
  case (s_arrive x stream dg cn w fl)
  then show ?case by (simp add: arrival_effect(1)) (simp add: wf_map_def)
next
  case (s_work f x cn c w pre post)
  then show ?case using middle_counts[of lib f] by (simp add: same_counts_def)
next
  case (s_end x written compressed cn c w pre post)
  then show ?case by (simp add: logging_effect(1)) (simp add: wf_map_def)
qed (simp_all add: try_init_locations_wf)

lemma sys_run_wf: "sys_run lib s ls s' \<Longrightarrow> wf_map (w_locations (fst s)) \<Longrightarrow> wf_map (w_locations (fst s'))"
  by (induction rule: sys_run.induct) (auto intro: sys_step_wf)

text \<open>The effect of a step on the counters of the server and of the process.\<close>

definition server_balance :: "('re, 'b, 's) sys \<Rightarrow> i32 \<times> i32" where
  "server_balance s = (srv_processing (w_server (fst s)) - of_nat (length (snd s)),
     w_processing (fst s) - of_nat (length (snd s)))"

lemma sys_step_server:
  "sys_step lib s l s' \<Longrightarrow> wf_map (w_locations (fst s)) \<Longrightarrow>
     server_balance s' = server_balance s \<and>
     srv_accepted (w_server (fst s')) = srv_accepted (w_server (fst s)) + of_nat (arrivals [l])"
proof (induction rule: sys_step.induct)
  case (s_arrive x stream dg cn w fl)
  then show ?case by (simp add: arrival_effect server_balance_def arrivals_def) (simp add: bump_def)
next
  case (s_work f x cn c w pre post)
  then show ?case using middle_counts[of lib f]
    by (simp add: same_counts_def server_balance_def arrivals_def)
next
  case (s_end x written compressed cn c w pre post)
  then show ?case by (simp add: logging_effect server_balance_def arrivals_def)
qed (simp_all add: server_balance_def arrivals_def)

lemma sys_run_server:
  "sys_run lib s ls s' \<Longrightarrow> wf_map (w_locations (fst s)) \<Longrightarrow>
     server_balance s' = server_balance s \<and>
     srv_accepted (w_server (fst s')) = srv_accepted (w_server (fst s)) + of_nat (arrivals ls)"
proof (induction rule: sys_run.induct)
  case (run_step s ls s' l s'')
  with sys_step_server[OF run_step(2)] sys_run_wf[OF run_step(1)] show ?case
    by (simp add: arrivals_def)
qed (simp add: arrivals_def)

text \<open>The effect of a step on the counter of one location, when the maps are not reloaded.\<close>

definition loc_processing :: "('re, 'b, 's) world \<Rightarrow> string \<Rightarrow> i32 option" where
  "loc_processing w n = map_option processing (map_of (w_locations w) n)"

lemma loc_processing_add_to:
  "map_option processing (map_of (add_to k m) n) =
     map_option (\<lambda>l. processing l + (if k = Some n then 1 else 0)) (map_of m n)"
  by (cases k) (auto simp: add_to_def map_of_map_update option.map_comp comp_def)

lemma sys_step_location:
  "sys_step lib s l s' \<Longrightarrow> wf_map (w_locations (fst s)) \<Longrightarrow> l \<noteq> Reloaded \<Longrightarrow> n \<noteq> [] \<Longrightarrow>
     loc_processing (fst s') n =
       map_option (\<lambda>p. p + of_nat (adds_on n [l]) - of_nat (ended_on n [l])) (loc_processing (fst s) n)"
proof (induction rule: sys_step.induct)
  case (s_arrive x stream dg cn w fl)
  then show ?case
    by (simp add: arrival_effect loc_processing_def loc_processing_add_to adds_on_def ended_on_def
        option.map_comp comp_def)
next
  case (s_work f x cn c w pre post)
  then show ?case using middle_counts[of lib f]
    by (simp add: same_counts_def loc_processing_def adds_on_def ended_on_def option.map_ident)
next
  case (s_end x written compressed cn c w pre post)
  then show ?case
    by (auto simp: logging_effect loc_processing_def map_of_map_update adds_on_def ended_on_def
        option.map_comp comp_def option.map_ident)
qed simp_all

lemma sys_run_location:
  "sys_run lib s ls s' \<Longrightarrow> wf_map (w_locations (fst s)) \<Longrightarrow> Reloaded \<notin> set ls \<Longrightarrow> n \<noteq> [] \<Longrightarrow>
     loc_processing (fst s') n =
       map_option (\<lambda>p. p + of_nat (adds_on n ls) - of_nat (ended_on n ls)) (loc_processing (fst s) n)"
proof (induction rule: sys_run.induct)
  case (run_nil s)
  then show ?case by (simp add: adds_on_def ended_on_def option.map_ident)
next
  case (run_step s ls s' l s'')
  have "loc_processing (fst s'') n =
      map_option (\<lambda>p. p + of_nat (adds_on n [l]) - of_nat (ended_on n [l])) (loc_processing (fst s') n)"
    using sys_step_location[OF run_step(2)] sys_run_wf[OF run_step(1)] run_step.prems by auto
  with run_step show ?case
    by (simp add: option.map_comp comp_def adds_on_def ended_on_def algebra_simps)
qed

text \<open>The requests in flight on a location are those routed there and not ended.\<close>

lemma arrival_flight:
  "in_flight n ((cn, c) # fl) = in_flight n fl + (if ctx_location c = n then 1 else 0)"
  by (simp add: in_flight_def)

lemma sys_step_flight:
  "sys_step lib s l s' \<Longrightarrow> plugins_keep_route lib \<Longrightarrow>
     in_flight n (snd s') + ended_on n [l] = in_flight n (snd s) + routed_to n [l]"
proof (induction rule: sys_step.induct)
  case (s_work f x cn c w pre post)
  then have "ctx_location (x_ctx x) = ctx_location c"
    using middle_route[of lib f "\<lparr>x_conn = cn, x_ctx = c, x_world = w\<rparr>"] by (simp add: same_route_def)
  then show ?case by (simp add: in_flight_def ended_on_def routed_to_def)
qed (simp_all add: in_flight_def ended_on_def routed_to_def)

lemma sys_run_flight:
  "sys_run lib s ls s' \<Longrightarrow> plugins_keep_route lib \<Longrightarrow>
     in_flight n (snd s') + ended_on n ls = in_flight n (snd s) + routed_to n ls"
proof (induction rule: sys_run.induct)
  case (run_step s ls s' l s'')
  with sys_step_flight[OF run_step(2), of n] show ?case by (simp add: ended_on_def routed_to_def)
qed (simp add: ended_on_def routed_to_def)

lemma balanced_counts:
  "(\<And>c r. Arrived c r \<in> set ls \<Longrightarrow> c = Some r) \<Longrightarrow> adds_on n ls = routed_to n ls"
  unfolding adds_on_def routed_to_def
  by (rule arg_cong[where f = length], rule filter_cong) (auto split: label.split)

end
