(* ===== verification/Health_Task.thy ===== *)
theory Health_Task
  imports Upstream
begin

text \<open>
  The health check task of \<open>upstream.rs\<close>: which upstreams a run updates and checks, and the
  notifications every tenth run sends. The jobs of a run work on distinct upstreams, so their
  joint effect is the map of the effect of each. A job that panics (remainder by zero) stops
  there and leaves the other jobs alone.
\<close>

record health_check_task =
  ht_interval :: duration
  ht_count :: "32 word"
  ht_sender :: bool
  ht_unhealthy :: "string list"

definition new_upstream_health_check_task :: "duration \<Rightarrow> bool \<Rightarrow> health_check_task" where
  "new_upstream_health_check_task interval sender =
     \<lparr>ht_interval = max interval (from_secs 10), ht_count = 0, ht_sender = sender, ht_unhealthy = []\<rparr>"

text \<open>What a job does: nothing more than an update, an update and a check, a check, or neither.\<close>

definition job_frequencies :: "'b upstream \<Rightarrow> nat \<times> nat" where
  "job_frequencies up =
     (case as_round_robin up of
        Some lb \<Rightarrow> (as_secs (unwrap_or 0 (lb_update_frequency lb)), as_secs (unwrap_or 0 (lb_health_check_frequency lb)))
      | None \<Rightarrow> (case as_consistent up of
          Some lb \<Rightarrow> (as_secs (unwrap_or 0 (lb_update_frequency lb)), as_secs (unwrap_or 0 (lb_health_check_frequency lb)))
        | None \<Rightarrow> (0, 0)))"

definition health_job :: "'b upstream_lib \<Rightarrow> nat \<Rightarrow> nat \<Rightarrow> 'b upstream \<Rightarrow> 'b upstream" where
  "health_job lib interval check_count up =
     (let (update_frequency, check_frequency) = job_frequencies up;
          matched = check_frequency_matched interval check_count;
          do_update = (if check_count = 0 then Some True
                       else if update_frequency > 0 then matched update_frequency else Some False)
      in case do_update of
           None \<Rightarrow> up
         | Some b \<Rightarrow>
             let up1 = (if b then map_lb (\<lambda>lb. snd (lb_update lib lb)) up else up)
             in case matched check_frequency of
                  Some True \<Rightarrow> map_lb (lb_check lib) up1
                | _ \<Rightarrow> up1)"

definition run_jobs :: "'b upstream_lib \<Rightarrow> nat \<Rightarrow> nat \<Rightarrow> 'b upstream_map \<Rightarrow> 'b upstream_map" where
  "run_jobs lib interval check_count m =
     map (\<lambda>(n, up). (n, case up_lb up of Transparent \<Rightarrow> up | _ \<Rightarrow> health_job lib interval check_count up)) m"

text \<open>
  The report of every tenth run: the upstreams without a healthy backend, those to announce as
  unhealthy and as healthy again.
\<close>

definition unhealthy_names :: "(string, healthy_status) hash_map \<Rightarrow> string list" where
  "unhealthy_names sts = map fst (filter (\<lambda>(n, st). hs_healthy st = 0) sts)"

definition report_healthy :: "string list \<Rightarrow> (string, healthy_status) hash_map \<Rightarrow> string list" where
  "report_healthy current sts = map fst (filter (\<lambda>(n, st). hs_healthy st \<noteq> 0 \<and> n \<in> set current) sts)"

definition report_unhealthy :: "string list \<Rightarrow> (string, healthy_status) hash_map \<Rightarrow> string list" where
  "report_unhealthy current sts = filter (\<lambda>n. n \<notin> set current) (unhealthy_names sts)"

definition status_notifications ::
  "string list \<Rightarrow> (string, healthy_status) hash_map \<Rightarrow> notification list" where
  "status_notifications current sts =
     (let down = report_unhealthy current sts; up = report_healthy current sts
      in (if down \<noteq> [] then [\<lparr>nt_category = ''upstream_status'', nt_level = NError,
            nt_title = ''Upstream unhealthy'', nt_message = join '', '' down\<rparr>] else []) @
         (if up \<noteq> [] then [\<lparr>nt_category = ''upstream_status'', nt_level = NInfo,
            nt_title = ''Upstream healthy'', nt_message = join '', '' up\<rparr>] else []))"

definition health_task_run ::
  "'b upstream_lib \<Rightarrow> health_check_task \<Rightarrow> 'b upstream_map
     \<Rightarrow> notification list \<times> health_check_task \<times> 'b upstream_map" where
  "health_task_run lib t m =
     (let check_count = unat (ht_count t);
          m' = run_jobs lib (as_secs (ht_interval t)) check_count m;
          t' = t\<lparr>ht_count := ht_count t + 1\<rparr>
      in if check_count mod 10 = 1 then
           let sts = get_upstream_healthy_status lib m'
           in (if ht_sender t then status_notifications (ht_unhealthy t) sts else [],
               t'\<lparr>ht_unhealthy := unhealthy_names sts\<rparr>, m')
         else ([], t', m'))"

section \<open>Lemmas\<close>

lemma task_interval_secs:
  "as_secs (ht_interval (new_upstream_health_check_task interval sender)) \<ge> 10"
proof -
  have "(10 * 1000000000) div 1000000000 \<le> max interval (10 * 1000000000) div (1000000000 :: nat)"
    by (rule div_le_mono) simp
  then show ?thesis
    by (simp add: new_upstream_health_check_task_def as_secs_def from_secs_def)
qed

lemma health_task_interval [simp]: "ht_interval (fst (snd (health_task_run lib t m))) = ht_interval t"
  by (simp add: health_task_run_def Let_def)

lemma health_task_count [simp]: "ht_count (fst (snd (health_task_run lib t m))) = ht_count t + 1"
  by (simp add: health_task_run_def Let_def)

lemma health_job_frame [simp]:
  "up_name (health_job lib i n up) = up_name up"
  "up_key (health_job lib i n up) = up_key up"
  "up_processing (health_job lib i n up) = up_processing up"
  by (simp_all add: health_job_def Let_def map_lb_def
      split: prod.splits option.splits bool.splits selection_lb.splits)

lemma run_jobs_keys [simp]: "keys_of (run_jobs lib i n m) = keys_of m"
  by (simp add: run_jobs_def keys_of_def comp_def case_prod_beta)

text \<open>The reports of a sequence of status checks, from the names recorded before it.\<close>

fun watch ::
  "string list \<Rightarrow> (string, healthy_status) hash_map list \<Rightarrow> (string list \<times> string list) list" where
  "watch current [] = []"
| "watch current (sts # rest) =
     (report_unhealthy current sts, report_healthy current sts) # watch (unhealthy_names sts) rest"

lemma watch_nth:
  "i < length ss \<Longrightarrow> watch cur ss ! i =
     (let c = (if i = 0 then cur else unhealthy_names (ss ! (i - 1)))
      in (report_unhealthy c (ss ! i), report_healthy c (ss ! i)))"
proof (induction ss arbitrary: cur i)
  case Nil
  then show ?case by simp
next
  case (Cons s ss)
  then show ?case by (cases i) (auto simp: Let_def nth_Cons split: nat.split)
qed

lemma report_unhealthy_iff: "n \<in> set (report_unhealthy cur s) \<longleftrightarrow> n \<in> set (unhealthy_names s) \<and> n \<notin> set cur"
  by (auto simp: report_unhealthy_def)

lemma report_healthy_if:
  "n \<in> set (keys_of s) \<Longrightarrow> n \<notin> set (unhealthy_names s) \<Longrightarrow> n \<in> set cur \<Longrightarrow> n \<in> set (report_healthy cur s)"
  by (force simp: report_healthy_def unhealthy_names_def keys_of_def)

lemma recovery_between:
  assumes "i < j" "n \<in> set (unhealthy_names (ss ! i))" "n \<notin> set (unhealthy_names (ss ! j))"
  shows "\<exists>k. i < k \<and> k \<le> j \<and> n \<in> set (unhealthy_names (ss ! (k - 1))) \<and> n \<notin> set (unhealthy_names (ss ! k))"
  using assms
proof (induction j)
  case (Suc j)
  show ?case
  proof (cases "n \<in> set (unhealthy_names (ss ! j))")
    case True
    with Suc.prems show ?thesis by (intro exI[of _ "Suc j"]) auto
  next
    case False
    with Suc.prems have "i \<noteq> j" by auto
    with Suc False show ?thesis by (meson le_Suc_eq less_Suc_eq_le nat_less_le)
  qed
qed simp

section \<open>A concrete library\<close>

definition sample_health :: health_lib where
  "sample_health = \<lparr>hl_url = Inl, hl_duration = Inl, hl_uri_ok = (\<lambda>_. Inr ())\<rparr>"

text \<open>The balancer's state is the number of health checks run on it; it always selects one backend.\<close>

definition sample_backend :: backend where
  "sample_backend = \<lparr>backend_addr = \<lparr>sock_text = ''10.0.0.1:80'', sock_is_ipv4 = True\<rparr>, backend_weight = 1\<rparr>"

definition sample_up_lib :: "nat upstream_lib" where
  "sample_up_lib = \<lparr>ul_http = sample_http, ul_disc = sample_disc, ul_health = sample_health,
     ul_hash = (\<lambda>c. concat (uc_addrs c)), ul_from_backends = (\<lambda>_ _. 0), ul_update = (\<lambda>b. (Inr (), b)),
     ul_select = (\<lambda>b _ _. (Some sample_backend, b)), ul_backends = (\<lambda>_. [sample_backend]),
     ul_ready = (\<lambda>b _. 0 < b), ul_run_health_check = (\<lambda>b _. b + 1)\<rparr>"

definition sample_lb :: "duration option \<Rightarrow> nat load_balancer" where
  "sample_lb f = \<lparr>lb_state = 0, lb_parallel_health_check = False, lb_update_frequency = None,
     lb_health_check_frequency = f, lb_health_check = DefaultTcpCheck (from_secs 3)\<rparr>"

definition sample_upstream :: "nat selection_lb \<Rightarrow> nat upstream" where
  "sample_upstream lb = \<lparr>up_name = ''u'', up_key = ''10.0.0.1:80'', up_hash = [], up_hash_key = [], up_tls = False,
     up_sni = [], up_lb = lb, up_connection_timeout = None, up_total_connection_timeout = None,
     up_read_timeout = None, up_idle_timeout = None, up_write_timeout = None, up_verify_cert = None,
     up_alpn = H1, up_tcp_keepalive = None, up_tcp_recv_buf = None, up_tcp_fast_open = None,
     up_peer_tracer = None, up_processing = 0\<rparr>"

lemmas sample_up_simps = sample_up_lib_def sample_backend_def sample_lb_def sample_upstream_def sample_health_def

section \<open>Properties\<close>

text \<open>
  A health check runs at every run of the task whose number is a multiple of the configured
  frequency in task periods, rounded up, and at no other run; between updates of the backends
  nothing else touches the balancer.
\<close>

theorem health_check_due:
  assumes "up_lb up = RoundRobin lb" "lb_update_frequency lb = None" "lb_health_check_frequency lb = Some f"
    and "0 < as_secs f" "as_secs f < 2 ^ 32" "0 < interval" "0 < n"
  shows "health_job lib interval n up =
    (if n mod ((as_secs f + interval - 1) div interval) = 0 then up\<lparr>up_lb := RoundRobin (lb_check lib lb)\<rparr> else up)"
proof -
  have "as_secs 0 = 0" by (simp add: as_secs_def)
  then have j: "job_frequencies up = (0, as_secs f)"
    using assms(1-3) by (simp add: job_frequencies_def as_round_robin_def)
  show ?thesis
    using due_iff[OF assms(6,4,5), of n] assms(1,7)
    by (simp add: health_job_def j map_lb_def Let_def split: bool.split)
qed

theorem health_check_due_witness:
  "health_job sample_up_lib 10 4 (sample_upstream (RoundRobin (sample_lb (Some (from_secs 15)))))
     = sample_upstream (RoundRobin (lb_check sample_up_lib (sample_lb (Some (from_secs 15)))))"
  using health_check_due[of "sample_upstream (RoundRobin (sample_lb (Some (from_secs 15))))"
      "sample_lb (Some (from_secs 15))" "from_secs 15" 10 4 sample_up_lib]
  by (simp add: sample_upstream_def sample_lb_def as_secs_def from_secs_def)

text \<open>
  A check frequency below one second is read as zero seconds, the remainder by zero ends the
  job, and after the first run the upstream is never checked again.
\<close>

theorem subsecond_frequency_never_checked:
  assumes "up_lb up = RoundRobin lb" "lb_update_frequency lb = None" "lb_health_check_frequency lb = Some f"
    and "f < from_secs 1" "0 < n"
  shows "health_job lib interval n up = up"
proof -
  have "as_secs 0 = 0" "as_secs f = 0" using assms(4) by (simp_all add: as_secs_def from_secs_def)
  then have "job_frequencies up = (0, 0)"
    using assms(1-3) by (simp add: job_frequencies_def as_round_robin_def)
  then show ?thesis
    using assms(5) by (simp add: health_job_def check_frequency_matched_def Let_def)
qed

theorem subsecond_frequency_never_checked_witness:
  "health_job sample_up_lib 10 7 (sample_upstream (RoundRobin (sample_lb (Some 500000000))))
     = sample_upstream (RoundRobin (sample_lb (Some 500000000)))"
  by (rule subsecond_frequency_never_checked[where lb = "sample_lb (Some 500000000)" and f = 500000000])
    (simp_all add: sample_upstream_def sample_lb_def from_secs_def)

text \<open>
  Notifications alternate: between two announcements that an upstream is unhealthy there is
  one that it is healthy again, as long as the upstream stays configured.
\<close>

theorem status_reports_alternate:
  assumes "i < j" "j < length ss" "\<forall>s \<in> set ss. n \<in> set (keys_of s)"
    and "n \<in> set (fst (watch cur ss ! i))" "n \<in> set (fst (watch cur ss ! j))"
  shows "\<exists>k. i < k \<and> k < j \<and> n \<in> set (snd (watch cur ss ! k))"
proof -
  have ri: "n \<in> set (unhealthy_names (ss ! i))"
    using assms(1,2,4) by (simp add: watch_nth Let_def report_unhealthy_iff)
  have rj: "n \<notin> set (unhealthy_names (ss ! (j - 1)))"
    using assms(1,2,5) by (simp add: watch_nth Let_def report_unhealthy_iff)
  then have "i < j - 1" using ri assms(1) by (cases "i = j - 1") auto
  from recovery_between[OF this ri rj] obtain k where k: "i < k" "k \<le> j - 1"
      "n \<in> set (unhealthy_names (ss ! (k - 1)))" "n \<notin> set (unhealthy_names (ss ! k))" by blast
  then have "k < length ss" using assms(1,2) by linarith
  with assms(3) have "n \<in> set (keys_of (ss ! k))" by simp
  from report_healthy_if[OF this k(4,3)] have "n \<in> set (snd (watch cur ss ! k))"
    using k(1) \<open>k < length ss\<close> by (simp add: watch_nth Let_def)
  with k(1,2) assms(1) show ?thesis by (intro exI[of _ k]) simp
qed

theorem status_reports_alternate_witness:
  "let down = [(''u'', \<lparr>hs_healthy = 0, hs_total = 1, hs_unhealthy_backends = []\<rparr>)];
       ok = [(''u'', \<lparr>hs_healthy = 1, hs_total = 1, hs_unhealthy_backends = []\<rparr>)]
   in \<exists>k. 0 < k \<and> k < 2 \<and> ''u'' \<in> set (snd (watch [] [down, ok, down] ! k))"
proof -
  let ?down = "[(''u'', \<lparr>hs_healthy = 0, hs_total = 1, hs_unhealthy_backends = []\<rparr>)]"
  let ?ok = "[(''u'', \<lparr>hs_healthy = 1, hs_total = 1, hs_unhealthy_backends = []\<rparr>)]"
  show ?thesis unfolding Let_def
    by (rule status_reports_alternate[of 0 2 "[?down, ?ok, ?down]" "''u''" "[]"])
      (simp_all add: keys_of_def report_unhealthy_def unhealthy_names_def)
qed

end
