(* ===== verification/Routing.thy ===== *)
theory Routing
  imports Lifecycle Health_Task
begin

text \<open>
  Which location serves a request, what the location's plugins and header rules do to it, and
  what the body filters make of its bodies: properties of \<open>Server\<close> and \<open>Proxy\<close>.
\<close>

section \<open>Lemmas\<close>

definition accepts :: "'re regex_lib \<Rightarrow> 're location_map \<Rightarrow> string \<Rightarrow> string \<Rightarrow> string \<Rightarrow> bool" where
  "accepts rl m host path n =
     (case get_location m n of Some l \<Rightarrow> path_matches rl l path \<and> host_matches rl l host | None \<Rightarrow> False)"

lemma add_variables_location [simp]:
  "ctx_location (fold (\<lambda>(k, v). add_variable k v) vs c) = ctx_location c"
  by (induction vs arbitrary: c) auto

lemma find_location_first:
  assumes "wf_locations m"
  shows "(case find (accepts rl m host path) names of
      Some n \<Rightarrow> fst (find_location rl m host path names cur c) = Some n \<and>
                ctx_location (snd (find_location rl m host path names cur c)) = n
    | None \<Rightarrow> ctx_location (snd (find_location rl m host path names cur c)) = ctx_location c)"
proof (induction names arbitrary: cur)
  case Nil
  then show ?case by simp
next
  case (Cons n names)
  show ?case
  proof (cases "get_location m n")
    case None
    then have "find (accepts rl m host path) (n # names) = find (accepts rl m host path) names"
        "find_location rl m host path (n # names) cur c = find_location rl m host path names cur c"
      by (simp_all add: accepts_def)
    with Cons show ?thesis by metis
  next
    case (Some l)
    then have "loc_name l = n"
      using assms by (auto simp: wf_locations_def get_location_def split: if_splits)
    moreover obtain b vs where m: "match_host_path rl l host path = (b, vs)" by force
    moreover have "accepts rl m host path n = b"
      using Some m match_host_path_iff[of rl l host path] by (simp add: accepts_def)
    ultimately show ?thesis
    proof (cases b)
      case False
      then have "find (accepts rl m host path) (n # names) = find (accepts rl m host path) names"
          "find_location rl m host path (n # names) cur c = find_location rl m host path names (Some n) c"
        using Some \<open>accepts rl m host path n = b\<close> \<open>match_host_path rl l host path = (b, vs)\<close> by simp_all
      with Cons show ?thesis by metis
    qed (use Some in simp)
  qed
qed

lemma find_first: "\<forall>y \<in> set as. \<not> P y \<Longrightarrow> P x \<Longrightarrow> find P (as @ x # zs) = Some x"
  by (induction as) auto

lemma sort_key_first:
  fixes f :: "'a \<Rightarrow> 'k::linorder"
  assumes "find P (sort_key f xs) = Some x"
  shows "x \<in> set xs" "P x" "\<And>y. y \<in> set xs \<Longrightarrow> P y \<Longrightarrow> f x \<le> f y"
    "find P (filter (\<lambda>y. f y = f x) xs) = Some x"
proof -
  from assms obtain i where i: "i < length (sort_key f xs)" "P (sort_key f xs ! i)" "x = sort_key f xs ! i"
      "\<And>j. j < i \<Longrightarrow> \<not> P (sort_key f xs ! j)"
    by (auto simp: find_Some_iff)
  then show "x \<in> set xs" using nth_mem[of i "sort_key f xs"] by simp
  show "P x" using i by simp
  show "f x \<le> f y" if "y \<in> set xs" "P y" for y
  proof -
    from that(1) have "y \<in> set (sort_key f xs)" by simp
    then obtain j where j: "j < length (sort_key f xs)" "y = sort_key f xs ! j" by (metis in_set_conv_nth)
    with i(4) that(2) have "i \<le> j" using linorder_not_less by blast
    moreover have "sorted (map f (sort_key f xs))" by (rule sorted_sort_key)
    ultimately show ?thesis using i j by (metis length_map nth_map sorted_nth_mono)
  qed
  let ?ys = "sort_key f xs"
  have pre: "\<forall>y \<in> set (take i ?ys). \<not> P y"
    using i(1,4) by (auto simp: in_set_conv_nth)
  have split: "?ys = take i ?ys @ x # drop (Suc i) ?ys"
    using i(1,3) by (simp add: id_take_nth_drop)
  have "find P (filter Q ?ys) = Some x" if "Q x" for Q
  proof -
    have "filter Q ?ys = filter Q (take i ?ys) @ x # filter Q (drop (Suc i) ?ys)"
      using that by (subst split) simp
    then show ?thesis using pre \<open>P x\<close> by (simp add: find_first)
  qed
  from this[of "\<lambda>y. f y = f x"] show "find P (filter (\<lambda>y. f y = f x) xs) = Some x"
    by (simp add: sort_key_stable)
qed

lemma run_request_plugins_append:
  "run_request_plugins lib step (xs @ ys) = or_else (run_request_plugins lib step xs) (run_request_plugins lib step ys)"
proof (induction xs)
  case Nil
  then show ?case by (simp add: or_else_def act_bind_def)
next
  case (Cons n xs)
  have assoc: "or_else (act_bind m f) k = act_bind m (\<lambda>v. or_else (f v) k)" for m f and k :: "('x, 'e, bool) action"
    unfolding or_else_def act_bind_def by (rule ext) (auto split: prod.split sum.split)
  have stop: "or_else (act_return True) k = act_return True" for k :: "('x, 'e, bool) action"
    by (rule ext) (simp add: or_else_def act_bind_def)
  show ?case
  proof (cases "sl_plugin lib n")
    case None
    with Cons show ?thesis by simp
  next
    case (Some p)
    have "(case r of None \<Rightarrow> run_request_plugins lib step (xs @ ys)
        | Some resp \<Rightarrow> if hr_status resp < 900 then
            act_bind (act_modify (upd_ctx (\<lambda>c. c\<lparr>ctx_status := Some (hr_status resp)\<rparr>))) (\<lambda>_.
            act_bind (send_response lib resp) (\<lambda>_. act_return True)) else act_return True) =
      or_else (case r of None \<Rightarrow> run_request_plugins lib step xs
        | Some resp \<Rightarrow> if hr_status resp < 900 then
            act_bind (act_modify (upd_ctx (\<lambda>c. c\<lparr>ctx_status := Some (hr_status resp)\<rparr>))) (\<lambda>_.
            act_bind (send_response lib resp) (\<lambda>_. act_return True)) else act_return True)
        (run_request_plugins lib step ys)" for r
      using Cons by (simp add: assoc stop del: act_simps split: option.split)
    then show ?thesis using Some
      by (simp add: assoc case_prod_unfold del: act_simps)
  qed
qed

text \<open>The location of the context after the arrival.\<close>

lemma enter_location_route:
  assumes "plugins_keep_route lib"
  shows "same_route x (snd (enter_location lib name l x))"
proof -
  have chain: "same_route y (snd (act_bind (handle_request_plugin lib step l') (\<lambda>_. act_return ()) y))" for y l' step
    by (rule keeps2D(2)[of lib, OF _ assms]) (intro keeps2_intros)
  obtain res l' where a: "add_processing l = (res, l')" by force
  then show ?thesis
    using chain[of _ EarlyRequest l']
    by (auto simp: enter_location_def Let_def same_route_def upd_world_def upd_ctx_def simp del: act_simps
        split: sum.split)
qed

lemma note_arrival_route: "ctx_location (x_ctx (note_arrival lib stream dg x)) = ctx_location (x_ctx x)"
  by (simp add: note_arrival_def upd_ctx_def record_addrs_def count_request_def record_digest_def Let_def
      split: option.split)

lemma arrival_route:
  fixes lib :: "('re, 'b, 's) server_lib" and w cn
  assumes "plugins_keep_route lib" "wf_locations (w_locations w)"
  defines "h \<equiv> req_header (cn_session cn)"
  defines "names \<equiv> unwrap_or [] (get_server_locations (w_server_locations w) (srv_name (w_server w)))"
  shows "ctx_location (x_ctx (snd (arrival lib stream dg cn w))) =
    unwrap_or [] (find (accepts (ll_re (sl_loc lib)) (w_locations w)
      (unwrap_or [] (get_host (sl_http lib) h)) (uri_path (req_uri h))) names)"
proof -
  let ?x = "note_arrival lib stream dg \<lparr>x_conn = cn, x_ctx = new_ctx (sl_env lib), x_world = w\<rparr>"
  have loc0: "ctx_location (x_ctx ?x) = []" by (simp add: note_arrival_route new_ctx_def)
  let ?find = "find_location (ll_re (sl_loc lib)) (w_locations w)
      (unwrap_or [] (get_host (sl_http lib) h)) (uri_path (req_uri h)) names None (x_ctx ?x)"
  obtain cur c where f: "?find = (cur, c)" by force
  have c: "ctx_location c = unwrap_or [] (find (accepts (ll_re (sl_loc lib)) (w_locations w)
      (unwrap_or [] (get_host (sl_http lib) h)) (uri_path (req_uri h))) names)"
    using find_location_first[OF assms(2), of "ll_re (sl_loc lib)" "unwrap_or [] (get_host (sl_http lib) h)"
        "uri_path (req_uri h)" names None "x_ctx ?x"] f loc0
    by (auto split: option.splits)
  have enter: "ctx_location (x_ctx (snd (enter_location lib n l (?x\<lparr>x_ctx := c\<rparr>)))) = ctx_location c" for n l
    using enter_location_route[OF assms(1), of "?x\<lparr>x_ctx := c\<rparr>" n l] by (simp add: same_route_def)
  have "ctx_location (x_ctx (snd (route_request lib ?x))) = ctx_location c"
  proof (cases "get_server_locations (w_server_locations w) (srv_name (w_server w))")
    case None
    then show ?thesis using f loc0 by (simp add: route_request_def names_def)
  next
    case (Some ns)
    then show ?thesis using f enter
      by (simp add: route_request_def names_def h_def Let_def split: option.split)
  qed
  with c show ?thesis by (simp add: arrival_def early_request_filter_def)
qed

text \<open>A body in chunks through both body filters; the last chunk ends the stream.\<close>

fun pass_body :: "sys_env \<Rightarrow> string list \<Rightarrow> ctx \<Rightarrow> string list" where
  "pass_body env [] c = []"
| "pass_body env [b] c =
     (let (b1, c1) = upstream_response_body_filter env (Some b) True c;
          (b2, c2) = response_body_filter b1 True c1
      in [unwrap_or [] b2])"
| "pass_body env (b # b' # bs) c =
     (let (b1, c1) = upstream_response_body_filter env (Some b) False c;
          (b2, c2) = response_body_filter b1 False c1
      in unwrap_or [] b2 # pass_body env (b' # bs) c2)"

lemma pass_body_whole:
  "chunks \<noteq> [] \<Longrightarrow> concat (pass_body env chunks c) =
     (case modify_response_body c of
        None \<Rightarrow> (case modify_upstream_response_body c of
            None \<Rightarrow> concat chunks | Some f \<Rightarrow> f (unwrap_or [] (response_body c) @ concat chunks))
      | Some g \<Rightarrow> g (case modify_upstream_response_body c of
            None \<Rightarrow> unwrap_or [] (response_body c) @ concat chunks
          | Some f \<Rightarrow> f (unwrap_or [] (response_body c) @ concat chunks)))"
proof (induction env chunks c rule: pass_body.induct)
  case (1 env c)
  then show ?case by simp
next
  case (2 env b c)
  then show ?case
    by (simp add: upstream_response_body_filter_def response_body_filter_def collect_body_def Let_def
        split: option.split)
next
  case (3 env b b' bs c)
  obtain b1 c1 where f1: "upstream_response_body_filter env (Some b) False c = (b1, c1)" by force
  obtain b2 c2 where f2: "response_body_filter b1 False c1 = (b2, c2)" by force
  have ih: "concat (pass_body env (b' # bs) c2) =
     (case modify_response_body c2 of
        None \<Rightarrow> (case modify_upstream_response_body c2 of
            None \<Rightarrow> concat (b' # bs) | Some f \<Rightarrow> f (unwrap_or [] (response_body c2) @ concat (b' # bs)))
      | Some g \<Rightarrow> g (case modify_upstream_response_body c2 of
            None \<Rightarrow> unwrap_or [] (response_body c2) @ concat (b' # bs)
          | Some f \<Rightarrow> f (unwrap_or [] (response_body c2) @ concat (b' # bs))))"
    using "3.IH"[OF f1[symmetric] refl f2[symmetric] refl] by simp
  have "concat (pass_body env (b # b' # bs) c) = unwrap_or [] b2 @ concat (pass_body env (b' # bs) c2)"
    using f1 f2 by simp
  then show ?case
    using f1 f2 unfolding ih
    by (auto simp: upstream_response_body_filter_def response_body_filter_def collect_body_def Let_def
        split: option.splits)
qed

text \<open>The request body in chunks through its filter.\<close>

fun feed_body :: "string list \<Rightarrow> ('re, 'b, 's, unit) callback" where
  "feed_body [] = act_return ()"
| "feed_body (b # bs) = act_bind (request_body_filter (Some b)) (\<lambda>_. feed_body bs)"

lemma feed_body_limit:
  assumes "client_max_body_size l \<noteq> 0"
  shows "current_location x = Some l \<Longrightarrow> payload_size (x_ctx x) \<le> client_max_body_size l \<Longrightarrow>
    payload_size (x_ctx x) + length (concat bs) < 2 ^ 64 \<Longrightarrow>
    is_ok (fst (feed_body bs x)) \<longleftrightarrow> payload_size (x_ctx x) + length (concat bs) \<le> client_max_body_size l"
proof (induction bs arbitrary: x)
  case Nil
  then show ?case by simp
next
  case (Cons b bs)
  let ?size = "payload_size (x_ctx x) + length b"
  let ?x' = "upd_ctx (\<lambda>c. c\<lparr>payload_size := ?size\<rparr>) x"
  have small: "?size mod 2 ^ 64 = ?size" using Cons.prems(3) by simp
  have loc: "current_location ?x' = Some l" using Cons.prems(1) by (simp add: upd_ctx_def)
  have f: "request_body_filter (Some b) x =
      (if ?size \<le> client_max_body_size l then Inr () else
         Inl (new_internal_error 413 (location_error_text (BodyTooLarge (client_max_body_size l)))), ?x')"
    using Cons.prems(1) assms small by (simp add: request_body_filter_def client_body_size_limit_def Let_def)
  show ?case
  proof (cases "?size \<le> client_max_body_size l")
    case True
    then have "feed_body (b # bs) x = feed_body bs ?x'" using f by (simp add: act_bind_simps)
    with Cons.IH[OF loc] True Cons.prems(3) show ?thesis by (simp add: upd_ctx_def algebra_simps)
  next
    case False
    then have "\<not> is_ok (fst (feed_body (b # bs) x))" using f by (simp add: act_bind_simps)
    with False show ?thesis by simp
  qed
qed

section \<open>A concrete server\<close>

definition sample_lib :: "(string, nat, unit) server_lib" where
  "sample_lib = \<lparr>sl_loc = sample_loc_lib, sl_up = sample_up_lib, sl_env = sample_env,
     sl_plugin = (\<lambda>_. None), sl_elapsed = (\<lambda>_ _. 0), sl_admin_plugin = ''admin'', sl_acme_load = None,
     sl_metrics = None, sl_peer_text = (\<lambda>_. ''peer''), sl_error_text = pe_context, sl_error_name = (\<lambda>_. ''HTTPStatus''),
     sl_error_resp = (\<lambda>s. \<lparr>resp_status = s, resp_headers = no_headers\<rparr>), sl_pkg_version = ''0''\<rparr>"

definition sample_server :: server where
  "sample_server = \<lparr>srv_name = ''s'', srv_admin = False, srv_addr = ''0.0.0.0:80'', srv_accepted = 0,
     srv_processing = 0, srv_log_format = None, srv_error_template = ''{{content}}'', srv_threads = None,
     srv_tls = (None, None, None, None), srv_enabled_h2 = False, srv_lets_encrypt_enabled = False,
     srv_global_certificates = False, srv_tcp_socket_options = None, srv_prometheus_push_mode = False,
     srv_prometheus_metrics = [], srv_modules = None, srv_enable_server_timing = False\<rparr>"

definition sample_world :: "(string, nat, unit) world" where
  "sample_world = \<lparr>w_server = sample_server, w_server_locations = [(''s'', [''l''])],
     w_locations = [(''l'', sample_location)],
     w_upstreams = [(''u'', sample_upstream (RoundRobin (sample_lb None)))],
     w_accepted = 0, w_processing = 0, w_plugins = ()\<rparr>"

definition sample_conn :: "string \<Rightarrow> conn" where
  "sample_conn path = \<lparr>cn_session = sample_session ''a.com'' path, cn_written = [], cn_write_error = None\<rparr>"

definition sample_exch :: "string \<Rightarrow> (string, nat, unit) exch" where
  "sample_exch path = \<lparr>x_conn = sample_conn path, x_ctx = (new_ctx sample_env)\<lparr>ctx_location := ''l''\<rparr>,
     x_world = sample_world\<rparr>"

lemma sample_wf: "wf_locations (w_locations sample_world)"
  by (simp add: sample_world_def wf_locations_def wf_map_def keys_of_def sample_location_def)

lemma sample_keep_route: "plugins_keep_route sample_lib"
  by (simp add: plugins_keep_route_def sample_lib_def)

lemma sample_match: "match_host_path sample_re sample_location host path = (starts_with path ''/api'', None)"
  by (simp add: match_host_path_def match_path_def sample_location_def)

text \<open>Two arrivals: one the location accepts, one it does not.\<close>

lemma sample_accepts:
  "accepts sample_re [(''l'', sample_location)] host path ''l'' = starts_with path ''/api''"
  using match_host_path_iff[of sample_re sample_location host path] sample_match[of host path]
  by (simp add: accepts_def get_location_def)

lemma sample_arrival:
  "ctx_location (x_ctx (snd (arrival sample_lib None None (sample_conn path) sample_world)))
     = (if starts_with path ''/api'' then ''l'' else [])"
  "counted sample_lib (sample_conn path) sample_world = Some ''l''"
proof -
  have names: "get_server_locations (w_server_locations sample_world) (srv_name (w_server sample_world)) = Some [''l'']"
    by (simp add: get_server_locations_def sample_world_def sample_server_def)
  have re: "ll_re (sl_loc sample_lib) = sample_re" and locs: "w_locations sample_world = [(''l'', sample_location)]"
    and p: "uri_path (req_uri (req_header (cn_session (sample_conn path)))) = path"
    by (simp_all add: sample_lib_def sample_loc_lib_def sample_world_def sample_conn_def sample_session_def sample_request_def)
  show "ctx_location (x_ctx (snd (arrival sample_lib None None (sample_conn path) sample_world)))
     = (if starts_with path ''/api'' then ''l'' else [])"
    using arrival_route[OF sample_keep_route sample_wf, of None None "sample_conn path"]
    by (simp add: names re locs p sample_accepts)
  have "fst (find_location sample_re [(''l'', sample_location)] host path [''l''] None c) = Some ''l''" for host c
    by (simp add: get_location_def sample_match split: bool.split)
  then show "counted sample_lib (sample_conn path) sample_world = Some ''l''"
    unfolding counted_def Let_def names re locs p
    by (simp add: get_location_def validate_content_length_def sample_location_def)
qed

section \<open>Properties\<close>

text \<open>
  C2: A request goes to the heaviest location that accepts it, and among equally heavy ones to
  the first in the server's list; when none accepts it no location is set.
\<close>

theorem route_heaviest_match:
  assumes "wf_locations m" "ctx_location c = []"
    and "find_location rl m host path (sort_locations ws items) None c = (cur, c')"
  shows "if \<exists>n \<in> set items. accepts rl m host path n
    then cur = Some (ctx_location c') \<and> ctx_location c' \<in> set items \<and> accepts rl m host path (ctx_location c') \<and>
      (\<forall>n \<in> set items. accepts rl m host path n \<longrightarrow> weight_of ws n \<le> weight_of ws (ctx_location c')) \<and>
      find (accepts rl m host path) (filter (\<lambda>n. weight_of ws n = weight_of ws (ctx_location c')) items)
        = Some (ctx_location c')
    else ctx_location c' = []"
proof (cases "find (accepts rl m host path) (sort_locations ws items)")
  case None
  then have "\<not> (\<exists>n \<in> set items. accepts rl m host path n)"
    by (auto simp: find_None_iff sort_locations_def)
  moreover have "ctx_location c' = []"
    using find_location_first[OF assms(1), of rl host path "sort_locations ws items" None c] None assms(2,3) by simp
  ultimately show ?thesis by simp
next
  case (Some n)
  then have n: "cur = Some n" "ctx_location c' = n"
    using find_location_first[OF assms(1), of rl host path "sort_locations ws items" None c] assms(3) by auto
  note first = sort_key_first[OF Some[unfolded sort_locations_def]]
  have "weight_of ws i \<le> weight_of ws n" if "i \<in> set items" "accepts rl m host path i" for i
    using first(3)[OF that] by simp
  with first(1,2,4) n show ?thesis by auto
qed

theorem route_heaviest_match_witness:
  "ctx_location (snd (find_location sample_re (w_locations sample_world) ''a.com'' ''/api/x''
     (sort_locations [(''l'', 516)] [''gone'', ''l'']) None (new_ctx sample_env))) = ''l''"
proof -
  obtain cur c' where f: "find_location sample_re (w_locations sample_world) ''a.com'' ''/api/x''
     (sort_locations [(''l'', 516)] [''gone'', ''l'']) None (new_ctx sample_env) = (cur, c')" by force
  have l: "accepts sample_re (w_locations sample_world) ''a.com'' ''/api/x'' ''l''"
    and g: "\<not> accepts sample_re (w_locations sample_world) ''a.com'' ''/api/x'' ''gone''"
    by (simp_all add: accepts_def get_location_def sample_world_def match_host_path_iff[symmetric] sample_match
        starts_with_def)
  have "ctx_location (new_ctx sample_env) = []" by (simp add: new_ctx_def)
  from route_heaviest_match[OF sample_wf this f] l g f show ?thesis by (auto split: if_splits)
qed


text \<open>
  A header of \<open>proxy_set_headers\<close> reaches the upstream with its configured value, its
  variables replaced, whatever the client sent under that name and whatever the default
  headers are; headers that are only added never hide it.
\<close>

theorem proxy_set_header_wins:
  assumes "proxy_set_headers l = Some (pre @ (k, v) # post)"
    and "\<forall>(k', v') \<in> set post. ascii_lower k' \<noteq> ascii_lower k"
  shows "hdr_get (set_append_proxy_headers lib env (Some l) s c m) k =
    Some (unwrap_or v (convert_header_value lib env v s c))"
proof -
  let ?dv = "dynamic_value lib env s c"
  let ?m1 = "if enable_reverse_proxy_headers l
    then hdr.put_all (map ?dv (DEFAULT_PROXY_SET_HEADERS lib)) m else m"
  have eq: "set_append_proxy_headers lib env (Some l) s c m =
      hdr.add_all (map ?dv (unwrap_or [] (proxy_add_headers l))) (hdr.put_all (map ?dv (unwrap_or [] (proxy_set_headers l))) ?m1)"
    by (simp add: set_append_proxy_headers_def hdr.put_all_def hdr.add_all_def Let_def)
  have "\<forall>(k', v') \<in> set (map ?dv post). ascii_lower k' \<noteq> ascii_lower k"
    using assms(2) by (auto simp: dynamic_value_def)
  then have "hdr_get (hdr.put_all (map ?dv pre @ (k, snd (?dv (k, v))) # map ?dv post) ?m1) k = Some (snd (?dv (k, v)))"
    by (rule hdr.get_put_all_last)
  moreover have "?dv (k, v) = (k, snd (?dv (k, v)))" by (simp add: dynamic_value_def)
  ultimately have "hdr_get (hdr.put_all (map ?dv (unwrap_or [] (proxy_set_headers l))) ?m1) k = Some (snd (?dv (k, v)))"
    using assms(1) by simp
  moreover have "snd (?dv (k, v)) = unwrap_or v (convert_header_value lib env v s c)"
    by (simp add: dynamic_value_def split: option.split)
  ultimately show ?thesis unfolding eq by (simp only: hdr.get_add_all_present)
qed

theorem proxy_set_header_wins_witness:
  "hdr_get (set_append_proxy_headers sample_http sample_env
      (Some (sample_location\<lparr>proxy_set_headers := Some [(''x-env'', ''prod'')]\<rparr>))
      (sample_session ''a.com'' ''/api'') (new_ctx sample_env) (hdr_insert ''X-Env'' ''forged'' no_headers)) ''x-env''
    = Some ''prod''"
  using proxy_set_header_wins[of "sample_location\<lparr>proxy_set_headers := Some [(''x-env'', ''prod'')]\<rparr>" "[]" "''x-env''" "''prod''" "[]"
      sample_http sample_env "sample_session ''a.com'' ''/api''" "new_ctx sample_env" "hdr_insert ''X-Env'' ''forged'' no_headers"]
  by (simp add: convert_header_value_def)

text \<open>
  C31: Body modification sees whole bodies: whatever way a body is cut into chunks, the client
  receives the upstream modifier's result on the whole body, passed through the response
  modifier when there is one, and the body itself when there is none.
\<close>

theorem body_filters_whole_body:
  assumes "chunks \<noteq> []" "response_body c = None"
  shows "concat (pass_body env chunks c) =
    (case modify_response_body c of None \<Rightarrow> id | Some g \<Rightarrow> g)
      ((case modify_upstream_response_body c of None \<Rightarrow> id | Some f \<Rightarrow> f) (concat chunks))"
  using assms by (simp add: pass_body_whole split: option.split)

theorem body_filters_whole_body_witness:
  "concat (pass_body sample_env [''ab'', ''c''] ((new_ctx sample_env)\<lparr>modify_upstream_response_body := Some rev,
      modify_response_body := Some (\<lambda>s. s @ ''!'')\<rparr>)) = ''cba!''"
  by (subst body_filters_whole_body) (simp_all add: new_ctx_def)

text \<open>
  C30: The body size limit is exact over the whole stream: the chunks of a request body all pass
  the filter exactly when their total is within the limit of the location.
\<close>

theorem request_body_limit_exact:
  assumes "current_location x = Some l" "client_max_body_size l \<noteq> 0" "payload_size (x_ctx x) = 0"
    and "length (concat chunks) < 2 ^ 64"
  shows "is_ok (fst (feed_body chunks x)) \<longleftrightarrow> length (concat chunks) \<le> client_max_body_size l"
  using feed_body_limit[OF assms(2,1), of chunks] assms(3,4) by simp

theorem request_body_limit_exact_witness:
  "\<not> is_ok (fst (feed_body [''abc'', ''de''] ((sample_exch ''/api'')\<lparr>x_world := sample_world\<lparr>w_locations :=
      [(''l'', sample_location\<lparr>client_max_body_size := 4\<rparr>)]\<rparr>\<rparr>)))"
  by (subst request_body_limit_exact[where l = "sample_location\<lparr>client_max_body_size := 4\<rparr>"])
    (simp_all add: sample_exch_def get_location_def sample_location_def new_ctx_def)

end
