(* ===== verification/Util.thy ===== *)
theory Util
  imports Config
begin

text \<open>
  \<open>pingap-util\<close>: the IP rules of the restriction plugins, byte sizes and durations for logs,
  joining and resolving paths, PEM detection, encryption of secrets. IP addresses are parsed as
  the standard library does (dotted IPv4, IPv6 with one \<open>::\<close> and an optional IPv4 tail). Other
  crates (base64, AES-GCM-SIV, CIDR networks, TOML, the home directory, path normalisation) and
  the file system are fields of \<open>util_lib\<close>; a CIDR network is the set of addresses it contains.
\<close>

section \<open>IP addresses\<close>

datatype ip_addr = V4 "nat list" | V6 "nat list"

definition radix_val :: "char \<Rightarrow> nat option" where
  "radix_val c = (let n = (of_char c :: nat) in
     if 48 \<le> n \<and> n \<le> 57 then Some (n - 48)
     else if 97 \<le> n \<and> n \<le> 122 then Some (n - 87)
     else if 65 \<le> n \<and> n \<le> 90 then Some (n - 55) else None)"

definition is_radix :: "nat \<Rightarrow> char \<Rightarrow> bool" where
  "is_radix r c = (case radix_val c of Some d \<Rightarrow> d < r | None \<Rightarrow> False)"

definition radix_num :: "nat \<Rightarrow> string \<Rightarrow> nat" where
  "radix_num r s = foldl (\<lambda>a c. r * a + unwrap_or 0 (radix_val c)) 0 s"

text \<open>\<open>Parser::read_number\<close>: all digits that follow; too many, none or too large is a failure.\<close>

definition read_number :: "nat \<Rightarrow> nat \<Rightarrow> bool \<Rightarrow> nat \<Rightarrow> string \<Rightarrow> (nat \<times> string) option" where
  "read_number r max_digits allow_zero_prefix bound s =
     (let ds = takeWhile (is_radix r) s; n = length ds; v = radix_num r ds in
      if n = 0 \<or> n > max_digits \<or> v \<ge> bound then None
      else if \<not> allow_zero_prefix \<and> hd ds = CHR ''0'' \<and> n > 1 then None
      else Some (v, drop n s))"

definition read_given :: "char \<Rightarrow> string \<Rightarrow> string option" where
  "read_given c s = (case s of x # r \<Rightarrow> if x = c then Some r else None | [] \<Rightarrow> None)"

definition read_sep :: "char \<Rightarrow> nat \<Rightarrow> (string \<Rightarrow> ('a \<times> string) option) \<Rightarrow> string \<Rightarrow> ('a \<times> string) option" where
  "read_sep c i p s = (if i > 0 then Option.bind (read_given c s) p else p s)"

fun read_octets :: "nat \<Rightarrow> nat \<Rightarrow> string \<Rightarrow> (nat list \<times> string) option" where
  "read_octets i 0 s = Some ([], s)"
| "read_octets i (Suc k) s =
     (case read_sep CHR ''.'' i (read_number 10 3 False 256) s of
        None \<Rightarrow> None
      | Some (v, r) \<Rightarrow> map_option (\<lambda>(vs, t). (v # vs, t)) (read_octets (Suc i) k r))"

definition read_ipv4 :: "string \<Rightarrow> (nat list \<times> string) option" where
  "read_ipv4 s = read_octets 0 4 s"

text \<open>
  \<open>read_groups\<close> with \<open>k\<close> groups left of which \<open>i\<close> are read: the groups, whether they end in
  an IPv4 address, and the rest of the text.
\<close>

fun read_groups :: "nat \<Rightarrow> nat \<Rightarrow> string \<Rightarrow> nat list \<times> bool \<times> string" where
  "read_groups i 0 s = ([], False, s)"
| "read_groups i (Suc k) s =
     (case (if k \<ge> 1 then read_sep CHR '':'' i read_ipv4 s else None) of
        Some (v, r) \<Rightarrow> ([256 * v ! 0 + v ! 1, 256 * v ! 2 + v ! 3], True, r)
      | None \<Rightarrow>
        (case read_sep CHR '':'' i (read_number 16 4 True 65536) s of
           None \<Rightarrow> ([], False, s)
         | Some (g, r) \<Rightarrow> (let (gs, v4, t) = read_groups (Suc i) k r in (g # gs, v4, t))))"

definition read_ipv6 :: "string \<Rightarrow> (nat list \<times> string) option" where
  "read_ipv6 s =
     (let (head, v4, r) = read_groups 0 8 s in
      if length head = 8 then Some (head, r)
      else if v4 then None
      else Option.bind (read_given CHR '':'' r) (\<lambda>r1.
           Option.bind (read_given CHR '':'' r1) (\<lambda>r2.
           let (tail, _, t) = read_groups 0 (8 - (length head + 1)) r2
           in Some (head @ replicate (8 - length head - length tail) 0 @ tail, t))))"

definition parse_ip :: "string \<Rightarrow> string + ip_addr" where
  "parse_ip s =
     (case (case read_ipv4 s of
              Some (v, r) \<Rightarrow> Some (V4 v, r)
            | None \<Rightarrow> map_option (\<lambda>(v, r). (V6 v, r)) (read_ipv6 s)) of
        Some (a, []) \<Rightarrow> Inr a
      | _ \<Rightarrow> Inl ''invalid IP address syntax'')"

section \<open>External services\<close>

record util_lib =
  ul_base64_encode :: "string \<Rightarrow> string"
  ul_base64_decode :: "string \<Rightarrow> string + string"
  ul_ipnet :: "string \<Rightarrow> (ip_addr \<Rightarrow> bool) option"
  ul_home :: "string option"
  ul_absolutize :: "string \<Rightarrow> string option"
  ul_is_file :: "string \<Rightarrow> bool"
  ul_read_file :: "string \<Rightarrow> string + string"
  ul_seal :: "string \<Rightarrow> string \<Rightarrow> string \<Rightarrow> string + string"
  ul_open :: "string \<Rightarrow> string \<Rightarrow> string \<Rightarrow> string + string"
  ul_toml_table :: "string \<Rightarrow> string + (string \<times> toml) list"
  ul_toml_pretty :: "(string \<times> toml) list \<Rightarrow> string + string"

section \<open>IP rules\<close>

record ip_rules =
  ip_net_list :: "(ip_addr \<Rightarrow> bool) list"
  ip_list :: "string list"

definition add_ip_rule :: "util_lib \<Rightarrow> string \<Rightarrow> ip_rules \<Rightarrow> ip_rules" where
  "add_ip_rule lib item r =
     (case ul_ipnet lib item of
        Some net \<Rightarrow> r\<lparr>ip_net_list := ip_net_list r @ [net]\<rparr>
      | None \<Rightarrow> r\<lparr>ip_list := ip_list r @ [item]\<rparr>)"

definition new_ip_rules :: "util_lib \<Rightarrow> string list \<Rightarrow> ip_rules" where
  "new_ip_rules lib values = fold (add_ip_rule lib) values \<lparr>ip_net_list = [], ip_list = []\<rparr>"

definition ip_is_match :: "ip_rules \<Rightarrow> string \<Rightarrow> string + bool" where
  "ip_is_match r ip =
     (if ip \<in> set (ip_list r) then Inr True
      else try_then (parse_ip ip) (\<lambda>addr. Inr (list_ex (\<lambda>net. net addr) (ip_net_list r))))"

section \<open>Sizes and durations\<close>

definition KB :: nat where "KB = 1000"
definition MB :: nat where "MB = 1000000"
definition GB :: nat where "GB = 1000000000"
definition B_100 :: nat where "B_100 = 100"
definition KB_100 :: nat where "KB_100 = 100 * KB"
definition MB_100 :: nat where "MB_100 = 100 * MB"
definition SEC :: nat where "SEC = 1000"

lemmas size_units = KB_def MB_def GB_def B_100_def KB_100_def MB_100_def SEC_def

definition scaled :: "nat \<Rightarrow> nat \<Rightarrow> nat \<Rightarrow> string" where
  "scaled v unit sub =
     show_nat (v div unit) @ (let t = v mod unit div sub in if t \<noteq> 0 then ''.'' @ show_nat t else [])"

definition format_byte_size :: "string \<Rightarrow> nat \<Rightarrow> string" where
  "format_byte_size buf sz =
     (if sz < KB then buf @ show_nat sz @ ''B''
      else if sz < MB then buf @ scaled sz KB B_100 @ ''KB''
      else if sz < GB then buf @ scaled sz MB KB_100 @ ''MB''
      else buf @ scaled sz GB MB_100 @ ''GB'')"

definition util_format_duration :: "string \<Rightarrow> nat \<Rightarrow> string" where
  "util_format_duration buf ms =
     (if ms < 1000 then buf @ show_nat ms @ ''ms'' else buf @ scaled ms SEC 100 @ ''s'')"

definition now_sec :: "sys_env \<Rightarrow> nat" where
  "now_sec env = sys_now_ms env div 1000"

section \<open>Paths and PEM\<close>

definition path_join :: "string \<Rightarrow> string \<Rightarrow> string" where
  "path_join value1 value2 =
     (let end_slash = ends_with value1 ''/''; start_slash = starts_with value2 ''/'' in
      if end_slash \<and> start_slash then value1 @ drop 1 value2
      else if end_slash \<or> start_slash then value1 @ value2
      else value1 @ ''/'' @ value2)"

definition resolve_path :: "util_lib \<Rightarrow> string \<Rightarrow> string" where
  "resolve_path lib path =
     (if path = [] then []
      else let p = (if starts_with path ''~'' then
                      (case ul_home lib of Some home \<Rightarrow> home @ drop 1 path | None \<Rightarrow> path)
                    else path)
           in unwrap_or p (ul_absolutize lib p))"

datatype util_error =
    UtilAes string
  | UtilBase64 string
  | UtilInvalid string
  | UtilIo string string

definition util_error_text :: "util_error \<Rightarrow> string" where
  "util_error_text e = (case e of
     UtilAes m \<Rightarrow> ''Encrypt error '' @ m | UtilBase64 m \<Rightarrow> ''Base64 decode '' @ m
   | UtilInvalid m \<Rightarrow> ''Invalid '' @ m | UtilIo m file \<Rightarrow> ''Io error '' @ m @ '', '' @ file)"

definition config_error_text :: "config_error \<Rightarrow> string" where
  "config_error_text e = (case e of
     ConfigInvalid m \<Rightarrow> ''Invalid error '' @ m
   | ConfigPattern m path \<Rightarrow> ''Glob pattern error '' @ m @ '', '' @ path
   | ConfigGlob m \<Rightarrow> ''Glob error '' @ m
   | ConfigIo m file \<Rightarrow> ''Io error '' @ m @ '', '' @ file
   | ConfigDe m \<Rightarrow> ''Toml de error '' @ m
   | ConfigSer m \<Rightarrow> ''Toml ser error '' @ m
   | ConfigUrlParse m url \<Rightarrow> ''Url parse error '' @ m @ '', '' @ url
   | ConfigRegex m \<Rightarrow> ''Regex error '' @ m
   | ConfigEtcd m \<Rightarrow> ''Etcd error '' @ m
   | ConfigPanic \<Rightarrow> [])"

definition is_pem :: "string \<Rightarrow> bool" where
  "is_pem value = starts_with value ''-----''"

definition base64_encode :: "util_lib \<Rightarrow> string \<Rightarrow> string" where
  "base64_encode lib data = ul_base64_encode lib data"

definition base64_decode :: "util_lib \<Rightarrow> string \<Rightarrow> string + string" where
  "base64_decode lib data = ul_base64_decode lib data"

definition convert_pem :: "util_lib \<Rightarrow> string \<Rightarrow> util_error + string" where
  "convert_pem lib value =
     (if is_pem value then Inr value
      else if ul_is_file lib (resolve_path lib value)
      then map_err (\<lambda>e. UtilIo e value) (ul_read_file lib (resolve_path lib value))
      else map_err UtilBase64 (base64_decode lib value))"

definition convert_certificate_bytes :: "util_lib \<Rightarrow> string option \<Rightarrow> string option" where
  "convert_certificate_bytes lib value =
     (case value of None \<Rightarrow> None
      | Some v \<Rightarrow> (case convert_pem lib v of Inl _ \<Rightarrow> None | Inr buf \<Rightarrow> Some buf))"

definition toml_omit_empty_value :: "util_lib \<Rightarrow> string \<Rightarrow> util_error + string" where
  "toml_omit_empty_value lib value =
     try_then (map_err UtilInvalid (ul_toml_table lib value)) (\<lambda>data.
     let omit_keys = map fst (filter (\<lambda>(_, v). case v of TTable t \<Rightarrow> t = [] | _ \<Rightarrow> True) data)
     in map_err UtilInvalid (ul_toml_pretty lib (fold map_remove omit_keys data)))"

section \<open>Secrets\<close>

definition PINGAP_NONCE :: string where "PINGAP_NONCE = ''pingap nonce''"

definition generate_key :: "string \<Rightarrow> string" where
  "generate_key key =
     (let key_size = 32; pos = length key in
      if pos > key_size then take key_size key
      else if pos = key_size then key
      else key @ replicate (key_size - pos) CHR 0x00)"

text \<open>
  \<open>new_from_slice\<close> fails on keys that are not 32 bytes, which \<open>generate_key\<close> never gives; sealing
  and opening are the cipher with the fixed nonce.
\<close>

definition aes_encrypt :: "util_lib \<Rightarrow> string \<Rightarrow> string \<Rightarrow> util_error + string" where
  "aes_encrypt lib key data =
     try_then (map_err UtilAes (ul_seal lib (generate_key key) PINGAP_NONCE data)) (\<lambda>cipher_text.
     Inr (base64_encode lib cipher_text))"

definition aes_decrypt :: "util_lib \<Rightarrow> string \<Rightarrow> string \<Rightarrow> util_error + string" where
  "aes_decrypt lib key data =
     try_then (map_err UtilBase64 (base64_decode lib data)) (\<lambda>cipher_text.
     try_then (map_err UtilAes (ul_open lib (generate_key key) PINGAP_NONCE cipher_text)) (\<lambda>plain.
     Inr (unwrap_or [] (from_utf8 plain))))"

section \<open>Lemmas\<close>

lemma new_ip_rules_lists:
  "ip_net_list (fold (add_ip_rule lib) vs r) = ip_net_list r @ List.map_filter (ul_ipnet lib) vs \<and>
   ip_list (fold (add_ip_rule lib) vs r) = ip_list r @ filter (\<lambda>v. ul_ipnet lib v = None) vs"
  by (induction vs arbitrary: r) (auto simp: add_ip_rule_def map_filter_def split: option.splits)

lemma ip_is_match_spec:
  "ip_is_match (new_ip_rules lib vs) ip = Inr True \<longleftrightarrow>
     (\<exists>v \<in> set vs. (ul_ipnet lib v = None \<and> v = ip) \<or>
        (\<exists>net addr. ul_ipnet lib v = Some net \<and> parse_ip ip = Inr addr \<and> net addr))"
proof -
  have l: "ip_net_list (new_ip_rules lib vs) = List.map_filter (ul_ipnet lib) vs"
    "ip_list (new_ip_rules lib vs) = filter (\<lambda>v. ul_ipnet lib v = None) vs"
    using new_ip_rules_lists[of lib vs] by (simp_all add: new_ip_rules_def)
  have nets: "list_ex (\<lambda>net. net addr) (List.map_filter (ul_ipnet lib) vs) \<longleftrightarrow>
      (\<exists>v \<in> set vs. \<exists>net. ul_ipnet lib v = Some net \<and> net addr)" for addr
    by (induction vs) (auto simp: map_filter_simps split: option.splits)
  show ?thesis
  proof (cases "parse_ip ip")
    case (Inl e)
    then show ?thesis by (auto simp: ip_is_match_def l)
  next
    case (Inr addr)
    show ?thesis unfolding ip_is_match_def l Inr try_then_simps nets by auto
  qed
qed

lemma ip_is_match_Inl:
  "ip_is_match r ip = Inl e \<longleftrightarrow> ip \<notin> set (ip_list r) \<and> parse_ip ip = Inl e"
  by (cases "parse_ip ip") (auto simp: ip_is_match_def)

lemma radix_val_digit: "d < 10 \<Longrightarrow> radix_val (digit_char d) = Some d"
  by (simp add: radix_val_def)

lemma is_digit_radix: "is_digit c \<Longrightarrow> is_radix 10 c \<and> radix_val c = Some (digit_val c)"
  by (auto simp: is_digit_def is_radix_def radix_val_def digit_val_def Let_def)

lemma is_radix_digit: "is_radix 10 c \<longleftrightarrow> is_digit c"
  by (auto simp: is_digit_def is_radix_def radix_val_def Let_def split: if_splits)

lemma radix_num_digits: "list_all is_digit s \<Longrightarrow> radix_num 10 s = digits_val s"
proof -
  have "list_all is_digit s \<Longrightarrow>
      foldl (\<lambda>a c. 10 * a + unwrap_or 0 (radix_val c)) n s = foldl (\<lambda>a c. 10 * a + digit_val c) n s" for n
    by (induction s arbitrary: n) (simp_all add: is_digit_radix)
  then show "list_all is_digit s \<Longrightarrow> radix_num 10 s = digits_val s"
    by (simp add: radix_num_def digits_val_def)
qed

lemma octet_text:
  assumes "n < 256"
  shows "length (show_nat n) \<le> 3" "length (show_nat n) > 1 \<Longrightarrow> hd (show_nat n) \<noteq> CHR ''0''"
proof -
  have small: "m < 10 \<Longrightarrow> show_nat m = [digit_char m]" for m by (subst show_nat.simps) simp
  have step: "10 \<le> m \<Longrightarrow> show_nat m = show_nat (m div 10) @ [digit_char (m mod 10)]" for m
    by (subst show_nat.simps) simp
  have nz: "0 < m \<Longrightarrow> m < 10 \<Longrightarrow> digit_char m \<noteq> CHR ''0''" for m
    using of_char_digit_char[of m] by (auto simp del: of_char_digit_char)
  consider "n < 10" | "10 \<le> n" "n < 100" | "100 \<le> n" using assms by linarith
  then have "length (show_nat n) \<le> 3 \<and> (length (show_nat n) > 1 \<longrightarrow> hd (show_nat n) \<noteq> CHR ''0'')"
  proof cases
    case 1
    then show ?thesis by (simp add: small)
  next
    case 2
    then show ?thesis by (simp add: step small nz)
  next
    case 3
    then have "10 \<le> n div 10" "n div 10 < 100" using assms by simp_all
    then have "show_nat (n div 10) = [digit_char (n div 100), digit_char (n div 10 mod 10)]"
      by (simp add: step small div_mult2_eq[symmetric])
    then show ?thesis using 3 assms by (simp add: step nz)
  qed
  then show "length (show_nat n) \<le> 3" "length (show_nat n) > 1 \<Longrightarrow> hd (show_nat n) \<noteq> CHR ''0''" by auto
qed

lemma read_octet:
  assumes "n < 256" "r = [] \<or> \<not> is_digit (hd r)"
  shows "read_number 10 3 False 256 (show_nat n @ r) = Some (n, r)"
proof -
  have tw: "takeWhile (is_radix 10) (show_nat n @ r) = show_nat n"
    using assms(2) by (cases r) (auto simp: is_radix_digit takeWhile_append dest: show_nat_digit_set)
  show ?thesis
    using octet_text[OF assms(1)] assms(1)
    by (auto simp: read_number_def tw radix_num_digits[OF digits_show_nat] Let_def)
qed

lemma read_octets_4:
  "read_octets i 4 s =
     (case read_sep CHR ''.'' i (read_number 10 3 False 256) s of
        None \<Rightarrow> None
      | Some (v, r) \<Rightarrow> map_option (\<lambda>(vs, t). (v # vs, t)) (read_octets (Suc i) (Suc (Suc (Suc 0))) r))"
  by (simp add: eval_nat_numeral)

lemma read_ipv4_dotted:
  assumes "a < 256" "b < 256" "c < 256" "d < 256"
  shows "read_ipv4 (join ''.'' (map show_nat [a, b, c, d])) = Some ([a, b, c, d], [])"
proof -
  have dot: "\<not> is_digit CHR ''.''" by (simp add: is_digit_def)
  show ?thesis
    using read_octet[OF assms(4), of "[]"] assms(1-3)
    by (simp add: read_ipv4_def read_octets_4 read_sep_def read_given_def read_octet dot)
qed

lemma length_generate_key [simp]: "length (generate_key key) = 32"
  by (simp add: generate_key_def Let_def)

lemma path_join_boundary:
  "\<not> ends_with a ''/'' \<Longrightarrow> \<not> starts_with b ''/'' \<Longrightarrow>
     path_join a b = a @ ''/'' @ b \<and> path_join (a @ ''/'') b = a @ ''/'' @ b \<and>
     path_join a (''/'' @ b) = a @ ''/'' @ b \<and> path_join (a @ ''/'') (''/'' @ b) = a @ ''/'' @ b"
  by (simp add: path_join_def ends_with_def starts_with_def)

end
