(* ===== verification/Plugin_Conf.thy ===== *)
theory Plugin_Conf
  imports Plugin Util Location "HOL-Library.Char_ord" "HOL-Library.List_Lexorder"
begin

text \<open>
  \<open>pingap-plugin/src/lib.rs\<close> and \<open>plugin.rs\<close>: how plugins read their configuration, the errors
  of building one, the key that detects a changed configuration, and the factory. What the
  plugins call in other crates is a field of \<open>plugin_lib\<close>: regular expressions, hashes, base64
  for URLs, JSON, cookies, random identifiers, URLs, rate and in-flight counters, the file
  system, the HTTP cache. \<open>'s\<close> is the state those services keep. The delay some plugins sleep
  before they refuse a request has no effect on the state and is kept as a field only. Regular
  expressions come from two crates (\<open>pl_re\<close>, \<open>pl_fancy\<close>). An input or output error is whether it is
  \<open>NotFound\<close>, and its text; an open file is the list of what its successive reads give.
\<close>

datatype plugin_error =
    PluginInvalid string string
  | PluginNotFound string
  | PluginBase64Decode string string
  | PluginExceed string int int
  | PluginRegex string string
  | PluginParseDuration string string

definition plugin_error_text :: "plugin_error \<Rightarrow> string" where
  "plugin_error_text e = (case e of
     PluginInvalid c m \<Rightarrow> ''Plugin '' @ c @ '' invalid, message: '' @ m
   | PluginNotFound c \<Rightarrow> ''Plugin '' @ c @ '' not found''
   | PluginBase64Decode c s \<Rightarrow> ''Plugin '' @ c @ '', base64 decode error '' @ s
   | PluginExceed c m v \<Rightarrow> ''Plugin '' @ c @ '', exceed limit '' @ show_int v @ ''/'' @ show_int m
   | PluginRegex c s \<Rightarrow> ''Plugin '' @ c @ '', regex error '' @ s
   | PluginParseDuration c s \<Rightarrow> ''Plugin '' @ c @ '', base64 decode error '' @ s)"

section \<open>External services\<close>

record file_meta =
  fm_size :: nat
  fm_modified :: "nat option"
  fm_is_dir :: bool

record ('re, 's) plugin_lib =
  pl_http :: http_lib
  pl_env :: sys_env
  pl_util :: util_lib
  pl_re :: "'re regex_lib"
  pl_parse_duration :: "string \<Rightarrow> string + duration"
  pl_byte_size :: "string \<Rightarrow> string + nat"
  pl_crc32 :: "string \<Rightarrow> nat"
  pl_toml_text :: "toml \<Rightarrow> string"
  pl_sha256 :: "string \<Rightarrow> string"
  pl_hex_encode :: "string \<Rightarrow> string"
  pl_hmac_sha256 :: "string \<Rightarrow> string \<Rightarrow> string"
  pl_hmac_sha512 :: "string \<Rightarrow> string \<Rightarrow> string"
  pl_b64url_encode :: "string \<Rightarrow> string"
  pl_b64url_decode :: "string \<Rightarrow> string option"
  pl_jwt_alg :: "string \<Rightarrow> string"
  pl_jwt_exp :: "string \<Rightarrow> nat option option"
  pl_cookie :: "string \<Rightarrow> string \<Rightarrow> string \<Rightarrow> nat option \<Rightarrow> string"
  pl_lossy :: "string \<Rightarrow> string"
  pl_nanoid :: "nat \<Rightarrow> string"
  pl_uuid :: string
  pl_url_host :: "string \<Rightarrow> string option option"
  pl_url_decode :: "string \<Rightarrow> string option"
  pl_rate_observe :: "string \<Rightarrow> string \<Rightarrow> 's \<Rightarrow> 's"
  pl_rate_value :: "nat \<Rightarrow> string \<Rightarrow> string \<Rightarrow> 's \<Rightarrow> int"
  pl_inflight_incr :: "string \<Rightarrow> string \<Rightarrow> 's \<Rightarrow> int \<times> 's"
  pl_inflight_drop :: "string \<times> string \<Rightarrow> 's \<Rightarrow> 's"
  pl_cache_backend :: "string + string option"
  pl_cache_remove :: "string \<times> string \<Rightarrow> 's \<Rightarrow> (pingora_error + bool) \<times> 's"
  pl_cache_enable :: "bool \<Rightarrow> bool \<Rightarrow> nat option \<Rightarrow> nat option \<Rightarrow> 's \<Rightarrow> 's"
  pl_cache_stats :: "'s \<Rightarrow> (nat \<times> nat) option"
  pl_compress_adjust :: "bool option \<Rightarrow> nat \<times> nat \<times> nat \<Rightarrow> 's \<Rightarrow> 's option"
  pl_fancy :: "'re regex_lib"
  pl_subs_captures :: "string \<Rightarrow> (string \<times> string \<times> string \<times> string option) option"
  pl_bytes_regex :: "string \<Rightarrow> bool \<Rightarrow> (string \<Rightarrow> bool \<Rightarrow> string \<Rightarrow> string) option"
  pl_file_meta :: "string \<Rightarrow> (bool \<times> string) + file_meta"
  pl_file_open :: "string \<Rightarrow> (bool \<times> string) + (string + string) list"
  pl_mime :: "string \<Rightarrow> string"
  pl_glob :: "string \<Rightarrow> string + (string + string) list"
  pl_entry_texts :: "string \<Rightarrow> bool \<times> string \<times> string"
  pl_stats_json :: "ctx \<Rightarrow> 's \<Rightarrow> string + string"
  pl_error_text :: "pingora_error \<Rightarrow> string"

section \<open>Reading a configuration\<close>

definition get_str_conf :: "plugin_conf \<Rightarrow> string \<Rightarrow> string" where
  "get_str_conf conf key = (case map_of conf key of Some v \<Rightarrow> unwrap_or [] (as_str v) | None \<Rightarrow> [])"

definition get_str_slice_conf :: "plugin_conf \<Rightarrow> string \<Rightarrow> string list" where
  "get_str_slice_conf conf key =
     (case map_of conf key of
        Some (TArray vs) \<Rightarrow> map (\<lambda>v. unwrap_or [] (as_str v)) vs
      | _ \<Rightarrow> [])"

definition get_bool_conf :: "plugin_conf \<Rightarrow> string \<Rightarrow> bool" where
  "get_bool_conf conf key = (case map_of conf key of Some (TBoolean b) \<Rightarrow> b | _ \<Rightarrow> False)"

definition get_int_conf :: "plugin_conf \<Rightarrow> string \<Rightarrow> int" where
  "get_int_conf conf key = (case map_of conf key of Some (TInteger i) \<Rightarrow> i | _ \<Rightarrow> 0)"

definition get_step_conf :: "plugin_conf \<Rightarrow> plugin_step \<Rightarrow> plugin_step" where
  "get_step_conf conf default_value =
     (let step = get_str_conf conf ''step'' in
      if step = [] then default_value else unwrap_or default_value (parse_step step))"

text \<open>An optional duration of the configuration: absent when the text is empty.\<close>

definition get_duration_conf ::
  "('re, 's) plugin_lib \<Rightarrow> string \<Rightarrow> plugin_conf \<Rightarrow> string \<Rightarrow> plugin_error + duration option" where
  "get_duration_conf lib category conf key =
     (let text = get_str_conf conf key in
      if text = [] then Inr None
      else try_then (map_err (PluginInvalid category) (pl_parse_duration lib text)) (\<lambda>d. Inr (Some d)))"

section \<open>Hash of a configuration\<close>

definition hex_digit :: "nat \<Rightarrow> char" where
  "hex_digit d = (if d < 10 then char_of (48 + d) else char_of (55 + d))"

fun show_hex_upper :: "nat \<Rightarrow> string" where
  "show_hex_upper n = (if n < 16 then [hex_digit n] else show_hex_upper (n div 16) @ [hex_digit (n mod 16)])"

declare show_hex_upper.simps [simp del]

definition show_hex :: "nat \<Rightarrow> string" where
  "show_hex n = ascii_lower (show_hex_upper n)"

definition hash_line :: "('re, 's) plugin_lib \<Rightarrow> plugin_conf \<Rightarrow> string \<Rightarrow> string" where
  "hash_line lib conf key =
     key @ '':'' @ (case map_of conf key of Some v \<Rightarrow> pl_toml_text lib v | None \<Rightarrow> [])"

definition get_hash_key :: "('re, 's) plugin_lib \<Rightarrow> plugin_conf \<Rightarrow> string" where
  "get_hash_key lib conf =
     (let keys = sort (keys_of conf); lines = map (hash_line lib conf) keys
      in show_hex_upper (pl_crc32 lib (join ''\<newline>'' lines)))"

section \<open>Results of a handler\<close>

text \<open>\<open>(false, None)\<close>, \<open>(true, None)\<close> and \<open>(true, Some resp)\<close> of \<open>handle_request\<close>.\<close>

definition skip :: "'x \<Rightarrow> (pingora_error + bool \<times> http_response option) \<times> 'x" where
  "skip st = (Inr (False, None), st)"

definition pass :: "'x \<Rightarrow> (pingora_error + bool \<times> http_response option) \<times> 'x" where
  "pass st = (Inr (True, None), st)"

definition answer :: "http_response \<Rightarrow> 'x \<Rightarrow> (pingora_error + bool \<times> http_response option) \<times> 'x" where
  "answer r st = (Inr (True, Some r), st)"

lemmas handler_results = skip_def pass_def answer_def

definition status_body :: "nat \<Rightarrow> string \<Rightarrow> http_response" where
  "status_body status body = default_response\<lparr>hr_status := status, hr_body := body\<rparr>"

definition get_header_bytes :: "session \<Rightarrow> string \<Rightarrow> string" where
  "get_header_bytes s k = unwrap_or [] (get_header s k)"

definition conn_req :: "conn \<Rightarrow> request_header" where
  "conn_req cn = req_header (cn_session cn)"

definition upd_req :: "(request_header \<Rightarrow> request_header) \<Rightarrow> conn \<Rightarrow> conn" where
  "upd_req f cn = cn\<lparr>cn_session := (cn_session cn)\<lparr>req_header := f (req_header (cn_session cn))\<rparr>\<rparr>"

definition upd_req_headers :: "(header_map \<Rightarrow> header_map) \<Rightarrow> conn \<Rightarrow> conn" where
  "upd_req_headers f = upd_req (\<lambda>h. h\<lparr>req_headers := f (req_headers h)\<rparr>)"

text \<open>\<open>from_utf8_lossy\<close> of bytes that are not UTF-8 is \<open>pl_lossy\<close>.\<close>

definition from_utf8_lossy :: "('re, 's) plugin_lib \<Rightarrow> string \<Rightarrow> string" where
  "from_utf8_lossy lib s = (if utf8_valid s then s else pl_lossy lib s)"

section \<open>The factory\<close>

type_synonym 's creator = "plugin_conf \<Rightarrow> plugin_error + 's plugin"
type_synonym 's plugin_factory = "(string, 's creator) hash_map"

definition register :: "string \<Rightarrow> 's creator \<Rightarrow> 's plugin_factory \<Rightarrow> 's plugin_factory" where
  "register category creator f = map_insert category creator f"

definition supported_plugins :: "'s plugin_factory \<Rightarrow> string list" where
  "supported_plugins f = sort (keys_of f)"

definition create :: "'s plugin_factory \<Rightarrow> plugin_conf \<Rightarrow> plugin_error + 's plugin" where
  "create f conf =
     (let category = get_str_conf conf ''category'' in
      if category = [] then Inl (PluginNotFound ''unknown'')
      else case map_of f category of
             None \<Rightarrow> Inl (PluginNotFound category)
           | Some creator \<Rightarrow> creator conf)"

section \<open>Lemmas\<close>

lemma get_hash_key_cong:
  assumes "wf_map a" "wf_map b" "map_of a = map_of b"
  shows "get_hash_key lib a = get_hash_key lib b"
proof -
  have "set (keys_of a) = set (keys_of b)"
    using arg_cong[OF assms(3), of dom] by (simp add: dom_map_of_conv_image_fst keys_of_def)
  then have "sort (keys_of a) = sort (keys_of b)"
    using assms(1,2) by (simp add: wf_map_def sorted_distinct_set_unique)
  moreover have "hash_line lib a = hash_line lib b" by (simp add: fun_eq_iff hash_line_def assms(3))
  ultimately show ?thesis by (simp add: get_hash_key_def)
qed

lemma upd_req_conn [simp]:
  "conn_req (upd_req f cn) = f (conn_req cn)" "cn_written (upd_req f cn) = cn_written cn"
  "cn_write_error (upd_req f cn) = cn_write_error cn"
  by (simp_all add: upd_req_def conn_req_def)

lemma upd_req_headers_conn [simp]:
  "req_headers (conn_req (upd_req_headers f cn)) = f (req_headers (conn_req cn))"
  "req_uri (conn_req (upd_req_headers f cn)) = req_uri (conn_req cn)"
  "req_method (conn_req (upd_req_headers f cn)) = req_method (conn_req cn)"
  by (simp_all add: upd_req_headers_def)

lemma create_register:
  "get_str_conf conf ''category'' = c \<Longrightarrow> c \<noteq> [] \<Longrightarrow> create (register c f fac) conf = f conf"
  by (simp add: create_def register_def)

section \<open>A concrete library\<close>

text \<open>
  An instance of the services for evaluating the plugins on concrete input: bytes are encoded as two
  hexadecimal digits, the digests are the text itself, the state is the in-flight counters.
\<close>

type_synonym sample_state = "((string \<times> string) \<times> int) list"

fun sample_encode :: "string \<Rightarrow> string" where
  "sample_encode [] = []"
| "sample_encode (c # cs) = hex_digit (of_char c div 16) # hex_digit (of_char c mod 16) # sample_encode cs"

definition sample_nibble :: "char \<Rightarrow> nat" where
  "sample_nibble c = unwrap_or 0 (radix_val c)"

fun sample_decode :: "string \<Rightarrow> string" where
  "sample_decode (a # b # cs) = char_of (16 * sample_nibble a + sample_nibble b) # sample_decode cs"
| "sample_decode _ = []"

lemma sample_nibble_digit: "d < 16 \<Longrightarrow> sample_nibble (hex_digit d) = d"
  by (auto simp: sample_nibble_def hex_digit_def radix_val_def Let_def)

lemma sample_decode_encode: "sample_decode (sample_encode s) = s"
proof (induction s)
  case (Cons c cs)
  have "(of_char c :: nat) < 256" by simp
  then have "(of_char c :: nat) div 16 < 16" by (simp add: less_mult_imp_div_less)
  then show ?case using Cons by (simp add: sample_nibble_digit)
qed simp

lemma sample_encode_no_dot: "CHR ''.'' \<notin> set (sample_encode s)"
proof (induction s)
  case (Cons c cs)
  have "(of_char c :: nat) < 256" by simp
  then have "(of_char c :: nat) div 16 < 16" by (simp add: less_mult_imp_div_less)
  moreover have "hex_digit d \<noteq> CHR ''.''" if "d < 16" for d
  proof
    assume "hex_digit d = CHR ''.''"
    then have "(of_char (hex_digit d) :: nat) = 46" by simp
    then show False using that by (simp add: hex_digit_def split: if_splits)
  qed
  ultimately show ?case using Cons by (simp add: eq_commute[of "CHR ''.''"])
qed simp

definition sample_util_lib :: util_lib where
  "sample_util_lib = \<lparr>ul_base64_encode = sample_encode, ul_base64_decode = (\<lambda>s. Inr (sample_decode s)),
     ul_ipnet = (\<lambda>_. None), ul_home = None, ul_absolutize = Some, ul_is_file = (\<lambda>_. False),
     ul_read_file = Inl, ul_seal = (\<lambda>k n d. Inr (k @ d)), ul_open = (\<lambda>k n d. Inr (drop (length k) d)),
     ul_toml_table = Inl, ul_toml_pretty = (\<lambda>_. Inr [])\<rparr>"

definition sample_count :: "string \<Rightarrow> string \<Rightarrow> sample_state \<Rightarrow> int" where
  "sample_count i k s = unwrap_or 0 (map_of s (i, k))"

definition sample_plugin_lib :: "(string, sample_state) plugin_lib" where
  "sample_plugin_lib = \<lparr>pl_http = sample_http, pl_env = sample_env, pl_util = sample_util_lib, pl_re = sample_re,
     pl_parse_duration = Inl, pl_byte_size = Inl, pl_crc32 = (\<lambda>s. length s), pl_toml_text = (\<lambda>_. []),
     pl_sha256 = (\<lambda>s. s), pl_hex_encode = (\<lambda>s. s), pl_hmac_sha256 = (\<lambda>c k. k @ c), pl_hmac_sha512 = (\<lambda>c k. c @ k),
     pl_b64url_encode = sample_encode, pl_b64url_decode = (\<lambda>s. Some (sample_decode s)),
     pl_jwt_alg = (\<lambda>s. if contains_str s ''HS512'' then ''HS512'' else ''HS256''),
     pl_jwt_exp = (\<lambda>_. Some (Some 1800000000)), pl_cookie = (\<lambda>n v _ _. n @ ''='' @ v), pl_lossy = (\<lambda>s. s),
     pl_nanoid = (\<lambda>n. replicate n CHR ''x''), pl_uuid = ''uuid'', pl_url_host = (\<lambda>_. None), pl_url_decode = Some,
     pl_rate_observe = (\<lambda>_ _ s. s), pl_rate_value = (\<lambda>_ _ _ _. 0),
     pl_inflight_incr = (\<lambda>i k s. (sample_count i k s + 1, map_insert (i, k) (sample_count i k s + 1) s)),
     pl_inflight_drop = (\<lambda>(i, k) s. map_insert (i, k) (sample_count i k s - 1) s),
     pl_cache_backend = Inr None, pl_cache_remove = (\<lambda>_ s. (Inr False, s)), pl_cache_enable = (\<lambda>_ _ _ _ s. s),
     pl_cache_stats = (\<lambda>_. None), pl_compress_adjust = (\<lambda>_ _ s. Some s), pl_fancy = sample_re,
     pl_subs_captures = (\<lambda>_. None), pl_bytes_regex = (\<lambda>_ _. None), pl_file_meta = (\<lambda>_. Inl (True, ''no file'')),
     pl_file_open = (\<lambda>_. Inl (True, ''no file'')), pl_mime = (\<lambda>_. ''text/plain''), pl_glob = Inl,
     pl_entry_texts = (\<lambda>_. (True, [], [])), pl_stats_json = (\<lambda>_ _. Inr ''stats''), pl_error_text = pe_context\<rparr>"

lemmas sample_plugin_simps = sample_plugin_lib_def sample_util_lib_def

end
