(* ===== verification/Guard.thy ===== *)
theory Guard
  imports Plugin_Conf Routing
begin

text \<open>
  The contract of a plugin that guards a location: at its own step it lets a request pass exactly
  when it admits it, otherwise it answers it with one of its status codes or fails; at other
  steps it does nothing; and it never changes the route of the request. Every access plugin of
  \<open>pingap-plugin\<close> is an interpretation of it. What follows for the chain of plugins and for
  \<open>request_filter\<close> of the server is proved once, from the contract.
\<close>

locale request_guard =
  fixes handler :: "'s req_handler"
    and at_step :: plugin_step
    and codes :: "nat set"
    and admits :: "conn \<Rightarrow> ctx \<Rightarrow> 's \<Rightarrow> bool"
  assumes other_step: "step \<noteq> at_step \<Longrightarrow> handler step st = (Inr (False, None), st)"
    and admitted: "admits cn c s \<Longrightarrow> \<exists>b. fst (handler at_step (cn, c, s)) = Inr (b, None)"
    and refused: "\<not> admits cn c s \<Longrightarrow>
      (\<exists>e. fst (handler at_step (cn, c, s)) = Inl e) \<or>
      (\<exists>r. fst (handler at_step (cn, c, s)) = Inr (True, Some r) \<and> hr_status r \<in> codes)"
    and route: "ctx_location (fst (snd (snd (handler step (cn, c, s))))) = ctx_location c"
    and written: "cn_written (fst (snd (handler step (cn, c, s)))) = cn_written cn"
begin

lemma passes_iff:
  "(\<exists>b. fst (handler at_step (cn, c, s)) = Inr (b, None)) \<longleftrightarrow> admits cn c s"
  using admitted[of cn c s] refused[of cn c s] by fastforce

text \<open>The guard ends the chain: what comes after it plays no role for a request it refuses.\<close>

lemma chain_stops:
  assumes p: "sl_plugin lib name = Some p" "handle_request p = handler"
    and x: "\<not> admits (x_conn x) (x_ctx x) (w_plugins (x_world x))"
  shows "run_request_plugins lib at_step (name # names) x = run_request_plugins lib at_step [name] x"
    and "fst (run_request_plugins lib at_step (name # names) x) \<noteq> Inr False"
    and "\<forall>h b. (h, b) \<in> set (cn_written (x_conn (snd (run_request_plugins lib at_step (name # names) x))))
           \<longrightarrow> (h, b) \<in> set (cn_written (x_conn x)) \<or> resp_status h \<in> codes"
proof -
  obtain res cn c s where h: "handler at_step (x_conn x, x_ctx x, w_plugins (x_world x)) = (res, cn, c, s)"
    by (metis prod_cases4)
  let ?x = "x\<lparr>x_conn := cn, x_ctx := c, x_world := (x_world x)\<lparr>w_plugins := s\<rparr>\<rparr>"
  have call: "call_request_plugin p at_step x = (res, ?x)" by (simp add: call_request_plugin_def p h)
  have w: "cn_written cn = cn_written (x_conn x)"
    using written[of at_step "x_conn x" "x_ctx x" "w_plugins (x_world x)"] h by simp
  from refused[OF x] h consider e where "res = Inl e"
    | r where "res = Inr (True, Some r)" "hr_status r \<in> codes" by auto
  then have "run_request_plugins lib at_step (name # names) x = run_request_plugins lib at_step [name] x \<and>
      fst (run_request_plugins lib at_step (name # names) x) \<noteq> Inr False \<and>
      (\<forall>h b. (h, b) \<in> set (cn_written (x_conn (snd (run_request_plugins lib at_step (name # names) x))))
           \<longrightarrow> (h, b) \<in> set (cn_written (x_conn x)) \<or> resp_status h \<in> codes)"
  proof cases
    case 1
    then show ?thesis by (simp add: p act_bind_simps(2)[where m = "call_request_plugin p at_step"] call w)
  next
    case 2
    with w show ?thesis
      by (auto simp: p act_bind_def call note_time_def upd_ctx_def send_response_def send_def
          new_response_header_def Let_def split: option.splits prod.splits)
  qed
  then show "run_request_plugins lib at_step (name # names) x = run_request_plugins lib at_step [name] x"
    "fst (run_request_plugins lib at_step (name # names) x) \<noteq> Inr False"
    "\<forall>h b. (h, b) \<in> set (cn_written (x_conn (snd (run_request_plugins lib at_step (name # names) x))))
           \<longrightarrow> (h, b) \<in> set (cn_written (x_conn x)) \<or> resp_status h \<in> codes" by blast+
qed

text \<open>A chain with the guard in it lets a request through only if the guard admits it there.\<close>

lemma chain_admits:
  assumes p: "sl_plugin lib name = Some p" "handle_request p = handler"
    and pass: "run_request_plugins lib at_step (pre @ name # post) x = (Inr False, x')"
  shows "\<exists>y. run_request_plugins lib at_step pre x = (Inr False, y) \<and>
    admits (x_conn y) (x_ctx y) (w_plugins (x_world y))"
proof -
  obtain r y where pre: "run_request_plugins lib at_step pre x = (r, y)" by force
  have r: "r = Inr False"
    using pass pre unfolding run_request_plugins_append or_else_def act_bind_def
    by (auto split: sum.splits if_splits)
  with pass pre have "fst (run_request_plugins lib at_step (name # post) y) = Inr False"
    unfolding run_request_plugins_append or_else_def act_bind_def by simp
  with chain_stops(2)[OF p] r pre show ?thesis by blast
qed

end

end
