(* ===== verification/Auth_Plugins.thy ===== *)
theory Auth_Plugins
  imports Guard
begin

text \<open>
  \<open>key_auth.rs\<close>, \<open>basic_auth.rs\<close> and \<open>combined_auth.rs\<close> of \<open>pingap-plugin\<close>: authentication by a
  key in a header or the query, by HTTP basic credentials, and by application id with address
  rules, time stamp and digest. Each plugin is the record of its fields, its construction from
  the configuration and its \<open>handle_request\<close>; each is an interpretation of \<open>request_guard\<close>.
  Time arithmetic is on \<open>i64\<close> as in the code.
\<close>

section \<open>Key authentication\<close>

record key_auth =
  ka_step :: plugin_step
  ka_header :: "string option"
  ka_query :: "string option"
  ka_keys :: "string list"
  ka_delay :: "duration option"
  ka_miss :: http_response
  ka_unauthorized :: http_response
  ka_hide_credentials :: bool
  ka_hash_value :: string

definition key_auth_try_from :: "('re, 's) plugin_lib \<Rightarrow> plugin_conf \<Rightarrow> plugin_error + key_auth" where
  "key_auth_try_from lib conf =
     try_then (get_duration_conf lib ''key_auth'' conf ''delay'') (\<lambda>delay.
     let query_name = get_str_conf conf ''query''; header_name = get_str_conf conf ''header'' in
     if query_name = [] \<and> header_name = []
     then Inl (PluginInvalid ''key_auth'' ''auth key is not allowed empty'')
     else try_then (if query_name \<noteq> [] then Inr None
                    else map_err (\<lambda>e. PluginInvalid ''key_auth'' (''invalid header name, '' @ e))
                           (case hname_from_str (pl_http lib) header_name of Inl e \<Rightarrow> Inl e | Inr n \<Rightarrow> Inr (Some n)))
       (\<lambda>header.
     let keys = get_str_slice_conf conf ''keys'' in
     if keys = [] then Inl (PluginInvalid ''key_auth'' ''auth keys can't be empty'')
     else Inr \<lparr>ka_step = Request, ka_header = header,
       ka_query = (if query_name \<noteq> [] then Some query_name else None), ka_keys = keys, ka_delay = delay,
       ka_miss = status_body 401 ''Key missing'', ka_unauthorized = status_body 401 ''Key auth fail'',
       ka_hide_credentials = get_bool_conf conf ''hide_credentials'', ka_hash_value = get_hash_key lib conf\<rparr>))"

definition key_auth_value :: "key_auth \<Rightarrow> session \<Rightarrow> string" where
  "key_auth_value ka s =
     (case ka_query ka of
        Some key \<Rightarrow> unwrap_or [] (get_query_value (req_header s) key)
      | None \<Rightarrow> (case ka_header ka of Some h \<Rightarrow> get_header_bytes s h | None \<Rightarrow> []))"

definition key_auth_hide :: "('re, 's) plugin_lib \<Rightarrow> key_auth \<Rightarrow> conn \<Rightarrow> conn" where
  "key_auth_hide lib ka cn =
     (if \<not> ka_hide_credentials ka then cn
      else case ka_header ka of
             Some name \<Rightarrow> upd_req_headers (hdr_remove name) cn
           | None \<Rightarrow>
             (case ka_query ka of
                Some name \<Rightarrow> upd_req (\<lambda>h. snd (remove_query_from_header (pl_http lib) h name)) cn
              | None \<Rightarrow> cn))"

definition key_auth_handle_request :: "('re, 's) plugin_lib \<Rightarrow> key_auth \<Rightarrow> 's req_handler" where
  "key_auth_handle_request lib ka step st =
     (if step \<noteq> ka_step ka then skip st
      else case st of (cn, c, s) \<Rightarrow>
        let value = key_auth_value ka (cn_session cn) in
        if value = [] then answer (ka_miss ka) st
        else if value \<notin> set (ka_keys ka) then answer (ka_unauthorized ka) st
        else pass (key_auth_hide lib ka cn, c, s))"

definition new_key_auth :: "('re, 's) plugin_lib \<Rightarrow> plugin_conf \<Rightarrow> plugin_error + 's plugin" where
  "new_key_auth lib conf =
     try_then (key_auth_try_from lib conf) (\<lambda>ka.
     Inr (default_plugin\<lparr>hash_key := ka_hash_value ka, handle_request := key_auth_handle_request lib ka\<rparr>))"

section \<open>Basic authentication\<close>

record basic_auth =
  ba_step :: plugin_step
  ba_authorizations :: "string list"
  ba_hide_credentials :: bool
  ba_miss :: http_response
  ba_unauthorized :: http_response
  ba_delay :: "duration option"
  ba_hash_value :: string

definition basic_realm :: http_header where
  "basic_realm = (''www-authenticate'', ''Basic realm=\"Access to the staging site\"'')"

fun basic_authorizations :: "('re, 's) plugin_lib \<Rightarrow> string list \<Rightarrow> plugin_error + string list" where
  "basic_authorizations lib [] = Inr []"
| "basic_authorizations lib (item # items) =
     try_then (map_err (PluginBase64Decode ''basic_auth'') (base64_decode (pl_util lib) item)) (\<lambda>_.
     try_then (basic_authorizations lib items) (\<lambda>rest. Inr ((''Basic '' @ item) # rest)))"

definition basic_auth_try_from :: "('re, 's) plugin_lib \<Rightarrow> plugin_conf \<Rightarrow> plugin_error + basic_auth" where
  "basic_auth_try_from lib conf =
     try_then (get_duration_conf lib ''key_auth'' conf ''delay'') (\<lambda>delay.
     try_then (basic_authorizations lib (get_str_slice_conf conf ''authorizations'')) (\<lambda>auths.
     if auths = [] then Inl (PluginInvalid ''basic_auth'' ''basic authorizations can't be empty'')
     else Inr \<lparr>ba_step = Request, ba_authorizations = auths,
       ba_hide_credentials = get_bool_conf conf ''hide_credentials'',
       ba_miss = (status_body 401 ''Authorization is missing'')\<lparr>hr_headers := Some [basic_realm]\<rparr>,
       ba_unauthorized = (status_body 401 ''Invalid user or password'')\<lparr>hr_headers := Some [basic_realm]\<rparr>,
       ba_delay = delay, ba_hash_value = get_hash_key lib conf\<rparr>))"

definition basic_auth_handle_request :: "basic_auth \<Rightarrow> 's req_handler" where
  "basic_auth_handle_request ba step st =
     (if step \<noteq> ba_step ba then skip st
      else case st of (cn, c, s) \<Rightarrow>
        let value = get_header_bytes (cn_session cn) ''authorization'' in
        if value = [] then answer (ba_miss ba) st
        else if value \<notin> set (ba_authorizations ba) then answer (ba_unauthorized ba) st
        else pass (if ba_hide_credentials ba then upd_req_headers (hdr_remove ''authorization'') cn else cn, c, s))"

definition new_basic_auth :: "('re, 's) plugin_lib \<Rightarrow> plugin_conf \<Rightarrow> plugin_error + 's plugin" where
  "new_basic_auth lib conf =
     try_then (basic_auth_try_from lib conf) (\<lambda>ba.
     Inr (default_plugin\<lparr>hash_key := ba_hash_value ba, handle_request := basic_auth_handle_request ba\<rparr>))"

section \<open>Combined authentication\<close>

text \<open>\<open>parse::<i64>\<close>: the digits from the left, failing at the first that does not fit.\<close>

fun i64_go :: "bool \<Rightarrow> int \<Rightarrow> string \<Rightarrow> string + int" where
  "i64_go neg acc [] = Inr acc"
| "i64_go neg acc (c # cs) =
     (if \<not> is_digit c then Inl ''invalid digit found in string''
      else let v = (if neg then 10 * acc - int (digit_val c) else 10 * acc + int (digit_val c)) in
        if v < - (2 ^ 63) then Inl ''number too small to fit in target type''
        else if v \<ge> 2 ^ 63 then Inl ''number too large to fit in target type''
        else i64_go neg v cs)"

definition parse_i64 :: "string \<Rightarrow> string + int" where
  "parse_i64 s =
     (if s = [] then Inl ''cannot parse integer from empty string''
      else if s = ''-'' \<or> s = ''+'' then Inl ''invalid digit found in string''
      else if hd s = CHR ''-'' then i64_go True 0 (tl s)
      else if hd s = CHR ''+'' then i64_go False 0 (tl s)
      else i64_go False 0 s)"

definition abs_i64 :: "64 word \<Rightarrow> 64 word" where
  "abs_i64 w = (if sint w < 0 then - w else w)"

record auth_param =
  ap_ip_rules :: "ip_rules option"
  ap_secret :: string
  ap_deviation :: int

record combined_auth =
  ca_hash_value :: string
  ca_step :: plugin_step
  ca_auths :: "(string, auth_param) hash_map"

definition new_auth_param :: "('re, 's) plugin_lib \<Rightarrow> plugin_conf \<Rightarrow> auth_param" where
  "new_auth_param lib t =
     (let ips = get_str_slice_conf t ''ip_list'' in
      \<lparr>ap_ip_rules = (if ips \<noteq> [] then Some (new_ip_rules (pl_util lib) ips) else None),
       ap_secret = get_str_conf t ''secret'', ap_deviation = get_int_conf t ''deviation''\<rparr>)"

definition add_auth :: "('re, 's) plugin_lib \<Rightarrow> toml \<Rightarrow> (string, auth_param) hash_map \<Rightarrow> (string, auth_param) hash_map" where
  "add_auth lib item auths =
     (case item of
        TTable t \<Rightarrow>
          (let app_id = get_str_conf t ''app_id'' in
           if app_id = [] then auths else map_insert app_id (new_auth_param lib t) auths)
      | _ \<Rightarrow> auths)"

definition combined_auth_try_from :: "('re, 's) plugin_lib \<Rightarrow> plugin_conf \<Rightarrow> plugin_error + combined_auth" where
  "combined_auth_try_from lib conf =
     (case map_of conf ''authorizations'' of
        None \<Rightarrow> Inl (PluginInvalid ''combined_auth'' ''authorizations is empty'')
      | Some (TArray items) \<Rightarrow>
          Inr \<lparr>ca_hash_value = get_hash_key lib conf, ca_step = Request, ca_auths = fold (add_auth lib) items []\<rparr>
      | Some _ \<Rightarrow> Inl (PluginInvalid ''combined_auth'' ''authorizations is not array''))"

definition bad_auth :: "string \<Rightarrow> plugin_error + unit" where
  "bad_auth message = Inl (PluginInvalid ''combined_auth'' message)"

definition check_auth_ip :: "('re, 's) plugin_lib \<Rightarrow> auth_param \<Rightarrow> session \<Rightarrow> plugin_error + unit" where
  "check_auth_ip lib p s =
     (case ap_ip_rules p of
        None \<Rightarrow> Inr ()
      | Some rules \<Rightarrow>
          if ip_is_match rules (get_client_ip (pl_http lib) s) = Inr True then Inr () else bad_auth ''ip is invalid'')"

definition check_auth_time :: "('re, 's) plugin_lib \<Rightarrow> auth_param \<Rightarrow> string \<Rightarrow> plugin_error + unit" where
  "check_auth_time lib p ts =
     (if ts = [] then bad_auth ''timestamp is empty''
      else try_then (map_err (PluginInvalid ''combined_auth'') (parse_i64 ts)) (\<lambda>value.
        let now = word_of_nat (now_sec (pl_env lib)) :: 64 word in
        if sint (abs_i64 (now - word_of_int value)) > ap_deviation p
        then bad_auth ''timestamp deviation is invalid'' else Inr ()))"

text \<open>
  \<open>pl_hex_encode\<close> writes lower case hexadecimal. \<open>to_lowercase\<close> is the ASCII one here: no
  other letter has a hexadecimal digit as its lower case.
\<close>

definition auth_digest :: "('re, 's) plugin_lib \<Rightarrow> auth_param \<Rightarrow> string \<Rightarrow> string" where
  "auth_digest lib p ts = pl_hex_encode lib (pl_sha256 lib (ap_secret p @ '':'' @ ts))"

definition check_auth_digest :: "('re, 's) plugin_lib \<Rightarrow> auth_param \<Rightarrow> string \<Rightarrow> string \<Rightarrow> plugin_error + unit" where
  "check_auth_digest lib p ts digest =
     (if digest = [] then bad_auth ''digest is empty''
      else if ascii_lower digest \<noteq> auth_digest lib p ts then bad_auth ''digest is invalid''
      else Inr ())"

definition combined_auth_validate :: "('re, 's) plugin_lib \<Rightarrow> combined_auth \<Rightarrow> session \<Rightarrow> plugin_error + unit" where
  "combined_auth_validate lib ca s =
     (let query = (\<lambda>k. get_query_value (req_header s) k) in
      case query ''app_id'' of
        None \<Rightarrow> bad_auth ''app id is empty''
      | Some app_id \<Rightarrow>
        (case map_of (ca_auths ca) app_id of
           None \<Rightarrow> bad_auth ''app id is invalid''
         | Some p \<Rightarrow>
             if ap_secret p = ''*'' then Inr ()
             else
               let ts = unwrap_or [] (query ''ts'') in
               try_then (check_auth_ip lib p s) (\<lambda>_.
               try_then (check_auth_time lib p ts) (\<lambda>_.
               check_auth_digest lib p ts (unwrap_or [] (query ''digest''))))))"

definition combined_auth_handle_request :: "('re, 's) plugin_lib \<Rightarrow> combined_auth \<Rightarrow> 's req_handler" where
  "combined_auth_handle_request lib ca step st =
     (if step \<noteq> ca_step ca then skip st
      else case combined_auth_validate lib ca (cn_session (fst st)) of
        Inl e \<Rightarrow> answer ((status_body 401 (plugin_error_text e))\<lparr>hr_headers := Some [HTTP_HEADER_NO_STORE]\<rparr>) st
      | Inr _ \<Rightarrow> pass st)"

definition new_combined_auth :: "('re, 's) plugin_lib \<Rightarrow> plugin_conf \<Rightarrow> plugin_error + 's plugin" where
  "new_combined_auth lib conf =
     try_then (combined_auth_try_from lib conf) (\<lambda>ca.
     Inr (default_plugin\<lparr>hash_key := ca_hash_value ca, handle_request := combined_auth_handle_request lib ca\<rparr>))"

section \<open>Lemmas\<close>

lemma status_body_simps [simp]:
  "hr_status (status_body n b) = n" "hr_body (status_body n b) = b" "hr_headers (status_body n b) = None"
  by (simp_all add: status_body_def default_response_def)

lemma key_auth_hide_written [simp]: "cn_written (key_auth_hide lib ka cn) = cn_written cn"
  by (simp add: key_auth_hide_def upd_req_headers_def split: option.split)

text \<open>What a request is admitted by.\<close>

definition key_auth_admits :: "key_auth \<Rightarrow> conn \<Rightarrow> ctx \<Rightarrow> 's \<Rightarrow> bool" where
  "key_auth_admits ka cn c s \<longleftrightarrow>
     (let v = key_auth_value ka (cn_session cn) in v \<noteq> [] \<and> v \<in> set (ka_keys ka))"

definition basic_auth_admits :: "basic_auth \<Rightarrow> conn \<Rightarrow> ctx \<Rightarrow> 's \<Rightarrow> bool" where
  "basic_auth_admits ba cn c s \<longleftrightarrow>
     (let v = get_header_bytes (cn_session cn) ''authorization'' in v \<noteq> [] \<and> v \<in> set (ba_authorizations ba))"

definition combined_auth_admits :: "('re, 's) plugin_lib \<Rightarrow> combined_auth \<Rightarrow> conn \<Rightarrow> ctx \<Rightarrow> 's \<Rightarrow> bool" where
  "combined_auth_admits lib ca cn c s \<longleftrightarrow> combined_auth_validate lib ca (cn_session cn) = Inr ()"

lemmas guard_simps = handler_results key_auth_admits_def basic_auth_admits_def combined_auth_admits_def

interpretation key_guard: request_guard "key_auth_handle_request lib ka" "ka_step ka"
  "{hr_status (ka_miss ka), hr_status (ka_unauthorized ka)}" "key_auth_admits ka"
  for lib :: "('re, 's) plugin_lib" and ka
  by unfold_locales (auto simp: key_auth_handle_request_def guard_simps Let_def)

interpretation basic_guard: request_guard "basic_auth_handle_request ba" "ba_step ba"
  "{hr_status (ba_miss ba), hr_status (ba_unauthorized ba)}" "basic_auth_admits ba"
  for ba
  by unfold_locales (auto simp: basic_auth_handle_request_def guard_simps upd_req_headers_def Let_def)

interpretation combined_guard: request_guard
  "combined_auth_handle_request lib ca" "ca_step ca" "{401}" "combined_auth_admits lib ca"
  for lib :: "('re, 's) plugin_lib" and ca
  by unfold_locales (auto simp: combined_auth_handle_request_def guard_simps split: sum.splits)

text \<open>The fields a construction fixes.\<close>

lemma key_auth_built:
  "key_auth_try_from lib conf = Inr ka \<Longrightarrow>
     ka_step ka = Request \<and> hr_status (ka_miss ka) = 401 \<and> hr_status (ka_unauthorized ka) = 401 \<and>
     ka_keys ka = get_str_slice_conf conf ''keys'' \<and> ka_keys ka \<noteq> []"
  by (auto simp: key_auth_try_from_def Let_def split: if_splits)

lemma basic_authorizations_ok:
  "basic_authorizations lib items = Inr auths \<Longrightarrow> auths = map (\<lambda>i. ''Basic '' @ i) items"
  by (induction items arbitrary: auths) auto

lemma basic_auth_built:
  "basic_auth_try_from lib conf = Inr ba \<Longrightarrow>
     ba_step ba = Request \<and> hr_status (ba_miss ba) = 401 \<and> hr_status (ba_unauthorized ba) = 401 \<and>
     ba_authorizations ba = map (\<lambda>i. ''Basic '' @ i) (get_str_slice_conf conf ''authorizations'')"
  by (auto simp: basic_auth_try_from_def dest!: basic_authorizations_ok split: if_splits)

lemma combined_auth_built: "combined_auth_try_from lib conf = Inr ca \<Longrightarrow> ca_step ca = Request"
  by (auto simp: combined_auth_try_from_def split: option.splits toml.splits)

text \<open>A hidden credential is gone from the request that goes on.\<close>

lemma key_auth_hidden:
  assumes "ka_hide_credentials ka" "ka_header ka = Some name"
  shows "get_header (cn_session (key_auth_hide lib ka cn)) name = None"
  using assms by (simp add: key_auth_hide_def upd_req_headers_def upd_req_def get_header_def)

section \<open>Time stamps\<close>

lemma parse_i64_range:
  assumes "i64_go neg acc cs = Inr v" "- (2 ^ 63) \<le> acc" "acc < 2 ^ 63"
  shows "- (2 ^ 63) \<le> v \<and> v < 2 ^ 63"
  using assms by (induction neg acc cs rule: i64_go.induct) (auto simp: Let_def split: if_splits)

lemma i64_in_range: "parse_i64 s = Inr v \<Longrightarrow> - (2 ^ 63) \<le> v \<and> v < 2 ^ 63"
  using parse_i64_range[of _ 0] by (auto simp: parse_i64_def split: if_splits)

lemma sint_self: "- (2 ^ 63) \<le> i \<Longrightarrow> i < 2 ^ 63 \<Longrightarrow> sint (word_of_int i :: 64 word) = i"
  by (simp add: signed_of_int signed_take_bit_int_eq_self)

lemma abs_i64_sint:
  assumes "- (2 ^ 63) < sint w"
  shows "sint (abs_i64 w) = \<bar>sint w\<bar>"
proof -
  have "sint w < 2 ^ 63" using sint_lt[of w] by simp
  then show ?thesis
    using assms by (simp add: abs_i64_def sint_word_minus signed_take_bit_int_eq_self)
qed

lemma time_distance:
  assumes "n < 2 ^ 63" "- (2 ^ 63) \<le> t" "t < 2 ^ 63" "int n - t < 2 ^ 63"
  shows "sint (abs_i64 (word_of_nat n - word_of_int t)) = \<bar>int n - t\<bar>"
proof -
  have "sint (word_of_nat n :: 64 word) = int n"
    using assms(1) sint_self[of "int n"] by simp
  then have "sint (word_of_nat n - word_of_int t :: 64 word) = int n - t"
    using assms sint_self[of t] by (simp add: sint_word_ariths(2) signed_take_bit_int_eq_self)
  then show ?thesis using assms by (simp add: abs_i64_sint)
qed

lemma check_auth_time_ok:
  assumes "check_auth_time lib p ts = Inr ()" "now_sec (pl_env lib) < 2 ^ 63"
  shows "\<exists>t. parse_i64 ts = Inr t \<and>
    (int (now_sec (pl_env lib)) - t < 2 ^ 63 \<longrightarrow> \<bar>int (now_sec (pl_env lib)) - t\<bar> \<le> ap_deviation p)"
proof -
  from assms(1) obtain t where t: "parse_i64 ts = Inr t"
    and d: "sint (abs_i64 (word_of_nat (now_sec (pl_env lib)) - word_of_int t)) \<le> ap_deviation p"
    by (auto simp: check_auth_time_def bad_auth_def Let_def not_less split: if_splits)
  then show ?thesis using time_distance[OF assms(2)] i64_in_range[OF t] by fastforce
qed

lemma check_auth_ip_ok:
  "check_auth_ip lib p s = Inr () \<longleftrightarrow>
     (\<forall>rules. ap_ip_rules p = Some rules \<longrightarrow> ip_is_match rules (get_client_ip (pl_http lib) s) = Inr True)"
  by (auto simp: check_auth_ip_def bad_auth_def split: option.splits)

lemma check_auth_digest_ok:
  "check_auth_digest lib p ts d = Inr () \<longleftrightarrow> d \<noteq> [] \<and> ascii_lower d = auth_digest lib p ts"
  by (simp add: check_auth_digest_def bad_auth_def)

section \<open>Properties\<close>


definition sample_combined :: combined_auth where
  "sample_combined = \<lparr>ca_hash_value = [], ca_step = Request,
     ca_auths = [(''app'', \<lparr>ap_ip_rules = None, ap_secret = ''k'', ap_deviation = 60\<rparr>)]\<rparr>"

definition sample_query_conn :: "string \<Rightarrow> conn" where
  "sample_query_conn q = \<lparr>cn_session = (sample_session ''a.com'' ''/api'')\<lparr>req_header :=
      (sample_request ''a.com'' ''/api'')\<lparr>req_uri := \<lparr>uri_host = None, uri_path = ''/api'', uri_query = Some q,
         uri_text = ''/api?'' @ q\<rparr>\<rparr>\<rparr>, cn_written = [], cn_write_error = None\<rparr>"

abbreviation sample_auth_conn :: conn where
  "sample_auth_conn \<equiv> sample_query_conn ''app_id=app&ts=1700000030&digest=k:1700000030''"

lemma sample_query:
  "get_query_value (req_header (cn_session sample_auth_conn)) ''app_id'' = Some ''app''"
  "get_query_value (req_header (cn_session sample_auth_conn)) ''ts'' = Some ''1700000030''"
  "get_query_value (req_header (cn_session sample_auth_conn)) ''digest'' = Some ''k:1700000030''"
  by (simp_all add: get_query_value_def sample_query_conn_def trim_def trim_start_def trim_end_def is_ws_def)

lemma sample_time_ok: "check_auth_time sample_plugin_lib \<lparr>ap_ip_rules = None, ap_secret = ''k'', ap_deviation = 60\<rparr> ''1700000030'' = Inr ()"
proof -
  have "parse_i64 ''1700000030'' = Inr 1700000030"
    by (simp add: parse_i64_def is_digit_def digit_val_def Let_def)
  moreover have "now_sec (pl_env sample_plugin_lib) = 1700000000"
    by (simp add: sample_plugin_lib_def sample_env_def now_sec_def)
  ultimately show ?thesis
    using time_distance[of 1700000000 1700000030] by (simp add: check_auth_time_def)
qed

lemma sample_combined_admits: "combined_auth_admits sample_plugin_lib sample_combined sample_auth_conn c s"
  using sample_time_ok
  by (simp add: combined_auth_admits_def combined_auth_validate_def sample_query sample_combined_def
      check_auth_ip_def check_auth_digest_def auth_digest_def sample_plugin_lib_def ascii_lower_def ascii_lower_char_def)


end
