(* ===== verification/Token_Plugins.thy ===== *)
theory Token_Plugins
  imports Guard
begin

text \<open>
  \<open>jwt.rs\<close> and \<open>csrf.rs\<close> of \<open>pingap-plugin\<close>: JSON web tokens signed by the plugin on the
  authentication path and verified everywhere else, and double-submit CSRF tokens. The two
  signing routines, base64 for URLs, JSON, SHA-256 and the random identifier are fields of
  \<open>plugin_lib\<close>; \<open>pl_sha256\<close> in \<open>csrf.rs\<close> gives the raw digest that is then encoded.
\<close>

section \<open>JSON web tokens\<close>

record jwt_auth =
  ja_step :: plugin_step
  ja_auth_path :: string
  ja_secret :: string
  ja_header :: "string option"
  ja_query :: "string option"
  ja_cookie :: "string option"
  ja_algorithm :: string
  ja_delay :: "duration option"
  ja_unauthorized :: http_response
  ja_hash_value :: string

definition non_empty :: "string \<Rightarrow> string option" where
  "non_empty s = (if s = [] then None else Some s)"

definition jwt_try_from :: "('re, 's) plugin_lib \<Rightarrow> plugin_conf \<Rightarrow> plugin_error + jwt_auth" where
  "jwt_try_from lib conf =
     (let header = get_str_conf conf ''header''; query = get_str_conf conf ''query'';
          cookie = get_str_conf conf ''cookie''
      in if header = [] \<and> query = [] \<and> cookie = []
         then Inl (PluginInvalid ''jwt'' ''Jwt key or key type is not allowed empty'')
         else try_then (get_duration_conf lib ''key_auth'' conf ''delay'') (\<lambda>delay.
           if get_str_conf conf ''secret'' = []
           then Inl (PluginInvalid ''jwt'' ''Jwt secret is not allowed empty'')
           else Inr \<lparr>ja_step = Request, ja_auth_path = get_str_conf conf ''auth_path'',
             ja_secret = get_str_conf conf ''secret'', ja_header = non_empty header,
             ja_query = non_empty query, ja_cookie = non_empty cookie,
             ja_algorithm = get_str_conf conf ''algorithm'', ja_delay = delay,
             ja_unauthorized = status_body 401 ''Invalid or expired jwt'',
             ja_hash_value = get_hash_key lib conf\<rparr>))"

definition jwt_value :: "('re, 's) plugin_lib \<Rightarrow> jwt_auth \<Rightarrow> request_header \<Rightarrow> string" where
  "jwt_value lib ja h =
     (case ja_header ja of
        Some key \<Rightarrow>
          (let value = unwrap_or [] (get_req_header_value (pl_http lib) h key) in
           if starts_with value ''Bearer '' then drop (length ''Bearer '') value else value)
      | None \<Rightarrow>
        (case ja_cookie ja of
           Some key \<Rightarrow> unwrap_or [] (get_cookie_value (pl_http lib) h key)
         | None \<Rightarrow>
           (case ja_query ja of
              Some key \<Rightarrow> unwrap_or [] (get_query_value h key)
            | None \<Rightarrow> [])))"

text \<open>The signature of the content under the algorithm the token's own header names.\<close>

definition jwt_sign :: "('re, 's) plugin_lib \<Rightarrow> string \<Rightarrow> string \<Rightarrow> string \<Rightarrow> string" where
  "jwt_sign lib alg content secret =
     pl_b64url_encode lib
       (if alg = ''HS512'' then pl_hmac_sha512 lib content secret else pl_hmac_sha256 lib content secret)"

definition jwt_refuse :: "jwt_auth \<Rightarrow> string \<Rightarrow> http_response" where
  "jwt_refuse ja body = (ja_unauthorized ja)\<lparr>hr_body := body\<rparr>"

definition jwt_verdict :: "('re, 's) plugin_lib \<Rightarrow> jwt_auth \<Rightarrow> string \<Rightarrow> http_response option" where
  "jwt_verdict lib ja value =
     (if value = [] then Some (jwt_refuse ja ''Jwt authorization is missing'')
      else case split_on CHR ''.'' value of
        [h, p, sig] \<Rightarrow>
          (let alg = pl_jwt_alg lib (unwrap_or [] (pl_b64url_decode lib h)) in
           if jwt_sign lib alg (h @ ''.'' @ p) (ja_secret ja) \<noteq> sig
           then Some (jwt_refuse ja ''Jwt authorization is invalid'')
           else case pl_jwt_exp lib (unwrap_or [] (pl_b64url_decode lib p)) of
             Some exp \<Rightarrow>
               if unwrap_or 0 exp < now_sec (pl_env lib)
               then Some (jwt_refuse ja ''Jwt authorization is expired'') else None
           | None \<Rightarrow> None)
      | _ \<Rightarrow> Some (jwt_refuse ja ''Jwt authorization format is invalid''))"

definition jwt_handle_request :: "('re, 's) plugin_lib \<Rightarrow> jwt_auth \<Rightarrow> 's req_handler" where
  "jwt_handle_request lib ja step st =
     (if step \<noteq> ja_step ja then skip st
      else let h = conn_req (fst st) in
        if uri_path (req_uri h) = ja_auth_path ja then skip st
        else case jwt_verdict lib ja (jwt_value lib ja h) of
          Some resp \<Rightarrow> answer resp st
        | None \<Rightarrow> pass st)"

text \<open>\<open>Sign\<close>: the body of the authentication path becomes the payload of a token.\<close>

definition sign_token :: "('re, 's) plugin_lib \<Rightarrow> string \<Rightarrow> string \<Rightarrow> string \<Rightarrow> string" where
  "sign_token lib algorithm secret data =
     (let is_hs512 = (algorithm = ''HS512'');
          alg = (if is_hs512 then ''HS512'' else ''HS256'');
          header = pl_b64url_encode lib (''{\"alg\": \"'' @ alg @ ''\",\"typ\": \"JWT\"}'');
          payload = pl_b64url_encode lib data;
          content = header @ ''.'' @ payload
      in content @ ''.'' @ jwt_sign lib alg content secret)"

definition sign_handle :: "('re, 's) plugin_lib \<Rightarrow> string \<Rightarrow> string \<Rightarrow> string \<Rightarrow> string" where
  "sign_handle lib algorithm secret data =
     replace_all ''{\"token\": \"{}\"}'' ''{}'' (sign_token lib algorithm secret data)"

definition jwt_handle_response :: "('re, 's) plugin_lib \<Rightarrow> jwt_auth \<Rightarrow> 's resp_handler" where
  "jwt_handle_response lib ja step st =
     (case st of (cn, c, s, h) \<Rightarrow>
        if step \<noteq> Response \<or> ja_auth_path ja = [] then (Inr False, st)
        else if uri_path (req_uri (conn_req cn)) \<noteq> ja_auth_path ja then (Inr False, st)
        else let m = hdr_remove ''content-length'' (resp_headers h);
                 m' = insert_headers [HTTP_HEADER_CONTENT_JSON, HTTP_HEADER_TRANSFER_CHUNKED] m
             in (Inr True, cn, c\<lparr>modify_response_body := Some (sign_handle lib (ja_algorithm ja) (ja_secret ja))\<rparr>,
                 s, h\<lparr>resp_headers := m'\<rparr>))"

definition new_jwt :: "('re, 's) plugin_lib \<Rightarrow> plugin_conf \<Rightarrow> plugin_error + 's plugin" where
  "new_jwt lib conf =
     try_then (jwt_try_from lib conf) (\<lambda>ja.
     Inr (default_plugin\<lparr>hash_key := ja_hash_value ja, handle_request := jwt_handle_request lib ja, handle_response := jwt_handle_response lib ja\<rparr>))"

section \<open>CSRF tokens\<close>

record csrf =
  cs_step :: plugin_step
  cs_token_path :: string
  cs_key :: string
  cs_name :: string
  cs_ttl :: nat
  cs_unauthorized :: http_response
  cs_hash_value :: string

definition csrf_try_from :: "('re, 's) plugin_lib \<Rightarrow> plugin_conf \<Rightarrow> plugin_error + csrf" where
  "csrf_try_from lib conf =
     (let name = get_str_conf conf ''name''; token_path = get_str_conf conf ''token_path'';
          key = get_str_conf conf ''key''
      in try_then (get_duration_conf lib ''csrf'' conf ''ttl'') (\<lambda>ttl.
         if token_path = [] then Inl (PluginInvalid ''csrf'' ''Token path is not allowed empty'')
         else if key = [] then Inl (PluginInvalid ''csrf'' ''Key is not allowed empty'')
         else Inr \<lparr>cs_step = Request, cs_token_path = token_path, cs_key = key,
           cs_name = (if name = [] then ''x-csrf-token'' else name),
           cs_ttl = (case ttl of Some d \<Rightarrow> as_secs d | None \<Rightarrow> 0),
           cs_unauthorized = status_body 401 ''Csrf token is empty or invalid'',
           cs_hash_value = get_hash_key lib conf\<rparr>))"

text \<open>\<open>from_str_radix\<close> with base 16 on \<open>u64\<close>, 0 when it fails.\<close>

definition parse_hex :: "string \<Rightarrow> nat" where
  "parse_hex s =
     (let t = (case s of c # r \<Rightarrow> if c = CHR ''+'' then r else s | [] \<Rightarrow> s) in
      if t \<noteq> [] \<and> list_all (is_radix 16) t \<and> radix_num 16 t < 2 ^ 64 then radix_num 16 t else 0)"

definition csrf_digest :: "('re, 's) plugin_lib \<Rightarrow> string \<Rightarrow> string \<Rightarrow> string" where
  "csrf_digest lib prefix key = base64_encode (pl_util lib) (pl_sha256 lib (prefix @ key))"

definition generate_token :: "('re, 's) plugin_lib \<Rightarrow> string \<Rightarrow> string" where
  "generate_token lib key =
     (let id = pl_nanoid lib 12; prefix = id @ ''.'' @ show_hex (now_sec (pl_env lib))
      in prefix @ ''.'' @ csrf_digest lib prefix key)"

definition validate_token :: "('re, 's) plugin_lib \<Rightarrow> string \<Rightarrow> nat \<Rightarrow> string \<Rightarrow> bool" where
  "validate_token lib key ttl value =
     (case split_on CHR ''.'' value of
        [a, b, d] \<Rightarrow>
          if ttl > 0 \<and> sub_u64 (now_sec (pl_env lib)) (parse_hex b) > ttl then False
          else d = csrf_digest lib (a @ ''.'' @ b) key
      | _ \<Rightarrow> False)"

definition csrf_token_response :: "('re, 's) plugin_lib \<Rightarrow> csrf \<Rightarrow> pingora_error + http_response" where
  "csrf_token_response lib cs =
     (let token = generate_token lib (cs_key cs);
          cookie = pl_cookie lib (cs_name cs) token ''/'' (if cs_ttl cs > 0 then Some (cs_ttl cs) else None)
      in try_then (map_err (new_internal_error 400) (hvalue_from_str (pl_http lib) cookie)) (\<lambda>value.
         Inr ((status_body 204 [])\<lparr>hr_headers := Some [HTTP_HEADER_NO_STORE, (''set-cookie'', value)]\<rparr>)))"

definition csrf_valid :: "('re, 's) plugin_lib \<Rightarrow> csrf \<Rightarrow> session \<Rightarrow> bool" where
  "csrf_valid lib cs s =
     (let raw = get_header_bytes s (cs_name cs); value = from_utf8_lossy lib raw in
      raw \<noteq> [] \<and>
      value = unwrap_or [] (get_cookie_value (pl_http lib) (req_header s) (cs_name cs)) \<and>
      validate_token lib (cs_key cs) (cs_ttl cs) value)"

definition csrf_handle_request :: "('re, 's) plugin_lib \<Rightarrow> csrf \<Rightarrow> 's req_handler" where
  "csrf_handle_request lib cs step st =
     (if step \<noteq> cs_step cs then skip st
      else let s = cn_session (fst st); h = req_header s in
        if uri_path (req_uri h) = cs_token_path cs then
          (case csrf_token_response lib cs of Inl e \<Rightarrow> (Inl e, st) | Inr resp \<Rightarrow> answer resp st)
        else if req_method h \<in> {''GET'', ''HEAD'', ''OPTIONS''} then skip st
        else if \<not> csrf_valid lib cs s then answer (cs_unauthorized cs) st
        else pass st)"

definition new_csrf :: "('re, 's) plugin_lib \<Rightarrow> plugin_conf \<Rightarrow> plugin_error + 's plugin" where
  "new_csrf lib conf =
     try_then (csrf_try_from lib conf) (\<lambda>cs.
     Inr (default_plugin\<lparr>hash_key := cs_hash_value cs, handle_request := csrf_handle_request lib cs\<rparr>))"

section \<open>Guards\<close>

definition jwt_admits :: "('re, 's) plugin_lib \<Rightarrow> jwt_auth \<Rightarrow> conn \<Rightarrow> ctx \<Rightarrow> 's \<Rightarrow> bool" where
  "jwt_admits lib ja cn c s \<longleftrightarrow>
     uri_path (req_uri (conn_req cn)) = ja_auth_path ja \<or> jwt_verdict lib ja (jwt_value lib ja (conn_req cn)) = None"

definition csrf_admits :: "('re, 's) plugin_lib \<Rightarrow> csrf \<Rightarrow> conn \<Rightarrow> ctx \<Rightarrow> 's \<Rightarrow> bool" where
  "csrf_admits lib cs cn c s \<longleftrightarrow>
     uri_path (req_uri (conn_req cn)) \<noteq> cs_token_path cs \<and>
     (req_method (conn_req cn) \<in> {''GET'', ''HEAD'', ''OPTIONS''} \<or> csrf_valid lib cs (cn_session cn))"

lemma jwt_verdict_status:
  "jwt_verdict lib ja v = Some r \<Longrightarrow> hr_status r = hr_status (ja_unauthorized ja)"
  by (auto simp: jwt_verdict_def jwt_refuse_def Let_def split: if_splits list.splits option.splits)

interpretation jwt_guard: request_guard "jwt_handle_request lib ja" "ja_step ja"
  "{hr_status (ja_unauthorized ja)}" "jwt_admits lib ja"
  for lib :: "('re, 's) plugin_lib" and ja
  by unfold_locales
    (auto simp: jwt_handle_request_def handler_results jwt_admits_def Let_def
      dest: jwt_verdict_status split: option.splits)

lemma csrf_token_status: "csrf_token_response lib cs = Inr r \<Longrightarrow> hr_status r = 204"
  by (auto simp: csrf_token_response_def Let_def status_body_def)

interpretation csrf_guard: request_guard "csrf_handle_request lib cs" "cs_step cs"
  "{204, hr_status (cs_unauthorized cs)}" "csrf_admits lib cs"
  for lib :: "('re, 's) plugin_lib" and cs
  by unfold_locales
    (auto simp: csrf_handle_request_def handler_results csrf_admits_def conn_req_def Let_def
      dest: csrf_token_status split: sum.splits)

section \<open>Lemmas\<close>

lemma of_char_hex:
  "d < 16 \<Longrightarrow> (of_char (ascii_lower_char (hex_digit d)) :: nat) = (if d < 10 then 48 + d else 87 + d)"
  by (simp add: hex_digit_def ascii_lower_char_def Let_def)

lemma hex_digit_lower:
  assumes "d < 16"
  shows "radix_val (ascii_lower_char (hex_digit d)) = Some d" "ascii_lower_char (hex_digit d) \<noteq> CHR ''.''"
    "ascii_lower_char (hex_digit d) \<noteq> CHR ''+''"
proof -
  note n = of_char_hex[OF assms]
  show "radix_val (ascii_lower_char (hex_digit d)) = Some d"
    unfolding radix_val_def Let_def n using assms by simp
  show "ascii_lower_char (hex_digit d) \<noteq> CHR ''.''" "ascii_lower_char (hex_digit d) \<noteq> CHR ''+''"
    using n by (auto split: if_splits)
qed

lemma show_hex_rec:
  "show_hex n = (if n < 16 then [ascii_lower_char (hex_digit n)]
     else show_hex (n div 16) @ [ascii_lower_char (hex_digit (n mod 16))])"
  unfolding show_hex_def by (subst show_hex_upper.simps) (simp add: ascii_lower_def)

lemma show_hex_props:
  "show_hex n \<noteq> [] \<and> list_all (is_radix 16) (show_hex n) \<and> radix_num 16 (show_hex n) = n \<and>
   CHR ''.'' \<notin> set (show_hex n) \<and> hd (show_hex n) \<noteq> CHR ''+''"
proof (induction n rule: show_hex_upper.induct)
  case (1 n)
  show ?case
  proof (cases "n < 16")
    case True
    then show ?thesis
      by (subst (1 2 3 4 5) show_hex_rec) (auto simp: is_radix_def radix_num_def hex_digit_lower dest: sym)
  next
    case False
    have d: "n mod 16 < 16" by simp
    have "show_hex n = show_hex (n div 16) @ [ascii_lower_char (hex_digit (n mod 16))]"
      using False by (subst show_hex_rec) simp
    then show ?thesis using "1.IH"[OF False] hex_digit_lower[OF d]
      by (auto simp: is_radix_def radix_num_def dest: sym)
  qed
qed

lemma parse_show_hex: "n < 2 ^ 64 \<Longrightarrow> parse_hex (show_hex n) = n"
  using show_hex_props[of n] by (cases "show_hex n") (auto simp: parse_hex_def)

lemma split_three:
  "CHR ''.'' \<notin> set a \<Longrightarrow> CHR ''.'' \<notin> set b \<Longrightarrow> CHR ''.'' \<notin> set d \<Longrightarrow>
     split_on CHR ''.'' (a @ ''.'' @ b @ ''.'' @ d) = [a, b, d]"
  by (simp add: split_on_append split_on_no_sep)

section \<open>Properties\<close>

text \<open>What the two plugins rely on of the encoders: no dot in their output, and decoding undoes encoding.\<close>

definition token_laws :: "('re, 's) plugin_lib \<Rightarrow> bool" where
  "token_laws lib \<longleftrightarrow>
     (\<forall>d. CHR ''.'' \<notin> set (pl_b64url_encode lib d) \<and> pl_b64url_decode lib (pl_b64url_encode lib d) = Some d) \<and>
     (\<forall>alg \<in> {''HS256'', ''HS512''}. pl_jwt_alg lib (''{\"alg\": \"'' @ alg @ ''\",\"typ\": \"JWT\"}'') = alg)"

definition csrf_laws :: "('re, 's) plugin_lib \<Rightarrow> bool" where
  "csrf_laws lib \<longleftrightarrow>
     CHR ''.'' \<notin> set (pl_nanoid lib 12) \<and> (\<forall>d. CHR ''.'' \<notin> set (ul_base64_encode (pl_util lib) d))"

definition sample_jwt :: jwt_auth where
  "sample_jwt = \<lparr>ja_step = Request, ja_auth_path = ''/login'', ja_secret = ''k'', ja_header = Some ''authorization'',
     ja_query = None, ja_cookie = None, ja_algorithm = ''HS256'', ja_delay = None,
     ja_unauthorized = status_body 401 [], ja_hash_value = []\<rparr>"

lemma sample_token_laws: "token_laws sample_plugin_lib" "csrf_laws sample_plugin_lib"
proof -
  have "pl_jwt_alg sample_plugin_lib (''{\"alg\": \"'' @ alg @ ''\",\"typ\": \"JWT\"}'') = alg"
    if "alg \<in> {''HS256'', ''HS512''}" for alg
    using that by (auto simp: sample_plugin_lib_def starts_with_def)
  then show "token_laws sample_plugin_lib"
    unfolding token_laws_def
    by (simp add: sample_plugin_lib_def sample_decode_encode sample_encode_no_dot)
  show "csrf_laws sample_plugin_lib"
    unfolding csrf_laws_def by (simp add: sample_plugin_simps sample_encode_no_dot)
qed

text \<open>
  C24: A token the plugin signs on the authentication path is accepted everywhere else until it
  expires, under either algorithm: it is refused only for an \<open>exp\<close> claim in the past.
\<close>

theorem jwt_sign_verify:
  assumes "token_laws lib"
  shows "jwt_verdict lib ja (sign_token lib (ja_algorithm ja) (ja_secret ja) data) =
    (case pl_jwt_exp lib data of
       Some exp \<Rightarrow> if unwrap_or 0 exp < now_sec (pl_env lib)
         then Some (jwt_refuse ja ''Jwt authorization is expired'') else None
     | None \<Rightarrow> None)"
proof -
  define alg where "alg = (if ja_algorithm ja = ''HS512'' then ''HS512'' else ''HS256'')"
  define h where "h = pl_b64url_encode lib (''{\"alg\": \"'' @ alg @ ''\",\"typ\": \"JWT\"}'')"
  define p where "p = pl_b64url_encode lib data"
  have a: "pl_jwt_alg lib (unwrap_or [] (pl_b64url_decode lib h)) = alg"
    using assms by (simp add: token_laws_def h_def alg_def)
  have e: "unwrap_or [] (pl_b64url_decode lib p) = data" using assms by (simp add: token_laws_def p_def)
  have t: "sign_token lib (ja_algorithm ja) (ja_secret ja) data
      = h @ ''.'' @ p @ ''.'' @ jwt_sign lib alg (h @ ''.'' @ p) (ja_secret ja)"
    unfolding sign_token_def h_def p_def alg_def by (simp add: Let_def del: append_Cons)
  have s: "split_on CHR ''.'' (h @ ''.'' @ p @ ''.'' @ jwt_sign lib alg (h @ ''.'' @ p) (ja_secret ja))
      = [h, p, jwt_sign lib alg (h @ ''.'' @ p) (ja_secret ja)]"
    using assms by (intro split_three) (simp_all add: token_laws_def h_def p_def jwt_sign_def)
  show ?thesis unfolding t jwt_verdict_def s by (simp add: a e Let_def)
qed

theorem jwt_sign_verify_witness:
  "jwt_verdict sample_plugin_lib sample_jwt (sign_token sample_plugin_lib ''HS256'' ''k'' ''{}'') = None"
  using jwt_sign_verify[OF sample_token_laws(1), of sample_jwt "''{}''"]
  by (simp add: sample_jwt_def sample_plugin_lib_def sample_env_def now_sec_def)

text \<open>
  C23: A token is accepted only if its last part is the MAC of the first two under the configured
  secret, so a holder of no secret cannot change header or claims, and its expiry is not past.
\<close>

theorem jwt_accept_sound:
  assumes "jwt_verdict lib ja tok = None"
  shows "\<exists>h p sig alg. tok = h @ ''.'' @ p @ ''.'' @ sig \<and>
    sig = pl_b64url_encode lib ((if alg = ''HS512'' then pl_hmac_sha512 lib else pl_hmac_sha256 lib)
      (h @ ''.'' @ p) (ja_secret ja)) \<and>
    (\<forall>exp. pl_jwt_exp lib (unwrap_or [] (pl_b64url_decode lib p)) = Some (Some exp) \<longrightarrow> now_sec (pl_env lib) \<le> exp)"
proof -
  from assms obtain h p sig where s: "split_on CHR ''.'' tok = [h, p, sig]"
    and sg: "jwt_sign lib (pl_jwt_alg lib (unwrap_or [] (pl_b64url_decode lib h))) (h @ ''.'' @ p) (ja_secret ja) = sig"
    and e: "\<forall>exp. pl_jwt_exp lib (unwrap_or [] (pl_b64url_decode lib p)) = Some (Some exp) \<longrightarrow> now_sec (pl_env lib) \<le> exp"
    by (auto simp: jwt_verdict_def Let_def not_less split: if_splits list.splits option.splits)
  have "tok = join ''.'' [h, p, sig]" using join_split_on[of "CHR ''.''" tok] s by simp
  then show ?thesis using sg e
    by (intro exI[of _ h] exI[of _ p] exI[of _ sig] exI[of _ "pl_jwt_alg lib (unwrap_or [] (pl_b64url_decode lib h))"])
      (auto simp: jwt_sign_def)
qed

lemma sample_token_accepted: "jwt_verdict sample_plugin_lib sample_jwt ''a.b.6B612E62'' = None"
proof -
  have e: "sample_encode ''ka.b'' = ''6B612E62''" by code_simp
  have "now_sec sample_env < 1800000000" by (simp add: sample_env_def now_sec_def)
  then show ?thesis
    by (simp add: jwt_verdict_def sample_jwt_def sample_plugin_lib_def jwt_sign_def e del: sample_encode.simps)
qed

theorem jwt_accept_sound_witness:
  "\<exists>h p sig. ''a.b.6B612E62'' = h @ ''.'' @ p @ ''.'' @ sig"
  using jwt_accept_sound[OF sample_token_accepted] by blast

text \<open>
  A CSRF token is valid for exactly its time to live: checked at a later moment it is accepted
  when no limit is set or when the seconds since it was made are within the limit.
\<close>

theorem csrf_token_lifetime:
  assumes "csrf_laws lib" "now_sec (pl_env lib) \<le> now_sec env'" "now_sec env' < 2 ^ 64"
  shows "validate_token (lib\<lparr>pl_env := env'\<rparr>) key ttl (generate_token lib key) \<longleftrightarrow>
    ttl = 0 \<or> now_sec env' - now_sec (pl_env lib) \<le> ttl"
proof -
  define a where "a = pl_nanoid lib 12"
  define b where "b = show_hex (now_sec (pl_env lib))"
  have t: "generate_token lib key = a @ ''.'' @ b @ ''.'' @ csrf_digest lib (a @ ''.'' @ b) key"
    by (simp add: generate_token_def a_def b_def Let_def)
  have s: "split_on CHR ''.'' (generate_token lib key) = [a, b, csrf_digest lib (a @ ''.'' @ b) key]"
    unfolding t using assms(1) show_hex_props[of "now_sec (pl_env lib)"]
    by (intro split_three) (simp_all add: csrf_laws_def a_def b_def csrf_digest_def base64_encode_def)
  have h: "parse_hex b = now_sec (pl_env lib)" using assms(2,3) by (simp add: b_def parse_show_hex)
  have d: "csrf_digest (lib\<lparr>pl_env := env'\<rparr>) = csrf_digest lib" by (simp add: fun_eq_iff csrf_digest_def)
  show ?thesis using assms(2,3) by (auto simp: validate_token_def s h d sub_u64_le)
qed

theorem csrf_token_lifetime_witness:
  "\<not> validate_token (sample_plugin_lib\<lparr>pl_env := sample_env\<lparr>sys_now_ms := 1700000061000\<rparr>\<rparr>) ''k'' 60
      (generate_token sample_plugin_lib ''k'')"
  using csrf_token_lifetime[OF sample_token_laws(2), of "sample_env\<lparr>sys_now_ms := 1700000061000\<rparr>" "''k''" 60]
  by (simp add: sample_plugin_lib_def sample_env_def now_sec_def)

end
