(* ===== verification/Access_Plugins.thy ===== *)
theory Access_Plugins
  imports Guard
begin

text \<open>
  \<open>ip_restriction.rs\<close>, \<open>ua_restriction.rs\<close>, \<open>referer_restriction.rs\<close> and \<open>limit.rs\<close> of
  \<open>pingap-plugin\<close>, and the attempt limiter \<open>pingap-core/src/ttl_lru_limit.rs\<close>. The counters of
  \<open>pingora_limits\<close> are functions on the plugin state: an in-flight counter and a rate belong to
  one limiter and are named by its identity; assigning \<open>ctx.guard\<close> drops the guard that was there.
  The weighted rate is computed in floating point by \<open>pl_rate_value\<close>, whose first argument is the
  weight in percent (0 for the plain rate), and rounded up.
\<close>

section \<open>Allow and deny lists\<close>

definition allow_found :: "string \<Rightarrow> bool \<Rightarrow> bool" where
  "allow_found restriction_category found = (if restriction_category = ''deny'' then \<not> found else found)"

definition forbidden_resp :: "plugin_conf \<Rightarrow> http_response" where
  "forbidden_resp conf =
     (let message = get_str_conf conf ''message'' in
      status_body 403 (if message = [] then ''Request is forbidden'' else message))"

record ip_restriction =
  ir_step :: plugin_step
  ir_rules :: ip_rules
  ir_category :: string
  ir_forbidden :: http_response
  ir_hash_value :: string

definition ip_restriction_try_from :: "('re, 's) plugin_lib \<Rightarrow> plugin_conf \<Rightarrow> plugin_error + ip_restriction" where
  "ip_restriction_try_from lib conf =
     Inr \<lparr>ir_step = Request, ir_rules = new_ip_rules (pl_util lib) (get_str_slice_conf conf ''ip_list''),
       ir_category = get_str_conf conf ''type'', ir_forbidden = forbidden_resp conf,
       ir_hash_value = get_hash_key lib conf\<rparr>"

definition request_ip :: "('re, 's) plugin_lib \<Rightarrow> conn \<Rightarrow> ctx \<Rightarrow> string" where
  "request_ip lib cn c = (case client_ip c of Some ip \<Rightarrow> ip | None \<Rightarrow> get_client_ip (pl_http lib) (cn_session cn))"

definition ip_restriction_handle_request :: "('re, 's) plugin_lib \<Rightarrow> ip_restriction \<Rightarrow> 's req_handler" where
  "ip_restriction_handle_request lib ir step st =
     (if step \<noteq> ir_step ir then skip st
      else case st of (cn, c, s) \<Rightarrow>
        let ip = request_ip lib cn c; st' = (cn, c\<lparr>client_ip := Some ip\<rparr>, s) in
        case ip_is_match (ir_rules ir) ip of
          Inl e \<Rightarrow> answer (bad_request e) st'
        | Inr found \<Rightarrow>
            if \<not> allow_found (ir_category ir) found then answer (ir_forbidden ir) st' else pass st')"

definition new_ip_restriction :: "('re, 's) plugin_lib \<Rightarrow> plugin_conf \<Rightarrow> plugin_error + 's plugin" where
  "new_ip_restriction lib conf =
     try_then (ip_restriction_try_from lib conf) (\<lambda>ir.
     Inr (default_plugin\<lparr>hash_key := ir_hash_value ir, handle_request := ip_restriction_handle_request lib ir\<rparr>))"

record 're ua_restriction =
  ur_step :: plugin_step
  ur_ua_list :: "'re list"
  ur_category :: string
  ur_forbidden :: http_response
  ur_hash_value :: string

fun compile_regexes :: "('re, 's) plugin_lib \<Rightarrow> string list \<Rightarrow> plugin_error + 're list" where
  "compile_regexes lib [] = Inr []"
| "compile_regexes lib (item # items) =
     try_then (map_err (PluginInvalid ''regex'') (re_new (pl_re lib) item)) (\<lambda>reg.
     try_then (compile_regexes lib items) (\<lambda>regs. Inr (reg # regs)))"

definition ua_restriction_try_from :: "('re, 's) plugin_lib \<Rightarrow> plugin_conf \<Rightarrow> plugin_error + 're ua_restriction" where
  "ua_restriction_try_from lib conf =
     try_then (compile_regexes lib (get_str_slice_conf conf ''ua_list'')) (\<lambda>ua_list.
     Inr \<lparr>ur_step = Request, ur_ua_list = ua_list, ur_category = get_str_conf conf ''type'',
       ur_forbidden = forbidden_resp conf, ur_hash_value = get_hash_key lib conf\<rparr>)"

definition ua_found :: "('re, 's) plugin_lib \<Rightarrow> 're ua_restriction \<Rightarrow> session \<Rightarrow> bool" where
  "ua_found lib ur s =
     (case get_header s ''user-agent'' of
        None \<Rightarrow> False
      | Some v \<Rightarrow> list_ex (\<lambda>item. re_is_match (pl_re lib) item (to_str_or_default (pl_http lib) v)) (ur_ua_list ur))"

definition ua_restriction_handle_request :: "('re, 's) plugin_lib \<Rightarrow> 're ua_restriction \<Rightarrow> 's req_handler" where
  "ua_restriction_handle_request lib ur step st =
     (if step \<noteq> ur_step ur then skip st
      else if \<not> allow_found (ur_category ur) (ua_found lib ur (cn_session (fst st))) then answer (ur_forbidden ur) st
      else pass st)"

definition new_ua_restriction :: "('re, 's) plugin_lib \<Rightarrow> plugin_conf \<Rightarrow> plugin_error + 's plugin" where
  "new_ua_restriction lib conf =
     try_then (ua_restriction_try_from lib conf) (\<lambda>ur.
     Inr (default_plugin\<lparr>hash_key := ur_hash_value ur, handle_request := ua_restriction_handle_request lib ur\<rparr>))"

record referer_restriction =
  rr_step :: plugin_step
  rr_referer_list :: "string list"
  rr_prefix_referer_list :: "string list"
  rr_category :: string
  rr_forbidden :: http_response
  rr_hash_value :: string

definition referer_restriction_try_from :: "('re, 's) plugin_lib \<Rightarrow> plugin_conf \<Rightarrow> plugin_error + referer_restriction" where
  "referer_restriction_try_from lib conf =
     (let items = get_str_slice_conf conf ''referer_list'' in
      Inr \<lparr>rr_step = Request, rr_referer_list = filter (\<lambda>i. \<not> starts_with i ''*'') items,
        rr_prefix_referer_list = map (drop 1) (filter (\<lambda>i. starts_with i ''*'') items),
        rr_category = get_str_conf conf ''type'', rr_forbidden = forbidden_resp conf,
        rr_hash_value = get_hash_key lib conf\<rparr>)"

definition referer_found :: "('re, 's) plugin_lib \<Rightarrow> referer_restriction \<Rightarrow> session \<Rightarrow> bool" where
  "referer_found lib rr s =
     (case get_header s ''referer'' of
        None \<Rightarrow> False
      | Some v \<Rightarrow>
          let host = (case pl_url_host lib (to_str_or_default (pl_http lib) v) of
                        Some h \<Rightarrow> unwrap_or [] h | None \<Rightarrow> []) in
          host \<in> set (rr_referer_list rr) \<or> list_ex (ends_with host) (rr_prefix_referer_list rr))"

definition referer_restriction_handle_request :: "('re, 's) plugin_lib \<Rightarrow> referer_restriction \<Rightarrow> 's req_handler" where
  "referer_restriction_handle_request lib rr step st =
     (if step \<noteq> rr_step rr then skip st
      else if \<not> allow_found (rr_category rr) (referer_found lib rr (cn_session (fst st))) then answer (rr_forbidden rr) st
      else pass st)"

definition new_referer_restriction :: "('re, 's) plugin_lib \<Rightarrow> plugin_conf \<Rightarrow> plugin_error + 's plugin" where
  "new_referer_restriction lib conf =
     try_then (referer_restriction_try_from lib conf) (\<lambda>rr.
     Inr (default_plugin\<lparr>hash_key := rr_hash_value rr, handle_request := referer_restriction_handle_request lib rr\<rparr>))"

section \<open>Limits\<close>

datatype limit_tag = LimitIp | LimitRequestHeader | LimitCookie | LimitQuery

record limiter =
  lm_tag :: limit_tag
  lm_max :: int
  lm_key :: string
  lm_inflight :: "string option"
  lm_rate :: "string option"
  lm_step :: plugin_step
  lm_hash_value :: string
  lm_weight :: nat

text \<open>\<open>ident\<close> is the identity of the counter object the construction allocates.\<close>

definition limiter_try_from :: "('re, 's) plugin_lib \<Rightarrow> string \<Rightarrow> plugin_conf \<Rightarrow> plugin_error + limiter" where
  "limiter_try_from lib ident conf =
     (let step = get_step_conf conf Request; t = get_str_conf conf ''tag'';
          tag = (if t = ''cookie'' then LimitCookie else if t = ''header'' then LimitRequestHeader
                 else if t = ''query'' then LimitQuery else LimitIp);
          inflight = (get_str_conf conf ''type'' = ''inflight'')
      in try_then (get_duration_conf lib ''limit'' conf ''interval'') (\<lambda>_.
         if step \<noteq> Request \<and> step \<noteq> ProxyUpstream
         then Inl (PluginInvalid ''limit'' ''Limit plugin should be executed at request or proxy upstream step'')
         else Inr \<lparr>lm_tag = tag, lm_max = get_int_conf conf ''max'', lm_key = get_str_conf conf ''key'',
           lm_inflight = (if inflight then Some ident else None),
           lm_rate = (if inflight then None else Some ident), lm_step = step,
           lm_hash_value = get_hash_key lib conf,
           lm_weight = nat (max 0 (min 100 (get_int_conf conf ''weight'')))\<rparr>))"

definition limit_key :: "('re, 's) plugin_lib \<Rightarrow> limiter \<Rightarrow> session \<Rightarrow> string" where
  "limit_key lib lm s =
     (case lm_tag lm of
        LimitQuery \<Rightarrow> unwrap_or [] (get_query_value (req_header s) (lm_key lm))
      | LimitRequestHeader \<Rightarrow> unwrap_or [] (get_req_header_value (pl_http lib) (req_header s) (lm_key lm))
      | LimitCookie \<Rightarrow> unwrap_or [] (get_cookie_value (pl_http lib) (req_header s) (lm_key lm))
      | LimitIp \<Rightarrow> get_client_ip (pl_http lib) s)"

definition drop_guard :: "('re, 's) plugin_lib \<Rightarrow> ctx \<Rightarrow> 's \<Rightarrow> 's" where
  "drop_guard lib c s = (case guard c of Some g \<Rightarrow> pl_inflight_drop lib g s | None \<Rightarrow> s)"

definition limit_count :: "('re, 's) plugin_lib \<Rightarrow> limiter \<Rightarrow> string \<Rightarrow> ctx \<Rightarrow> 's \<Rightarrow> int \<times> ctx \<times> 's" where
  "limit_count lib lm key c s =
     (case lm_rate lm of
        Some r \<Rightarrow> (let s' = pl_rate_observe lib r key s in (pl_rate_value lib (lm_weight lm) r key s', c, s'))
      | None \<Rightarrow>
        (case lm_inflight lm of
           Some i \<Rightarrow> (let (value, s') = pl_inflight_incr lib i key s
                      in (value, c\<lparr>guard := Some (i, key)\<rparr>, drop_guard lib c s'))
         | None \<Rightarrow> (0, c, s)))"

definition limiter_incr ::
  "('re, 's) plugin_lib \<Rightarrow> limiter \<Rightarrow> conn \<times> ctx \<times> 's \<Rightarrow> (plugin_error + unit) \<times> conn \<times> ctx \<times> 's" where
  "limiter_incr lib lm st =
     (case st of (cn, c, s) \<Rightarrow>
        let key = limit_key lib lm (cn_session cn);
            c1 = (if lm_tag lm = LimitIp then c\<lparr>client_ip := Some key\<rparr> else c)
        in if key = [] then (Inr (), cn, c1, s)
           else let (value, c2, s') = limit_count lib lm key c1 s in
             (if value > lm_max lm then Inl (PluginExceed ''limit'' (lm_max lm) value) else Inr (), cn, c2, s'))"

definition limiter_handle_request :: "('re, 's) plugin_lib \<Rightarrow> limiter \<Rightarrow> 's req_handler" where
  "limiter_handle_request lib lm step st =
     (if step \<noteq> lm_step lm then skip st
      else case limiter_incr lib lm st of
        (Inl e, st') \<Rightarrow> answer (status_body 429 (plugin_error_text e)) st'
      | (Inr _, st') \<Rightarrow> pass st')"

definition new_limiter :: "('re, 's) plugin_lib \<Rightarrow> string \<Rightarrow> plugin_conf \<Rightarrow> plugin_error + 's plugin" where
  "new_limiter lib ident conf =
     try_then (limiter_try_from lib ident conf) (\<lambda>lm.
     Inr (default_plugin\<lparr>hash_key := lm_hash_value lm, handle_request := limiter_handle_request lib lm\<rparr>))"

section \<open>Attempts per key\<close>

record ttl_limit =
  tl_count :: nat
  tl_created_at :: nat

record 'u ttl_lru_limit =
  ttl_ms :: nat
  ttl_max :: nat
  ttl_ufo_get :: "'u \<Rightarrow> string \<Rightarrow> ttl_limit option"
  ttl_ufo_put :: "string \<Rightarrow> ttl_limit \<Rightarrow> 'u \<Rightarrow> 'u"

definition ttl_validate :: "'u ttl_lru_limit \<Rightarrow> nat \<Rightarrow> string \<Rightarrow> 'u \<Rightarrow> bool \<times> 'u" where
  "ttl_validate l now key u =
     (case ttl_ufo_get l u key of
        None \<Rightarrow> (True, u)
      | Some v \<Rightarrow>
          if sub_u64 now (tl_created_at v) > ttl_ms l
          then (True, ttl_ufo_put l key \<lparr>tl_count = 0, tl_created_at = 0\<rparr> u)
          else (tl_count v < ttl_max l, u))"

definition ttl_inc :: "'u ttl_lru_limit \<Rightarrow> nat \<Rightarrow> string \<Rightarrow> 'u \<Rightarrow> 'u" where
  "ttl_inc l now key u =
     (let data = (case ttl_ufo_get l u key of
         Some v \<Rightarrow> \<lparr>tl_count = (tl_count v + 1) mod 2 ^ 64,
                    tl_created_at = (if tl_created_at v = 0 then now else tl_created_at v)\<rparr>
       | None \<Rightarrow> \<lparr>tl_count = 1, tl_created_at = now\<rparr>)
      in ttl_ufo_put l key data u)"

section \<open>Guards\<close>

definition ip_admits :: "('re, 's) plugin_lib \<Rightarrow> ip_restriction \<Rightarrow> conn \<Rightarrow> ctx \<Rightarrow> 's \<Rightarrow> bool" where
  "ip_admits lib ir cn c s \<longleftrightarrow>
     (\<exists>found. ip_is_match (ir_rules ir) (request_ip lib cn c) = Inr found \<and> allow_found (ir_category ir) found)"

definition ua_admits :: "('re, 's) plugin_lib \<Rightarrow> 're ua_restriction \<Rightarrow> conn \<Rightarrow> ctx \<Rightarrow> 's \<Rightarrow> bool" where
  "ua_admits lib ur cn c s \<longleftrightarrow> allow_found (ur_category ur) (ua_found lib ur (cn_session cn))"

definition referer_admits :: "('re, 's) plugin_lib \<Rightarrow> referer_restriction \<Rightarrow> conn \<Rightarrow> ctx \<Rightarrow> 's \<Rightarrow> bool" where
  "referer_admits lib rr cn c s \<longleftrightarrow> allow_found (rr_category rr) (referer_found lib rr (cn_session cn))"

definition limit_admits :: "('re, 's) plugin_lib \<Rightarrow> limiter \<Rightarrow> conn \<Rightarrow> ctx \<Rightarrow> 's \<Rightarrow> bool" where
  "limit_admits lib lm cn c s \<longleftrightarrow> fst (limiter_incr lib lm (cn, c, s)) = Inr ()"

interpretation ip_guard: request_guard "ip_restriction_handle_request lib ir" "ir_step ir"
  "{400, hr_status (ir_forbidden ir)}" "ip_admits lib ir"
  for lib :: "('re, 's) plugin_lib" and ir
  by unfold_locales
    (auto simp: ip_restriction_handle_request_def handler_results ip_admits_def bad_request_def Let_def split: sum.splits)

interpretation ua_guard: request_guard "ua_restriction_handle_request lib ur" "ur_step ur"
  "{hr_status (ur_forbidden ur)}" "ua_admits lib ur"
  for lib :: "('re, 's) plugin_lib" and ur
  by unfold_locales (auto simp: ua_restriction_handle_request_def handler_results ua_admits_def)

interpretation referer_guard: request_guard "referer_restriction_handle_request lib rr" "rr_step rr"
  "{hr_status (rr_forbidden rr)}" "referer_admits lib rr"
  for lib :: "('re, 's) plugin_lib" and rr
  by unfold_locales (auto simp: referer_restriction_handle_request_def handler_results referer_admits_def)

lemma limit_count_frame:
  "limit_count lib lm key c s = (v, c', s') \<Longrightarrow> ctx_location c' = ctx_location c"
  by (auto simp: limit_count_def Let_def split: option.splits prod.splits)

lemma limiter_incr_frame:
  "limiter_incr lib lm (cn, c, s) = (r, cn', c', s') \<Longrightarrow> cn' = cn \<and> ctx_location c' = ctx_location c"
  by (auto simp: limiter_incr_def Let_def dest!: limit_count_frame split: prod.splits if_splits)

interpretation limit_guard: request_guard "limiter_handle_request lib lm" "lm_step lm" "{429}" "limit_admits lib lm"
  for lib :: "('re, 's) plugin_lib" and lm
  by unfold_locales
    (auto simp: limiter_handle_request_def handler_results limit_admits_def status_body_def
      dest: limiter_incr_frame split: prod.splits sum.splits)

end
