(* ===== verification/Header_Plugins.thy ===== *)
theory Header_Plugins
  imports Guard
begin

text \<open>
  The plugins of \<open>pingap-plugin\<close> that rewrite requests and responses: \<open>cors.rs\<close>, \<open>redirect.rs\<close>,
  \<open>request_id.rs\<close>, \<open>response_headers.rs\<close>, \<open>accept_encoding.rs\<close> and \<open>compression.rs\<close>. The
  compression module of the session is pingora's; adjusting it is \<open>pl_compress_adjust\<close>, absent when
  the module is not installed.
\<close>

section \<open>Cross-origin requests\<close>

record 're cors =
  co_step :: plugin_step
  co_path :: "'re option"
  co_allow_origin :: string
  co_headers :: "http_header list"
  co_hash_value :: string

fun build_headers :: "('re, 's) plugin_lib \<Rightarrow> string \<Rightarrow> (string \<times> string) list \<Rightarrow> plugin_error + http_header list" where
  "build_headers lib category [] = Inr []"
| "build_headers lib category ((name, text) # items) =
     try_then (map_err (PluginInvalid category) (hvalue_from_str (pl_http lib) text)) (\<lambda>v.
     try_then (build_headers lib category items) (\<lambda>hs. Inr ((name, v) # hs)))"

definition cors_header_texts :: "plugin_conf \<Rightarrow> duration \<Rightarrow> (string \<times> string) list" where
  "cors_header_texts conf max_age =
     (let methods = get_str_conf conf ''allow_methods''; headers = get_str_conf conf ''allow_headers'';
          expose = get_str_conf conf ''expose_headers''
      in [(''access-control-allow-methods'',
           if methods = [] then join '', '' [''GET'', ''POST'', ''PUT'', ''PATCH'', ''DELETE'', ''OPTIONS''] else methods)]
         @ (if headers \<noteq> [] then [(''access-control-allow-headers'', headers)] else [])
         @ (if max_age \<noteq> 0 then [(''access-control-max-age'', show_nat (as_secs max_age))] else [])
         @ (if get_bool_conf conf ''allow_credentials'' then [(''access-control-allow-credentials'', ''true'')] else [])
         @ (if expose \<noteq> [] then [(''access-control-expose-headers'', expose)] else []))"

definition compile_path :: "('re, 's) plugin_lib \<Rightarrow> string \<Rightarrow> string \<Rightarrow> plugin_error + 're option" where
  "compile_path lib category path =
     (if path = [] then Inr None
      else try_then (map_err (PluginInvalid category) (re_new (pl_re lib) path)) (\<lambda>reg. Inr (Some reg)))"

definition cors_try_from :: "('re, 's) plugin_lib \<Rightarrow> plugin_conf \<Rightarrow> plugin_error + 're cors" where
  "cors_try_from lib conf =
     try_then (get_duration_conf lib ''cors'' conf ''max_age'') (\<lambda>age.
     try_then (compile_path lib ''cors'' (get_str_conf conf ''path'')) (\<lambda>path.
     let origin = get_str_conf conf ''allow_origin'' in
     try_then (build_headers lib ''cors'' (cors_header_texts conf (unwrap_or (3600 * 1000000000) age))) (\<lambda>headers.
     try_then (map_err (PluginInvalid ''cors'')
       (hvalue_from_str (pl_http lib) (if origin = [] then ''*'' else origin))) (\<lambda>allow_origin.
     Inr \<lparr>co_step = Request, co_path = path, co_allow_origin = allow_origin, co_headers = headers,
       co_hash_value = get_hash_key lib conf\<rparr>))))"

definition cors_get_headers ::
  "('re, 's) plugin_lib \<Rightarrow> 're cors \<Rightarrow> session \<Rightarrow> ctx \<Rightarrow> plugin_error + http_header list" where
  "cors_get_headers lib co s c =
     (case convert_header_value (pl_http lib) (pl_env lib) (co_allow_origin co) s c of
        None \<Rightarrow> Inl (PluginInvalid ''cors'' ''Allow origin is invalid'')
      | Some origin \<Rightarrow> Inr (co_headers co @ [(''access-control-allow-origin'', origin)]))"

definition path_covered :: "('re, 's) plugin_lib \<Rightarrow> 're option \<Rightarrow> conn \<Rightarrow> bool" where
  "path_covered lib path cn =
     (case path of None \<Rightarrow> True | Some reg \<Rightarrow> re_is_match (pl_re lib) reg (uri_path (req_uri (conn_req cn))))"

definition cors_handle_request :: "('re, 's) plugin_lib \<Rightarrow> 're cors \<Rightarrow> 's req_handler" where
  "cors_handle_request lib co step st =
     (if step \<noteq> co_step co then skip st
      else case st of (cn, c, s) \<Rightarrow>
        if \<not> path_covered lib (co_path co) cn then skip st
        else if req_method (conn_req cn) = ''OPTIONS'' then
          (case cors_get_headers lib co (cn_session cn) c of
             Inl e \<Rightarrow> (Inl (new_internal_error 400 (plugin_error_text e)), st)
           | Inr hs \<Rightarrow> answer (no_content\<lparr>hr_headers := Some hs\<rparr>) st)
        else pass st)"

definition cors_handle_response :: "('re, 's) plugin_lib \<Rightarrow> 're cors \<Rightarrow> 's resp_handler" where
  "cors_handle_response lib co step st =
     (case st of (cn, c, s, h) \<Rightarrow>
        if step \<noteq> Response \<or> \<not> path_covered lib (co_path co) cn then (Inr False, st)
        else if get_header (cn_session cn) ''origin'' = None then (Inr False, st)
        else case cors_get_headers lib co (cn_session cn) c of
          Inl e \<Rightarrow> (Inl (new_internal_error 400 (plugin_error_text e)), st)
        | Inr hs \<Rightarrow> (Inr True, cn, c, s, h\<lparr>resp_headers := insert_headers hs (resp_headers h)\<rparr>))"

definition new_cors :: "('re, 's) plugin_lib \<Rightarrow> plugin_conf \<Rightarrow> plugin_error + 's plugin" where
  "new_cors lib conf =
     try_then (cors_try_from lib conf) (\<lambda>co.
     Inr (default_plugin\<lparr>hash_key := co_hash_value co, handle_request := cors_handle_request lib co, handle_response := cors_handle_response lib co\<rparr>))"

section \<open>Redirects\<close>

record redirect =
  rd_prefix :: string
  rd_http_to_https :: bool
  rd_step :: plugin_step
  rd_hash_value :: string

definition redirect_new :: "('re, 's) plugin_lib \<Rightarrow> plugin_conf \<Rightarrow> redirect" where
  "redirect_new lib conf =
     (let prefix = get_str_conf conf ''prefix'' in
      \<lparr>rd_prefix = (if length prefix \<le> 1 then [] else if \<not> starts_with prefix ''/'' then ''/'' @ prefix else prefix),
       rd_http_to_https = get_bool_conf conf ''http_to_https'', rd_step = Request,
       rd_hash_value = get_hash_key lib conf\<rparr>)"

definition redirect_location :: "('re, 's) plugin_lib \<Rightarrow> redirect \<Rightarrow> request_header \<Rightarrow> string" where
  "redirect_location lib rd h =
     (if rd_http_to_https rd then ''https'' else ''http'') @ ''://'' @ unwrap_or [] (get_host (pl_http lib) h)
       @ rd_prefix rd @ uri_text (req_uri h)"

definition redirect_handle_request :: "('re, 's) plugin_lib \<Rightarrow> redirect \<Rightarrow> 's req_handler" where
  "redirect_handle_request lib rd step st =
     (if step \<noteq> rd_step rd then skip st
      else case st of (cn, c, s) \<Rightarrow>
        if (tls_version c \<noteq> None) = rd_http_to_https rd \<and> starts_with (uri_path (req_uri (conn_req cn))) (rd_prefix rd)
        then skip st
        else let hs = (case convert_headers (pl_http lib) [''Location: '' @ redirect_location lib rd (conn_req cn)] of
                         Inr hs \<Rightarrow> hs | Inl _ \<Rightarrow> [])
             in answer (default_response\<lparr>hr_status := 307, hr_headers := Some hs\<rparr>) st)"

definition new_redirect :: "('re, 's) plugin_lib \<Rightarrow> plugin_conf \<Rightarrow> plugin_error + 's plugin" where
  "new_redirect lib conf = Inr (default_plugin\<lparr>hash_key := get_hash_key lib conf, handle_request := redirect_handle_request lib (redirect_new lib conf)\<rparr>)"

section \<open>Request identifiers\<close>

record request_id =
  ri_step :: plugin_step
  ri_algorithm :: string
  ri_header_name :: "string option"
  ri_size :: nat
  ri_hash_value :: string

definition request_id_try_from :: "('re, 's) plugin_lib \<Rightarrow> plugin_conf \<Rightarrow> plugin_error + request_id" where
  "request_id_try_from lib conf =
     (let step = get_step_conf conf Request; name = get_str_conf conf ''header_name'';
          sz = nat (get_int_conf conf ''size'' mod 2 ^ 64)
      in try_then (if name = [] then Inr None
                   else map_err (PluginInvalid ''header_name'')
                          (case hname_from_str (pl_http lib) name of Inl e \<Rightarrow> Inl e | Inr n \<Rightarrow> Inr (Some n))) (\<lambda>header_name.
         if step \<noteq> Request \<and> step \<noteq> ProxyUpstream
         then Inl (PluginInvalid ''request_id'' ''Request id should be executed at request or proxy upstream step'')
         else Inr \<lparr>ri_step = step, ri_algorithm = get_str_conf conf ''algorithm'', ri_header_name = header_name,
           ri_size = (if sz = 0 then 8 else sz), ri_hash_value = get_hash_key lib conf\<rparr>))"

definition request_id_handle_request :: "('re, 's) plugin_lib \<Rightarrow> request_id \<Rightarrow> 's req_handler" where
  "request_id_handle_request lib ri step st =
     (if step \<noteq> ri_step ri then skip st
      else case st of (cn, c, s) \<Rightarrow>
        let key = unwrap_or ''x-request-rid'' (ri_header_name ri) in
        case get_header (cn_session cn) key of
          Some rid \<Rightarrow> pass (cn, c\<lparr>ctx_request_id := Some (to_str_or_default (pl_http lib) rid)\<rparr>, s)
        | None \<Rightarrow>
            let rid = (if ri_algorithm ri = ''nanoid'' then pl_nanoid lib (ri_size ri) else pl_uuid lib);
                cn' = (case hvalue_from_str (pl_http lib) rid of
                         Inr v \<Rightarrow> upd_req_headers (hdr_insert key v) cn | Inl _ \<Rightarrow> cn)
            in pass (cn', c\<lparr>ctx_request_id := Some rid\<rparr>, s))"

definition new_request_id :: "('re, 's) plugin_lib \<Rightarrow> plugin_conf \<Rightarrow> plugin_error + 's plugin" where
  "new_request_id lib conf =
     try_then (request_id_try_from lib conf) (\<lambda>ri.
     Inr (default_plugin\<lparr>hash_key := ri_hash_value ri, handle_request := request_id_handle_request lib ri\<rparr>))"

section \<open>Response headers\<close>

record response_headers_plugin =
  rh_step :: plugin_step
  rh_add :: "http_header list"
  rh_remove :: "string list"
  rh_set :: "http_header list"
  rh_rename :: "(string \<times> string) list"
  rh_set_not_exists :: "http_header list"
  rh_hash_value :: string

definition invalid_header_conf :: "string \<Rightarrow> plugin_error" where
  "invalid_header_conf m = PluginInvalid ''response_headers'' m"

definition conf_headers :: "('re, 's) plugin_lib \<Rightarrow> plugin_conf \<Rightarrow> string \<Rightarrow> plugin_error + http_header list" where
  "conf_headers lib conf key =
     map_err (\<lambda>e. invalid_header_conf (header_error_text e)) (convert_headers (pl_http lib) (get_str_slice_conf conf key))"

fun conf_names :: "('re, 's) plugin_lib \<Rightarrow> string list \<Rightarrow> plugin_error + string list" where
  "conf_names lib [] = Inr []"
| "conf_names lib (x # xs) =
     try_then (map_err invalid_header_conf (hname_from_str (pl_http lib) x)) (\<lambda>n.
     try_then (conf_names lib xs) (\<lambda>ns. Inr (n # ns)))"

fun conf_renames :: "('re, 's) plugin_lib \<Rightarrow> string list \<Rightarrow> plugin_error + (string \<times> string) list" where
  "conf_renames lib [] = Inr []"
| "conf_renames lib (x # xs) =
     (case split_once CHR '':'' x of
        None \<Rightarrow> conf_renames lib xs
      | Some (k, v) \<Rightarrow>
          try_then (map_err invalid_header_conf (hname_from_str (pl_http lib) (trim k))) (\<lambda>a.
          try_then (map_err invalid_header_conf (hname_from_str (pl_http lib) (trim v))) (\<lambda>b.
          try_then (conf_renames lib xs) (\<lambda>ns. Inr ((a, b) # ns)))))"

definition response_headers_try_from :: "('re, 's) plugin_lib \<Rightarrow> plugin_conf \<Rightarrow> plugin_error + response_headers_plugin" where
  "response_headers_try_from lib conf =
     try_then (conf_headers lib conf ''add_headers'') (\<lambda>add.
     try_then (conf_headers lib conf ''set_headers'') (\<lambda>set.
     try_then (conf_names lib (get_str_slice_conf conf ''remove_headers'')) (\<lambda>remove.
     try_then (conf_renames lib (get_str_slice_conf conf ''rename_headers'')) (\<lambda>rename.
     try_then (conf_headers lib conf ''set_headers_not_exists'') (\<lambda>not_exists.
     Inr \<lparr>rh_step = Response, rh_add = add, rh_remove = remove, rh_set = set, rh_rename = rename,
       rh_set_not_exists = not_exists, rh_hash_value = get_hash_key lib conf\<rparr>)))))"

text \<open>Removing a header gives back its first value; only that one is renamed.\<close>

definition rename_header :: "string \<times> string \<Rightarrow> header_map \<Rightarrow> header_map" where
  "rename_header = (\<lambda>(old, new) m.
     case hdr_get m old of None \<Rightarrow> m | Some v \<Rightarrow> hdr_append new v (hdr_remove old m))"

definition set_missing :: "http_header \<Rightarrow> header_map \<Rightarrow> header_map" where
  "set_missing = (\<lambda>(k, v) m. if hdr_get m k = None then hdr_insert k v m else m)"

definition rewrite_response_headers ::
  "(http_header \<Rightarrow> http_header) \<Rightarrow> response_headers_plugin \<Rightarrow> header_map \<Rightarrow> header_map" where
  "rewrite_response_headers dv rh m =
     (let m1 = fold (\<lambda>(k, v). hdr_append k v) (map dv (rh_add rh)) m;
          m2 = fold hdr_remove (rh_remove rh) m1;
          m3 = insert_headers (map dv (rh_set rh)) m2;
          m4 = fold set_missing (map dv (rh_set_not_exists rh)) m3
      in fold rename_header (rh_rename rh) m4)"

definition response_headers_handle_response :: "('re, 's) plugin_lib \<Rightarrow> response_headers_plugin \<Rightarrow> 's resp_handler" where
  "response_headers_handle_response lib rh step st =
     (case st of (cn, c, s, h) \<Rightarrow>
        if step \<noteq> rh_step rh then (Inr False, st)
        else let dv = dynamic_value (pl_http lib) (pl_env lib) (cn_session cn) c
             in (Inr True, cn, c, s, h\<lparr>resp_headers := rewrite_response_headers dv rh (resp_headers h)\<rparr>))"

definition new_response_headers :: "('re, 's) plugin_lib \<Rightarrow> plugin_conf \<Rightarrow> plugin_error + 's plugin" where
  "new_response_headers lib conf =
     try_then (response_headers_try_from lib conf) (\<lambda>rh.
     Inr (default_plugin\<lparr>hash_key := rh_hash_value rh, handle_response := response_headers_handle_response lib rh\<rparr>))"

section \<open>Encodings\<close>

record accept_encoding =
  ae_encodings :: "string list"
  ae_only_one :: "bool option"
  ae_hash_value :: string
  ae_step :: plugin_step

definition accept_encoding_try_from :: "('re, 's) plugin_lib \<Rightarrow> plugin_conf \<Rightarrow> accept_encoding" where
  "accept_encoding_try_from lib conf =
     \<lparr>ae_encodings = filter (\<lambda>v. v \<noteq> []) (map trim (split_on CHR '','' (get_str_conf conf ''encodings''))),
      ae_only_one = Some (get_bool_conf conf ''only_one_encoding''), ae_hash_value = get_hash_key lib conf,
      ae_step = EarlyRequest\<rparr>"

definition chosen_encodings :: "accept_encoding \<Rightarrow> string \<Rightarrow> string list" where
  "chosen_encodings ae accept =
     (let found = filter (contains_str accept) (ae_encodings ae) in
      if unwrap_or False (ae_only_one ae) then take 1 found else found)"

definition accept_encoding_handle_request :: "('re, 's) plugin_lib \<Rightarrow> accept_encoding \<Rightarrow> 's req_handler" where
  "accept_encoding_handle_request lib ae step st =
     (if step \<noteq> ae_step ae then skip st
      else case st of (cn, c, s) \<Rightarrow>
        case hdr_get (req_headers (conn_req cn)) ''accept-encoding'' of
          None \<Rightarrow> skip st
        | Some v \<Rightarrow>
            let es = chosen_encodings ae (to_str_or_default (pl_http lib) v) in
            if es = [] then pass (upd_req_headers (hdr_remove ''accept-encoding'') cn, c, s)
            else case hvalue_from_str (pl_http lib) (join '', '' es) of
              Inr value \<Rightarrow> pass (upd_req_headers (hdr_insert ''accept-encoding'' value) cn, c, s)
            | Inl _ \<Rightarrow> pass st)"

definition new_accept_encoding :: "('re, 's) plugin_lib \<Rightarrow> plugin_conf \<Rightarrow> plugin_error + 's plugin" where
  "new_accept_encoding lib conf =
     Inr (default_plugin\<lparr>hash_key := get_hash_key lib conf, handle_request := accept_encoding_handle_request lib (accept_encoding_try_from lib conf)\<rparr>)"

definition ZSTD :: string where "ZSTD = ''zstd''"
definition BR :: string where "BR = ''br''"
definition GZIP :: string where "GZIP = ''gzip''"

record compression =
  cp_gzip_level :: nat
  cp_br_level :: nat
  cp_zstd_level :: nat
  cp_support :: bool
  cp_decompression :: "bool option"
  cp_step :: plugin_step
  cp_hash_value :: string

definition compression_try_from :: "('re, 's) plugin_lib \<Rightarrow> plugin_conf \<Rightarrow> compression" where
  "compression_try_from lib conf =
     (let level = (\<lambda>key. nat (get_int_conf conf key mod 2 ^ 32));
          gzip = level ''gzip_level''; br = level ''br_level''; zstd = level ''zstd_level''
      in \<lparr>cp_gzip_level = gzip, cp_br_level = br, cp_zstd_level = zstd,
          cp_support = ((gzip + br + zstd) mod 2 ^ 32 > 0),
          cp_decompression = (if map_of conf ''decompression'' \<noteq> None then Some (get_bool_conf conf ''decompression'') else None),
          cp_step = EarlyRequest, cp_hash_value = get_hash_key lib conf\<rparr>)"

definition compression_level :: "compression \<Rightarrow> string \<Rightarrow> nat" where
  "compression_level cp accept =
     (if cp_zstd_level cp > 0 \<and> contains_str accept ZSTD then cp_zstd_level cp
      else if cp_br_level cp > 0 \<and> contains_str accept BR then cp_br_level cp
      else if cp_gzip_level cp > 0 \<and> contains_str accept GZIP then cp_gzip_level cp else 0)"

definition compression_handle_request :: "('re, 's) plugin_lib \<Rightarrow> compression \<Rightarrow> 's req_handler" where
  "compression_handle_request lib cp step st =
     (if step \<noteq> cp_step cp \<or> \<not> cp_support cp then skip st
      else case st of (cn, c, s) \<Rightarrow>
        case hdr_get (req_headers (conn_req cn)) ''accept-encoding'' of
          None \<Rightarrow> skip st
        | Some v \<Rightarrow>
            let accept = to_str_or_default (pl_http lib) v in
            if accept = [] \<or> compression_level cp accept = 0 then skip st
            else case pl_compress_adjust lib (cp_decompression cp) (cp_zstd_level cp, cp_br_level cp, cp_gzip_level cp) s of
              None \<Rightarrow> skip st
            | Some s' \<Rightarrow> pass (cn, c, s'))"

definition new_compression :: "('re, 's) plugin_lib \<Rightarrow> plugin_conf \<Rightarrow> plugin_error + 's plugin" where
  "new_compression lib conf =
     Inr (default_plugin\<lparr>hash_key := get_hash_key lib conf, handle_request := compression_handle_request lib (compression_try_from lib conf)\<rparr>)"

end
