(* ===== verification/Content_Plugins.thy ===== *)
theory Content_Plugins
  imports Guard
begin

text \<open>
  The plugins of \<open>pingap-plugin\<close> that answer requests or change bodies: \<open>mock.rs\<close>, \<open>ping.rs\<close>,
  \<open>sub_filter.rs\<close>, \<open>cache.rs\<close> and \<open>directory.rs\<close>. The HTTP cache of the session and the file system
  are fields of \<open>plugin_lib\<close>. \<open>Path::join\<close> and \<open>Path::file_name\<close> are those of the standard library
  on Unix. The rule syntax of \<open>sub_filter\<close> is matched by the \<open>regex\<close> crate (\<open>pl_subs_captures\<close>).
\<close>

section \<open>Fixed answers\<close>

record mock_response =
  mk_path :: string
  mk_step :: plugin_step
  mk_resp :: http_response
  mk_delay :: "duration option"
  mk_hash_value :: string

text \<open>\<open>StatusCode::from_u16\<close> takes three digits.\<close>

definition mock_try_new :: "('re, 's) plugin_lib \<Rightarrow> plugin_conf \<Rightarrow> plugin_error + mock_response" where
  "mock_try_new lib conf =
     (let status = nat (get_int_conf conf ''status'' mod 2 ^ 16); texts = get_str_slice_conf conf ''headers'' in
      try_then (get_duration_conf lib ''mock'' conf ''delay'') (\<lambda>delay.
      Inr \<lparr>mk_path = get_str_conf conf ''path'', mk_step = Request,
        mk_resp = (status_body (if 100 \<le> status \<and> status \<le> 999 then status else 200) (get_str_conf conf ''data''))
          \<lparr>hr_headers := (if texts = [] then None
             else case convert_headers (pl_http lib) texts of Inr hs \<Rightarrow> Some hs | Inl _ \<Rightarrow> None)\<rparr>,
        mk_delay = delay, mk_hash_value = get_hash_key lib conf\<rparr>))"

definition mock_handle_request :: "mock_response \<Rightarrow> 's req_handler" where
  "mock_handle_request mk step st =
     (if step \<noteq> mk_step mk then skip st
      else if mk_path mk \<noteq> [] \<and> uri_path (req_uri (conn_req (fst st))) \<noteq> mk_path mk then skip st
      else answer (mk_resp mk) st)"

definition new_mock :: "('re, 's) plugin_lib \<Rightarrow> plugin_conf \<Rightarrow> plugin_error + 's plugin" where
  "new_mock lib conf =
     try_then (mock_try_new lib conf) (\<lambda>mk. Inr (default_plugin\<lparr>hash_key := mk_hash_value mk, handle_request := mock_handle_request mk\<rparr>))"

record ping =
  pi_path :: string
  pi_step :: plugin_step
  pi_hash_value :: string

definition PONG_RESPONSE :: http_response where
  "PONG_RESPONSE = status_body 200 ''pong''"

definition ping_new :: "('re, 's) plugin_lib \<Rightarrow> plugin_conf \<Rightarrow> ping" where
  "ping_new lib conf = \<lparr>pi_path = get_str_conf conf ''path'', pi_step = Request, pi_hash_value = get_hash_key lib conf\<rparr>"

definition ping_handle_request :: "ping \<Rightarrow> 's req_handler" where
  "ping_handle_request p step st =
     (if step \<noteq> pi_step p then skip st
      else if uri_path (req_uri (conn_req (fst st))) = pi_path p then answer PONG_RESPONSE st
      else pass st)"

definition new_ping :: "('re, 's) plugin_lib \<Rightarrow> plugin_conf \<Rightarrow> plugin_error + 's plugin" where
  "new_ping lib conf = Inr (default_plugin\<lparr>hash_key := get_hash_key lib conf, handle_request := ping_handle_request (ping_new lib conf)\<rparr>)"

section \<open>Substitution in bodies\<close>

record sub_filter_params =
  sp_regex :: "(string \<Rightarrow> bool \<Rightarrow> string \<Rightarrow> string) option"
  sp_pattern :: string
  sp_replacement :: string
  sp_flags :: string

record 're sub_filter =
  sf_path :: 're
  sf_filters :: "sub_filter_params list"
  sf_step :: plugin_step
  sf_hash_value :: string

definition parse_subs_filter :: "('re, 's) plugin_lib \<Rightarrow> string \<Rightarrow> sub_filter_params option" where
  "parse_subs_filter lib rule =
     (case pl_subs_captures lib rule of
        None \<Rightarrow> None
      | Some (kind, pattern, replacement, flags) \<Rightarrow>
          let fl = unwrap_or [] flags in
          if kind = ''subs_filter'' then
            (case pl_bytes_regex lib pattern (CHR ''i'' \<in> set fl) of
               None \<Rightarrow> None
             | Some re \<Rightarrow> Some \<lparr>sp_regex = Some re, sp_pattern = [], sp_replacement = replacement, sp_flags = fl\<rparr>)
          else Some \<lparr>sp_regex = None, sp_pattern = pattern, sp_replacement = replacement, sp_flags = fl\<rparr>)"

text \<open>\<open>replacen\<close> with the count 1.\<close>

fun replace_first :: "string \<Rightarrow> string \<Rightarrow> string \<Rightarrow> string" where
  "replace_first [] p r = (if p = [] then r else [])"
| "replace_first (c # s) p r =
     (if starts_with (c # s) p then r @ drop (length p) (c # s) else c # replace_first s p r)"

definition apply_filter :: "sub_filter_params \<Rightarrow> string \<Rightarrow> string" where
  "apply_filter f data =
     (let global = (CHR ''g'' \<in> set (sp_flags f)) in
      case sp_regex f of
        Some re \<Rightarrow> re (sp_replacement f) global data
      | None \<Rightarrow> if global then replace_all data (sp_pattern f) (sp_replacement f)
                else replace_first data (sp_pattern f) (sp_replacement f))"

definition sub_filter_replace :: "sub_filter_params list \<Rightarrow> string \<Rightarrow> string" where
  "sub_filter_replace filters data = fold apply_filter filters data"

fun parse_filters :: "('re, 's) plugin_lib \<Rightarrow> string list \<Rightarrow> plugin_error + sub_filter_params list" where
  "parse_filters lib [] = Inr []"
| "parse_filters lib (x # xs) =
     (case parse_subs_filter lib x of
        None \<Rightarrow> Inl (PluginInvalid ''sub_filter'' (''invalid subs filter: '' @ x))
      | Some f \<Rightarrow> try_then (parse_filters lib xs) (\<lambda>fs. Inr (f # fs)))"

definition sub_filter_try_from :: "('re, 's) plugin_lib \<Rightarrow> plugin_conf \<Rightarrow> plugin_error + 're sub_filter" where
  "sub_filter_try_from lib conf =
     try_then (map_err (PluginInvalid ''sub_filter'') (re_new (pl_re lib) (get_str_conf conf ''path''))) (\<lambda>path.
     try_then (parse_filters lib (get_str_slice_conf conf ''filters'')) (\<lambda>filters.
     Inr \<lparr>sf_path = path, sf_filters = filters, sf_step = Response, sf_hash_value = get_hash_key lib conf\<rparr>))"

definition sub_filter_handle_response :: "('re, 's) plugin_lib \<Rightarrow> 're sub_filter \<Rightarrow> 's resp_handler" where
  "sub_filter_handle_response lib sf step st =
     (case st of (cn, c, s, h) \<Rightarrow>
        if step \<noteq> sf_step sf then (Inr False, st)
        else if re_is_match (pl_re lib) (sf_path sf) (uri_path (req_uri (conn_req cn))) then
          (Inr True, cn, c\<lparr>modify_response_body := Some (sub_filter_replace (sf_filters sf))\<rparr>, s,
           h\<lparr>resp_headers := insert_headers [HTTP_HEADER_TRANSFER_CHUNKED] (hdr_remove ''content-length'' (resp_headers h))\<rparr>)
        else (Inr True, st))"

definition new_sub_filter :: "('re, 's) plugin_lib \<Rightarrow> plugin_conf \<Rightarrow> plugin_error + 's plugin" where
  "new_sub_filter lib conf =
     try_then (sub_filter_try_from lib conf) (\<lambda>sf.
     Inr (default_plugin\<lparr>hash_key := sf_hash_value sf, handle_response := sub_filter_handle_response lib sf\<rparr>))"

section \<open>The HTTP cache\<close>

record 're cache_plugin =
  hc_step :: plugin_step
  hc_eviction :: bool
  hc_predictor :: bool
  hc_lock :: "nat option"
  hc_directory :: "string option"
  hc_max_file_size :: nat
  hc_max_ttl :: "duration option"
  hc_namespace :: "string option"
  hc_key_headers :: "string list option"
  hc_check_cache_control :: bool
  hc_purge_ip_rules :: ip_rules
  hc_skip :: "'re option"
  hc_hash_value :: string

definition get_cache_lock :: "duration \<Rightarrow> nat option" where
  "get_cache_lock lock = (if as_secs lock \<in> {1, 2, 3} then Some (as_secs lock) else None)"

definition compile_skip :: "('re, 's) plugin_lib \<Rightarrow> string \<Rightarrow> plugin_error + 're option" where
  "compile_skip lib text =
     (if text = [] then Inr None
      else try_then (map_err (PluginRegex ''cache'') (re_new (pl_fancy lib) text)) (\<lambda>re. Inr (Some re)))"

definition cache_try_from :: "('re, 's) plugin_lib \<Rightarrow> plugin_conf \<Rightarrow> plugin_error + 're cache_plugin" where
  "cache_try_from lib conf =
     try_then (map_err (PluginInvalid ''cache_backend'') (pl_cache_backend lib)) (\<lambda>directory.
     try_then (get_duration_conf lib ''cache'' conf ''lock'') (\<lambda>lock.
     try_then (get_duration_conf lib ''cache'' conf ''max_ttl'') (\<lambda>max_ttl.
     let size_text = get_str_conf conf ''max_file_size''; namespace = get_str_conf conf ''namespace'';
         headers = get_str_slice_conf conf ''headers'' in
     try_then (if size_text = [] then Inr 1000000
               else map_err (PluginInvalid ''cache'') (pl_byte_size lib size_text)) (\<lambda>max_file_size.
     try_then (compile_skip lib (get_str_conf conf ''skip'')) (\<lambda>skip_re.
     Inr \<lparr>hc_step = Request, hc_eviction = (map_of conf ''eviction'' \<noteq> None),
       hc_predictor = (map_of conf ''predictor'' \<noteq> None),
       hc_lock = get_cache_lock (unwrap_or 1000000000 lock), hc_directory = directory,
       hc_max_file_size = max_file_size, hc_max_ttl = max_ttl,
       hc_namespace = (if namespace = [] then None else Some namespace),
       hc_key_headers = (if headers = [] then None else Some headers),
       hc_check_cache_control = get_bool_conf conf ''check_cache_control'',
       hc_purge_ip_rules = new_ip_rules (pl_util lib) (get_str_slice_conf conf ''purge_ip_list''),
       hc_skip = skip_re, hc_hash_value = get_hash_key lib conf\<rparr>)))))"

definition METHOD_PURGE :: string where "METHOD_PURGE = ''PURGE''"

definition path_and_query :: "uri \<Rightarrow> string" where
  "path_and_query u = uri_path u @ (case uri_query u of Some q \<Rightarrow> ''?'' @ q | None \<Rightarrow> [])"

definition cache_key_ctx :: "('re, 's) plugin_lib \<Rightarrow> 're cache_plugin \<Rightarrow> session \<Rightarrow> ctx \<Rightarrow> ctx" where
  "cache_key_ctx lib ch s c =
     (let keys = filter (\<lambda>v. v \<noteq> []) (map (\<lambda>k. from_utf8_lossy lib (get_header_bytes s k)) (unwrap_or [] (hc_key_headers ch)));
          c1 = c\<lparr>cache_namespace := hc_namespace ch\<rparr>
      in if keys \<noteq> [] then c1\<lparr>cache_keys := Some keys\<rparr> else c1)"

definition cache_purge ::
  "('re, 's) plugin_lib \<Rightarrow> 're cache_plugin \<Rightarrow> conn \<times> ctx \<times> 's
     \<Rightarrow> (pingora_error + bool \<times> http_response option) \<times> conn \<times> ctx \<times> 's" where
  "cache_purge lib ch st =
     (case st of (cn, c, s) \<Rightarrow>
        case ip_is_match (hc_purge_ip_rules ch) (get_client_ip (pl_http lib) (cn_session cn)) of
          Inl e \<Rightarrow> answer (bad_request e) st
        | Inr found \<Rightarrow>
            if \<not> found then answer (status_body 403 ''Forbidden, ip is not allowed'') st
            else case pl_cache_remove lib (get_cache_key c ''GET'' (req_uri (conn_req cn))) s of
              (Inl e, s') \<Rightarrow> (Inl e, cn, c, s')
            | (Inr _, s') \<Rightarrow> answer no_content (cn, c, s'))"

definition cache_start :: "('re, 's) plugin_lib \<Rightarrow> 're cache_plugin \<Rightarrow> ctx \<times> 's \<Rightarrow> ctx \<times> 's" where
  "cache_start lib ch = (\<lambda>(c, s).
     let c1 = c\<lparr>cache_max_ttl := hc_max_ttl ch, check_cache_control := hc_check_cache_control ch\<rparr>;
         s1 = pl_cache_enable lib (hc_eviction ch) (hc_predictor ch) (hc_lock ch)
                (if hc_max_file_size ch > 0 then Some (hc_max_file_size ch) else None) s
     in case pl_cache_stats lib s1 of
          Some (reading, writing) \<Rightarrow> (c1\<lparr>cache_reading := Some reading, cache_writing := Some writing\<rparr>, s1)
        | None \<Rightarrow> (c1, s1))"

definition cache_handle_request :: "('re, 's) plugin_lib \<Rightarrow> 're cache_plugin \<Rightarrow> 's req_handler" where
  "cache_handle_request lib ch step st =
     (if step \<noteq> hc_step ch then skip st
      else case st of (cn, c, s) \<Rightarrow>
        let h = conn_req cn in
        if req_method h \<notin> {''GET'', ''HEAD'', METHOD_PURGE} then skip st
        else if (case hc_skip ch of Some re \<Rightarrow> re_is_match (pl_fancy lib) re (path_and_query (req_uri h)) | None \<Rightarrow> False)
        then skip st
        else let c1 = cache_key_ctx lib ch (cn_session cn) c in
          if req_method h = METHOD_PURGE then cache_purge lib ch (cn, c1, s)
          else let (c2, s2) = cache_start lib ch (c1, s) in pass (cn, c2, s2))"

definition new_cache :: "('re, 's) plugin_lib \<Rightarrow> plugin_conf \<Rightarrow> plugin_error + 's plugin" where
  "new_cache lib conf =
     try_then (cache_try_from lib conf) (\<lambda>ch. Inr (default_plugin\<lparr>hash_key := hc_hash_value ch, handle_request := cache_handle_request lib ch\<rparr>))"

section \<open>Static files\<close>

record directory =
  dr_path :: string
  dr_index :: string
  dr_autoindex :: bool
  dr_chunk_size :: "nat option"
  dr_max_age :: "nat option"
  dr_cache_private :: "bool option"
  dr_charset :: "string option"
  dr_step :: plugin_step
  dr_headers :: "http_header list option"
  dr_download :: bool
  dr_hash_value :: string

definition directory_try_from :: "('re, 's) plugin_lib \<Rightarrow> plugin_conf \<Rightarrow> plugin_error + directory" where
  "directory_try_from lib conf =
     (let step = get_step_conf conf Request;
          chunk_size = (case pl_byte_size lib (get_str_conf conf ''chunk_size'') of Inr n \<Rightarrow> n | Inl _ \<Rightarrow> 4096);
          age = get_str_conf conf ''max_age'';
          charset = get_str_conf conf ''charset''; index = get_str_conf conf ''index'';
          index1 = (if index = [] then ''index.html'' else index)
      in try_then (map_err (\<lambda>e. PluginInvalid ''directory'' (header_error_text e))
             (convert_headers (pl_http lib) (get_str_slice_conf conf ''headers''))) (\<lambda>headers.
         if step \<noteq> Request \<and> step \<noteq> ProxyUpstream
         then Inl (PluginInvalid ''directory'' ''Directory serve plugin should be executed at request or proxy upstream step'')
         else Inr \<lparr>dr_path = resolve_path (pl_util lib) (get_str_conf conf ''path''),
           dr_index = (if starts_with index1 ''/'' then index1 else ''/'' @ index1),
           dr_autoindex = get_bool_conf conf ''autoindex'',
           dr_chunk_size = (if chunk_size > 0 then Some chunk_size else None),
           dr_max_age = (if age = [] then None
              else Some (as_secs (case pl_parse_duration lib age of Inr d \<Rightarrow> d | Inl _ \<Rightarrow> 0) mod 2 ^ 32)),
           dr_cache_private = (if get_bool_conf conf ''private'' then Some True else None),
           dr_charset = (if charset = [] then None else Some charset), dr_step = step,
           dr_headers = Some headers, dr_download = get_bool_conf conf ''download'',
           dr_hash_value = get_hash_key lib conf\<rparr>))"

definition path_push :: "string \<Rightarrow> string \<Rightarrow> string" where
  "path_push base arg =
     (if starts_with arg ''/'' then arg
      else if base = [] \<or> ends_with base ''/'' then base @ arg
      else base @ ''/'' @ arg)"

definition file_name :: "string \<Rightarrow> string" where
  "file_name p =
     (let comps = filter (\<lambda>x. x \<noteq> [] \<and> x \<noteq> ''.'') (split_on CHR ''/'' p) in
      if comps = [] \<or> last comps = ''..'' then [] else last comps)"

definition get_data :: "('re, 's) plugin_lib \<Rightarrow> string \<Rightarrow> (bool \<times> string) + file_meta \<times> (string + string) list" where
  "get_data lib file =
     try_then (pl_file_meta lib file) (\<lambda>meta.
     if fm_is_dir meta then Inl (True, ''entity not found'')
     else try_then (pl_file_open lib file) (\<lambda>reads. Inr (meta, reads)))"

text \<open>The two \<open>unwrap\<close> on header values are of texts that are header values already.\<close>

definition get_cacheable_and_headers_from_meta ::
  "('re, 's) plugin_lib \<Rightarrow> string \<Rightarrow> file_meta \<Rightarrow> string option \<Rightarrow> bool \<times> nat \<times> http_header list" where
  "get_cacheable_and_headers_from_meta lib file meta charset =
     (let mime = pl_mime lib file;
          content_type = (case charset of
             Some cs \<Rightarrow> if starts_with mime ''text/'' then mime @ ''; charset='' @ cs else mime | None \<Rightarrow> mime);
          cacheable = (\<not> contains_str content_type ''text/html'');
          etag = (case fm_modified meta of
             Some t \<Rightarrow> if t > 0 then [(''etag'', ''W/\"'' @ show_hex (fm_size meta) @ ''-'' @ show_hex t @ ''\"'')] else []
           | None \<Rightarrow> [])
      in (cacheable, fm_size meta, (''content-type'', content_type) # etag))"

text \<open>The page of a directory listing.\<close>

definition WEB_HTML :: string where
  "WEB_HTML = join ''\<newline>'' [
     ''<!doctype html>'',
     ''<html lang=\"en\">'',
     ''    <head>'',
     ''        <meta charset=\"utf-8\" />'',
     ''        <style>'',
     ''            * {'',
     ''                margin: 0;'',
     ''                padding: 0;'',
     ''            }'',
     ''            table {'',
     ''                width: 100%;'',
     ''            }'',
     ''            a {'',
     ''                color: #333;'',
     ''            }'',
     ''            .size {'',
     ''                width: 180px;'',
     ''                text-align: left;'',
     ''            }'',
     ''            .lastModified {'',
     ''                width: 280px;'',
     ''                text-align: right;'',
     ''            }'',
     ''            th, td {'',
     ''                padding: 10px;'',
     ''            }'',
     ''            thead {'',
     ''                background-color: #f0f0f0;'',
     ''            }'',
     ''            tr:nth-child(even) {'',
     ''                background-color: #f0f0f0;'',
     ''            }'',
     ''        </style>'',
     ''        <script type=\"text/javascript\">'',
     ''        function updateAllLastModified() {'',
     ''            Array.from(document.getElementsByClassName(\"lastModified\")).forEach((item) => {'',
     ''                const date = new Date(item.innerHTML);'',
     ''                if (isFinite(date)) {'',
     ''                    item.innerHTML = date.toLocaleString();'',
     ''                }'',
     ''            });'',
     ''        }'',
     ''        document.addEventListener(\"DOMContentLoaded\", (event) => {'',
     ''          updateAllLastModified();'',
     ''        });'',
     ''        </script>'',
     ''    </head>'',
     ''    <body>'',
     ''        <table border=\"0\" cellpadding=\"0\" cellspacing=\"0\">'',
     ''            <thead>'',
     ''                <th class=\"name\">File Name</th>'',
     ''                <th class=\"size\">Size</th>'',
     ''                <th class=\"lastModified\">Last Modified</th>'',
     ''            </thread>'',
     ''            <tbody>'',
     ''                {{CONTENT}}'',
     ''            </tobdy>'',
     ''        </table>'',
     ''    </body>'',
     ''</html>'', []]"

definition entry_row :: "string \<Rightarrow> string \<Rightarrow> string \<Rightarrow> string \<Rightarrow> string" where
  "entry_row target name size_text last_modified = join ''\<newline>'' [
     ''<tr>'',
     ''                <td class=\"name\"><a href=\"'' @ target @ ''\">'' @ name @ ''</a></td>'',
     ''                <td class=\"size\">'' @ size_text @ ''</td>'',
     ''                <td class=\"lastModified\">'' @ last_modified @ ''</td>'',
     ''            </tr>'']"

fun autoindex_rows :: "('re, 's) plugin_lib \<Rightarrow> (string + string) list \<Rightarrow> string + string list" where
  "autoindex_rows lib [] = Inr []"
| "autoindex_rows lib (Inl e # es) = Inl e"
| "autoindex_rows lib (Inr f # es) =
     (let (is_file, size_text, last_modified) = pl_entry_texts lib f; name = file_name f;
          target = ''./'' @ last (split_on CHR ''/'' f) @ (if is_file then [] else ''/'')
      in if name = [] \<or> starts_with name ''.'' then autoindex_rows lib es
         else try_then (autoindex_rows lib es) (\<lambda>rows.
           Inr (entry_row target name (if is_file then size_text else []) (if is_file then last_modified else []) # rows)))"

definition get_autoindex_html :: "('re, 's) plugin_lib \<Rightarrow> string \<Rightarrow> string + string" where
  "get_autoindex_html lib path =
     try_then (pl_glob lib (path @ ''/*'')) (\<lambda>entries.
     try_then (autoindex_rows lib entries) (\<lambda>rows.
     Inr (replace_all WEB_HTML ''{{CONTENT}}'' (join ''\<newline>'' rows))))"

definition IGNORE_RESPONSE :: http_response where
  "IGNORE_RESPONSE = status_body 999 []"

text \<open>The file a request names.\<close>

definition directory_file :: "('re, 's) plugin_lib \<Rightarrow> directory \<Rightarrow> request_header \<Rightarrow> string" where
  "directory_file lib dr h =
     (let path = uri_path (req_uri h);
          filename = (if \<not> dr_autoindex dr \<and> length path \<le> 1 then dr_index dr else path)
      in path_push (dr_path dr) (drop 1 (unwrap_or filename (pl_url_decode lib filename))))"

definition file_headers :: "('re, 's) plugin_lib \<Rightarrow> directory \<Rightarrow> string \<Rightarrow> http_header list \<Rightarrow> http_header list" where
  "file_headers lib dr file hs =
     hs @ (if dr_download dr
           then (case hvalue_from_str (pl_http lib) (''attachment; filename=\"'' @ file_name file @ ''\"'') of
                   Inr v \<Rightarrow> [(''content-disposition'', v)] | Inl _ \<Rightarrow> [])
           else [])
        @ unwrap_or [] (dr_headers dr)"

text \<open>
  A small file is one \<open>read\<close> into a buffer of its size, which keeps zero bytes where the read was
  short; a large one is sent in chunks and answered by the response that is not sent.
\<close>

definition small_file :: "directory \<Rightarrow> http_header list \<Rightarrow> nat \<Rightarrow> (string + string) list \<Rightarrow> http_response" where
  "small_file dr hs sz reads =
     (case reads of
        Inl e # _ \<Rightarrow> bad_request e
      | Inr d # _ \<Rightarrow> (status_body 200 (d @ replicate (sz - length d) CHR 0x00))
          \<lparr>hr_max_age := dr_max_age dr, hr_cache_private := dr_cache_private dr, hr_headers := Some hs\<rparr>
      | [] \<Rightarrow> (status_body 200 (replicate sz CHR 0x00))
          \<lparr>hr_max_age := dr_max_age dr, hr_cache_private := dr_cache_private dr, hr_headers := Some hs\<rparr>)"

definition serve_file ::
  "('re, 's) plugin_lib \<Rightarrow> directory \<Rightarrow> string \<Rightarrow> conn \<times> ctx \<times> 's
     \<Rightarrow> (pingora_error + bool \<times> http_response option) \<times> conn \<times> ctx \<times> 's" where
  "serve_file lib dr file st =
     (case st of (cn, c, s) \<Rightarrow>
        case get_data lib file of
          Inl (missing, _) \<Rightarrow>
            answer (if missing then not_found ''Not Found'' else unknown_error ''Get file data fail'') st
        | Inr (meta, reads) \<Rightarrow>
            let (cacheable, sz, hs0) = get_cacheable_and_headers_from_meta lib file meta (dr_charset dr);
                hs = file_headers lib dr file hs0;
                chunk_size = max (unwrap_or 0 (dr_chunk_size dr)) 4096
            in if sz \<le> chunk_size then answer (small_file dr hs sz reads) st
               else let r = new_chunk_response\<lparr>ch_chunk_size := chunk_size,
                          ch_max_age := (if cacheable then dr_max_age dr else None),
                          ch_cache_private := dr_cache_private dr, ch_headers := Some hs\<rparr>;
                        (res, cn') = chunk_send (pl_http lib) r reads cn;
                        c' = c\<lparr>ctx_status := Some 200\<rparr>
                    in case res of
                         Inl e \<Rightarrow> (Inl e, cn', c', s)
                       | Inr _ \<Rightarrow> answer IGNORE_RESPONSE (cn', c', s))"

definition is_dir :: "('re, 's) plugin_lib \<Rightarrow> string \<Rightarrow> bool" where
  "is_dir lib file = (case pl_file_meta lib file of Inr meta \<Rightarrow> fm_is_dir meta | Inl _ \<Rightarrow> False)"

definition directory_handle_request :: "('re, 's) plugin_lib \<Rightarrow> directory \<Rightarrow> 's req_handler" where
  "directory_handle_request lib dr step st =
     (if step \<noteq> dr_step dr then skip st
      else let file = directory_file lib dr (conn_req (fst st)) in
        if dr_autoindex dr \<and> is_dir lib file then
          (case get_autoindex_html lib file of
             Inr page \<Rightarrow> answer (html page) st
           | Inl e \<Rightarrow> answer (bad_request e) st)
        else serve_file lib dr file st)"

definition new_directory :: "('re, 's) plugin_lib \<Rightarrow> plugin_conf \<Rightarrow> plugin_error + 's plugin" where
  "new_directory lib conf =
     try_then (directory_try_from lib conf) (\<lambda>dr.
     Inr (default_plugin\<lparr>hash_key := dr_hash_value dr, handle_request := directory_handle_request lib dr\<rparr>))"

end
