(* ===== verification/Plugin_Registry.thy ===== *)
theory Plugin_Registry
  imports Auth_Plugins Token_Plugins Access_Plugins Header_Plugins Content_Plugins
begin

text \<open>
  \<open>src/plugin/mod.rs\<close> and \<open>src/plugin/stats.rs\<close>: the factory with every plugin of the repository,
  the built-in plugins, and the initialisation and reload of the running plugins. A plugin the
  reload does not change is the running object, with its counters; the identity of the counter
  of a new limiter is its name. The admin plugin is built by the argument \<open>admin\<close> of the factory
  (\<open>Admin\<close> has the model of it).
\<close>

section \<open>Statistics\<close>

record stats =
  ss_path :: string
  ss_step :: plugin_step
  ss_hash_value :: string

definition stats_try_from :: "('re, 's) plugin_lib \<Rightarrow> plugin_conf \<Rightarrow> plugin_error + stats" where
  "stats_try_from lib conf =
     (let step = get_step_conf conf Request in
      if step \<noteq> Request \<and> step \<noteq> ProxyUpstream
      then Inl (PluginInvalid ''stats'' ''Stats plugin should be executed at request or proxy upstream step'')
      else Inr \<lparr>ss_path = get_str_conf conf ''path'', ss_step = step, ss_hash_value = get_hash_key lib conf\<rparr>)"

definition stats_handle_request :: "('re, 's) plugin_lib \<Rightarrow> stats \<Rightarrow> 's req_handler" where
  "stats_handle_request lib ss step st =
     (if step \<noteq> ss_step ss then skip st
      else case st of (cn, c, s) \<Rightarrow>
        if uri_path (req_uri (conn_req cn)) \<noteq> ss_path ss then skip st
        else case try_from_json (pl_stats_json lib c s) of
          Inr resp \<Rightarrow> answer resp st
        | Inl e \<Rightarrow> answer (unknown_error (pl_error_text lib e)) st)"

definition new_stats :: "('re, 's) plugin_lib \<Rightarrow> plugin_conf \<Rightarrow> plugin_error + 's plugin" where
  "new_stats lib conf =
     try_then (stats_try_from lib conf) (\<lambda>ss.
     Inr (default_plugin\<lparr>hash_key := ss_hash_value ss, handle_request := stats_handle_request lib ss\<rparr>))"

section \<open>The factory of the program\<close>

definition all_plugins :: "('re, 's) plugin_lib \<Rightarrow> 's creator \<Rightarrow> string \<Rightarrow> 's plugin_factory" where
  "all_plugins lib admin ident =
     fold (\<lambda>(category, creator). register category creator)
       [(''accept_encoding'', new_accept_encoding lib), (''basic_auth'', new_basic_auth lib),
        (''cache'', new_cache lib), (''combined_auth'', new_combined_auth lib),
        (''compression'', new_compression lib), (''cors'', new_cors lib), (''csrf'', new_csrf lib),
        (''directory'', new_directory lib), (''ip_restriction'', new_ip_restriction lib),
        (''jwt'', new_jwt lib), (''key_auth'', new_key_auth lib), (''limit'', new_limiter lib ident),
        (''mock'', new_mock lib), (''ping'', new_ping lib), (''redirect'', new_redirect lib),
        (''referer_restriction'', new_referer_restriction lib), (''request_id'', new_request_id lib),
        (''response_headers'', new_response_headers lib), (''sub_filter'', new_sub_filter lib),
        (''ua_restriction'', new_ua_restriction lib), (''stats'', new_stats lib), (''admin'', admin)] []"

section \<open>Built-in plugins\<close>

definition get_builtin_proxy_plugins :: "(string \<times> plugin_conf) list" where
  "get_builtin_proxy_plugins =
     [(''pingap:compression'',
       [(''step'', TString ''early_request''), (''category'', TString ''compression''), (''gzip_level'', TInteger 6),
        (''br_level'', TInteger 6), (''zstd_level'', TInteger 6),
        (''remark'', TString ''Compression for http, support zstd:3, br:6, gzip:6'')]),
      (''pingap:ping'',
       [(''category'', TString ''ping''), (''path'', TString ''/ping''), (''remark'', TString ''Ping pong'')]),
      (''pingap:stats'',
       [(''category'', TString ''stats''), (''path'', TString ''/stats''), (''remark'', TString ''Get stats of server'')]),
      (''pingap:requestId'',
       [(''category'', TString ''request_id''), (''remark'', TString ''Generate a request id for service'')]),
      (''pingap:acceptEncodingAdjustment'',
       [(''category'', TString ''accept_encoding''), (''encodings'', TString ''zstd, br, gzip''),
        (''only_one_encoding'', TBoolean True),
        (''remark'', TString ''Adjust the accept encoding order and choose one econding'')])]"

section \<open>Initialisation and reload\<close>

type_synonym 's plugins = "(string, 's plugin) hash_map"

definition get_plugin :: "'s plugins \<Rightarrow> string \<Rightarrow> 's plugin option" where
  "get_plugin ps name = map_of ps name"

datatype init_error = InitInvalid string string

definition init_error_text :: "init_error \<Rightarrow> string" where
  "init_error_text e = (case e of InitInvalid c m \<Rightarrow> ''Plugin '' @ c @ '' invalid, message: '' @ m)"

fun parse_plugins ::
  "(string \<Rightarrow> plugin_conf \<Rightarrow> plugin_error + 's plugin) \<Rightarrow> (string \<times> plugin_conf) list
     \<Rightarrow> 's plugins \<Rightarrow> init_error list \<Rightarrow> 's plugins \<times> init_error list" where
  "parse_plugins mk [] ps es = (ps, es)"
| "parse_plugins mk ((name, conf) # rest) ps es =
     (let category = get_str_conf conf ''category'' in
      if category = []
      then parse_plugins mk rest ps (es @ [InitInvalid [] (''category of '' @ name @ '' can not be empty'')])
      else case mk name conf of
        Inr p \<Rightarrow> parse_plugins mk rest (map_insert name p ps) es
      | Inl e \<Rightarrow> parse_plugins mk rest ps
          (es @ [InitInvalid category (''create plugin '' @ name @ '' failed, '' @ plugin_error_text e)]))"

text \<open>A configured plugin is kept when the running one of its name has the key of its configuration.\<close>

definition plugin_unchanged :: "('re, 's) plugin_lib \<Rightarrow> 's plugins \<Rightarrow> string \<times> plugin_conf \<Rightarrow> bool" where
  "plugin_unchanged lib old = (\<lambda>(name, conf).
     case get_plugin old name of Some p \<Rightarrow> hash_key p = get_hash_key lib conf | None \<Rightarrow> False)"

text \<open>
  \<open>admin_conf\<close> is the admin plugin of the command line, an error when its address is malformed.
  The result is the names of the plugins created or reloaded, the error text, and the plugins
  that run from now on.
\<close>

definition try_init_plugins ::
  "('re, 's) plugin_lib \<Rightarrow> (string \<Rightarrow> plugin_conf \<Rightarrow> plugin_error + 's plugin)
     \<Rightarrow> (init_error + string \<times> plugin_conf) option \<Rightarrow> (string, plugin_conf) hash_map \<Rightarrow> 's plugins
     \<Rightarrow> string list \<times> string \<times> 's plugins" where
  "try_init_plugins lib mk admin_conf confs old =
     (let admin_confs = (case admin_conf of Some (Inr nc) \<Rightarrow> [nc] | _ \<Rightarrow> []);
          admin_errors = (case admin_conf of Some (Inl e) \<Rightarrow> [e] | _ \<Rightarrow> []);
          configs = confs @ admin_confs @ get_builtin_proxy_plugins;
          changed = filter (\<lambda>nc. \<not> plugin_unchanged lib old nc) configs;
          kept = fold (\<lambda>(name, _) ps. case get_plugin old name of Some p \<Rightarrow> map_insert name p ps | None \<Rightarrow> ps)
                   (filter (plugin_unchanged lib old) configs) [];
          (new, new_errors) = parse_plugins mk changed [] [];
          plugins = fold (\<lambda>(name, p). map_insert name p) new kept;
          errors = admin_errors @ new_errors
      in (map fst changed, join '';'' (map init_error_text errors), plugins))"

definition make_plugin :: "('re, 's) plugin_lib \<Rightarrow> 's creator \<Rightarrow> string \<Rightarrow> plugin_conf \<Rightarrow> plugin_error + 's plugin" where
  "make_plugin lib admin name conf = create (all_plugins lib admin name) conf"

section \<open>Plugins keep the route\<close>

text \<open>No handler of a plugin changes the location of the request.\<close>

definition keeps_location :: "'s plugin \<Rightarrow> bool" where
  "keeps_location p \<longleftrightarrow>
     (\<forall>step cn c s. ctx_location (fst (snd (snd (handle_request p step (cn, c, s))))) = ctx_location c) \<and>
     (\<forall>step cn c s h. ctx_location (fst (snd (snd (handle_response p step (cn, c, s, h))))) = ctx_location c) \<and>
     (\<forall>step cn c s h. ctx_location (fst (snd (snd (handle_upstream_response p step (cn, c, s, h))))) = ctx_location c)"

lemma keeps_location_route:
  "(\<And>n p. sl_plugin lib n = Some p \<Longrightarrow> keeps_location p) \<Longrightarrow> plugins_keep_route lib"
  unfolding plugins_keep_route_def keeps_location_def by blast

lemma default_keeps [simp]: "keeps_location default_plugin"
  by (simp add: keeps_location_def default_plugin_def default_handle_request_def default_handle_response_def)

lemma keeps_request:
  "(\<And>step cn c s. ctx_location (fst (snd (snd (h step (cn, c, s))))) = ctx_location c) \<Longrightarrow>
     keeps_location (default_plugin\<lparr>hash_key := k, handle_request := h\<rparr>)"
  by (simp add: keeps_location_def default_plugin_def default_handle_response_def)

lemma keeps_response:
  "(\<And>step cn c s r. ctx_location (fst (snd (snd (h step (cn, c, s, r))))) = ctx_location c) \<Longrightarrow>
     keeps_location (default_plugin\<lparr>hash_key := k, handle_response := h\<rparr>)"
  by (simp add: keeps_location_def default_plugin_def default_handle_response_def default_handle_request_def)

lemma keeps_both:
  "(\<And>step cn c s. ctx_location (fst (snd (snd (f step (cn, c, s))))) = ctx_location c) \<Longrightarrow>
   (\<And>step cn c s r. ctx_location (fst (snd (snd (h step (cn, c, s, r))))) = ctx_location c) \<Longrightarrow>
     keeps_location (default_plugin\<lparr>hash_key := k, handle_request := f, handle_response := h\<rparr>)"
  by (simp add: keeps_location_def default_plugin_def default_handle_response_def)

lemma guard_plugins_keep:
  "new_key_auth lib conf = Inr p \<Longrightarrow> keeps_location p"
  "new_basic_auth lib conf = Inr p \<Longrightarrow> keeps_location p"
  "new_combined_auth lib conf = Inr p \<Longrightarrow> keeps_location p"
  "new_csrf lib conf = Inr p \<Longrightarrow> keeps_location p"
  "new_ip_restriction lib conf = Inr p \<Longrightarrow> keeps_location p"
  "new_ua_restriction lib conf = Inr p \<Longrightarrow> keeps_location p"
  "new_referer_restriction lib conf = Inr p \<Longrightarrow> keeps_location p"
  "new_limiter lib ident conf = Inr p \<Longrightarrow> keeps_location p"
  by (auto simp: new_key_auth_def new_basic_auth_def new_combined_auth_def new_csrf_def new_ip_restriction_def
      new_ua_restriction_def new_referer_restriction_def new_limiter_def
      intro!: keeps_request key_guard.route basic_guard.route combined_guard.route csrf_guard.route
        ip_guard.route ua_guard.route referer_guard.route limit_guard.route)

lemma jwt_keeps: "new_jwt lib conf = Inr p \<Longrightarrow> keeps_location p"
  by (auto simp: new_jwt_def jwt_handle_response_def Let_def intro!: keeps_both jwt_guard.route)

lemma header_plugins_keep:
  "new_cors lib conf = Inr p \<Longrightarrow> keeps_location p"
  "new_redirect lib conf = Inr p \<Longrightarrow> keeps_location p"
  "new_request_id lib conf = Inr p \<Longrightarrow> keeps_location p"
  "new_response_headers lib conf = Inr p \<Longrightarrow> keeps_location p"
  "new_accept_encoding lib conf = Inr p \<Longrightarrow> keeps_location p"
  "new_compression lib conf = Inr p \<Longrightarrow> keeps_location p"
proof -
  show "keeps_location p" if "new_cors lib conf = Inr p"
    using that by (auto simp: new_cors_def cors_handle_request_def cors_handle_response_def handler_results
        intro!: keeps_both split: sum.split)
  show "keeps_location p" if "new_redirect lib conf = Inr p"
    using that by (auto simp: new_redirect_def redirect_handle_request_def handler_results Let_def intro!: keeps_request)
  show "keeps_location p" if "new_request_id lib conf = Inr p"
    using that by (auto simp: new_request_id_def request_id_handle_request_def handler_results Let_def
        intro!: keeps_request split: option.split)
  show "keeps_location p" if "new_response_headers lib conf = Inr p"
    using that by (auto simp: new_response_headers_def response_headers_handle_response_def Let_def intro!: keeps_response)
  show "keeps_location p" if "new_accept_encoding lib conf = Inr p"
    using that by (auto simp: new_accept_encoding_def accept_encoding_handle_request_def handler_results Let_def
        intro!: keeps_request split: option.split sum.split)
  show "keeps_location p" if "new_compression lib conf = Inr p"
    using that by (auto simp: new_compression_def compression_handle_request_def handler_results Let_def
        intro!: keeps_request split: option.split)
qed

lemma cache_purge_location:
  "ctx_location (fst (snd (snd (cache_purge lib ch (cn, c, s))))) = ctx_location c"
  by (auto simp: cache_purge_def handler_results split: sum.split prod.split)

lemma cache_key_ctx_location [simp]: "ctx_location (cache_key_ctx lib ch s c) = ctx_location c"
  by (simp add: cache_key_ctx_def Let_def)

lemma cache_start_location [simp]: "ctx_location (fst (cache_start lib ch (c, s))) = ctx_location c"
  by (auto simp: cache_start_def Let_def split: option.split)

lemma cache_handle_location:
  "ctx_location (fst (snd (snd (cache_handle_request lib ch step (cn, c, s))))) = ctx_location c"
  by (auto simp: cache_handle_request_def handler_results cache_purge_location Let_def
      split_beta)

lemma serve_file_location: "ctx_location (fst (snd (snd (serve_file lib dr f (cn, c, s))))) = ctx_location c"
  by (auto simp: serve_file_def handler_results Let_def split: sum.split prod.split)

lemma content_plugins_keep:
  "new_mock lib conf = Inr p \<Longrightarrow> keeps_location p"
  "new_ping lib conf = Inr p \<Longrightarrow> keeps_location p"
  "new_sub_filter lib conf = Inr p \<Longrightarrow> keeps_location p"
  "new_cache lib conf = Inr p \<Longrightarrow> keeps_location p"
  "new_directory lib conf = Inr p \<Longrightarrow> keeps_location p"
  "new_stats lib conf = Inr p \<Longrightarrow> keeps_location p"
proof -
  show "keeps_location p" if "new_mock lib conf = Inr p"
    using that by (auto simp: new_mock_def mock_handle_request_def handler_results intro!: keeps_request)
  show "keeps_location p" if "new_ping lib conf = Inr p"
    using that by (auto simp: new_ping_def ping_handle_request_def handler_results intro!: keeps_request)
  show "keeps_location p" if "new_sub_filter lib conf = Inr p"
    using that by (auto simp: new_sub_filter_def sub_filter_handle_response_def intro!: keeps_response)
  show "keeps_location p" if "new_cache lib conf = Inr p"
    using that by (auto simp: new_cache_def intro!: keeps_request cache_handle_location)
  show "keeps_location p" if "new_directory lib conf = Inr p"
    using that by (auto simp: new_directory_def directory_handle_request_def handler_results Let_def
        serve_file_location intro!: keeps_request split: sum.split)
  show "keeps_location p" if "new_stats lib conf = Inr p"
    using that by (auto simp: new_stats_def stats_handle_request_def handler_results intro!: keeps_request split: sum.split)
qed

lemmas built_keeps = guard_plugins_keep jwt_keeps header_plugins_keep content_plugins_keep

lemma factory_keeps:
  assumes "make_plugin lib admin name conf = Inr p" "\<And>q. admin conf = Inr q \<Longrightarrow> keeps_location q"
  shows "keeps_location p"
proof -
  let ?c = "get_str_conf conf ''category''"
  from assms(1) obtain f where f: "map_of (all_plugins lib admin name) ?c = Some f" and p: "f conf = Inr p"
    by (auto simp: make_plugin_def create_def Let_def split: if_splits option.splits)
  show ?thesis using f p
    by (auto simp: all_plugins_def register_def intro: built_keeps assms(2) split: if_splits)
qed

end
