(* ===== verification/Conf_Storage.thy ===== *)
theory Conf_Storage
  imports Util Plugin_Conf
begin

text \<open>
  The storage of configurations (\<open>pingap-config/src/lib.rs\<close>, \<open>file.rs\<close>, \<open>etcd.rs\<close>) and the parts of
  \<open>common.rs\<close> that print, hash and compare configurations. A backend is a file tree or an etcd
  server: its state is \<open>'f\<close>, and the calls on it are fields of \<open>store_lib\<close>, as are the TOML
  printers and the line differ. \<open>OnceCell\<close> holds the one backend of the process.
\<close>

section \<open>Printing, hashing and comparing\<close>

record store_texts =
  tx_basic_table :: "basic_conf \<Rightarrow> config_error + (string \<times> toml) list"
  tx_pretty :: "(string \<times> toml) list \<Rightarrow> string + string"
  tx_table :: "string \<Rightarrow> string + (string \<times> toml) list"
  tx_server :: "server_conf \<Rightarrow> string"
  tx_location :: "location_conf \<Rightarrow> string"
  tx_upstream :: "upstream_conf \<Rightarrow> string"
  tx_plugin :: "plugin_conf \<Rightarrow> string"
  tx_certificate :: "certificate_conf \<Rightarrow> string"
  tx_storage :: "storage_conf \<Rightarrow> string"
  tx_conf :: "pingap_conf \<Rightarrow> string"
  tx_crc32 :: "string \<Rightarrow> nat"
  tx_diff_lines :: "string \<Rightarrow> string \<Rightarrow> string list"

definition toml_sections :: "toml_config \<Rightarrow> string \<Rightarrow> (string \<times> (string \<times> toml) list) option" where
  "toml_sections data category =
     (if category = CATEGORY_SERVER then Some (''servers'', unwrap_or [] (tc_servers data))
      else if category = CATEGORY_LOCATION then Some (''locations'', unwrap_or [] (tc_locations data))
      else if category = CATEGORY_UPSTREAM then Some (''upstreams'', unwrap_or [] (tc_upstreams data))
      else if category = CATEGORY_PLUGIN then Some (''plugins'', unwrap_or [] (tc_plugins data))
      else if category = CATEGORY_CERTIFICATE then Some (''certificates'', unwrap_or [] (tc_certificates data))
      else if category = CATEGORY_STORAGE then Some (''storages'', unwrap_or [] (tc_storages data))
      else None)"

definition toml_path :: "string \<Rightarrow> string option \<Rightarrow> string" where
  "toml_path key name =
     (let n = unwrap_or [] name in
      if key = CATEGORY_BASIC \<or> n = [] then ''/'' @ key @ ''.toml'' else ''/'' @ key @ ''/'' @ n @ ''.toml'')"

definition filter_values :: "string option \<Rightarrow> (string \<times> toml) list \<Rightarrow> (string \<times> toml) list" where
  "filter_values name values =
     (let n = unwrap_or [] name in if n = [] then values else filter (\<lambda>(k, _). k = n) values)"

definition get_toml ::
  "config_lib \<Rightarrow> store_texts \<Rightarrow> pingap_conf \<Rightarrow> string \<Rightarrow> string option \<Rightarrow> config_error + string \<times> string" where
  "get_toml lib tx conf category name =
     try_then (map_err ConfigSer (cl_ser_conf lib conf)) (\<lambda>text.
     try_then (map_err ConfigDe (cl_toml_config lib text)) (\<lambda>data.
     try_then (case toml_sections data category of
         Some (key, values) \<Rightarrow> Inr (key, filter_values name values)
       | None \<Rightarrow> try_then (tx_basic_table tx (unwrap_or default_basic (tc_basic data))) (\<lambda>m. Inr (''basic'', m)))
       (\<lambda>(key, values).
     if values = [] then Inr (toml_path key name, [])
     else try_then (map_err ConfigSer (tx_pretty tx [(key, TTable values)])) (\<lambda>out.
       Inr (toml_path key name, out)))))"

record description =
  de_category :: string
  de_name :: string
  de_data :: string

definition crc_text :: "store_texts \<Rightarrow> string \<Rightarrow> string" where
  "crc_text tx s = ''crc32:'' @ show_hex_upper (tx_crc32 tx s)"

definition describe :: "string \<Rightarrow> ('a \<Rightarrow> string) \<Rightarrow> (string, 'a) hash_map \<Rightarrow> description list" where
  "describe category text m =
     map (\<lambda>(name, v). \<lparr>de_category = category, de_name = category @ '':'' @ name, de_data = text v\<rparr>) m"

definition hide_certificate :: "store_texts \<Rightarrow> certificate_conf \<Rightarrow> certificate_conf" where
  "hide_certificate tx c =
     c\<lparr>cc_tls_cert := map_option (crc_text tx) (cc_tls_cert c), cc_tls_key := map_option (crc_text tx) (cc_tls_key c)\<rparr>"

definition hide_storage :: "store_texts \<Rightarrow> storage_conf \<Rightarrow> storage_conf" where
  "hide_storage tx s = s\<lparr>st_secret := map_option (crc_text tx) (st_secret s)\<rparr>"

definition descriptions :: "store_texts \<Rightarrow> pingap_conf \<Rightarrow> description list" where
  "descriptions tx c = sort_key de_name
     (describe CATEGORY_SERVER (tx_server tx) (servers c)
      @ describe CATEGORY_LOCATION (tx_location tx) (locations c)
      @ describe CATEGORY_UPSTREAM (tx_upstream tx) (upstreams c)
      @ describe CATEGORY_PLUGIN (tx_plugin tx) (plugins c)
      @ describe CATEGORY_CERTIFICATE (\<lambda>d. tx_certificate tx (hide_certificate tx d)) (certificates c)
      @ describe CATEGORY_STORAGE (\<lambda>d. tx_storage tx (hide_storage tx d)) (storages c)
      @ [\<lparr>de_category = CATEGORY_BASIC, de_name = CATEGORY_BASIC,
          de_data = tx_conf tx (default_conf\<lparr>basic := basic c\<rparr>)\<rparr>])"

definition conf_hash :: "store_texts \<Rightarrow> pingap_conf \<Rightarrow> string" where
  "conf_hash tx c =
     show_hex_upper (tx_crc32 tx (join ''\<newline>'' (concat (map (\<lambda>d. [de_category d, de_name d, de_data d]) (descriptions tx c)))))"

definition missing_in :: "description list \<Rightarrow> description list \<Rightarrow> description list" where
  "missing_in other ds = filter (\<lambda>d. de_name d \<notin> set (map de_name other)) ds"

definition diff_section :: "string \<Rightarrow> description list \<Rightarrow> string list" where
  "diff_section sign ds = map (\<lambda>d. sign @ de_name d) ds @ (if ds \<noteq> [] then [[]] else [])"

definition diff_entry :: "store_texts \<Rightarrow> description \<times> description \<Rightarrow> string list \<times> string list" where
  "diff_entry tx = (\<lambda>(a, b).
     let ls = tx_diff_lines tx (de_data a) (de_data b) in
     if ls \<noteq> [] then ([de_category a], de_name a # ls @ [''\<newline>'']) else ([], []))"

definition conf_diff :: "store_texts \<Rightarrow> pingap_conf \<Rightarrow> pingap_conf \<Rightarrow> string list \<times> string list" where
  "conf_diff tx cur other =
     (let ds = descriptions tx cur; es = descriptions tx other;
          removed = missing_in es ds; added = missing_in ds es;
          pairs = concat (map (\<lambda>d. map (Pair d) (filter (\<lambda>e. de_name d = de_name e) es)) ds);
          entries = map (diff_entry tx) pairs
      in (map de_category removed @ map de_category added @ concat (map fst entries),
          diff_section ''--'' removed @ diff_section ''++'' added @ concat (map snd entries)))"

section \<open>Backends\<close>

record 'f store_lib =
  sl_conf :: config_lib
  sl_texts :: store_texts
  sl_util :: util_lib
  sl_query_map :: "string \<Rightarrow> (string, string) hash_map"
  sl_parse_duration :: "string \<Rightarrow> string + duration"
  fs_exists :: "'f \<Rightarrow> string \<Rightarrow> bool"
  fs_is_dir :: "'f \<Rightarrow> string \<Rightarrow> bool"
  fs_is_file :: "'f \<Rightarrow> string \<Rightarrow> bool"
  fs_create_dir_all :: "string \<Rightarrow> 'f \<Rightarrow> (string + unit) \<times> 'f"
  fs_read :: "'f \<Rightarrow> string \<Rightarrow> string + string"
  fs_write :: "string \<Rightarrow> string \<Rightarrow> 'f \<Rightarrow> (string + unit) \<times> 'f"
  fs_remove_file :: "string \<Rightarrow> 'f \<Rightarrow> (string + unit) \<times> 'f"
  fs_glob :: "'f \<Rightarrow> string \<Rightarrow> string + (string + string) list"
  et_connect :: "string list \<Rightarrow> 'f \<Rightarrow> string + unit"
  et_get_prefix :: "'f \<Rightarrow> string \<Rightarrow> string + string list"
  et_get :: "'f \<Rightarrow> string \<Rightarrow> string + string list"
  et_put :: "string \<Rightarrow> string \<Rightarrow> 'f \<Rightarrow> (string + unit) \<times> 'f"
  et_delete :: "string \<Rightarrow> 'f \<Rightarrow> (string + unit) \<times> 'f"

type_synonym ('f, 'a) store_op = "('f, config_error, 'a) action"

definition io :: "string \<Rightarrow> ('f \<Rightarrow> (string + 'a) \<times> 'f) \<Rightarrow> ('f, 'a) store_op" where
  "io file m f = (let (r, f') = m f in (map_err (\<lambda>e. ConfigIo e file) r, f'))"

definition etcd :: "('f \<Rightarrow> (string + 'a) \<times> 'f) \<Rightarrow> ('f, 'a) store_op" where
  "etcd m f = (let (r, f') = m f in (map_err ConfigEtcd r, f'))"

definition pure_op :: "config_error + 'a \<Rightarrow> ('f, 'a) store_op" where
  "pure_op r f = (r, f)"

record load_config_options =
  lo_replace_include :: bool
  lo_admin :: bool

record file_storage =
  fst_path :: string
  fst_separation :: bool

definition new_file_storage :: "'f store_lib \<Rightarrow> string \<Rightarrow> config_error + file_storage" where
  "new_file_storage lib path =
     (let (p, separation) = (case split_once CHR ''?'' path of
            Some (p, query) \<Rightarrow> (p, map_of (sl_query_map lib query) ''separation'' \<noteq> None)
          | None \<Rightarrow> (path, False));
          filepath = resolve_path (sl_util lib) p
      in if filepath = [] then Inl (ConfigInvalid ''Config path is empty'')
         else Inr \<lparr>fst_path = filepath, fst_separation = separation\<rparr>)"

fun read_files :: "'f store_lib \<Rightarrow> 'f \<Rightarrow> (string + string) list \<Rightarrow> config_error + string" where
  "read_files lib f [] = Inr []"
| "read_files lib f (Inl e # es) = Inl (ConfigGlob e)"
| "read_files lib f (Inr p # es) =
     try_then (map_err (\<lambda>e. ConfigIo e p) (fs_read lib f p)) (\<lambda>buf.
     try_then (read_files lib f es) (\<lambda>rest. Inr (buf @ ''\<newline>'' @ rest)))"

definition read_all_toml_files :: "'f store_lib \<Rightarrow> string \<Rightarrow> 'f \<Rightarrow> config_error + string" where
  "read_all_toml_files lib dir f =
     try_then (map_err (\<lambda>e. ConfigPattern e dir) (fs_glob lib f (dir @ ''/**/*.toml''))) (read_files lib f)"

definition new_conf :: "config_lib \<Rightarrow> string \<Rightarrow> bool \<Rightarrow> config_error + pingap_conf" where
  "new_conf lib data replace_includes = convert_pingap_config lib data replace_includes"

definition file_load_config :: "'f store_lib \<Rightarrow> file_storage \<Rightarrow> load_config_options \<Rightarrow> ('f, pingap_conf) store_op" where
  "file_load_config lib st opts f =
     (let path = fst_path st in
      if lo_admin opts \<and> \<not> fs_exists lib f path then (Inr default_conf, f)
      else act_bind
        (if \<not> ends_with path ''.toml'' \<and> \<not> fs_exists lib f path then io path (fs_create_dir_all lib path) else act_return ())
        (\<lambda>_ f. pure_op (try_then
            (if fs_is_dir lib f path then read_all_toml_files lib path f
             else map_err (\<lambda>e. ConfigIo e path) (fs_read lib f path))
            (\<lambda>data. new_conf (sl_conf lib) data (lo_replace_include opts))) f) f)"

text \<open>\<open>Path::extension\<close> and \<open>Path::parent\<close> of the paths used here.\<close>

definition has_toml_extension :: "string \<Rightarrow> bool" where
  "has_toml_extension path =
     (let name = last (split_on CHR ''/'' path) in ends_with name ''.toml'' \<and> name \<noteq> ''.toml'')"

definition path_parent :: "string \<Rightarrow> string" where
  "path_parent path = join ''/'' (butlast (split_on CHR ''/'' path))"

definition single_file_text :: "'f store_lib \<Rightarrow> pingap_conf \<Rightarrow> config_error + string" where
  "single_file_text lib conf =
     try_then (map_err ConfigSer (cl_ser_conf (sl_conf lib) conf)) (\<lambda>text.
     try_then (map_err ConfigDe (tx_table (sl_texts lib) text)) (\<lambda>values.
     map_err ConfigSer (tx_pretty (sl_texts lib) (filter (\<lambda>(_, v). v \<noteq> TTable []) values))))"

definition section_toml ::
  "'f store_lib \<Rightarrow> bool \<Rightarrow> pingap_conf \<Rightarrow> string \<Rightarrow> string option \<Rightarrow> config_error + string \<times> string" where
  "section_toml lib separation conf category name =
     get_toml (sl_conf lib) (sl_texts lib) conf category (if separation then name else None)"

definition file_save_config ::
  "'f store_lib \<Rightarrow> file_storage \<Rightarrow> pingap_conf \<Rightarrow> string \<Rightarrow> string option \<Rightarrow> ('f, unit) store_op" where
  "file_save_config lib st conf category name =
     (let path = fst_path st in
      act_bind (pure_op (validate_conf (sl_conf lib) conf)) (\<lambda>_.
      act_bind (\<lambda>f. if \<not> fs_exists lib f path \<and> has_toml_extension path then io path (fs_write lib path []) f
                     else (Inr (), f)) (\<lambda>_ f.
      if fs_is_file lib f path then
        act_bind (pure_op (single_file_text lib conf)) (\<lambda>text. io path (fs_write lib path text)) f
      else
        act_bind (pure_op (section_toml lib (fst_separation st) conf category name)) (\<lambda>(key, text).
        let file = path_join path key in
        act_bind (io file (fs_create_dir_all lib (path_parent file))) (\<lambda>_ f.
        if text = [] then
          (if fs_exists lib f file then io file (fs_remove_file lib file) f else (Inr (), f))
        else io file (fs_write lib file text) f)) f)))"

definition file_save :: "'f store_lib \<Rightarrow> file_storage \<Rightarrow> string \<Rightarrow> string \<Rightarrow> ('f, unit) store_op" where
  "file_save lib st key data =
     (let file = path_join (fst_path st) key in
      act_bind (io file (fs_create_dir_all lib (path_parent file))) (\<lambda>_. io file (fs_write lib file data)))"

definition file_load :: "'f store_lib \<Rightarrow> file_storage \<Rightarrow> string \<Rightarrow> ('f, string) store_op" where
  "file_load lib st key f =
     (let file = path_join (fst_path st) key in (map_err (\<lambda>e. ConfigIo e file) (fs_read lib f file), f))"

definition ETCD_PROTOCOL :: string where "ETCD_PROTOCOL = ''etcd://''"

record etcd_storage =
  es_path :: string
  es_addrs :: "string list"
  es_timeout :: "duration option"
  es_connect_timeout :: "duration option"
  es_user :: "(string \<times> string) option"
  es_separation :: bool

definition duration_of :: "'f store_lib \<Rightarrow> string option \<Rightarrow> duration option" where
  "duration_of lib v =
     (case v of None \<Rightarrow> None
      | Some text \<Rightarrow> (case sl_parse_duration lib text of Inr d \<Rightarrow> Some d | Inl _ \<Rightarrow> None))"

definition new_etcd_storage :: "'f store_lib \<Rightarrow> string \<Rightarrow> config_error + etcd_storage" where
  "new_etcd_storage lib text =
     (let (hs, path, query) = (case split_once CHR ''/'' (drop (length ETCD_PROTOCOL) text) of
            None \<Rightarrow> ([], [], [])
          | Some (hs, rest) \<Rightarrow>
              (let arr = split_on CHR ''?'' rest in
               (hs, ''/'' @ hd arr, if length arr = 2 then arr ! 1 else [])));
          m = sl_query_map lib query;
          user = unwrap_or [] (map_of m ''user''); password = unwrap_or [] (map_of m ''password'')
      in Inr \<lparr>es_path = path, es_addrs = split_on CHR '','' hs,
           es_timeout = duration_of lib (map_of m ''timeout''),
           es_connect_timeout = duration_of lib (map_of m ''connect_timeout''),
           es_user = (if user \<noteq> [] \<and> password \<noteq> [] then Some (user, password) else None),
           es_separation = (map_of m ''separation'' \<noteq> None)\<rparr>)"

definition connect :: "'f store_lib \<Rightarrow> etcd_storage \<Rightarrow> ('f, unit) store_op" where
  "connect lib es = etcd (\<lambda>f. (et_connect lib (es_addrs es) f, f))"

definition etcd_load_config :: "'f store_lib \<Rightarrow> etcd_storage \<Rightarrow> load_config_options \<Rightarrow> ('f, pingap_conf) store_op" where
  "etcd_load_config lib es opts =
     act_bind (connect lib es) (\<lambda>_.
     act_bind (etcd (\<lambda>f. (et_get_prefix lib f (es_path es), f))) (\<lambda>kvs.
     pure_op (new_conf (sl_conf lib) (concat (map (\<lambda>v. v @ ''\<newline>'') kvs)) (lo_replace_include opts))))"

definition etcd_save_config ::
  "'f store_lib \<Rightarrow> etcd_storage \<Rightarrow> pingap_conf \<Rightarrow> string \<Rightarrow> string option \<Rightarrow> ('f, unit) store_op" where
  "etcd_save_config lib es conf category name =
     act_bind (pure_op (validate_conf (sl_conf lib) conf)) (\<lambda>_.
     act_bind (pure_op (section_toml lib (es_separation es) conf category name)) (\<lambda>(path, text).
     let key = path_join (es_path es) path in
     act_bind (connect lib es) (\<lambda>_.
     if text = [] then etcd (et_delete lib key) else etcd (et_put lib key text))))"

definition etcd_save :: "'f store_lib \<Rightarrow> etcd_storage \<Rightarrow> string \<Rightarrow> string \<Rightarrow> ('f, unit) store_op" where
  "etcd_save lib es key data =
     act_bind (connect lib es) (\<lambda>_. etcd (et_put lib (path_join (es_path es) key) data))"

definition etcd_load :: "'f store_lib \<Rightarrow> etcd_storage \<Rightarrow> string \<Rightarrow> ('f, string) store_op" where
  "etcd_load lib es key =
     act_bind (connect lib es) (\<lambda>_.
     act_bind (etcd (\<lambda>f. (et_get lib f (path_join (es_path es) key), f))) (\<lambda>arr.
     act_return (case arr of [] \<Rightarrow> [] | v # _ \<Rightarrow> v)))"

section \<open>The storage of the process\<close>

datatype config_storage = FileStore file_storage | EtcdStore etcd_storage

definition new_config_storage :: "'f store_lib \<Rightarrow> string \<Rightarrow> config_error + config_storage" where
  "new_config_storage lib path =
     (if starts_with path ETCD_PROTOCOL
      then try_then (new_etcd_storage lib path) (\<lambda>s. Inr (EtcdStore s))
      else try_then (new_file_storage lib path) (\<lambda>s. Inr (FileStore s)))"

definition try_init_config_storage ::
  "'f store_lib \<Rightarrow> string \<Rightarrow> config_storage option \<Rightarrow> (config_error + config_storage) \<times> config_storage option" where
  "try_init_config_storage lib path cell =
     (case cell of
        Some s \<Rightarrow> (Inr s, cell)
      | None \<Rightarrow> (case new_config_storage lib path of Inl e \<Rightarrow> (Inl e, None) | Inr s \<Rightarrow> (Inr s, Some s)))"

definition store_load_config :: "'f store_lib \<Rightarrow> config_storage \<Rightarrow> load_config_options \<Rightarrow> ('f, pingap_conf) store_op" where
  "store_load_config lib st opts =
     (case st of FileStore s \<Rightarrow> file_load_config lib s opts | EtcdStore s \<Rightarrow> etcd_load_config lib s opts)"

definition store_save_config ::
  "'f store_lib \<Rightarrow> config_storage \<Rightarrow> pingap_conf \<Rightarrow> string \<Rightarrow> string option \<Rightarrow> ('f, unit) store_op" where
  "store_save_config lib st conf category name =
     (case st of FileStore s \<Rightarrow> file_save_config lib s conf category name
      | EtcdStore s \<Rightarrow> etcd_save_config lib s conf category name)"

definition store_support_observer :: "config_storage \<Rightarrow> bool" where
  "store_support_observer st = (case st of FileStore _ \<Rightarrow> False | EtcdStore _ \<Rightarrow> True)"

definition support_observer :: "config_storage option \<Rightarrow> bool" where
  "support_observer cell = (case cell of Some s \<Rightarrow> store_support_observer s | None \<Rightarrow> False)"

definition load_config :: "'f store_lib \<Rightarrow> config_storage option \<Rightarrow> load_config_options \<Rightarrow> ('f, pingap_conf) store_op" where
  "load_config lib cell opts =
     (case cell of None \<Rightarrow> act_fail (ConfigInvalid ''storage is not inited'') | Some s \<Rightarrow> store_load_config lib s opts)"

definition save_config ::
  "'f store_lib \<Rightarrow> config_storage option \<Rightarrow> pingap_conf \<Rightarrow> string \<Rightarrow> string option \<Rightarrow> ('f, unit) store_op" where
  "save_config lib cell conf category name =
     (case cell of None \<Rightarrow> act_fail (ConfigInvalid ''storage is not inited'')
      | Some s \<Rightarrow> store_save_config lib s conf category name)"

fun save_each :: "'f store_lib \<Rightarrow> config_storage \<Rightarrow> pingap_conf \<Rightarrow> (string \<times> string option) list \<Rightarrow> ('f, unit) store_op" where
  "save_each lib st conf [] = act_return ()"
| "save_each lib st conf ((category, name) # rest) =
     act_bind (store_save_config lib st conf category name) (\<lambda>_. save_each lib st conf rest)"

definition sync_entries :: "pingap_conf \<Rightarrow> (string \<times> string option) list" where
  "sync_entries conf =
     (CATEGORY_BASIC, None)
     # map (\<lambda>k. (CATEGORY_SERVER, Some k)) (keys_of (servers conf))
     @ map (\<lambda>k. (CATEGORY_LOCATION, Some k)) (keys_of (locations conf))
     @ map (\<lambda>k. (CATEGORY_UPSTREAM, Some k)) (keys_of (upstreams conf))
     @ map (\<lambda>k. (CATEGORY_PLUGIN, Some k)) (keys_of (plugins conf))
     @ map (\<lambda>k. (CATEGORY_CERTIFICATE, Some k)) (keys_of (certificates conf))
     @ map (\<lambda>k. (CATEGORY_STORAGE, Some k)) (keys_of (storages conf))"

definition sync_config :: "'f store_lib \<Rightarrow> config_storage \<Rightarrow> pingap_conf \<Rightarrow> ('f, unit) store_op" where
  "sync_config lib st conf = save_each lib st conf (sync_entries conf)"

definition sync_to_path :: "'f store_lib \<Rightarrow> pingap_conf \<Rightarrow> string \<Rightarrow> ('f, unit) store_op" where
  "sync_to_path lib current path =
     act_bind (pure_op (new_config_storage lib path)) (\<lambda>st. sync_config lib st current)"

section \<open>Comparing configurations\<close>

text \<open>
  What the comparison relies on: the differ tells different texts apart, and the printers tell
  apart the entries of the two configurations.
\<close>

definition differ_ok :: "store_texts \<Rightarrow> bool" where
  "differ_ok tx \<longleftrightarrow> (\<forall>a b. tx_diff_lines tx a b = [] \<longleftrightarrow> a = b)"

definition entries_of :: "(string, 'v) hash_map \<Rightarrow> (string, 'v) hash_map \<Rightarrow> 'v set" where
  "entries_of a b = snd ` (set a \<union> set b)"

definition texts_faithful :: "store_texts \<Rightarrow> pingap_conf \<Rightarrow> pingap_conf \<Rightarrow> bool" where
  "texts_faithful tx a b \<longleftrightarrow> differ_ok tx \<and>
     inj_on (tx_server tx) (entries_of (servers a) (servers b)) \<and>
     inj_on (tx_location tx) (entries_of (locations a) (locations b)) \<and>
     inj_on (tx_upstream tx) (entries_of (upstreams a) (upstreams b)) \<and>
     inj_on (tx_plugin tx) (entries_of (plugins a) (plugins b)) \<and>
     inj_on (tx_certificate tx) (hide_certificate tx ` entries_of (certificates a) (certificates b)) \<and>
     inj_on (tx_storage tx) (hide_storage tx ` entries_of (storages a) (storages b)) \<and>
     inj_on (\<lambda>x. tx_conf tx (default_conf\<lparr>basic := x\<rparr>)) {basic a, basic b}"

definition wf_conf :: "pingap_conf \<Rightarrow> bool" where
  "wf_conf c \<longleftrightarrow> wf_map (servers c) \<and> wf_map (locations c) \<and> wf_map (upstreams c) \<and> wf_map (plugins c) \<and>
     wf_map (certificates c) \<and> wf_map (storages c)"

text \<open>The description of one entry, and the categories that are prefixes of names.\<close>

definition entry_of :: "string \<Rightarrow> ('a \<Rightarrow> string) \<Rightarrow> string \<times> 'a \<Rightarrow> description" where
  "entry_of category text nv = \<lparr>de_category = category, de_name = category @ '':'' @ fst nv, de_data = text (snd nv)\<rparr>"

lemma describe_set: "set (describe category text m) = entry_of category text ` set m"
  by (auto simp: describe_def entry_of_def intro!: rev_image_eqI)

lemma entry_of_simps [simp]:
  "de_category (entry_of c t nv) = c" "de_name (entry_of c t nv) = c @ '':'' @ fst nv"
  "de_data (entry_of c t nv) = t (snd nv)"
  by (simp_all add: entry_of_def)

text \<open>One section of a list of descriptions: its category's descriptions are the section's entries.\<close>

definition section_of :: "description list \<Rightarrow> string \<Rightarrow> ('a \<Rightarrow> string) \<Rightarrow> (string, 'a) hash_map \<Rightarrow> bool" where
  "section_of ds category text m \<longleftrightarrow>
     entry_of category text ` set m \<subseteq> set ds \<and>
     (\<forall>d \<in> set ds. \<forall>n. de_name d = category @ '':'' @ n \<longrightarrow> d \<in> entry_of category text ` set m)"

lemma conf_diff_categories:
  "c \<in> set (fst (conf_diff tx a b)) \<longleftrightarrow>
     (\<exists>d \<in> set (descriptions tx a). de_category d = c \<and>
        (de_name d \<notin> de_name ` set (descriptions tx b) \<or>
         (\<exists>e \<in> set (descriptions tx b). de_name d = de_name e \<and> tx_diff_lines tx (de_data d) (de_data e) \<noteq> []))) \<or>
     (\<exists>e \<in> set (descriptions tx b). de_category e = c \<and> de_name e \<notin> de_name ` set (descriptions tx a))"
  by (auto simp: conf_diff_def missing_in_def diff_entry_def Let_def)

lemma section_unchanged:
  assumes tx: "differ_ok tx"
    and a: "section_of (descriptions tx x) c text m" and b: "section_of (descriptions tx y) c text m'"
    and c: "c \<notin> set (fst (conf_diff tx x y))" and wf: "wf_map m" "wf_map m'"
  shows "map_option text (map_of m n) = map_option text (map_of m' n)"
proof -
  have sub: "\<exists>w. (n, w) \<in> set m' \<and> text v = text w" if "(n, v) \<in> set m" for v
  proof -
    let ?d = "entry_of c text (n, v)"
    have d: "?d \<in> set (descriptions tx x)" using a that by (auto simp: section_of_def)
    with c obtain e where e: "e \<in> set (descriptions tx y)" "de_name e = c @ '':'' @ n"
      by (auto simp: conf_diff_categories image_iff)
    with b obtain w where w: "(n, w) \<in> set m'" "e = entry_of c text (n, w)" by (fastforce simp: section_of_def)
    have "tx_diff_lines tx (text v) (text w) = []"
      using c d e w unfolding conf_diff_categories by (metis entry_of_simps fst_conv snd_conv)
    with tx w show ?thesis by (auto simp: differ_ok_def)
  qed
  have sup: "\<exists>v. (n, v) \<in> set m" if "(n, w) \<in> set m'" for w
  proof -
    have "entry_of c text (n, w) \<in> set (descriptions tx y)" using b that by (auto simp: section_of_def)
    with c obtain d where "d \<in> set (descriptions tx x)" "de_name d = c @ '':'' @ n"
      by (auto simp: conf_diff_categories image_iff)
    with a show ?thesis by (fastforce simp: section_of_def)
  qed
  show ?thesis
  proof (cases "map_of m n")
    case None
    then have "\<nexists>v. (n, v) \<in> set m" using weak_map_of_SomeI by fastforce
    with sup have "map_of m' n = None" by (metis map_of_SomeD not_None_eq)
    with None show ?thesis by simp
  next
    case (Some v)
    then obtain w where "(n, w) \<in> set m'" "text v = text w" using sub map_of_SomeD by fastforce
    with Some wf(2) show ?thesis by (simp add: wf_map_def keys_of_def)
  qed
qed

lemma map_option_comp_inj:
  assumes "inj_on g (f ` entries_of a b)"
  shows "map_option (\<lambda>d. g (f d)) (map_of a n) = map_option (\<lambda>d. g (f d)) (map_of b n) \<longleftrightarrow>
    map_option f (map_of a n) = map_option f (map_of b n)"
proof -
  have "v \<in> entries_of a b" if "map_of a n = Some v \<or> map_of b n = Some v" for v
    using that by (force simp: entries_of_def dest: map_of_SomeD)
  with assms show ?thesis by (cases "map_of a n"; cases "map_of b n") (auto simp: inj_on_eq_iff)
qed

lemma map_option_inj:
  "inj_on f (entries_of a b) \<Longrightarrow> map_option f (map_of a n) = map_option f (map_of b n) \<longleftrightarrow> map_of a n = map_of b n"
  using map_option_comp_inj[of f "\<lambda>x. x" a b n] by (simp add: option.map_ident)

lemma descriptions_set:
  "set (descriptions tx c) =
     entry_of CATEGORY_SERVER (tx_server tx) ` set (servers c) \<union> entry_of CATEGORY_LOCATION (tx_location tx) ` set (locations c) \<union>
     entry_of CATEGORY_UPSTREAM (tx_upstream tx) ` set (upstreams c) \<union> entry_of CATEGORY_PLUGIN (tx_plugin tx) ` set (plugins c) \<union>
     entry_of CATEGORY_CERTIFICATE (\<lambda>d. tx_certificate tx (hide_certificate tx d)) ` set (certificates c) \<union>
     entry_of CATEGORY_STORAGE (\<lambda>d. tx_storage tx (hide_storage tx d)) ` set (storages c) \<union>
     {\<lparr>de_category = CATEGORY_BASIC, de_name = CATEGORY_BASIC, de_data = tx_conf tx (default_conf\<lparr>basic := basic c\<rparr>)\<rparr>}"
  by (auto simp: descriptions_def describe_set)

lemma description_sections:
  "section_of (descriptions tx c) CATEGORY_SERVER (tx_server tx) (servers c)"
  "section_of (descriptions tx c) CATEGORY_LOCATION (tx_location tx) (locations c)"
  "section_of (descriptions tx c) CATEGORY_UPSTREAM (tx_upstream tx) (upstreams c)"
  "section_of (descriptions tx c) CATEGORY_PLUGIN (tx_plugin tx) (plugins c)"
  "section_of (descriptions tx c) CATEGORY_CERTIFICATE (\<lambda>d. tx_certificate tx (hide_certificate tx d)) (certificates c)"
  "section_of (descriptions tx c) CATEGORY_STORAGE (\<lambda>d. tx_storage tx (hide_storage tx d)) (storages c)"
  unfolding section_of_def descriptions_set by (auto simp: category_names)

lemma describe_cong:
  assumes "wf_map m" "wf_map m'" "\<And>n. map_option text (map_of m n) = map_option text (map_of m' n)"
  shows "entry_of c text ` set m = entry_of c text ` set m'"
proof -
  have "entry_of c text ` set m \<subseteq> entry_of c text ` set m'"
    if wf: "wf_map m" "wf_map m'" and eq: "\<And>n. map_option text (map_of m n) = map_option text (map_of m' n)" for m m'
  proof
    fix d assume "d \<in> entry_of c text ` set m"
    then obtain n v where d: "d = entry_of c text (n, v)" "(n, v) \<in> set m" by auto
    with wf(1) have "map_of m n = Some v" by (simp add: wf_map_def keys_of_def)
    with eq[of n] obtain w where "map_of m' n = Some w" "text v = text w" by (cases "map_of m' n") auto
    then have "(n, w) \<in> set m'" "d = entry_of c text (n, w)" using d by (auto simp: entry_of_def dest: map_of_SomeD)
    then show "d \<in> entry_of c text ` set m'" by blast
  qed
  from this[of m m'] this[of m' m] assms show ?thesis by (metis subset_antisym)
qed

lemma section_names:
  assumes "section_of ds c text m" "wf_map m" "d \<in> entry_of c text ` set m" "e \<in> set ds" "de_name d = de_name e"
  shows "d = e"
proof -
  from assms(3) obtain n v where d: "d = entry_of c text (n, v)" "(n, v) \<in> set m" by auto
  with assms(5) have "de_name e = c @ '':'' @ n" by simp
  with assms(1,4) have "e \<in> entry_of c text ` set m" unfolding section_of_def by blast
  then obtain k w where e: "e = entry_of c text (k, w)" "(k, w) \<in> set m" by auto
  with d assms(5) have "k = n" by simp
  with d e assms(2) have "v = w" by (metis eq_key_imp_eq_value keys_of_def wf_map_def)
  with d e \<open>k = n\<close> show ?thesis by simp
qed

lemma basic_name: "d \<in> set (descriptions tx c) \<Longrightarrow> de_name d = CATEGORY_BASIC \<Longrightarrow>
   d = \<lparr>de_category = CATEGORY_BASIC, de_name = CATEGORY_BASIC, de_data = tx_conf tx (default_conf\<lparr>basic := basic c\<rparr>)\<rparr>"
  by (auto simp: descriptions_set category_names)

lemma descriptions_names:
  assumes wf: "wf_conf c" and d: "d \<in> set (descriptions tx c)" and e: "e \<in> set (descriptions tx c)" and n: "de_name d = de_name e"
  shows "d = e"
proof -
  note wfs = wf[unfolded wf_conf_def] and same = section_names[OF _ _ _ e n]
  from d show ?thesis
    unfolding descriptions_set
  proof (elim UnE)
    assume "d \<in> {\<lparr>de_category = CATEGORY_BASIC, de_name = CATEGORY_BASIC, de_data = tx_conf tx (default_conf\<lparr>basic := basic c\<rparr>)\<rparr>}"
    then show ?thesis using basic_name[OF e] n by simp
  qed (use wfs same description_sections[of tx c] in blast)+
qed

lemma conf_diff_snd: "snd (conf_diff tx a b) = [] \<longleftrightarrow> fst (conf_diff tx a b) = []"
  by (auto simp: conf_diff_def diff_section_def diff_entry_def Let_def)

section \<open>Properties\<close>


definition sample_texts :: store_texts where
  "sample_texts = \<lparr>tx_basic_table = (\<lambda>_. Inr []), tx_pretty = (\<lambda>t. Inr (join '','' (map fst t))), tx_table = (\<lambda>_. Inr []),
     tx_server = sc_addr, tx_location = (\<lambda>l. unwrap_or [] (lc_path l)), tx_upstream = (\<lambda>u. join '','' (uc_addrs u)),
     tx_plugin = (\<lambda>_. []), tx_certificate = (\<lambda>c. unwrap_or [] (cc_domains c)), tx_storage = st_value,
     tx_conf = (\<lambda>c. unwrap_or [] (bc_name (basic c))), tx_crc32 = length,
     tx_diff_lines = (\<lambda>a b. if a = b then [] else [b])\<rparr>"

lemma sample_texts_faithful:
  "texts_faithful sample_texts sample_conf (sample_conf\<lparr>upstreams := [(''u'', sample_upstream_conf\<lparr>uc_addrs := [''10.0.0.2:80'']\<rparr>)]\<rparr>)"
  unfolding texts_faithful_def differ_ok_def
  by (simp add: sample_texts_def sample_conf_def entries_of_def default_conf_def sample_upstream_conf_def)


text \<open>
  Nothing invalid is stored: saving a configuration that fails validation returns the error and
  leaves the files or the etcd server as they were, for every kind of storage.
\<close>

theorem invalid_config_not_saved:
  assumes "validate_conf (sl_conf lib) conf = Inl e"
  shows "save_config lib (Some st) conf category name f = (Inl e, f)"
  using assms
  by (simp add: save_config_def store_save_config_def file_save_config_def etcd_save_config_def act_bind_def pure_op_def
      split: config_storage.split)

definition sample_store_lib :: "(string, string) hash_map store_lib" where
  "sample_store_lib = \<lparr>sl_conf = sample_config_lib, sl_texts = sample_texts, sl_util = sample_util_lib,
     sl_query_map = (\<lambda>_. []), sl_parse_duration = Inl, fs_exists = (\<lambda>f p. map_of f p \<noteq> None), fs_is_dir = (\<lambda>_ _. False),
     fs_is_file = (\<lambda>f p. map_of f p \<noteq> None), fs_create_dir_all = (\<lambda>_ f. (Inr (), f)),
     fs_read = (\<lambda>f p. case map_of f p of Some v \<Rightarrow> Inr v | None \<Rightarrow> Inl ''not found''),
     fs_write = (\<lambda>p v f. (Inr (), map_insert p v f)), fs_remove_file = (\<lambda>p f. (Inr (), map_remove p f)),
     fs_glob = (\<lambda>_ _. Inr []), et_connect = (\<lambda>_ _. Inl ''no server''), et_get_prefix = (\<lambda>_ _. Inl ''no server''),
     et_get = (\<lambda>_ _. Inl ''no server''), et_put = (\<lambda>_ _ f. (Inl ''no server'', f)), et_delete = (\<lambda>_ f. (Inl ''no server'', f))\<rparr>"

theorem invalid_config_not_saved_witness:
  "\<exists>e. save_config sample_store_lib (Some (FileStore \<lparr>fst_path = ''c.toml'', fst_separation = False\<rparr>))
     (sample_conf\<lparr>upstreams := []\<rparr>) ''basic'' None [(''c.toml'', ''old'')] = (Inl e, [(''c.toml'', ''old'')])"
proof -
  have "\<not> is_ok (validate_conf sample_config_lib (sample_conf\<lparr>upstreams := []\<rparr>))" by code_simp
  then obtain e where "validate_conf (sl_conf sample_store_lib) (sample_conf\<lparr>upstreams := []\<rparr>) = Inl e"
    by (auto simp: is_ok_def sample_store_lib_def split: sum.splits)
  from invalid_config_not_saved[OF this] show ?thesis by blast
qed

end
