(* ===== verification/Tls_Certificates.thy ===== *)
theory Tls_Certificates
  imports Plugin_Conf Upstream
begin

text \<open>
  \<open>pingap-certificate\<close>: parsed certificates, the map from server names to them, the choice of one
  in the TLS handshake, certificates signed on demand by a configured CA with their cache, and the
  two periodic checks. OpenSSL, \<open>x509_parser\<close> and \<open>rcgen\<close> are fields of \<open>cert_lib\<close>: an X509
  object is \<open>'x\<close>, a private key \<open>'k\<close>. Times are seconds; \<open>i64\<close> differences of real dates do not
  overflow and are taken on integers. The hash of a configuration is \<open>ct_hash\<close>, a 64-bit number.
\<close>

section \<open>Text of IP addresses\<close>

text \<open>\<open>Display\<close> of the standard library: the longest run of at least two zero groups is \<open>::\<close>.\<close>

fun longest_zeros :: "nat \<Rightarrow> nat \<times> nat \<Rightarrow> nat \<times> nat \<Rightarrow> nat list \<Rightarrow> nat \<times> nat" where
  "longest_zeros i cur best [] = best"
| "longest_zeros i cur best (g # gs) =
     (if g = 0 then
        let cur' = (if snd cur = 0 then i else fst cur, snd cur + 1);
            best' = (if snd cur' > snd best then cur' else best)
        in longest_zeros (i + 1) cur' best' gs
      else longest_zeros (i + 1) (0, 0) best gs)"

definition ipv4_text :: "nat list \<Rightarrow> string" where
  "ipv4_text v = join ''.'' (map show_nat v)"

definition ipv6_text :: "nat list \<Rightarrow> string" where
  "ipv6_text gs =
     (if take 6 gs = [0, 0, 0, 0, 0, 65535] then
        ''::ffff:'' @ ipv4_text [gs ! 6 div 256, gs ! 6 mod 256, gs ! 7 div 256, gs ! 7 mod 256]
      else
        let (start, len) = longest_zeros 0 (0, 0) (0, 0) gs; text = (\<lambda>xs. join '':'' (map show_hex xs))
        in if len > 1 then text (take start gs) @ ''::'' @ text (drop (start + len) gs) else text gs)"

definition ip_text :: "ip_addr \<Rightarrow> string" where
  "ip_text a = (case a of V4 v \<Rightarrow> ipv4_text v | V6 gs \<Rightarrow> ipv6_text gs)"

section \<open>Parsed certificates\<close>

datatype cert_error = X509Error string string | CertInvalid string string

definition cert_error_text :: "cert_error \<Rightarrow> string" where
  "cert_error_text e = (case e of
     X509Error c m \<Rightarrow> ''X509 error, category: '' @ c @ '', '' @ m
   | CertInvalid c m \<Rightarrow> ''Invalid error, category: '' @ c @ '', '' @ m)"

fun pair_groups :: "nat list \<Rightarrow> nat list" where
  "pair_groups (a # b # r) = (256 * a + b) # pair_groups r"
| "pair_groups _ = []"

definition parse_ip_addr :: "string \<Rightarrow> cert_error + ip_addr" where
  "parse_ip_addr data =
     (let bytes = map of_char data in
      if length data = 4 then Inr (V4 bytes)
      else if length data = 16 then Inr (V6 (pair_groups bytes))
      else Inl (CertInvalid ''ip_parse'' (''invalid ip address length: '' @ show_nat (length data))))"

datatype general_name = DNSName string | IPAddress string | OtherName

record x509_info =
  xi_names :: "general_name list option"
  xi_not_after :: int
  xi_not_before :: int
  xi_issuer :: string

record ca_params =
  cp_not_after :: int
  cp_organization :: "string option"
  cp_unit :: "string option"

record leaf_params =
  lp_name :: string
  lp_subject :: "(string \<times> string) list"
  lp_not_before :: int
  lp_not_after :: int

record ('x, 'k) cert_lib =
  ct_util :: util_lib
  ct_env :: sys_env
  ct_hash :: "certificate_conf \<Rightarrow> nat"
  ct_lossy :: "string \<Rightarrow> string"
  ct_parse_pem :: "string \<Rightarrow> string + string"
  ct_parse_x509 :: "string \<Rightarrow> string + x509_info"
  ct_x509 :: "string \<Rightarrow> string + 'x"
  ct_key :: "string \<Rightarrow> string + 'k"
  ct_chain_e5 :: string
  ct_chain_e6 :: string
  ct_chain_r10 :: string
  ct_chain_r11 :: string
  ct_ca_params :: "string \<Rightarrow> string + ca_params"
  ct_ca_key :: "string \<Rightarrow> string + string"
  ct_self_sign :: "ca_params \<Rightarrow> string \<Rightarrow> string + unit"
  ct_new_params :: "string \<Rightarrow> string + unit"
  ct_generate_key :: "string + string"
  ct_sign :: "leaf_params \<Rightarrow> string \<Rightarrow> ca_params \<Rightarrow> string \<Rightarrow> string + string"

record certificate =
  ce_domains :: "string list"
  ce_pem :: string
  ce_key :: string
  ce_acme :: "string option"
  ce_not_after :: int
  ce_not_before :: int
  ce_issuer :: string

fun dns_names :: "general_name list \<Rightarrow> string list" where
  "dns_names [] = []"
| "dns_names (DNSName n # r) = n # dns_names r"
| "dns_names (IPAddress d # r) =
     (case parse_ip_addr d of Inr a \<Rightarrow> ip_text a # dns_names r | Inl _ \<Rightarrow> dns_names r)"
| "dns_names (OtherName # r) = dns_names r"

definition new_certificate :: "('x, 'k) cert_lib \<Rightarrow> string \<Rightarrow> string \<Rightarrow> cert_error + certificate" where
  "new_certificate lib pem key =
     (case convert_certificate_bytes (ct_util lib) (Some pem) of
        None \<Rightarrow> Inl (CertInvalid ''certificate'' ''invalid pem data'')
      | Some pem_data \<Rightarrow>
          try_then (map_err (X509Error ''parse_x509_pem'') (ct_parse_pem lib pem_data)) (\<lambda>p.
          try_then (map_err (X509Error ''parse_x509'') (ct_parse_x509 lib p)) (\<lambda>x.
          Inr \<lparr>ce_domains = sort (dns_names (unwrap_or [] (xi_names x))), ce_pem = pem_data,
            ce_key = unwrap_or [] (convert_certificate_bytes (ct_util lib) (Some key)), ce_acme = None,
            ce_not_after = xi_not_after x, ce_not_before = xi_not_before x, ce_issuer = xi_issuer x\<rparr>)))"

text \<open>
  The expression \<open>CN=(?P<CN>[\S ]+?)($|,)\<close>: the name is at least one character, none of them
  white space other than a blank, up to the next comma or the end.
\<close>

fun cn_rest :: "string \<Rightarrow> string option" where
  "cn_rest [] = Some []"
| "cn_rest (c # cs) =
     (if c = CHR '','' then Some []
      else if is_ws c \<and> c \<noteq> CHR '' '' then None else map_option ((#) c) (cn_rest cs))"

definition cn_at :: "string \<Rightarrow> string option" where
  "cn_at s = (case s of [] \<Rightarrow> None
     | c # cs \<Rightarrow> if is_ws c \<and> c \<noteq> CHR '' '' then None else map_option ((#) c) (cn_rest cs))"

fun find_cn :: "string \<Rightarrow> string option" where
  "find_cn [] = None"
| "find_cn (c # cs) =
     (if starts_with (c # cs) ''CN='' then
        (case cn_at (drop 2 cs) of Some n \<Rightarrow> Some n | None \<Rightarrow> find_cn cs)
      else find_cn cs)"

definition get_issuer_common_name :: "certificate \<Rightarrow> string" where
  "get_issuer_common_name ce = unwrap_or [] (find_cn (ce_issuer ce))"

definition cert_valid :: "sys_env \<Rightarrow> certificate \<Rightarrow> nat \<Rightarrow> bool" where
  "cert_valid env ce buffer_days =
     (let days = (if buffer_days = 0 then 2 else int buffer_days)
      in ce_not_after ce - int (now_sec env) > days * 24 * 3600)"

section \<open>Chains of Let's Encrypt\<close>

definition EXPIRATION_BUFFER_DAYS :: nat where "EXPIRATION_BUFFER_DAYS = 30"
definition SECONDS_PER_DAY :: nat where "SECONDS_PER_DAY = 24 * 3600"

definition parse_chain_certificate :: "('x, 'k) cert_lib \<Rightarrow> string \<Rightarrow> 'x option" where
  "parse_chain_certificate lib data =
     (let threshold = now_sec (ct_env lib) + EXPIRATION_BUFFER_DAYS * SECONDS_PER_DAY in
      case from_utf8 data of
        None \<Rightarrow> None
      | Some pem \<Rightarrow>
        (case new_certificate lib pem [] of
           Inl _ \<Rightarrow> None
         | Inr ce \<Rightarrow>
             if ce_not_after ce > int threshold
             then (case ct_x509 lib data of Inr x \<Rightarrow> Some x | Inl _ \<Rightarrow> None) else None))"

definition get_lets_encrypt_chain_certificate :: "('x, 'k) cert_lib \<Rightarrow> string \<Rightarrow> 'x option" where
  "get_lets_encrypt_chain_certificate lib cn =
     (let n = ascii_upper cn in
      if n = ''E5'' then parse_chain_certificate lib (ct_chain_e5 lib)
      else if n = ''E6'' then parse_chain_certificate lib (ct_chain_e6 lib)
      else if n = ''R10'' then parse_chain_certificate lib (ct_chain_r10 lib)
      else if n = ''R11'' then parse_chain_certificate lib (ct_chain_r11 lib)
      else None)"

section \<open>TLS certificates\<close>

record ('x, 'k) tls_certificate =
  tc_name :: "string option"
  tc_chain_certificate :: "'x option"
  tc_certificate :: "('x \<times> 'k) option"
  tc_domains :: "string list"
  tc_info :: "certificate option"
  tc_hash_key :: string
  tc_is_ca :: bool
  tc_buffer_days :: nat

definition certificate_hash_key :: "('x, 'k) cert_lib \<Rightarrow> certificate_conf \<Rightarrow> string" where
  "certificate_hash_key lib conf = show_hex (ct_hash lib conf)"

definition chain_certificate :: "('x, 'k) cert_lib \<Rightarrow> certificate_conf \<Rightarrow> certificate \<Rightarrow> 'x option" where
  "chain_certificate lib conf info =
     (case convert_certificate_bytes (ct_util lib) (cc_tls_chain conf) of
        Some v \<Rightarrow> (case ct_x509 lib v of Inr x \<Rightarrow> Some x | Inl _ \<Rightarrow> None)
      | None \<Rightarrow>
          if cc_acme conf \<noteq> None
          then get_lets_encrypt_chain_certificate lib (get_issuer_common_name info) else None)"

definition tls_certificate_try_from ::
  "('x, 'k) cert_lib \<Rightarrow> certificate_conf \<Rightarrow> cert_error + ('x, 'k) tls_certificate" where
  "tls_certificate_try_from lib conf =
     try_then (map_err (\<lambda>e. CertInvalid ''certificate'' (cert_error_text e))
         (new_certificate lib (unwrap_or [] (cc_tls_cert conf)) (unwrap_or [] (cc_tls_key conf)))) (\<lambda>info.
     try_then (map_err (CertInvalid ''x509_from_pem'') (ct_x509 lib (ce_pem info))) (\<lambda>cert.
     try_then (map_err (CertInvalid ''private_key_from_pem'') (ct_key lib (ce_key info))) (\<lambda>key.
     Inr \<lparr>tc_name = None, tc_chain_certificate = chain_certificate lib conf info,
       tc_certificate = Some (cert, key), tc_domains = ce_domains info, tc_info = Some info,
       tc_hash_key = certificate_hash_key lib conf, tc_is_ca = unwrap_or False (cc_is_ca conf),
       tc_buffer_days = unwrap_or 0 (cc_buffer_days conf)\<rparr>)))"

section \<open>Certificates signed on demand\<close>

record ('x, 'k) self_signed_certificate =
  sg_x509 :: 'x
  sg_key :: 'k
  sg_stale :: bool
  sg_count :: "32 word"
  sg_not_after :: int

type_synonym ('x, 'k) self_signed_map = "(string, ('x, 'k) self_signed_certificate) hash_map"

definition get_cached_certificate ::
  "string \<Rightarrow> ('x, 'k) self_signed_map \<Rightarrow> ('x, 'k) self_signed_certificate option \<times> ('x, 'k) self_signed_map" where
  "get_cached_certificate name m =
     (case map_of m name of
        None \<Rightarrow> (None, m)
      | Some v \<Rightarrow> (let v' = v\<lparr>sg_count := sg_count v + 1\<rparr> in (Some v', map_insert name v' m)))"

definition add_self_signed_certificate ::
  "string \<Rightarrow> 'x \<Rightarrow> 'k \<Rightarrow> int \<Rightarrow> ('x, 'k) self_signed_map
     \<Rightarrow> ('x, 'k) self_signed_certificate \<times> ('x, 'k) self_signed_map" where
  "add_self_signed_certificate name x k not_after m =
     (let v = \<lparr>sg_x509 = x, sg_key = k, sg_stale = False, sg_count = 0, sg_not_after = not_after\<rparr>
      in (v, map_insert name v m))"

definition ca_error :: "string + 'a \<Rightarrow> cert_error + 'a" where
  "ca_error r = map_err (CertInvalid ''ca'') r"

definition new_certificate_with_ca ::
  "('x, 'k) cert_lib \<Rightarrow> ('x, 'k) tls_certificate \<Rightarrow> string \<Rightarrow> cert_error + 'x \<times> 'k \<times> int" where
  "new_certificate_with_ca lib root_ca cn =
     (case tc_info root_ca of
        None \<Rightarrow> Inl (CertInvalid ''ca'' ''root ca is invalid'')
      | Some info \<Rightarrow>
          let text = (\<lambda>s. if utf8_valid s then s else ct_lossy lib s);
              now = int (now_sec (ct_env lib)) in
          try_then (ca_error (ct_ca_params lib (text (ce_pem info)))) (\<lambda>params.
          try_then (ca_error (ct_ca_key lib (text (ce_key info)))) (\<lambda>ca_kp.
          try_then (ca_error (ct_self_sign lib params ca_kp)) (\<lambda>_.
          try_then (ca_error (ct_new_params lib cn)) (\<lambda>_.
          try_then (ca_error (ct_generate_key lib)) (\<lambda>cert_key.
          let not_after = min (cp_not_after params) (now + 365 * 2 * 86400);
              dn = (''CN'', cn) # (case cp_organization params of Some o' \<Rightarrow> [(''O'', o')] | None \<Rightarrow> [])
                     @ (case cp_unit params of Some u \<Rightarrow> [(''OU'', u)] | None \<Rightarrow> []);
              leaf = \<lparr>lp_name = cn, lp_subject = dn, lp_not_before = now - 86400, lp_not_after = not_after\<rparr> in
          try_then (ca_error (ct_sign lib leaf cert_key params ca_kp)) (\<lambda>pem.
          try_then (map_err (CertInvalid ''x509_from_pem'') (ct_x509 lib pem)) (\<lambda>cert.
          try_then (map_err (CertInvalid ''private_key_from_pem'') (ct_key lib cert_key)) (\<lambda>key.
          Inr (cert, key, not_after))))))))))"

definition format_common_name :: "string \<Rightarrow> string" where
  "format_common_name server_name =
     (let parts = split_on CHR ''.'' server_name in
      if length parts > 2 then ''*.'' @ join ''.'' (tl parts) else server_name)"

text \<open>\<open>{:?}\<close> of the optional name of a certificate, whose characters need no escape.\<close>

definition debug_name :: "string option \<Rightarrow> string" where
  "debug_name n = (case n of None \<Rightarrow> ''None'' | Some s \<Rightarrow> ''Some(\"'' @ s @ ''\")'')"

definition get_self_signed_certificate ::
  "('x, 'k) cert_lib \<Rightarrow> ('x, 'k) tls_certificate \<Rightarrow> string \<Rightarrow> ('x, 'k) self_signed_map
     \<Rightarrow> (cert_error + ('x, 'k) self_signed_certificate) \<times> ('x, 'k) self_signed_map" where
  "get_self_signed_certificate lib tc server_name m =
     (let cn = format_common_name server_name; cache_key = debug_name (tc_name tc) @ '':'' @ cn in
      case get_cached_certificate cache_key m of
        (Some v, m') \<Rightarrow> (Inr v, m')
      | (None, m') \<Rightarrow>
        (case new_certificate_with_ca lib tc cn of
           Inl e \<Rightarrow> (Inl e, m')
         | Inr (cert, key, not_after) \<Rightarrow>
             (let (v, m'') = add_self_signed_certificate cache_key cert key not_after m' in (Inr v, m''))))"

definition VALIDITY_CHECK_INTERVAL :: nat where "VALIDITY_CHECK_INTERVAL = 24 * 60"
definition CERTIFICATE_EXPIRY_DAYS :: nat where "CERTIFICATE_EXPIRY_DAYS = 2"

definition refresh_self_signed :: "('x, 'k) self_signed_certificate \<Rightarrow> ('x, 'k) self_signed_certificate option" where
  "refresh_self_signed v =
     (if sg_count v = 0 then (if sg_stale v then None else Some (v\<lparr>sg_stale := True\<rparr>))
      else Some (v\<lparr>sg_stale := False, sg_count := 0\<rparr>))"

definition do_self_signed_certificate_validity ::
  "sys_env \<Rightarrow> nat \<Rightarrow> ('x, 'k) self_signed_map \<Rightarrow> bool \<times> ('x, 'k) self_signed_map" where
  "do_self_signed_certificate_validity env count m =
     (if count mod VALIDITY_CHECK_INTERVAL \<noteq> 0 then (False, m)
      else
        let expired = int (sub_u64 (now_sec env) (CERTIFICATE_EXPIRY_DAYS * SECONDS_PER_DAY)) in
        (True, List.map_filter (\<lambda>(k, v). map_option (Pair k) (refresh_self_signed v))
                 (filter (\<lambda>(_, v). sg_not_after v \<ge> expired) m)))"

section \<open>The map of server names\<close>

type_synonym ('x, 'k) dynamic_certificates = "(string, ('x, 'k) tls_certificate) hash_map"

definition DEFAULT_SERVER_NAME :: string where "DEFAULT_SERVER_NAME = ''*''"

definition add_certificate ::
  "certificate_conf \<Rightarrow> ('x, 'k) tls_certificate \<Rightarrow> ('x, 'k) dynamic_certificates \<Rightarrow> ('x, 'k) dynamic_certificates" where
  "add_certificate conf cert m =
     (let domains = (case cc_domains conf of Some v \<Rightarrow> split_on CHR '','' v | None \<Rightarrow> tc_domains cert);
          m' = fold (\<lambda>d. map_insert d cert) domains m
      in if unwrap_or False (cc_is_default conf) then map_insert DEFAULT_SERVER_NAME cert m' else m')"

fun parse_certificates_go ::
  "('x, 'k) cert_lib \<Rightarrow> (string \<times> certificate_conf) list \<Rightarrow> ('x, 'k) dynamic_certificates
     \<Rightarrow> (string \<times> string) list \<Rightarrow> ('x, 'k) dynamic_certificates \<times> (string \<times> string) list" where
  "parse_certificates_go lib [] m es = (m, es)"
| "parse_certificates_go lib ((name, conf) # rest) m es =
     (if cc_tls_cert conf = None \<or> cc_tls_key conf = None then parse_certificates_go lib rest m es
      else case tls_certificate_try_from lib conf of
        Inr cert \<Rightarrow> parse_certificates_go lib rest (add_certificate conf (cert\<lparr>tc_name := Some name\<rparr>) m) es
      | Inl e \<Rightarrow> parse_certificates_go lib rest m (es @ [(name, cert_error_text e)]))"

definition parse_certificates ::
  "('x, 'k) cert_lib \<Rightarrow> (string, certificate_conf) hash_map
     \<Rightarrow> ('x, 'k) dynamic_certificates \<times> (string \<times> string) list" where
  "parse_certificates lib confs = parse_certificates_go lib confs [] []"

text \<open>The loop over the new map ends at the first name whose certificate has not changed.\<close>

fun updated_names :: "('x, 'k) dynamic_certificates \<Rightarrow> ('x, 'k) dynamic_certificates \<Rightarrow> string list" where
  "updated_names old [] = []"
| "updated_names old ((name, cert) # rest) =
     (case map_of old name of
        Some v \<Rightarrow> if tc_hash_key v = tc_hash_key cert then [] else name # updated_names old rest
      | None \<Rightarrow> name # updated_names old rest)"

definition try_update_certificates ::
  "('x, 'k) cert_lib \<Rightarrow> (string, certificate_conf) hash_map \<Rightarrow> ('x, 'k) dynamic_certificates
     \<Rightarrow> (string list \<times> string) \<times> ('x, 'k) dynamic_certificates" where
  "try_update_certificates lib confs old =
     (let (new, errors) = parse_certificates lib confs
      in ((updated_names old new, join '';'' (map (\<lambda>(name, e). e @ ''('' @ name @ '')'') errors)), new))"

definition get_certificate_info_list :: "('x, 'k) dynamic_certificates \<Rightarrow> (string \<times> certificate) list" where
  "get_certificate_info_list m =
     List.map_filter (\<lambda>(name, cert). map_option (\<lambda>info. (unwrap_or name (tc_name cert), info)) (tc_info cert)) m"

section \<open>The handshake\<close>

definition wildcard_sni :: "string \<Rightarrow> string" where
  "wildcard_sni sni = ''*.'' @ (case split_once CHR ''.'' sni of Some (_, rest) \<Rightarrow> rest | None \<Rightarrow> [])"

fun first_certificate :: "('x, 'k) dynamic_certificates \<Rightarrow> string list \<Rightarrow> ('x, 'k) tls_certificate option" where
  "first_certificate m [] = None"
| "first_certificate m (n # ns) = (case map_of m n of Some c \<Rightarrow> Some c | None \<Rightarrow> first_certificate m ns)"

text \<open>
  What the callback installs: certificate, key and chain, or nothing. Failures of OpenSSL to
  install one of them are only logged.
\<close>

definition certificate_callback ::
  "('x, 'k) cert_lib \<Rightarrow> ('x, 'k) dynamic_certificates \<Rightarrow> string option \<Rightarrow> ('x, 'k) self_signed_map
     \<Rightarrow> ('x \<times> 'k \<times> 'x option) option \<times> ('x, 'k) self_signed_map" where
  "certificate_callback lib certs servername m =
     (let sni = unwrap_or DEFAULT_SERVER_NAME servername in
      case first_certificate certs [sni, wildcard_sni sni, DEFAULT_SERVER_NAME] of
        None \<Rightarrow> (None, m)
      | Some d \<Rightarrow>
          if tc_is_ca d then
            (case get_self_signed_certificate lib d sni m of
               (Inr v, m') \<Rightarrow> (Some (sg_x509 v, sg_key v, tc_chain_certificate d), m')
             | (Inl _, m') \<Rightarrow> (None, m'))
          else (map_option (\<lambda>(x, k). (x, k, tc_chain_certificate d)) (tc_certificate d), m))"

datatype ssl_version = TLS1_1 | TLS1_2 | TLS1_3

definition convert_tls_version :: "string option \<Rightarrow> ssl_version option" where
  "convert_tls_version v =
     map_option (\<lambda>s. let t = ascii_lower s in
       if t = ''tlsv1.1'' then TLS1_1 else if t = ''tlsv1.3'' then TLS1_3 else TLS1_2) v"

section \<open>The validity check\<close>

definition DEFAULT_EXPIRATION_WARNING_DAYS :: nat where "DEFAULT_EXPIRATION_WARNING_DAYS = 7"
definition CHECK_INTERVAL_MINUTES :: nat where "CHECK_INTERVAL_MINUTES = 24 * 60"

definition should_warn :: "nat \<Rightarrow> ('x, 'k) tls_certificate \<Rightarrow> bool" where
  "should_warn now cert =
     (case tc_info cert of
        None \<Rightarrow> False
      | Some info \<Rightarrow>
          if ce_acme info \<noteq> None then False
          else
            let days = (if tc_buffer_days cert = 0 then DEFAULT_EXPIRATION_WARNING_DAYS else tc_buffer_days cert)
            in int now > ce_not_after info - int days * int SECONDS_PER_DAY \<or> int now < ce_not_before info)"

definition do_validity_check ::
  "sys_env \<Rightarrow> nat \<Rightarrow> ('x, 'k) dynamic_certificates \<Rightarrow> bool \<Rightarrow> bool \<times> notification list" where
  "do_validity_check env count certs sender =
     (if count mod CHECK_INTERVAL_MINUTES \<noteq> 0 then (False, [])
      else
        let names = map fst (filter (\<lambda>(_, c). should_warn (now_sec env) c) certs) in
        (True,
         if names \<noteq> [] \<and> sender then
           [\<lparr>nt_category = ''tls_validity'', nt_level = NWarn, nt_title = [],
             nt_message = ''certificate '' @ join '','' names @ '' will be expired''\<rparr>]
         else []))"

end
