(* ===== verification/Webhook.thy ===== *)
theory Webhook
  imports Tls_Certificates
begin

text \<open>
  \<open>pingap-webhook\<close>, \<open>src/webhook.rs\<close> and \<open>pingap-core/src/service.rs\<close>: notifications posted to a
  web hook and the periodic background services. A post has no effect on the program but the log;
  the posts are the value. The webhook types are ASCII, so lower case is the ASCII one. A service is
  driven by the list of events its \<open>select!\<close> meets: ticks of its timer, then possibly the shutdown.
\<close>

section \<open>Notifications\<close>

definition level_text :: "notification_level \<Rightarrow> string" where
  "level_text l = (case l of NError \<Rightarrow> ''error'' | NWarn \<Rightarrow> ''warn'' | NInfo \<Rightarrow> ''info'')"

datatype json = JString string | JObject "(string \<times> json) list"

record webhook_sender =
  ws_url :: string
  ws_category :: string
  ws_notifications :: "string list"

record webhook_lib =
  wl_hostname :: string
  wl_local_ip :: "ip_addr option"
  wl_local_ipv6 :: "ip_addr option"

definition is_loopback :: "ip_addr \<Rightarrow> bool" where
  "is_loopback a = (case a of V4 v \<Rightarrow> v ! 0 = 127 | V6 gs \<Rightarrow> gs = [0, 0, 0, 0, 0, 0, 0, 1])"

definition local_ip_list :: "webhook_lib \<Rightarrow> string list" where
  "local_ip_list lib =
     map ip_text (filter (\<lambda>a. \<not> is_loopback a)
       ((case wl_local_ip lib of Some a \<Rightarrow> [a] | None \<Rightarrow> []) @
        (case wl_local_ipv6 lib of Some a \<Rightarrow> [a] | None \<Rightarrow> [])))"

definition notification_content :: "webhook_lib \<Rightarrow> notification \<Rightarrow> string" where
  "notification_content lib n =
     (let color_type = (case nt_level n of NError \<Rightarrow> ''warning'' | NWarn \<Rightarrow> ''warning'' | NInfo \<Rightarrow> ''comment'');
          sep = ''\<newline>                >''
      in '' <font color=\"'' @ color_type @ ''\">pingap('' @ level_text (nt_level n) @ '')</font>''
         @ sep @ ''title: '' @ nt_title n @ sep @ ''hostname: '' @ wl_hostname lib
         @ sep @ ''ip: '' @ join '';'' (local_ip_list lib) @ sep @ ''category: '' @ nt_category n
         @ sep @ ''message: '' @ nt_message n)"

definition notification_body :: "webhook_lib \<Rightarrow> string \<Rightarrow> notification \<Rightarrow> (string \<times> json) list" where
  "notification_body lib webhook_type n =
     (let t = ascii_lower webhook_type; content = notification_content lib n in
      if t = ''wecom'' then
        [(''msgtype'', JString ''markdown''), (''markdown'', JObject [(''content'', JString content)])]
      else if t = ''dingtalk'' then
        [(''msgtype'', JString ''markdown''),
         (''markdown'', JObject [(''title'', JString (nt_category n)), (''text'', JString content)])]
      else
        [(''name'', JString ''pingap''), (''level'', JString (level_text (nt_level n))),
         (''hostname'', JString (wl_hostname lib)), (''ip'', JString (join '';'' (local_ip_list lib))),
         (''category'', JString (nt_category n)), (''message'', JString (nt_message n))])"

definition webhook_send :: "webhook_lib \<Rightarrow> webhook_sender \<Rightarrow> notification \<Rightarrow> (string \<times> (string \<times> json) list) list" where
  "webhook_send lib ws n =
     (if ws_url ws = [] then []
      else if nt_category n \<notin> set (ws_notifications ws) then []
      else [(ws_url ws, notification_body lib (ws_category ws) n)])"

text \<open>The sender of the process is set once; without one a notification is dropped.\<close>

definition init_webhook_notification_sender :: "webhook_sender \<Rightarrow> webhook_sender option \<Rightarrow> webhook_sender option" where
  "init_webhook_notification_sender ws cell = (case cell of Some s \<Rightarrow> Some s | None \<Rightarrow> Some ws)"

definition send_notification ::
  "webhook_lib \<Rightarrow> webhook_sender option \<Rightarrow> notification \<Rightarrow> (string \<times> (string \<times> json) list) list" where
  "send_notification lib cell n = (case cell of Some ws \<Rightarrow> webhook_send lib ws n | None \<Rightarrow> [])"

section \<open>Background services\<close>

datatype service_event = Tick | Shutdown

text \<open>
  \<open>SimpleServiceTask\<close>: at each tick every task runs with the tick's number, whatever the others
  return. The names of the tasks that ran and of those that failed are what is logged.
\<close>

type_synonym 's simple_task = "nat \<Rightarrow> 's \<Rightarrow> (string + bool) \<times> 's"

record 's simple_service =
  sv_name :: string
  sv_count :: "32 word"
  sv_tasks :: "(string \<times> 's simple_task) list"
  sv_interval :: duration

definition new_simple_service_task :: "string \<Rightarrow> duration \<Rightarrow> (string \<times> 's simple_task) list \<Rightarrow> 's simple_service" where
  "new_simple_service_task name interval tasks =
     \<lparr>sv_name = name, sv_count = 0, sv_tasks = tasks, sv_interval = interval\<rparr>"

fun run_tasks :: "nat \<Rightarrow> (string \<times> 's simple_task) list \<Rightarrow> 's \<Rightarrow> (string list \<times> string list) \<times> 's" where
  "run_tasks n [] s = (([], []), s)"
| "run_tasks n ((name, task) # rest) s =
     (let (r, s') = task n s; ((oks, fails), s'') = run_tasks n rest s'
      in ((case r of Inl _ \<Rightarrow> (oks, name # fails) | Inr executed \<Rightarrow> (if executed then name # oks else oks, fails)), s''))"

fun simple_service_start ::
  "service_event list \<Rightarrow> 's simple_service \<Rightarrow> 's \<Rightarrow> (string list \<times> string list) list \<times> 's simple_service \<times> 's" where
  "simple_service_start [] sv s = ([], sv, s)"
| "simple_service_start (Shutdown # es) sv s = ([], sv, s)"
| "simple_service_start (Tick # es) sv s =
     (let (log, s') = run_tasks (unat (sv_count sv)) (sv_tasks sv) s;
          (logs, sv', s'') = simple_service_start es (sv\<lparr>sv_count := sv_count sv + 1\<rparr>) s'
      in (log # logs, sv', s''))"

text \<open>
  \<open>CommonServiceTask\<close>: one task, run at every tick until it says it is done; with an interval below
  a second it runs once. The result is the number of runs and the state.
\<close>

fun common_service_loop :: "bool \<Rightarrow> ('s \<Rightarrow> bool option \<times> 's) \<Rightarrow> service_event list \<Rightarrow> 's \<Rightarrow> nat \<times> 's" where
  "common_service_loop once run [] s = (0, s)"
| "common_service_loop once run (Shutdown # es) s = (0, s)"
| "common_service_loop once run (Tick # es) s =
     (let (done, s') = run s in
      if once \<or> unwrap_or False done then (1, s')
      else let (n, s'') = common_service_loop once run es s' in (n + 1, s''))"

definition common_service_start ::
  "duration \<Rightarrow> ('s \<Rightarrow> bool option \<times> 's) \<Rightarrow> service_event list \<Rightarrow> 's \<Rightarrow> nat \<times> 's" where
  "common_service_start interval run es s = common_service_loop (as_millis interval < 1000) run es s"

section \<open>Lemmas\<close>

lemma common_service_once:
  "interval < 1000000000 \<Longrightarrow>
     common_service_start interval run (Tick # es) s = (1, snd (run s))"
  by (simp add: common_service_start_def as_millis_def less_mult_imp_div_less split: prod.split)

lemma common_service_ticks:
  assumes "\<And>s. fst (run s) = None" "\<not> once"
  shows "common_service_loop once run (replicate n Tick) s = (n, ((snd \<circ> run) ^^ n) s)"
  using assms
proof (induction n arbitrary: s)
  case (Suc n)
  have "fst (run s) = None" by (rule Suc.prems(1))
  then have "common_service_loop once run (Tick # replicate n Tick) s =
      (let (k, s'') = common_service_loop once run (replicate n Tick) (snd (run s)) in (k + 1, s''))"
    using Suc.prems(2) by (simp add: Let_def split_beta)
  then show ?case using Suc.IH[of "snd (run s)"] Suc.prems by (simp add: funpow_Suc_right comp_def del: funpow.simps)
qed simp

lemma simple_service_stops: "simple_service_start (Shutdown # es) sv s = ([], sv, s)"
  by simp

lemma run_tasks_names:
  "fst (run_tasks n ts s) = (oks, fails) \<Longrightarrow> set oks \<union> set fails \<subseteq> set (map fst ts)"
  by (induction n ts s arbitrary: oks fails rule: run_tasks.induct)
     (fastforce simp: Let_def split: prod.splits sum.splits if_splits)+

lemma simple_service_count:
  "sv_count (fst (snd (simple_service_start (replicate n Tick) sv s))) = sv_count sv + of_nat n"
  by (induction n arbitrary: sv s) (simp_all add: Let_def split_beta algebra_simps)

end
