(* ===== verification/Supervisor.thy ===== *)
theory Supervisor
  imports Plugin_Registry Conf_Storage Webhook
begin

text \<open>
  \<open>src/process/common.rs\<close> and \<open>src/process/auto_restart.rs\<close>: the restart of the process, the
  comparison of the stored configuration with the running one and the hot reload of what can be
  reloaded, the service that alternates hot reloads and restarts, and the observer of the storage.
  The state \<open>process\<close> is the globals of the program: the current configuration and the running
  upstreams, locations, server locations, plugins and certificates. A notification is posted
  through \<open>send_notification\<close>. \<open>restart\<close> sleeps for a minute; what the rest of the process does in the
  meantime is its argument \<open>during\<close>.
\<close>

section \<open>The process\<close>

record restart_process_command =
  rc_exec_path :: string
  rc_log_level :: string
  rc_args :: "string list"

datatype process_event = SigQuit | Exec restart_process_command

record ('re, 'b, 's, 'x, 'k, 'f) process =
  ps_config :: pingap_conf
  ps_upstreams :: "'b upstream_map"
  ps_locations :: "'re location_map"
  ps_server_locations :: server_locations
  ps_plugins :: "'s plugins"
  ps_certs :: "('x, 'k) dynamic_certificates"
  ps_store :: 'f
  ps_restarting :: bool
  ps_restart_count :: "8 word"
  ps_events :: "process_event list"
  ps_posts :: "(string \<times> (string \<times> json) list) list"

record ('re, 'b, 's, 'x, 'k, 'f) process_lib =
  pr_store :: "'f store_lib"
  pr_storage :: "config_storage option"
  pr_up :: "'b upstream_lib"
  pr_loc :: "'re location_lib"
  pr_plugin :: "('re, 's) plugin_lib"
  pr_make :: "string \<Rightarrow> plugin_conf \<Rightarrow> plugin_error + 's plugin"
  pr_admin_conf :: "(init_error + string \<times> plugin_conf) option"
  pr_cert :: "('x, 'k) cert_lib"
  pr_webhook :: webhook_lib
  pr_sender :: "webhook_sender option"
  pr_command :: "restart_process_command option"
  pr_pid :: nat
  pr_kill :: "string + unit"
  pr_exec :: "restart_process_command \<Rightarrow> string + string"

datatype reload_error = ReloadConfig config_error | ReloadPanic string

type_synonym ('re, 'b, 's, 'x, 'k, 'f, 'a) process_op = "(('re, 'b, 's, 'x, 'k, 'f) process, reload_error, 'a) action"

text \<open>\<open>OnceCell::get_or_init\<close>, for the admin address and the restart command.\<close>

definition set_once :: "'a \<Rightarrow> 'a option \<Rightarrow> 'a option" where
  "set_once v cell = (case cell of Some w \<Rightarrow> Some w | None \<Rightarrow> Some v)"

definition notify ::
  "('re, 'b, 's, 'x, 'k, 'f) process_lib \<Rightarrow> string \<Rightarrow> notification_level \<Rightarrow> string
     \<Rightarrow> ('re, 'b, 's, 'x, 'k, 'f) process \<Rightarrow> ('re, 'b, 's, 'x, 'k, 'f) process" where
  "notify lib category level message p =
     p\<lparr>ps_posts := ps_posts p @ send_notification (pr_webhook lib) (pr_sender lib)
        \<lparr>nt_category = category, nt_level = level, nt_title = [], nt_message = message\<rparr>\<rparr>"

section \<open>Restart\<close>

definition restart_now ::
  "('re, 'b, 's, 'x, 'k, 'f) process_lib \<Rightarrow> ('re, 'b, 's, 'x, 'k, 'f) process
     \<Rightarrow> (string + string) \<times> ('re, 'b, 's, 'x, 'k, 'f) process" where
  "restart_now lib p =
     (if ps_restarting p then (Inl ''Pingap is restarting'', p\<lparr>ps_restarting := True\<rparr>)
      else
        let p1 = notify lib ''restart'' NInfo (''Restart now, pid:'' @ show_nat (pr_pid lib)) (p\<lparr>ps_restarting := True\<rparr>)
        in case pr_command lib of
             None \<Rightarrow> (Inl ''Command not found'', p1)
           | Some cmd \<Rightarrow>
             (case pr_kill lib of
                Inl e \<Rightarrow> (Inl e, p1)
              | Inr _ \<Rightarrow> (pr_exec lib cmd, p1\<lparr>ps_events := ps_events p1 @ [SigQuit, Exec cmd]\<rparr>)))"

definition restart ::
  "('re, 'b, 's, 'x, 'k, 'f) process_lib
     \<Rightarrow> (('re, 'b, 's, 'x, 'k, 'f) process \<Rightarrow> ('re, 'b, 's, 'x, 'k, 'f) process)
     \<Rightarrow> ('re, 'b, 's, 'x, 'k, 'f) process \<Rightarrow> ('re, 'b, 's, 'x, 'k, 'f) process" where
  "restart lib during p =
     (let count = ps_restart_count p + 1;
          p1 = during (p\<lparr>ps_restart_count := count\<rparr>)
      in if count = ps_restart_count p1 then
           (case restart_now lib p1 of
              (Inl e, p2) \<Rightarrow> notify lib ''restart_fail'' NError e p2
            | (Inr _, p2) \<Rightarrow> p2)
         else p1)"

section \<open>Hot reload\<close>

definition upstream_error_text :: "upstream_error \<Rightarrow> string" where
  "upstream_error_text e = (case e of
     UpCommon m c \<Rightarrow> ''Common error, category: '' @ c @ '', '' @ m | UpPanic m \<Rightarrow> m)"

definition format_message :: "string \<Rightarrow> string list \<Rightarrow> string" where
  "format_message name list =
     (if list = [] then name @ '' is removed''
      else if length list > 1 then name @ ''s('' @ join '','' list @ '') are modified''
      else name @ ''('' @ join '','' list @ '') is modified'')"

definition set_hot_server ::
  "string \<times> server_conf \<Rightarrow> (string, server_conf) hash_map \<times> bool \<Rightarrow> (string, server_conf) hash_map \<times> bool" where
  "set_hot_server = (\<lambda>(name, srv) (m, changed).
     case map_of m name of
       None \<Rightarrow> (m, changed)
     | Some cur \<Rightarrow>
         if sc_locations srv \<noteq> sc_locations cur
         then (map_update name (\<lambda>s. s\<lparr>sc_locations := sc_locations srv\<rparr>) m, True) else (m, changed))"

definition exists_acme :: "pingap_conf \<Rightarrow> bool" where
  "exists_acme c = list_ex (\<lambda>(_, cert). cc_acme cert \<noteq> None) (certificates c)"

text \<open>The configuration with what can be reloaded taken from the new one, and whether a server's locations change.\<close>

definition hot_reload_config :: "pingap_conf \<Rightarrow> pingap_conf \<Rightarrow> pingap_conf \<times> bool" where
  "hot_reload_config current new =
     (let (srvs, changed) = fold set_hot_server (servers new) (servers current, False);
          hot = current\<lparr>servers := srvs, upstreams := upstreams new, locations := locations new, plugins := plugins new\<rparr>
      in (if exists_acme new then hot else hot\<lparr>certificates := certificates new\<rparr>, changed))"

definition reload_ok ::
  "('re, 'b, 's, 'x, 'k, 'f) process_lib \<Rightarrow> string \<Rightarrow> string list
     \<Rightarrow> ('re, 'b, 's, 'x, 'k, 'f) process \<Rightarrow> ('re, 'b, 's, 'x, 'k, 'f) process" where
  "reload_ok lib name updated = notify lib ''reload_config'' NInfo (format_message name updated)"

definition reload_upstreams ::
  "('re, 'b, 's, 'x, 'k, 'f) process_lib \<Rightarrow> pingap_conf \<Rightarrow> ('re, 'b, 's, 'x, 'k, 'f, string list) process_op" where
  "reload_upstreams lib new p =
     (case try_update_upstreams (pr_up lib) (upstreams new) (ps_upstreams p) of
        (Inl (UpPanic m), _) \<Rightarrow> (Inl (ReloadPanic m), p)
      | (Inl e, m) \<Rightarrow> (Inr [''upstream reload fail: '' @ upstream_error_text e], p\<lparr>ps_upstreams := m\<rparr>)
      | (Inr updated, m) \<Rightarrow> (Inr [], reload_ok lib ''Upstream'' updated (p\<lparr>ps_upstreams := m\<rparr>)))"

definition reload_locations ::
  "('re, 'b, 's, 'x, 'k, 'f) process_lib \<Rightarrow> pingap_conf \<Rightarrow> ('re, 'b, 's, 'x, 'k, 'f, string list) process_op" where
  "reload_locations lib new p =
     (case try_init_locations (pr_loc lib) (locations new) (ps_locations p) of
        (Inl e, m) \<Rightarrow> (Inr [''location reload fail: '' @ location_error_text e], p\<lparr>ps_locations := m\<rparr>)
      | (Inr updated, m) \<Rightarrow> (Inr [], reload_ok lib ''Location'' updated (p\<lparr>ps_locations := m\<rparr>)))"

definition reload_plugins ::
  "('re, 'b, 's, 'x, 'k, 'f) process_lib \<Rightarrow> pingap_conf \<Rightarrow> ('re, 'b, 's, 'x, 'k, 'f, string list) process_op" where
  "reload_plugins lib new p =
     (let (updated, error, ps) = try_init_plugins (pr_plugin lib) (pr_make lib) (pr_admin_conf lib) (plugins new) (ps_plugins p);
          p1 = p\<lparr>ps_plugins := ps\<rparr>;
          p2 = (if updated \<noteq> [] then reload_ok lib ''Plugin'' updated p1 else p1)
      in (Inr [], if error \<noteq> [] then notify lib ''reload_config_fail'' NError error p2 else p2))"

definition reload_certificates ::
  "('re, 'b, 's, 'x, 'k, 'f) process_lib \<Rightarrow> pingap_conf \<Rightarrow> ('re, 'b, 's, 'x, 'k, 'f, string list) process_op" where
  "reload_certificates lib new p =
     (let ((updated, errors), m) = try_update_certificates (pr_cert lib) (certificates new) (ps_certs p);
          p1 = reload_ok lib ''Certificate'' updated (p\<lparr>ps_certs := m\<rparr>)
      in (Inr [], if errors \<noteq> [] then notify lib ''parse_certificate_fail'' NError errors p1 else p1))"

definition reload_server_locations ::
  "('re, 'b, 's, 'x, 'k, 'f) process_lib \<Rightarrow> pingap_conf \<Rightarrow> ('re, 'b, 's, 'x, 'k, 'f, string list) process_op" where
  "reload_server_locations lib new p =
     (let (updated, m) = try_init_server_locations (servers new) (locations new) (ps_server_locations p)
      in (Inr [], reload_ok lib ''Server Location'' updated (p\<lparr>ps_server_locations := m\<rparr>)))"

definition reload_if ::
  "bool \<Rightarrow> ('re, 'b, 's, 'x, 'k, 'f, string list) process_op \<Rightarrow> string list \<Rightarrow> ('re, 'b, 's, 'x, 'k, 'f, string list) process_op" where
  "reload_if b m msgs = (if b then act_bind m (\<lambda>ms. act_return (msgs @ ms)) else act_return msgs)"

definition hot_reload ::
  "('re, 'b, 's, 'x, 'k, 'f) process_lib \<Rightarrow> string list \<Rightarrow> bool \<Rightarrow> pingap_conf
     \<Rightarrow> ('re, 'b, 's, 'x, 'k, 'f, string list) process_op" where
  "hot_reload lib updated server_locations_changed new =
     act_bind (reload_if (CATEGORY_UPSTREAM \<in> set updated) (reload_upstreams lib new) []) (\<lambda>ms.
     act_bind (reload_if (CATEGORY_LOCATION \<in> set updated) (reload_locations lib new) ms) (\<lambda>ms.
     act_bind (reload_if (CATEGORY_PLUGIN \<in> set updated) (reload_plugins lib new) ms) (\<lambda>ms.
     act_bind (reload_if (CATEGORY_CERTIFICATE \<in> set updated \<and> \<not> exists_acme new) (reload_certificates lib new) ms) (\<lambda>ms.
     reload_if server_locations_changed (reload_server_locations lib new) ms))))"

definition notify_diff ::
  "('re, 'b, 's, 'x, 'k, 'f) process_lib \<Rightarrow> string list \<Rightarrow> string list
     \<Rightarrow> ('re, 'b, 's, 'x, 'k, 'f) process \<Rightarrow> ('re, 'b, 's, 'x, 'k, 'f) process" where
  "notify_diff lib diffs fails p =
     (let message = join '';'' fails; p1 = notify lib ''diff_config'' NInfo (trim (join ''\<newline>'' diffs)) p
      in if message \<noteq> [] then notify lib ''reload_config_fail'' NInfo message p1 else p1)"

definition on_store :: "('f, 'a) store_op \<Rightarrow> ('re, 'b, 's, 'x, 'k, 'f, 'a) process_op" where
  "on_store m p = (let (r, f) = m (ps_store p) in (map_err ReloadConfig r, p\<lparr>ps_store := f\<rparr>))"

definition diff_and_update_config ::
  "('re, 'b, 's, 'x, 'k, 'f) process_lib
     \<Rightarrow> (('re, 'b, 's, 'x, 'k, 'f) process \<Rightarrow> ('re, 'b, 's, 'x, 'k, 'f) process)
     \<Rightarrow> bool \<Rightarrow> ('re, 'b, 's, 'x, 'k, 'f, unit) process_op" where
  "diff_and_update_config lib during hot_reload_only =
     act_bind (on_store (load_config (pr_store lib) (pr_storage lib) \<lparr>lo_replace_include = True, lo_admin = False\<rparr>)) (\<lambda>new.
     act_bind (\<lambda>p. (map_err ReloadConfig (validate_conf (sl_conf (pr_store lib)) new), p)) (\<lambda>_ p.
     let tx = sl_texts (pr_store lib); current = ps_config p; (updated, diffs) = conf_diff tx current new in
     if diffs = [] then (Inr (), p)
     else
       let (hot, srv_changed) = hot_reload_config current new in
       act_bind (hot_reload lib updated srv_changed new) (\<lambda>fails p1.
         if hot_reload_only then
           (let (_, hot_diffs) = conf_diff tx current hot in
            if hot_diffs = [] then (Inr (), p1)
            else (Inr (), notify_diff lib hot_diffs fails (p1\<lparr>ps_config := hot\<rparr>)))
         else
           (let p2 = notify_diff lib diffs fails (p1\<lparr>ps_config := hot\<rparr>); (_, rest) = conf_diff tx hot new
            in (Inr (), if rest = [] then p2 else restart lib during p2))) p))"

definition run_diff_and_update_config ::
  "('re, 'b, 's, 'x, 'k, 'f) process_lib
     \<Rightarrow> (('re, 'b, 's, 'x, 'k, 'f) process \<Rightarrow> ('re, 'b, 's, 'x, 'k, 'f) process)
     \<Rightarrow> bool \<Rightarrow> ('re, 'b, 's, 'x, 'k, 'f) process \<Rightarrow> ('re, 'b, 's, 'x, 'k, 'f) process" where
  "run_diff_and_update_config lib during hot_reload_only p = snd (diff_and_update_config lib during hot_reload_only p)"

section \<open>The services\<close>

record auto_restart =
  ar_restart_unit :: "32 word"
  ar_only_hot_reload :: bool
  ar_running_hot_reload :: bool
  ar_count :: "32 word"

definition new_auto_restart_service :: "duration \<Rightarrow> bool \<Rightarrow> duration \<times> auto_restart" where
  "new_auto_restart_service interval only_hot_reload =
     (min interval (from_secs 10),
      \<lparr>ar_restart_unit = (if interval > from_secs 10 then word_of_nat (as_secs interval div 10) else 1),
       ar_only_hot_reload = only_hot_reload, ar_running_hot_reload = False, ar_count = 0\<rparr>)"

definition hot_reload_turn :: "auto_restart \<Rightarrow> bool" where
  "hot_reload_turn ar =
     (if ar_only_hot_reload ar then True
      else if ar_count ar > 0 \<and> ar_restart_unit ar > 1 then ar_count ar mod ar_restart_unit ar \<noteq> 0
      else True)"

definition auto_restart_run ::
  "('re, 'b, 's, 'x, 'k, 'f) process_lib
     \<Rightarrow> (('re, 'b, 's, 'x, 'k, 'f) process \<Rightarrow> ('re, 'b, 's, 'x, 'k, 'f) process)
     \<Rightarrow> auto_restart \<times> ('re, 'b, 's, 'x, 'k, 'f) process
     \<Rightarrow> bool option \<times> auto_restart \<times> ('re, 'b, 's, 'x, 'k, 'f) process" where
  "auto_restart_run lib during = (\<lambda>(ar, p).
     let hot = hot_reload_turn ar
     in (None, ar\<lparr>ar_count := ar_count ar + 1, ar_running_hot_reload := hot\<rparr>, run_diff_and_update_config lib during hot p))"

definition MIN_DELAY :: "32 word" where "MIN_DELAY = 500"
definition MAX_DELAY :: "32 word" where "MAX_DELAY = 60 * 1000"

record config_observer =
  co_interval :: duration
  co_only_hot_reload :: bool
  co_delay :: "32 word"

definition new_observer_service :: "duration \<Rightarrow> bool \<Rightarrow> config_observer" where
  "new_observer_service interval only_hot_reload =
     \<lparr>co_interval = interval, co_only_hot_reload = only_hot_reload, co_delay = MIN_DELAY\<rparr>"

text \<open>What the observer's \<open>select!\<close> meets: the shutdown, its timer, or the result of the watch.\<close>

datatype observer_event = ObsShutdown | ObsTick | ObsWatch "string + bool"

definition observer_delay :: "string + bool \<Rightarrow> 32 word \<Rightarrow> 32 word" where
  "observer_delay result delay =
     (case result of
        Inr _ \<Rightarrow> if delay > MIN_DELAY then MIN_DELAY else delay
      | Inl _ \<Rightarrow> if delay < MAX_DELAY then delay * 2 else delay)"

fun observer_loop ::
  "('re, 'b, 's, 'x, 'k, 'f) process_lib
     \<Rightarrow> (('re, 'b, 's, 'x, 'k, 'f) process \<Rightarrow> ('re, 'b, 's, 'x, 'k, 'f) process)
     \<Rightarrow> observer_event list \<Rightarrow> config_observer \<Rightarrow> ('re, 'b, 's, 'x, 'k, 'f) process
     \<Rightarrow> config_observer \<times> ('re, 'b, 's, 'x, 'k, 'f) process" where
  "observer_loop lib during [] co p = (co, p)"
| "observer_loop lib during (ObsShutdown # es) co p = (co, p)"
| "observer_loop lib during (ObsTick # es) co p =
     observer_loop lib during es co (run_diff_and_update_config lib during (co_only_hot_reload co) p)"
| "observer_loop lib during (ObsWatch r # es) co p =
     observer_loop lib during es (co\<lparr>co_delay := observer_delay r (co_delay co)\<rparr>)
       (if r = Inr True then run_diff_and_update_config lib during True p else p)"

section \<open>Frames\<close>

lemma notify_frame [simp]:
  "ps_config (notify lib c l m p) = ps_config p" "ps_upstreams (notify lib c l m p) = ps_upstreams p"
  "ps_locations (notify lib c l m p) = ps_locations p" "ps_plugins (notify lib c l m p) = ps_plugins p"
  "ps_server_locations (notify lib c l m p) = ps_server_locations p" "ps_certs (notify lib c l m p) = ps_certs p"
  "ps_store (notify lib c l m p) = ps_store p" "ps_restarting (notify lib c l m p) = ps_restarting p"
  "ps_restart_count (notify lib c l m p) = ps_restart_count p" "ps_events (notify lib c l m p) = ps_events p"
  by (simp_all add: notify_def)

lemma notify_diff_frame [simp]:
  "ps_config (notify_diff lib d f p) = ps_config p" "ps_upstreams (notify_diff lib d f p) = ps_upstreams p"
  "ps_locations (notify_diff lib d f p) = ps_locations p" "ps_store (notify_diff lib d f p) = ps_store p"
  "ps_server_locations (notify_diff lib d f p) = ps_server_locations p"
  "ps_restarting (notify_diff lib d f p) = ps_restarting p" "ps_events (notify_diff lib d f p) = ps_events p"
  by (simp_all add: notify_diff_def Let_def)

text \<open>What a hot reload does to the running objects, part by part.\<close>

definition reload_effect ::
  "('re, 'b, 's, 'x, 'k, 'f) process_lib \<Rightarrow> string list \<Rightarrow> bool \<Rightarrow> pingap_conf
     \<Rightarrow> ('re, 'b, 's, 'x, 'k, 'f) process \<Rightarrow> ('re, 'b, 's, 'x, 'k, 'f) process \<Rightarrow> bool" where
  "reload_effect lib updated srv_changed new p p' \<longleftrightarrow>
     ps_upstreams p' = (if CATEGORY_UPSTREAM \<in> set updated
        then snd (try_update_upstreams (pr_up lib) (upstreams new) (ps_upstreams p)) else ps_upstreams p) \<and>
     ps_locations p' = (if CATEGORY_LOCATION \<in> set updated
        then snd (try_init_locations (pr_loc lib) (locations new) (ps_locations p)) else ps_locations p) \<and>
     ps_server_locations p' = (if srv_changed
        then snd (try_init_server_locations (servers new) (locations new) (ps_server_locations p)) else ps_server_locations p) \<and>
     ps_config p' = ps_config p \<and> ps_store p' = ps_store p \<and> ps_restarting p' = ps_restarting p \<and> ps_events p' = ps_events p"

lemma reload_steps:
  "reload_locations lib new p = (Inr ms, p') \<Longrightarrow> reload_effect lib [CATEGORY_LOCATION] False new p p'"
  "reload_plugins lib new p = (Inr ms, p') \<Longrightarrow> reload_effect lib [] False new p p'"
  "reload_certificates lib new p = (Inr ms, p') \<Longrightarrow> reload_effect lib [] False new p p'"
  "reload_server_locations lib new p = (Inr ms, p') \<Longrightarrow> reload_effect lib [] True new p p'"
  "reload_upstreams lib new p = (Inr ms, p') \<Longrightarrow> reload_effect lib [CATEGORY_UPSTREAM] False new p p'"
  by (auto simp: reload_effect_def reload_locations_def reload_plugins_def reload_certificates_def
      reload_server_locations_def reload_upstreams_def reload_ok_def category_names Let_def
      split: prod.splits sum.splits upstream_error.splits if_splits)

lemma reload_if_ok:
  "reload_if b m msgs p = (Inr ms, p') \<longleftrightarrow>
     (if b then (\<exists>ms'. m p = (Inr ms', p') \<and> ms = msgs @ ms') else ms = msgs \<and> p' = p)"
  by (auto simp: reload_if_def act_bind_def split: prod.splits sum.splits)

lemma act_bind_ok: "act_bind m f x = (Inr v, x') \<longleftrightarrow> (\<exists>w y. m x = (Inr w, y) \<and> f w y = (Inr v, x'))"
  by (auto simp: act_bind_def split: prod.splits sum.splits)

lemma hot_reload_effect:
  assumes "hot_reload lib updated srv_changed new p = (Inr fails, p')"
  shows "reload_effect lib updated srv_changed new p p'"
proof -
  from assms obtain m1 p1 m2 p2 m3 p3 m4 p4 where
    u: "reload_if (CATEGORY_UPSTREAM \<in> set updated) (reload_upstreams lib new) [] p = (Inr m1, p1)" and
    l: "reload_if (CATEGORY_LOCATION \<in> set updated) (reload_locations lib new) m1 p1 = (Inr m2, p2)" and
    g: "reload_if (CATEGORY_PLUGIN \<in> set updated) (reload_plugins lib new) m2 p2 = (Inr m3, p3)" and
    c: "reload_if (CATEGORY_CERTIFICATE \<in> set updated \<and> \<not> exists_acme new) (reload_certificates lib new) m3 p3 = (Inr m4, p4)" and
    s: "reload_if srv_changed (reload_server_locations lib new) m4 p4 = (Inr fails, p')"
    unfolding hot_reload_def act_bind_ok by blast
  have 1: "reload_effect lib (if CATEGORY_UPSTREAM \<in> set updated then [CATEGORY_UPSTREAM] else []) False new p p1"
    using u reload_steps(5)[of lib new p] by (auto simp: reload_if_ok reload_effect_def split: if_splits)
  have 2: "reload_effect lib (if CATEGORY_LOCATION \<in> set updated then [CATEGORY_LOCATION] else []) False new p1 p2"
    using l reload_steps(1)[of lib new p1] by (auto simp: reload_if_ok reload_effect_def split: if_splits)
  have 3: "reload_effect lib [] False new p2 p3"
    using g reload_steps(2)[of lib new p2] by (auto simp: reload_if_ok reload_effect_def split: if_splits)
  have 4: "reload_effect lib [] False new p3 p4"
    using c reload_steps(3)[of lib new p3] by (auto simp: reload_if_ok reload_effect_def split: if_splits)
  have 5: "reload_effect lib [] srv_changed new p4 p'"
    using s reload_steps(4)[of lib new p4] by (auto simp: reload_if_ok reload_effect_def split: if_splits)
  from 1 2 3 4 5 show ?thesis
    by (simp add: reload_effect_def category_names split: if_splits)
qed

end
