(* ===== verification/Admin.thy ===== *)
theory Admin
  imports Supervisor
begin

text \<open>
  The admin plugin: \<open>src/plugin/admin.rs\<close> and \<open>parse_admin_plugin\<close> of \<open>src/plugin/mod.rs\<close>. It reads
  and changes the stored configuration, reports on the process, restarts it, encrypts values and
  serves the embedded web pages. The configuration store is in the plugin state \<open>'s\<close>
  (\<open>ad_store\<close> works on it), and so are the failed attempts per client. The JSON text of a
  value is \<open>ad_json\<close>; the chunks of the request body are what successive reads give;
  \<open>ad_restart\<close> is \<open>restart_now\<close> on the process in the state. \<open>substring\<close> counts characters; paths
  are ASCII. The features compiled in are the default ones.
\<close>

section \<open>Services\<close>

record embedded_file =
  ef_data :: string
  ef_sha256 :: string
  ef_mimetype :: string

record system_info =
  sy_memory_mb :: nat
  sy_memory :: string
  sy_arch :: string
  sy_cpus :: nat
  sy_physical_cpus :: nat
  sy_total_memory :: string
  sy_used_memory :: string
  sy_kernel :: string
  sy_pid :: nat
  sy_threads :: nat
  sy_fd_count :: nat
  sy_tcp_count :: nat
  sy_tcp6_count :: nat

record basic_info =
  bi_start_time :: nat
  bi_version :: string
  bi_rustc_version :: string
  bi_config_hash :: string
  bi_user :: string
  bi_group :: string
  bi_pid :: string
  bi_system :: system_info
  bi_processing :: i32
  bi_accepted :: u64
  bi_features :: "string list"
  bi_supported_plugins :: "string list"
  bi_upstream_healthy_status :: "(string, healthy_status) hash_map"

text \<open>The values the plugin sends as JSON.\<close>

datatype admin_json =
    JUpstreams "(string, upstream_conf) hash_map"
  | JLocations "(string, location_conf) hash_map"
  | JServers "(string, server_conf) hash_map"
  | JPlugins "(string, plugin_conf) hash_map"
  | JCertificates "(string, certificate_conf) hash_map"
  | JConf pingap_conf
  | JToml string string
  | JError string
  | JBasicInfo basic_info
  | JAes string
  | JCertInfos "(string, certificate) hash_map"

record aes_params =
  ae_category :: string
  ae_key :: string
  ae_data :: string

record 's admin_lib =
  ad_store :: "'s store_lib"
  ad_storage :: "config_storage option"
  ad_body_reads :: "conn \<Rightarrow> (pingora_error + string) list"
  ad_json :: "admin_json \<Rightarrow> string + string"
  ad_toml_pretty :: "pingap_conf \<Rightarrow> string + string"
  ad_upstream_json :: "string \<Rightarrow> string + upstream_conf"
  ad_location_json :: "string \<Rightarrow> string + location_conf"
  ad_server_json :: "string \<Rightarrow> string + server_conf"
  ad_plugin_json :: "string \<Rightarrow> string + plugin_conf"
  ad_certificate_json :: "string \<Rightarrow> string + certificate_conf"
  ad_storage_json :: "string \<Rightarrow> string + storage_conf"
  ad_basic_json :: "string \<Rightarrow> string + basic_conf"
  ad_aes_json :: "string \<Rightarrow> string + aes_params"
  ad_fail_get :: "'s \<Rightarrow> string \<Rightarrow> ttl_limit option"
  ad_fail_put :: "string \<Rightarrow> ttl_limit \<Rightarrow> 's \<Rightarrow> 's"
  ad_info :: "'s \<Rightarrow> basic_info"
  ad_restart :: "'s \<Rightarrow> (string + string) \<times> 's"
  ad_cert_infos :: "'s \<Rightarrow> (string \<times> certificate) list"
  ad_asset :: "string \<Rightarrow> embedded_file option"
  ad_gzip :: "string \<Rightarrow> string option"

section \<open>Embedded files\<close>

definition embedded_static_file ::
  "('re, 's) plugin_lib \<Rightarrow> 's admin_lib \<Rightarrow> embedded_file option \<Rightarrow> duration \<Rightarrow> http_response" where
  "embedded_static_file lib ad file age =
     (case file of
        None \<Rightarrow> not_found ''Not Found''
      | Some f \<Rightarrow>
          let hash = take 8 (pl_hex_encode lib (ef_sha256 f)); mime_type = ef_mimetype f;
              entity_tag = ''\"'' @ show_hex (length (ef_data f)) @ ''-'' @ hash @ ''\"'';
              max_age = (if contains_str mime_type ''text/html'' then 0 else as_secs age);
              header = (\<lambda>name v. case hvalue_from_str (pl_http lib) v of Inr w \<Rightarrow> [(name, w)] | Inl _ \<Rightarrow> []);
              gzip_body = (if length (ef_data f) > 1024 then ad_gzip ad (ef_data f) else None);
              headers = header ''content-type'' mime_type @ header ''etag'' entity_tag
                @ (if gzip_body = None then [] else header ''content-encoding'' ''gzip'')
          in default_response\<lparr>hr_status := 200, hr_body := unwrap_or (ef_data f) gzip_body,
               hr_max_age := Some (max_age mod 2 ^ 32), hr_headers := Some headers\<rparr>)"

section \<open>Construction\<close>

record admin_serve =
  as_path :: string
  as_authorizations :: "(string \<times> string) list"
  as_step :: plugin_step
  as_max_age :: duration
  as_hash_value :: string
  as_fail_limit :: nat

fun admin_authorizations ::
  "('re, 's) plugin_lib \<Rightarrow> string list \<Rightarrow> plugin_error + (string \<times> string) list" where
  "admin_authorizations lib [] = Inr []"
| "admin_authorizations lib (item # rest) =
     (if item = [] then admin_authorizations lib rest
      else try_then (map_err (PluginBase64Decode ''basic_auth'') (base64_decode (pl_util lib) item)) (\<lambda>data.
           try_then (admin_authorizations lib rest) (\<lambda>auths.
           Inr (case split_once CHR '':'' (from_utf8_lossy lib data) of
                  Some (user, pw) \<Rightarrow> (user, pw) # auths | None \<Rightarrow> auths))))"

definition admin_try_from :: "('re, 's) plugin_lib \<Rightarrow> plugin_conf \<Rightarrow> plugin_error + admin_serve" where
  "admin_try_from lib conf =
     try_then (admin_authorizations lib (get_str_slice_conf conf ''authorizations'')) (\<lambda>auths.
     let limit = get_int_conf conf ''ip_fail_limit''; text = get_str_conf conf ''max_age'';
         path = get_str_conf conf ''path'' in
     try_then (if text = [] then Inr (from_secs (2 * 24 * 3600))
               else map_err (PluginParseDuration ''admin'') (pl_parse_duration lib text)) (\<lambda>max_age.
     Inr \<lparr>as_path = (if length path > 1 \<and> ends_with path ''/'' then butlast path else path),
       as_authorizations = auths, as_step = Request, as_max_age = max_age, as_hash_value = get_hash_key lib conf,
       as_fail_limit = nat (if limit \<le> 0 then 10 else limit)\<rparr>))"

section \<open>Authentication\<close>

text \<open>The expression \<open>.(js|css|png)$\<close>: any character other than a line feed, then the suffix.\<close>

definition static_path :: "string \<Rightarrow> bool" where
  "static_path path =
     list_ex (\<lambda>suffix. ends_with path suffix \<and> length path > length suffix \<and>
       path ! (length path - length suffix - 1) \<noteq> CHR ''\<newline>'') [''js'', ''css'', ''png'']"

definition admin_digest :: "('re, 's) plugin_lib \<Rightarrow> string \<times> string \<Rightarrow> string \<Rightarrow> string" where
  "admin_digest lib cred ts = pl_hex_encode lib (pl_sha256 lib (fst cred @ '':'' @ snd cred @ '':'' @ ts))"

definition auth_validate :: "('re, 's) plugin_lib \<Rightarrow> admin_serve \<Rightarrow> request_header \<Rightarrow> bool" where
  "auth_validate lib ad h =
     (if as_authorizations ad = [] then True
      else
        let path = uri_path (req_uri h) in
        if length path \<le> 1 \<or> static_path path then True
        else
          let v = unwrap_or [] (get_req_header_value (pl_http lib) h ''Authorization'') in
          if v = [] then False
          else case split_once CHR '':'' v of
            None \<Rightarrow> False
          | Some (token, ts) \<Rightarrow>
              let stamp = (case parse_i64 ts of Inr t \<Rightarrow> t | Inl _ \<Rightarrow> 0);
                  offset = abs_i64 (word_of_nat (now_sec (pl_env lib)) - word_of_int stamp) :: 64 word in
              if sint offset > sint (word_of_nat (as_secs (as_max_age ad)) :: 64 word) then False
              else list_ex (\<lambda>cred. admin_digest lib cred ts = token) (as_authorizations ad))"

section \<open>Configurations\<close>

type_synonym 's admin_op = "('s, pingora_error, http_response) action"

definition bad_config :: "config_error + 'a \<Rightarrow> pingora_error + 'a" where
  "bad_config r = map_err (\<lambda>e. new_internal_error 400 (config_error_text e)) r"

definition bad_text :: "string + 'a \<Rightarrow> pingora_error + 'a" where
  "bad_text r = map_err (new_internal_error 400) r"

definition on_config :: "('s, 'a) store_op \<Rightarrow> ('s, pingora_error, 'a) action" where
  "on_config m s = (let (r, s') = m s in (bad_config r, s'))"

definition admin_load_config :: "'s admin_lib \<Rightarrow> bool \<Rightarrow> ('s, pingora_error, pingap_conf) action" where
  "admin_load_config ad replace_include =
     on_config (load_config (ad_store ad) (ad_storage ad) \<lparr>lo_replace_include = replace_include, lo_admin = True\<rparr>)"

definition omit_empty :: "'s admin_lib \<Rightarrow> string \<Rightarrow> string" where
  "omit_empty ad text =
     (case toml_omit_empty_value (sl_util (ad_store ad)) text of Inr v \<Rightarrow> v | Inl _ \<Rightarrow> text)"

definition get_config :: "'s admin_lib \<Rightarrow> string \<Rightarrow> 's admin_op" where
  "get_config ad category =
     act_bind (admin_load_config ad False) (\<lambda>conf.
     if category = ''toml'' then
       act_bind (admin_load_config ad True) (\<lambda>full_conf s.
         (try_then (bad_text (ad_toml_pretty ad full_conf)) (\<lambda>full.
          try_then (bad_text (ad_toml_pretty ad conf)) (\<lambda>original.
          try_from_json (ad_json ad (JToml (omit_empty ad full) (omit_empty ad original))))), s))
     else (\<lambda>s.
       (try_from_json (ad_json ad
          (if category = CATEGORY_UPSTREAM then JUpstreams (upstreams conf)
           else if category = CATEGORY_LOCATION then JLocations (locations conf)
           else if category = CATEGORY_SERVER then JServers (servers conf)
           else if category = CATEGORY_PLUGIN then JPlugins (plugins conf)
           else if category = CATEGORY_CERTIFICATE then JCertificates (certificates conf)
           else JConf conf)), s)))"

definition admin_save :: "'s admin_lib \<Rightarrow> pingap_conf \<Rightarrow> string \<Rightarrow> string \<Rightarrow> 's admin_op" where
  "admin_save ad conf category name =
     act_bind (on_config (save_config (ad_store ad) (ad_storage ad) conf category (Some name)))
       (\<lambda>_. act_return no_content)"

definition remove_config :: "'s admin_lib \<Rightarrow> string \<Rightarrow> string \<Rightarrow> 's admin_op" where
  "remove_config ad category name =
     act_bind (admin_load_config ad False) (\<lambda>conf.
     act_bind (Pair (bad_config (remove_conf category name conf))) (\<lambda>conf'.
     admin_save ad conf' category name))"

fun get_request_body :: "(pingora_error + string) list \<Rightarrow> pingora_error + string" where
  "get_request_body [] = Inr []"
| "get_request_body (Inl e # r) = Inl e"
| "get_request_body (Inr b # r) = try_then (get_request_body r) (\<lambda>rest. Inr (b @ rest))"

definition put_entry :: "'s admin_lib \<Rightarrow> string \<Rightarrow> string \<Rightarrow> string \<Rightarrow> pingap_conf \<Rightarrow> string + pingap_conf" where
  "put_entry ad category key buf conf =
     (if category = CATEGORY_UPSTREAM then
        try_then (ad_upstream_json ad buf) (\<lambda>v. Inr (conf\<lparr>upstreams := map_insert key v (upstreams conf)\<rparr>))
      else if category = CATEGORY_LOCATION then
        try_then (ad_location_json ad buf) (\<lambda>v. Inr (conf\<lparr>locations := map_insert key v (locations conf)\<rparr>))
      else if category = CATEGORY_SERVER then
        try_then (ad_server_json ad buf) (\<lambda>v. Inr (conf\<lparr>servers := map_insert key v (servers conf)\<rparr>))
      else if category = CATEGORY_PLUGIN then
        try_then (ad_plugin_json ad buf) (\<lambda>v. Inr (conf\<lparr>plugins := map_insert key v (plugins conf)\<rparr>))
      else if category = CATEGORY_CERTIFICATE then
        try_then (ad_certificate_json ad buf) (\<lambda>v. Inr (conf\<lparr>certificates := map_insert key v (certificates conf)\<rparr>))
      else if category = CATEGORY_STORAGE then
        try_then (ad_storage_json ad buf) (\<lambda>v. Inr (conf\<lparr>storages := map_insert key v (storages conf)\<rparr>))
      else try_then (ad_basic_json ad buf) (\<lambda>v. Inr (conf\<lparr>basic := v\<rparr>)))"

definition update_config ::
  "'s admin_lib \<Rightarrow> (pingora_error + string) list \<Rightarrow> string \<Rightarrow> string \<Rightarrow> 's admin_op" where
  "update_config ad reads category name =
     (if name = [] then act_fail (new_internal_error 400 ''name is empty'')
      else
        act_bind (Pair (get_request_body reads)) (\<lambda>buf.
        act_bind (admin_load_config ad False) (\<lambda>conf.
        act_bind (Pair (bad_text (put_entry ad category name buf conf))) (\<lambda>conf'.
        admin_save ad conf' category name))))"

definition import_config :: "'s admin_lib \<Rightarrow> (pingora_error + string) list \<Rightarrow> 's admin_op" where
  "import_config ad reads =
     act_bind (Pair (get_request_body reads)) (\<lambda>buf.
     act_bind (Pair (bad_config (new_conf (sl_conf (ad_store ad)) buf False))) (\<lambda>conf.
     act_bind (case ad_storage ad of
                 Some st \<Rightarrow> on_config (sync_config (ad_store ad) st conf) | None \<Rightarrow> act_return ())
       (\<lambda>_. act_return no_content)))"

section \<open>Requests\<close>

definition new_str_error :: "string \<Rightarrow> pingora_error" where
  "new_str_error context = \<lparr>pe_type = OtherError ''UnknownError'', pe_source = ErrUnset, pe_context = context\<rparr>"

definition json_or_fail :: "'s admin_lib \<Rightarrow> admin_json \<Rightarrow> http_response" where
  "json_or_fail ad v =
     (case try_from_json (ad_json ad v) of Inr r \<Rightarrow> r | Inl _ \<Rightarrow> unknown_error ''Json serde fail'')"

definition error_json :: "('re, 's) plugin_lib \<Rightarrow> 's admin_lib \<Rightarrow> pingora_error \<Rightarrow> http_response" where
  "error_json lib ad e =
     (case try_from_json_status (ad_json ad (JError (pl_error_text lib e))) 500 of
        Inr r \<Rightarrow> r | Inl _ \<Rightarrow> unknown_error ''Json serde fail'')"

definition handle_configs ::
  "('re, 's) plugin_lib \<Rightarrow> 's admin_lib \<Rightarrow> (pingora_error + string) list \<Rightarrow> string \<Rightarrow> string list \<Rightarrow> 's
     \<Rightarrow> http_response \<times> 's" where
  "handle_configs lib ad reads meth params s =
     (let category = (if length params \<ge> 3 then params ! 2 else []);
          no_name = act_fail (new_str_error ''Url is invalid(no name)'');
          (r, s') =
            (if meth = ''POST'' then
               if category = ''import'' then import_config ad reads s
               else if length params < 4 then no_name s
               else update_config ad reads category (params ! 3) s
             else if meth = ''DELETE'' then
               if length params < 4 then no_name s else remove_config ad category (params ! 3) s
             else get_config ad category s)
      in (case r of Inr resp \<Rightarrow> resp | Inl e \<Rightarrow> error_json lib ad e, s'))"

definition handle_aes ::
  "'s admin_lib \<Rightarrow> (pingora_error + string) list \<Rightarrow> pingora_error + http_response" where
  "handle_aes ad reads =
     try_then (get_request_body reads) (\<lambda>buf.
     try_then (bad_text (ad_aes_json ad buf)) (\<lambda>params.
     try_then (map_err (\<lambda>e. new_internal_error 400 (util_error_text e))
        (if ae_category params = ''encrypt'' then aes_encrypt (sl_util (ad_store ad)) (ae_key params) (ae_data params)
         else aes_decrypt (sl_util (ad_store ad)) (ae_key params) (ae_data params))) (\<lambda>v.
     Inr (json_or_fail ad (JAes v)))))"

text \<open>The answer to an authenticated request with its method and its path within the admin site.\<close>

definition admin_answer ::
  "('re, 's) plugin_lib \<Rightarrow> 's admin_lib \<Rightarrow> (pingora_error + string) list \<Rightarrow> string \<Rightarrow> string
     \<Rightarrow> ('s, pingora_error, http_response) action" where
  "admin_answer lib ad reads meth full_path s =
     (let path = (if starts_with full_path ''/api'' then drop 4 full_path else full_path);
          params = map (\<lambda>item. unwrap_or [] (pl_url_decode lib item)) (split_on CHR ''/'' path) in
      if starts_with path ''/configs'' then
        (let (r, s') = handle_configs lib ad reads meth params s in (Inr r, s'))
      else if path = ''/basic'' then (Inr (json_or_fail ad (JBasicInfo (ad_info ad s))), s)
      else if path = ''/restart'' \<and> meth = ''POST'' then
        (case ad_restart ad s of
           (Inl e, s') \<Rightarrow> (Inr (bad_request e), s') | (Inr _, s') \<Rightarrow> (Inr no_content, s'))
      else if path = ''/aes'' then (handle_aes ad reads, s)
      else if path = ''/certificates'' then
        (Inr (json_or_fail ad (JCertInfos (fold (\<lambda>(n, i). map_insert n i) (ad_cert_infos ad s) []))), s)
      else
        let file = (if drop 1 path = [] then ''index.html'' else drop 1 path)
        in (Inr (embedded_static_file lib ad (ad_asset ad file) (from_secs (365 * 24 * 3600))), s))"

definition fail_limit :: "'s admin_lib \<Rightarrow> admin_serve \<Rightarrow> 's ttl_lru_limit" where
  "fail_limit ad a = \<lparr>ttl_ms = 5 * 60 * 1000, ttl_max = as_fail_limit a,
     ttl_ufo_get = ad_fail_get ad, ttl_ufo_put = ad_fail_put ad\<rparr>"

definition with_query :: "uri \<Rightarrow> string \<Rightarrow> string" where
  "with_query u path = (case uri_query u of Some q \<Rightarrow> path @ ''?'' @ q | None \<Rightarrow> path)"

definition handle_request_admin ::
  "('re, 's) plugin_lib \<Rightarrow> 's admin_lib \<Rightarrow> admin_serve \<Rightarrow> conn \<times> 's
     \<Rightarrow> (pingora_error + http_response option) \<times> conn \<times> 's" where
  "handle_request_admin lib ad a = (\<lambda>(cn, s0).
     let ip = get_client_ip (pl_http lib) (cn_session cn); now = sys_now_ms (pl_env lib);
         (ok, s) = ttl_validate (fail_limit ad a) now ip s0 in
     if \<not> ok then (Inr (Some (status_body 403 ''Forbidden, too many failures'')), cn, s)
     else
       let u = req_uri (conn_req cn); path = uri_path u; new_path = drop (length (as_path a)) path in
       if length (as_path a) > 1 \<and> new_path = [] then
         (case redirect_to (pl_http lib) (with_query u (path @ ''/'')) of
            Inl e \<Rightarrow> (Inl e, cn, s) | Inr r \<Rightarrow> (Inr (Some r), cn, s))
       else
         let cn1 = (case uri_parse (pl_http lib) (with_query u new_path) of
                      Inr u' \<Rightarrow> upd_req (\<lambda>h. h\<lparr>req_uri := u'\<rparr>) cn | Inl _ \<Rightarrow> cn) in
         if \<not> auth_validate lib a (conn_req cn1) then
           (Inr (Some (status_body 401 [])), cn1, ttl_inc (fail_limit ad a) now ip s)
         else
           let (r, s') = admin_answer lib ad (ad_body_reads ad cn1) (req_method (conn_req cn1)) (uri_path (req_uri (conn_req cn1))) s
           in (case r of Inl e \<Rightarrow> Inl e | Inr resp \<Rightarrow> Inr (Some resp), cn1, s'))"

definition admin_handle_request :: "('re, 's) plugin_lib \<Rightarrow> 's admin_lib \<Rightarrow> admin_serve \<Rightarrow> 's req_handler" where
  "admin_handle_request lib ad a step st =
     (case st of (cn, c, s) \<Rightarrow>
        if step \<noteq> as_step a then skip st
        else if \<not> starts_with (uri_path (req_uri (conn_req cn))) (as_path a) then skip st
        else let (r, cn', s') = handle_request_admin lib ad a (cn, s)
             in (case r of Inl e \<Rightarrow> Inl e | Inr resp \<Rightarrow> Inr (True, resp), cn', c, s'))"

definition new_admin :: "('re, 's) plugin_lib \<Rightarrow> 's admin_lib \<Rightarrow> plugin_conf \<Rightarrow> plugin_error + 's plugin" where
  "new_admin lib ad conf =
     try_then (admin_try_from lib conf) (\<lambda>a.
     Inr (default_plugin\<lparr>hash_key := as_hash_value a, handle_request := admin_handle_request lib ad a\<rparr>))"

section \<open>The admin server of the command line\<close>

record url =
  url_host :: "string option"
  url_port :: "nat option"
  url_username :: string
  url_password :: "string option"
  url_path :: string
  url_query :: "string option"

text \<open>
  \<open>plugin_name\<close> is the identifier drawn for the admin plugin. The configuration is read back from
  TOML text, so it is the table that text denotes: texts without quotes and backslashes stand for
  themselves.
\<close>

definition parse_admin_plugin ::
  "('re, 's) plugin_lib \<Rightarrow> (string \<Rightarrow> string + url) \<Rightarrow> (string \<Rightarrow> (string, string) hash_map) \<Rightarrow> string \<Rightarrow> string
     \<Rightarrow> init_error + (string \<times> string \<times> plugin_conf)" where
  "parse_admin_plugin lib parse_url query_map plugin_name addr =
     try_then (map_err (InitInvalid ''url'') (parse_url (''http://'' @ addr))) (\<lambda>info.
     let host = unwrap_or [] (url_host info) @ '':'' @ show_nat (unwrap_or 80 (url_port info));
         user = unwrap_or [] (pl_url_decode lib (url_username info));
         authorization =
           (if url_username info = [] then []
            else case url_password info of
                   Some pw \<Rightarrow> base64_encode (pl_util lib) (user @ '':'' @ pw) | None \<Rightarrow> user);
         path = (if url_path info = [] then ''/'' else url_path info);
         max_age = unwrap_or ''2d'' (map_of (query_map (unwrap_or [] (url_query info))) ''max_age'')
     in Inr (host, plugin_name,
          [(''category'', TString ''admin''), (''path'', TString path),
           (''authorizations'', TArray [TString authorization]), (''max_age'', TString max_age),
           (''remark'', TString ''Admin serve'')]))"

section \<open>Lemmas\<close>

lemma admin_keeps: "new_admin lib ad conf = Inr p \<Longrightarrow> keeps_location p"
  by (auto simp: new_admin_def admin_handle_request_def handler_results Let_def split_beta intro!: keeps_request)

end
