(* ===== verification/Access_Control.thy ===== *)
theory Access_Control
  imports Admin
begin

text \<open>
  What the access plugins guarantee once they are built from a configuration, put into a location
  and run by the server: the interpretations of \<open>request_guard\<close> composed with the factory, the
  reload of plugins and \<open>request_filter\<close>.
\<close>

section \<open>The request filter\<close>

text \<open>The exchange with the request header the location rewrites, which its plugins see.\<close>

definition rewritten :: "('re, 'b, 's) server_lib \<Rightarrow> 're location \<Rightarrow> ('re, 'b, 's) exch \<Rightarrow> ('re, 'b, 's) exch" where
  "rewritten lib l x =
     x\<lparr>x_conn := (x_conn x)\<lparr>cn_session := (cn_session (x_conn x))\<lparr>req_header :=
        snd (rewrite (sl_loc lib) l (x_req x) (variables (x_ctx x)))\<rparr>\<rparr>\<rparr>"

lemma rewritten_upgrade [simp]:
  "is_upgrade_req (cn_session (x_conn (rewritten lib l x))) = is_upgrade_req (cn_session (x_conn x))"
  by (simp add: rewritten_def)

lemma serve_location_some:
  "current_location x = Some l \<Longrightarrow> serve_location lib x = handle_request_plugin lib Request l (rewritten lib l x)"
  by (simp add: serve_location_def rewritten_def Let_def split: prod.split)

lemma send_then_true: "fst (act_bind (send_response lib r) (\<lambda>_. act_return True) x) \<noteq> Inr False"
  by (auto simp: act_bind_def split: prod.split sum.split)

lemma lets_encrypt_passes: "fst (run_lets_encrypt lib x) = Inr False \<Longrightarrow> run_lets_encrypt lib x = (Inr False, x)"
  using send_then_true[of lib _ x]
  by (auto simp: run_lets_encrypt_def handle_lets_encrypt_def Let_def simp del: act_simps
      split: if_splits option.splits sum.splits)

lemma metrics_passes: "fst (serve_metrics lib x) = Inr False \<Longrightarrow> serve_metrics lib x = (Inr False, x)"
  using send_then_true[of lib _ x]
  by (auto simp: serve_metrics_def Let_def simp del: act_simps split: if_splits option.splits sum.splits)

lemma or_else_passes:
  "or_else m n x = (Inr False, x') \<Longrightarrow> \<exists>y. m x = (Inr False, y) \<and> n y = (Inr False, x')"
  by (auto simp: or_else_def act_bind_def split: prod.splits sum.splits if_splits)

lemma request_filter_passes:
  assumes "\<not> srv_admin (w_server (x_world x))" "current_location x = Some l"
    and "request_filter lib x = (Inr False, x')"
  shows "handle_request_plugin lib Request l (rewritten lib l x) = (Inr False, x')"
proof -
  from assms(1,3) have "or_else (run_lets_encrypt lib) (or_else (serve_metrics lib) (serve_location lib)) x = (Inr False, x')"
    by (simp add: request_filter_def or_else_def act_bind_def)
  then obtain y where y: "run_lets_encrypt lib x = (Inr False, y)"
    and r: "or_else (serve_metrics lib) (serve_location lib) y = (Inr False, x')" by (meson or_else_passes)
  from y lets_encrypt_passes[of lib x] have [simp]: "y = x" by simp
  from r obtain z where z: "serve_metrics lib x = (Inr False, z)" and s: "serve_location lib z = (Inr False, x')"
    by (auto dest: or_else_passes)
  from z metrics_passes[of lib x] have "z = x" by simp
  with s serve_location_some[OF assms(2)] show ?thesis by simp
qed

section \<open>What a built plugin admits\<close>

definition access_admits ::
  "('re, 's) plugin_lib \<Rightarrow> string \<Rightarrow> plugin_conf \<Rightarrow> conn \<Rightarrow> ctx \<Rightarrow> 's \<Rightarrow> bool" where
  "access_admits lib name conf cn c s \<longleftrightarrow>
     (let category = get_str_conf conf ''category'' in
      (\<forall>ka. category = ''key_auth'' \<and> key_auth_try_from lib conf = Inr ka \<longrightarrow> key_auth_admits ka cn c s) \<and>
      (\<forall>ba. category = ''basic_auth'' \<and> basic_auth_try_from lib conf = Inr ba \<longrightarrow> basic_auth_admits ba cn c s) \<and>
      (\<forall>ca. category = ''combined_auth'' \<and> combined_auth_try_from lib conf = Inr ca \<longrightarrow> combined_auth_admits lib ca cn c s) \<and>
      (\<forall>ja. category = ''jwt'' \<and> jwt_try_from lib conf = Inr ja \<longrightarrow> jwt_admits lib ja cn c s) \<and>
      (\<forall>cs. category = ''csrf'' \<and> csrf_try_from lib conf = Inr cs \<longrightarrow> csrf_admits lib cs cn c s) \<and>
      (\<forall>ir. category = ''ip_restriction'' \<and> ip_restriction_try_from lib conf = Inr ir \<longrightarrow> ip_admits lib ir cn c s) \<and>
      (\<forall>ur. category = ''ua_restriction'' \<and> ua_restriction_try_from lib conf = Inr ur \<longrightarrow> ua_admits lib ur cn c s) \<and>
      (\<forall>rr. category = ''referer_restriction'' \<and> referer_restriction_try_from lib conf = Inr rr \<longrightarrow> referer_admits lib rr cn c s) \<and>
      (\<forall>lm. category = ''limit'' \<and> limiter_try_from lib name conf = Inr lm \<and> lm_step lm = Request \<longrightarrow> limit_admits lib lm cn c s))"

lemma made_by:
  assumes "make_plugin lib admin name conf = Inr p"
  shows "get_str_conf conf ''category'' = ''key_auth'' \<Longrightarrow> new_key_auth lib conf = Inr p"
    "get_str_conf conf ''category'' = ''basic_auth'' \<Longrightarrow> new_basic_auth lib conf = Inr p"
    "get_str_conf conf ''category'' = ''combined_auth'' \<Longrightarrow> new_combined_auth lib conf = Inr p"
    "get_str_conf conf ''category'' = ''jwt'' \<Longrightarrow> new_jwt lib conf = Inr p"
    "get_str_conf conf ''category'' = ''csrf'' \<Longrightarrow> new_csrf lib conf = Inr p"
    "get_str_conf conf ''category'' = ''ip_restriction'' \<Longrightarrow> new_ip_restriction lib conf = Inr p"
    "get_str_conf conf ''category'' = ''ua_restriction'' \<Longrightarrow> new_ua_restriction lib conf = Inr p"
    "get_str_conf conf ''category'' = ''referer_restriction'' \<Longrightarrow> new_referer_restriction lib conf = Inr p"
    "get_str_conf conf ''category'' = ''limit'' \<Longrightarrow> new_limiter lib name conf = Inr p"
  using assms by (simp_all add: make_plugin_def create_def all_plugins_def register_def)

lemma built_at_request:
  "key_auth_try_from lib conf = Inr ka \<Longrightarrow> ka_step ka = Request"
  "basic_auth_try_from lib conf = Inr ba \<Longrightarrow> ba_step ba = Request"
  "combined_auth_try_from lib conf = Inr ca \<Longrightarrow> ca_step ca = Request"
  "jwt_try_from lib conf = Inr ja \<Longrightarrow> ja_step ja = Request"
  "csrf_try_from lib conf = Inr cs \<Longrightarrow> cs_step cs = Request"
  "ip_restriction_try_from lib conf = Inr ir \<Longrightarrow> ir_step ir = Request"
  "ua_restriction_try_from lib conf = Inr ur \<Longrightarrow> ur_step ur = Request"
  "referer_restriction_try_from lib conf = Inr rr \<Longrightarrow> rr_step rr = Request"
  by (auto dest: key_auth_built basic_auth_built combined_auth_built
      simp: jwt_try_from_def csrf_try_from_def ip_restriction_try_from_def ua_restriction_try_from_def
        referer_restriction_try_from_def Let_def split: if_splits)

lemma built_handlers:
  "new_key_auth lib conf = Inr p \<Longrightarrow> key_auth_try_from lib conf = Inr ka \<Longrightarrow> handle_request p = key_auth_handle_request lib ka"
  "new_basic_auth lib conf = Inr p \<Longrightarrow> basic_auth_try_from lib conf = Inr ba \<Longrightarrow> handle_request p = basic_auth_handle_request ba"
  "new_combined_auth lib conf = Inr p \<Longrightarrow> combined_auth_try_from lib conf = Inr ca \<Longrightarrow> handle_request p = combined_auth_handle_request lib ca"
  "new_jwt lib conf = Inr p \<Longrightarrow> jwt_try_from lib conf = Inr ja \<Longrightarrow> handle_request p = jwt_handle_request lib ja"
  "new_csrf lib conf = Inr p \<Longrightarrow> csrf_try_from lib conf = Inr cs \<Longrightarrow> handle_request p = csrf_handle_request lib cs"
  "new_ip_restriction lib conf = Inr p \<Longrightarrow> ip_restriction_try_from lib conf = Inr ir \<Longrightarrow> handle_request p = ip_restriction_handle_request lib ir"
  "new_ua_restriction lib conf = Inr p \<Longrightarrow> ua_restriction_try_from lib conf = Inr ur \<Longrightarrow> handle_request p = ua_restriction_handle_request lib ur"
  "new_referer_restriction lib conf = Inr p \<Longrightarrow> referer_restriction_try_from lib conf = Inr rr \<Longrightarrow> handle_request p = referer_restriction_handle_request lib rr"
  "new_limiter lib name conf = Inr p \<Longrightarrow> limiter_try_from lib name conf = Inr lm \<Longrightarrow> handle_request p = limiter_handle_request lib lm"
  by (auto simp: new_key_auth_def new_basic_auth_def new_combined_auth_def new_jwt_def new_csrf_def
      new_ip_restriction_def new_ua_restriction_def new_referer_restriction_def new_limiter_def)

text \<open>One access plugin in a chain: every guard admits at the point where it runs.\<close>

lemma chain_access:
  assumes p: "sl_plugin slib name = Some p" and mk: "make_plugin lib admin name conf = Inr p"
    and pass: "run_request_plugins slib Request (pre @ name # post) x = (Inr False, x')"
  shows "\<exists>y. run_request_plugins slib Request pre x = (Inr False, y) \<and>
    access_admits lib name conf (x_conn y) (x_ctx y) (w_plugins (x_world y))"
proof -
  obtain r y where pre: "run_request_plugins slib Request pre x = (r, y)" by force
  have r: "r = Inr False"
    using pass pre unfolding run_request_plugins_append or_else_def act_bind_def
    by (auto split: sum.splits if_splits)
  have adm: "G (x_conn y) (x_ctx y) (w_plugins (x_world y))"
    if "\<exists>z. run_request_plugins slib Request pre x = (Inr False, z) \<and> G (x_conn z) (x_ctx z) (w_plugins (x_world z))" for G
    using that pre by auto
  note made = made_by[OF mk] and handlers = built_handlers[where lib = lib]
  have "access_admits lib name conf (x_conn y) (x_ctx y) (w_plugins (x_world y))"
    unfolding access_admits_def Let_def
  proof (intro conjI allI impI; elim conjE)
    show "key_auth_admits ka (x_conn y) (x_ctx y) (w_plugins (x_world y))"
      if "get_str_conf conf ''category'' = ''key_auth''" "key_auth_try_from lib conf = Inr ka" for ka
      using key_guard.chain_admits[OF p handlers(1)[OF made(1)]] that pass built_at_request(1) adm by metis
    show "basic_auth_admits ba (x_conn y) (x_ctx y) (w_plugins (x_world y))"
      if "get_str_conf conf ''category'' = ''basic_auth''" "basic_auth_try_from lib conf = Inr ba" for ba
      using basic_guard.chain_admits[OF p handlers(2)[OF made(2)]] that pass built_at_request(2) adm by metis
    show "combined_auth_admits lib ca (x_conn y) (x_ctx y) (w_plugins (x_world y))"
      if "get_str_conf conf ''category'' = ''combined_auth''" "combined_auth_try_from lib conf = Inr ca" for ca
      using combined_guard.chain_admits[OF p handlers(3)[OF made(3)]] that pass built_at_request(3) adm by metis
    show "jwt_admits lib ja (x_conn y) (x_ctx y) (w_plugins (x_world y))"
      if "get_str_conf conf ''category'' = ''jwt''" "jwt_try_from lib conf = Inr ja" for ja
      using jwt_guard.chain_admits[OF p handlers(4)[OF made(4)]] that pass built_at_request(4) adm by metis
    show "csrf_admits lib cs (x_conn y) (x_ctx y) (w_plugins (x_world y))"
      if "get_str_conf conf ''category'' = ''csrf''" "csrf_try_from lib conf = Inr cs" for cs
      using csrf_guard.chain_admits[OF p handlers(5)[OF made(5)]] that pass built_at_request(5) adm by metis
    show "ip_admits lib ir (x_conn y) (x_ctx y) (w_plugins (x_world y))"
      if "get_str_conf conf ''category'' = ''ip_restriction''" "ip_restriction_try_from lib conf = Inr ir" for ir
      using ip_guard.chain_admits[OF p handlers(6)[OF made(6)]] that pass built_at_request(6) adm by metis
    show "ua_admits lib ur (x_conn y) (x_ctx y) (w_plugins (x_world y))"
      if "get_str_conf conf ''category'' = ''ua_restriction''" "ua_restriction_try_from lib conf = Inr ur" for ur
      using ua_guard.chain_admits[OF p handlers(7)[OF made(7)]] that pass built_at_request(7) adm by metis
    show "referer_admits lib rr (x_conn y) (x_ctx y) (w_plugins (x_world y))"
      if "get_str_conf conf ''category'' = ''referer_restriction''" "referer_restriction_try_from lib conf = Inr rr" for rr
      using referer_guard.chain_admits[OF p handlers(8)[OF made(8)]] that pass built_at_request(8) adm by metis
    show "limit_admits lib lm (x_conn y) (x_ctx y) (w_plugins (x_world y))"
      if "get_str_conf conf ''category'' = ''limit''" "limiter_try_from lib name conf = Inr lm" "lm_step lm = Request" for lm
      using limit_guard.chain_admits[OF p handlers(9)[OF made(9)]] that pass adm by metis
  qed
  with pre r show ?thesis by auto
qed

section \<open>Reload of the plugins\<close>

lemma fold_kept:
  "wf_map confs \<Longrightarrow>
   map_of (fold (\<lambda>(name, _) ps. case get_plugin old name of Some p \<Rightarrow> map_insert name p ps | None \<Rightarrow> ps) confs ps) n =
     (if n \<in> set (keys_of confs) \<and> get_plugin old n \<noteq> None then get_plugin old n else map_of ps n)"
  by (induction confs arbitrary: ps) (auto simp: keys_of_def wf_map_def split: option.split)

lemma parse_plugins_lookup:
  "wf_map confs \<Longrightarrow> map_of (fst (parse_plugins mk confs ps es)) n =
     (case map_of confs n of
        None \<Rightarrow> map_of ps n
      | Some conf \<Rightarrow>
          if get_str_conf conf ''category'' = [] then map_of ps n
          else (case mk n conf of Inr p \<Rightarrow> Some p | Inl _ \<Rightarrow> map_of ps n))"
proof (induction mk confs ps es rule: parse_plugins.induct)
  case (2 mk name conf rest ps es)
  then have wf: "wf_map rest" and new: "map_of rest name = None"
    by (auto simp: wf_map_def keys_of_def map_of_eq_None_iff)
  show ?case
  proof (cases "get_str_conf conf ''category'' = []")
    case True
    then show ?thesis using "2.IH"(1)[OF refl True wf] new by (simp split: option.split)
  next
    case False
    then show ?thesis
      using "2.IH"(2)[OF refl False _ wf] "2.IH"(3)[OF refl False _ wf] new
      by (auto split: option.split sum.split)
  qed
qed simp

lemma parse_plugins_wf: "wf_map ps \<Longrightarrow> wf_map (fst (parse_plugins mk confs ps es))"
  by (induction mk confs ps es rule: parse_plugins.induct) (auto simp: Let_def wf_map_insert split: sum.split)

text \<open>All configurations of a reload: the configured ones, the admin plugin and the built-in ones.\<close>

definition plugin_configs ::
  "(init_error + string \<times> plugin_conf) option \<Rightarrow> (string, plugin_conf) hash_map \<Rightarrow> (string \<times> plugin_conf) list" where
  "plugin_configs admin_conf confs =
     confs @ (case admin_conf of Some (Inr nc) \<Rightarrow> [nc] | _ \<Rightarrow> []) @ get_builtin_proxy_plugins"

lemma wf_empty: "wf_map []"
  by (simp add: wf_map_def keys_of_def)

lemma fold_insert_pairs:
  "wf_map m \<Longrightarrow> map_of (fold (\<lambda>(name, p). map_insert name p) m acc) n =
     (case map_of m n of Some p \<Rightarrow> Some p | None \<Rightarrow> map_of acc n)"
proof (induction m arbitrary: acc)
  case (Cons kv m)
  then have "map_of m (fst kv) = None" "wf_map m" by (auto simp: wf_map_def keys_of_def map_of_eq_None_iff)
  with Cons.IH[OF \<open>wf_map m\<close>] show ?case by (cases kv) (auto split: option.split)
qed simp

lemma try_init_plugins_lookup:
  assumes r: "try_init_plugins lib mk admin_conf confs old = (updated, err, ps)"
    and wf: "wf_map (plugin_configs admin_conf confs)"
    and n: "(n, conf) \<in> set (plugin_configs admin_conf confs)"
  shows "map_of ps n =
      (if plugin_unchanged lib old (n, conf) then map_of old n
       else if get_str_conf conf ''category'' = [] then None
       else case mk n conf of Inr p \<Rightarrow> Some p | Inl _ \<Rightarrow> None)"
    and "n \<in> set updated \<longleftrightarrow> \<not> plugin_unchanged lib old (n, conf)"
proof -
  let ?cs = "plugin_configs admin_conf confs"
  let ?changed = "filter (\<lambda>nc. \<not> plugin_unchanged lib old nc) ?cs"
  let ?kept = "fold (\<lambda>(name, _) ps. case get_plugin old name of Some p \<Rightarrow> map_insert name p ps | None \<Rightarrow> ps)
      (filter (plugin_unchanged lib old) ?cs) []"
  have ps: "ps = fold (\<lambda>(name, p). map_insert name p) (fst (parse_plugins mk ?changed [] [])) ?kept"
    and upd: "updated = map fst ?changed"
    using r by (auto simp: try_init_plugins_def plugin_configs_def Let_def split: prod.splits)
  have mo: "map_of ?cs n = Some conf" using wf n by (simp add: wf_map_def keys_of_def)
  have uniq: "(n, c) \<in> set ?cs \<Longrightarrow> c = conf" for c
    using wf mo by (metis map_of_eq_Some_iff option.inject wf_map_def keys_of_def)
  have wfs: "wf_map (filter (plugin_unchanged lib old) ?cs)" "wf_map ?changed" "wf_map (fst (parse_plugins mk ?changed [] []))"
    using wf wf_map_filter parse_plugins_wf[OF wf_empty] by blast+
  have in_filtered: "n \<in> set (map fst (filter P ?cs)) \<longleftrightarrow> P (n, conf)" for P
  proof
    assume "n \<in> set (map fst (filter P ?cs))"
    then obtain c where "(n, c) \<in> set ?cs" "P (n, c)" by auto
    with uniq show "P (n, conf)" by blast
  next
    assume "P (n, conf)"
    with n have "(n, conf) \<in> set (filter P ?cs)" by simp
    then show "n \<in> set (map fst (filter P ?cs))" by (metis fst_conv image_eqI set_map)
  qed
  have kept: "map_of ?kept n = (if plugin_unchanged lib old (n, conf) then map_of old n else None)"
  proof -
    have "n \<in> set (keys_of (filter (plugin_unchanged lib old) ?cs)) \<longleftrightarrow> plugin_unchanged lib old (n, conf)"
      using in_filtered by (simp add: keys_of_def)
    moreover have "plugin_unchanged lib old (n, conf) \<Longrightarrow> get_plugin old n \<noteq> None"
      by (auto simp: plugin_unchanged_def split: option.splits)
    ultimately show ?thesis unfolding fold_kept[OF wfs(1)] by (auto simp: get_plugin_def)
  qed
  show "map_of ps n =
      (if plugin_unchanged lib old (n, conf) then map_of old n
       else if get_str_conf conf ''category'' = [] then None
       else case mk n conf of Inr p \<Rightarrow> Some p | Inl _ \<Rightarrow> None)"
    unfolding ps fold_insert_pairs[OF wfs(3)] parse_plugins_lookup[OF wfs(2)] kept map_of_filter_wf[OF wf] mo
    by (auto split: sum.split option.split)
  show "n \<in> set updated \<longleftrightarrow> \<not> plugin_unchanged lib old (n, conf)"
    unfolding upd in_filtered ..
qed

section \<open>A concrete guarded location\<close>

definition sample_key_conf :: plugin_conf where
  "sample_key_conf = [(''category'', TString ''key_auth''), (''query'', TString ''k''), (''keys'', TArray [TString ''s''])]"

definition sample_key_auth :: key_auth where
  "sample_key_auth = \<lparr>ka_step = Request, ka_header = None, ka_query = Some ''k'', ka_keys = [''s''], ka_delay = None,
     ka_miss = status_body 401 ''Key missing'', ka_unauthorized = status_body 401 ''Key auth fail'',
     ka_hide_credentials = False, ka_hash_value = get_hash_key sample_plugin_lib sample_key_conf\<rparr>"

definition sample_guard :: "sample_state plugin" where
  "sample_guard = default_plugin\<lparr>hash_key := ka_hash_value sample_key_auth,
     handle_request := key_auth_handle_request sample_plugin_lib sample_key_auth\<rparr>"

definition guarded_lib :: "(string, nat, sample_state) server_lib" where
  "guarded_lib = \<lparr>sl_loc = sample_loc_lib, sl_up = sample_up_lib, sl_env = sample_env,
     sl_plugin = map_of [(''g'', sample_guard)], sl_elapsed = (\<lambda>_ _. 0), sl_admin_plugin = ''admin'', sl_acme_load = None,
     sl_metrics = None, sl_peer_text = (\<lambda>_. ''peer''), sl_error_text = pe_context, sl_error_name = (\<lambda>_. ''HTTPStatus''),
     sl_error_resp = (\<lambda>s. \<lparr>resp_status = s, resp_headers = no_headers\<rparr>), sl_pkg_version = ''0''\<rparr>"

definition guarded_location :: "string location" where
  "guarded_location = sample_location\<lparr>loc_plugins := Some [''g'']\<rparr>"

definition guarded_exch :: "bool \<Rightarrow> string \<Rightarrow> (string, nat, sample_state) exch" where
  "guarded_exch upgrade q =
     \<lparr>x_conn = (let cn = sample_query_conn q in cn\<lparr>cn_session := (cn_session cn)\<lparr>is_upgrade_req := upgrade\<rparr>\<rparr>),
      x_ctx = (new_ctx sample_env)\<lparr>ctx_location := ''l''\<rparr>,
      x_world = \<lparr>w_server = sample_server, w_server_locations = [(''s'', [''l''])],
        w_locations = [(''l'', guarded_location)], w_upstreams = [], w_accepted = 0, w_processing = 0, w_plugins = []\<rparr>\<rparr>"

lemma sample_key_built: "new_key_auth sample_plugin_lib sample_key_conf = Inr sample_guard"
  by (simp add: new_key_auth_def key_auth_try_from_def get_duration_conf_def sample_guard_def sample_key_auth_def
      sample_key_conf_def get_str_conf_def get_str_slice_conf_def get_bool_conf_def as_str_def Let_def)

lemma sample_key_made: "make_plugin sample_plugin_lib admin n sample_key_conf = Inr sample_guard"
  by (simp add: make_plugin_def create_def all_plugins_def register_def sample_key_built
      get_str_conf_def as_str_def Let_def) (simp add: sample_key_conf_def as_str_def sample_key_built)

lemma guarded_route: "current_location (guarded_exch u q) = Some guarded_location"
  by (simp add: guarded_exch_def get_location_def)

lemma guarded_fields [simp]:
  "\<not> srv_admin (w_server (x_world (guarded_exch u q)))" "\<not> srv_lets_encrypt_enabled (w_server (x_world (guarded_exch u q)))"
  "sl_metrics guarded_lib = None" "is_upgrade_req (cn_session (x_conn (guarded_exch u q))) = u"
  "loc_plugins guarded_location = Some [''g'']" "sl_plugin guarded_lib ''g'' = Some sample_guard"
  by (simp_all add: guarded_exch_def sample_server_def guarded_lib_def guarded_location_def sample_query_conn_def)

lemma guarded_value:
  "key_auth_value sample_key_auth (cn_session (x_conn (rewritten guarded_lib guarded_location (guarded_exch u ''k=s'')))) = ''s''"
  by (simp add: key_auth_value_def sample_key_auth_def rewritten_def rewrite_def guarded_location_def sample_location_def
      guarded_exch_def sample_query_conn_def get_query_value_def trim_def trim_start_def trim_end_def is_ws_def)

lemma guarded_passes: "fst (request_filter guarded_lib (guarded_exch False ''k=s'')) = Inr False"
proof -
  let ?y = "rewritten guarded_lib guarded_location (guarded_exch False ''k=s'')"
  have "fst (call_request_plugin sample_guard Request ?y) = Inr (True, None)"
    using guarded_value[of False]
    by (simp add: call_request_plugin_def sample_guard_def key_auth_handle_request_def sample_key_auth_def
        handler_results Let_def)
  then have "fst (run_request_plugins guarded_lib Request [''g''] ?y) = Inr False"
    by (cases "call_request_plugin sample_guard Request ?y") (simp add: act_bind_def note_time_def)
  then show ?thesis
    by (simp add: request_filter_def or_else_def act_bind_def run_lets_encrypt_def serve_metrics_def
      serve_location_some[OF guarded_route] handle_request_plugin_def split: prod.split)
qed

section \<open>Properties\<close>



text \<open>
  An upgrade request goes on to the upstream of its location whatever plugins the location
  has: no plugin is called, so no authentication, restriction or limit applies to it.
\<close>

theorem upgrade_request_unguarded:
  assumes "is_upgrade_req (cn_session (x_conn x))" "current_location x = Some l"
    and "\<not> srv_admin (w_server (x_world x))" "\<not> srv_lets_encrypt_enabled (w_server (x_world x))" "sl_metrics slib = None"
  shows "request_filter slib x = (Inr False, rewritten slib l x)"
  using assms
  by (simp add: request_filter_def or_else_def act_bind_def run_lets_encrypt_def serve_metrics_def
      serve_location_some handle_request_plugin_def)

theorem upgrade_request_unguarded_witness:
  "request_filter guarded_lib (guarded_exch True ''k=wrong'') = (Inr False, rewritten guarded_lib guarded_location (guarded_exch True ''k=wrong''))"
  by (rule upgrade_request_unguarded[OF _ guarded_route]) simp_all



text \<open>
  Plugins fail open: when the new configuration of a plugin cannot be built, the reload drops
  the plugin of that name, and a location that names it serves requests as if it were not there.
\<close>

theorem broken_plugin_fails_open:
  assumes "try_init_plugins lib mk admin_conf confs old = (updated, err, ps)"
    and "wf_map (plugin_configs admin_conf confs)" "(n, conf) \<in> set (plugin_configs admin_conf confs)"
    and "\<not> plugin_unchanged lib old (n, conf)" "\<not> is_ok (mk n conf)"
    and "sl_plugin slib = map_of ps"
  shows "run_request_plugins slib step (pre @ n # post) = run_request_plugins slib step (pre @ post)"
proof -
  have "map_of ps n = None"
    using try_init_plugins_lookup(1)[OF assms(1-3)] assms(4,5)
    by (auto simp: is_ok_def split: sum.splits)
  then show ?thesis using assms(6) by (simp add: run_request_plugins_append)
qed

theorem broken_plugin_fails_open_witness:
  "\<exists>ps. run_request_plugins (guarded_lib\<lparr>sl_plugin := map_of ps\<rparr>) Request [''g''] = act_return False \<and>
     (\<exists>updated err. try_init_plugins sample_plugin_lib (make_plugin sample_plugin_lib (\<lambda>_. Inl (PluginNotFound [])))
       None [(''g'', [(''category'', TString ''key_auth'')])] [(''g'', sample_guard)] = (updated, err, ps))"
proof -
  let ?mk = "make_plugin sample_plugin_lib (\<lambda>_. Inl (PluginNotFound []))" and ?c = "[(''category'', TString ''key_auth'')]"
  obtain updated err ps where r: "try_init_plugins sample_plugin_lib ?mk None [(''g'', ?c)] [(''g'', sample_guard)] = (updated, err, ps)"
    by (metis prod_cases3)
  have "wf_map (plugin_configs None [(''g'', ?c)])"
    by (simp add: plugin_configs_def get_builtin_proxy_plugins_def wf_map_def keys_of_def)
  moreover have "(''g'', ?c) \<in> set (plugin_configs None [(''g'', ?c)])" by (simp add: plugin_configs_def)
  moreover have "\<not> plugin_unchanged sample_plugin_lib [(''g'', sample_guard)] (''g'', ?c)"
    by (simp add: plugin_unchanged_def get_plugin_def sample_guard_def sample_key_auth_def get_hash_key_def hash_line_def
        sample_key_conf_def sample_plugin_lib_def keys_of_def show_hex_upper.simps default_plugin_def hex_digit_def)
  moreover have "\<not> is_ok (?mk ''g'' ?c)"
    by (simp add: make_plugin_def create_def all_plugins_def register_def get_str_conf_def as_str_def new_key_auth_def
        key_auth_try_from_def get_duration_conf_def is_ok_def)
  ultimately have "run_request_plugins (guarded_lib\<lparr>sl_plugin := map_of ps\<rparr>) Request ([] @ ''g'' # []) =
      run_request_plugins (guarded_lib\<lparr>sl_plugin := map_of ps\<rparr>) Request ([] @ [])"
    by (intro broken_plugin_fails_open[OF r]) simp_all
  with r show ?thesis by auto
qed

end
