(* ===== verification/Tls_Handshake.thy ===== *)
theory Tls_Handshake
  imports Tls_Certificates
begin

text \<open>
  What a TLS handshake presents (\<open>pingap-certificate/src/dynamic_certificate.rs\<close>): the certificate
  comes from a configured entry that covers the server name, and the life of the certificates
  signed on demand in their cache (\<open>self_signed.rs\<close>).
\<close>

section \<open>Where the entries of the map come from\<close>

text \<open>The names a configured certificate is entered under.\<close>

definition cert_names :: "certificate_conf \<Rightarrow> ('x, 'k) tls_certificate \<Rightarrow> string set" where
  "cert_names conf cert =
     set (case cc_domains conf of Some v \<Rightarrow> split_on CHR '','' v | None \<Rightarrow> tc_domains cert) \<union>
     (if cc_is_default conf = Some True then {DEFAULT_SERVER_NAME} else {})"

definition configured ::
  "('x, 'k) cert_lib \<Rightarrow> (string \<times> certificate_conf) list \<Rightarrow> string \<Rightarrow> ('x, 'k) tls_certificate \<Rightarrow> bool" where
  "configured lib confs n c \<longleftrightarrow>
     (\<exists>(name, conf) \<in> set confs. \<exists>cert. tls_certificate_try_from lib conf = Inr cert \<and>
        c = cert\<lparr>tc_name := Some name\<rparr> \<and> n \<in> cert_names conf cert)"

lemma fold_insert_lookup:
  "map_of (fold (\<lambda>d. map_insert d c) ds m) n = (if n \<in> set ds then Some c else map_of m n)"
  by (induction ds arbitrary: m) auto

lemma add_certificate_lookup:
  "map_of (add_certificate conf c m) n = (if n \<in> cert_names conf c then Some c else map_of m n)"
  by (auto simp: add_certificate_def cert_names_def Let_def fold_insert_lookup split: option.splits)

lemma cert_names_name [simp]: "cert_names conf (c\<lparr>tc_name := n\<rparr>) = cert_names conf c"
  by (simp add: cert_names_def split: option.split)

lemma parse_certificates_origin:
  assumes "parse_certificates_go lib confs m es = (m', es')" "map_of m' n = Some c"
  shows "map_of m n = Some c \<or> configured lib confs n c"
  using assms
proof (induction lib confs m es rule: parse_certificates_go.induct)
  case (2 lib name conf rest m es)
  show ?case
  proof (cases "cc_tls_cert conf = None \<or> cc_tls_key conf = None")
    case True
    with 2 show ?thesis by (auto simp: configured_def)
  next
    case False
    show ?thesis
    proof (cases "tls_certificate_try_from lib conf")
      case (Inl e)
      with 2 False show ?thesis by (auto simp: configured_def)
    next
      case (Inr cert)
      with 2 False show ?thesis
        by (auto simp: configured_def add_certificate_lookup split: if_splits)
    qed
  qed
qed simp

lemma first_certificate_three:
  "first_certificate m [a, b, c] = Some d \<longleftrightarrow>
     (\<exists>n. map_of m n = Some d \<and> (n = a \<or> map_of m a = None \<and> (n = b \<or> map_of m b = None \<and> n = c)))"
  by (auto split: option.splits)

text \<open>The values of \<open>IpAddr\<close>: four octets, or eight groups of sixteen bits.\<close>

definition wf_ip :: "ip_addr \<Rightarrow> bool" where
  "wf_ip a = (case a of
     V4 v \<Rightarrow> length v = 4 \<and> (\<forall>b \<in> set v. b < 256) | V6 gs \<Rightarrow> length gs = 8 \<and> (\<forall>g \<in> set gs. g < 65536))"

section \<open>The cache of signed certificates\<close>

definition ca_key :: "('x, 'k) tls_certificate \<Rightarrow> string \<Rightarrow> string" where
  "ca_key d sni = debug_name (tc_name d) @ '':'' @ format_common_name sni"

lemma get_self_signed_ok:
  assumes "get_self_signed_certificate lib d sni m = (Inr v, m')"
  shows "(\<exists>w. map_of m (ca_key d sni) = Some w \<and> sg_x509 v = sg_x509 w \<and> sg_key v = sg_key w) \<or>
    map_of m (ca_key d sni) = None \<and>
    (\<exists>t. new_certificate_with_ca lib d (format_common_name sni) = Inr (sg_x509 v, sg_key v, t))"
  using assms
  by (auto simp: get_self_signed_certificate_def ca_key_def get_cached_certificate_def add_self_signed_certificate_def
      Let_def split: option.splits sum.splits)

text \<open>The steps that change the cache: handshakes with an authority, and the minutely validity task.\<close>

datatype ('x, 'k) cache_event = Handshake "('x, 'k) tls_certificate" string | Validity sys_env nat

definition cache_step ::
  "('x, 'k) cert_lib \<Rightarrow> ('x, 'k) cache_event \<Rightarrow> ('x, 'k) self_signed_map \<Rightarrow> ('x, 'k) self_signed_map" where
  "cache_step lib e m = (case e of
     Handshake d sni \<Rightarrow> snd (get_self_signed_certificate lib d sni m)
   | Validity env count \<Rightarrow> snd (do_self_signed_certificate_validity env count m))"

definition asks_for :: "string \<Rightarrow> ('x, 'k) cache_event \<Rightarrow> bool" where
  "asks_for key e = (case e of Handshake d sni \<Rightarrow> ca_key d sni = key | Validity _ _ \<Rightarrow> False)"

definition daily :: "('x, 'k) cache_event \<Rightarrow> bool" where
  "daily e = (case e of Handshake _ _ \<Rightarrow> False | Validity _ count \<Rightarrow> count mod VALIDITY_CHECK_INTERVAL = 0)"

text \<open>How many checks an idle certificate survives at most.\<close>

definition life :: "('x, 'k) self_signed_certificate option \<Rightarrow> nat" where
  "life v = (case v of None \<Rightarrow> 0 | Some s \<Rightarrow> if sg_count s \<noteq> 0 then 3 else if sg_stale s then 1 else 2)"

lemma map_of_map_filter:
  "wf_map m \<Longrightarrow> map_of (List.map_filter (\<lambda>(k, v). map_option (Pair k) (f v)) m) key = Option.bind (map_of m key) f"
proof (induction m)
  case (Cons a m)
  obtain k v where a: "a = (k, v)" by (cases a)
  from Cons.prems a have k: "map_of m k = None" and wf: "wf_map m"
    by (auto simp: wf_map_def keys_of_def map_of_eq_None_iff)
  show ?case using Cons.IH[OF wf] a k by (cases "f v") (auto simp: List.map_filter_simps)
qed (simp add: List.map_filter_simps)

lemma keys_of_map_filter: "set (keys_of (List.map_filter (\<lambda>(k, v). map_option (Pair k) (f v)) m)) \<subseteq> set (keys_of m)"
  by (induction m) (auto simp: keys_of_def List.map_filter_simps split: option.splits)

lemma wf_map_map_filter: "wf_map m \<Longrightarrow> wf_map (List.map_filter (\<lambda>(k, v). map_option (Pair k) (f v)) m)"
proof (induction m)
  case (Cons a m)
  obtain k v where a: "a = (k, v)" by (cases a)
  show ?case using Cons keys_of_map_filter[of f m] unfolding a
    by (cases "f v") (auto simp: wf_map_def keys_of_def List.map_filter_simps subset_iff image_iff)
qed (simp_all add: List.map_filter_simps wf_map_def keys_of_def)

lemma cache_step_wf: "wf_map m \<Longrightarrow> wf_map (cache_step lib e m)"
  by (auto simp: cache_step_def get_self_signed_certificate_def get_cached_certificate_def add_self_signed_certificate_def
      do_self_signed_certificate_validity_def Let_def wf_map_map_filter intro!: wf_intros
      split: cache_event.splits option.splits sum.splits prod.splits)

lemma cache_step_life:
  assumes "wf_map m" "\<not> asks_for key e"
  shows "life (map_of (cache_step lib e m) key) \<le> life (map_of m key) - (if daily e then 1 else 0)"
proof (cases e)
  case (Handshake d sni)
  with assms(2) have "map_of (cache_step lib e m) key = map_of m key"
    by (auto simp: cache_step_def asks_for_def ca_key_def get_self_signed_certificate_def get_cached_certificate_def
        add_self_signed_certificate_def Let_def split: option.splits sum.splits)
  with Handshake show ?thesis by (simp add: daily_def)
next
  case (Validity env count)
  then show ?thesis
    using assms(1)
    by (auto simp: cache_step_def daily_def do_self_signed_certificate_validity_def Let_def map_of_map_filter
        map_of_filter_wf refresh_self_signed_def life_def split: option.splits if_splits)
qed

section \<open>A concrete library\<close>

text \<open>Certificates are their PEM text; an authority signs by naming the subject.\<close>

definition sample_cert_lib :: "(string, string) cert_lib" where
  "sample_cert_lib = \<lparr>ct_util = sample_util_lib, ct_env = sample_env, ct_hash = (\<lambda>_. 1), ct_lossy = (\<lambda>s. s),
     ct_parse_pem = Inr, ct_parse_x509 = (\<lambda>s. Inr \<lparr>xi_names = Some [DNSName ''*.a.com''], xi_not_after = 100,
       xi_not_before = 0, xi_issuer = ''CN=ca''\<rparr>),
     ct_x509 = Inr, ct_key = Inr, ct_chain_e5 = [], ct_chain_e6 = [], ct_chain_r10 = [], ct_chain_r11 = [],
     ct_ca_params = (\<lambda>_. Inr \<lparr>cp_not_after = 100, cp_organization = None, cp_unit = None\<rparr>), ct_ca_key = Inr,
     ct_self_sign = (\<lambda>_ _. Inr ()), ct_new_params = (\<lambda>_. Inr ()), ct_generate_key = Inr ''key'',
     ct_sign = (\<lambda>leaf _ _ _. Inr (''signed for '' @ lp_name leaf))\<rparr>"

definition sample_cert_conf :: certificate_conf where
  "sample_cert_conf = \<lparr>cc_domains = None, cc_tls_cert = Some ''-----BEGIN'', cc_tls_key = Some ''-----BEGIN K'', cc_tls_chain = None,
     cc_is_default = None, cc_is_ca = Some True, cc_acme = None, cc_buffer_days = None, cc_remark = None\<rparr>"

lemmas sample_cert_simps =
  sample_cert_lib_def sample_cert_conf_def sample_util_lib_def parse_certificates_def tls_certificate_try_from_def
  new_certificate_def convert_certificate_bytes_def convert_pem_def is_pem_def chain_certificate_def add_certificate_def
  starts_with_def certificate_callback_def wildcard_sni_def get_self_signed_certificate_def get_cached_certificate_def
  new_certificate_with_ca_def ca_error_def add_self_signed_certificate_def format_common_name_def Let_def

section \<open>Properties\<close>



text \<open>
  C36: The cache of signed certificates does not grow for good: whatever handshakes for other names
  and validity checks happen, a certificate nobody asks for is removed at the latest by the third
  daily check.
\<close>

theorem idle_certificate_evicted:
  assumes "wf_map m" "\<And>e. e \<in> set es \<Longrightarrow> \<not> asks_for key e" "3 \<le> length (filter daily es)"
  shows "map_of (fold (cache_step lib) es m) key = None"
proof -
  have "life (map_of (fold (cache_step lib) es m) key) \<le> life (map_of m key) - length (filter daily es)"
    using assms(1,2)
  proof (induction es arbitrary: m)
    case (Cons e es)
    have "life (map_of (fold (cache_step lib) es (cache_step lib e m)) key)
        \<le> life (map_of (cache_step lib e m) key) - length (filter daily es)"
      using Cons.prems by (intro Cons.IH) (auto simp: cache_step_wf)
    also have "\<dots> \<le> life (map_of m key) - length (filter daily (e # es))"
      using cache_step_life[OF Cons.prems(1), of key e lib] Cons.prems(2)[of e] by (cases "daily e") auto
    finally show ?case by simp
  qed simp
  moreover have "life (map_of m key) \<le> 3" by (simp add: life_def split: option.split)
  ultimately show ?thesis using assms(3) by (simp add: life_def split: option.splits if_splits)
qed

theorem idle_certificate_evicted_witness:
  "map_of (fold (cache_step sample_cert_lib) (replicate 3 (Validity sample_env 0))
     [(''k'', \<lparr>sg_x509 = ''x'', sg_key = ''key'', sg_stale = False, sg_count = 5, sg_not_after = 10 ^ 12\<rparr>)]) ''k'' = None"
  using idle_certificate_evicted[of "[(''k'', \<lparr>sg_x509 = ''x'', sg_key = ''key'', sg_stale = False, sg_count = 5, sg_not_after = 10 ^ 12\<rparr>)]"
      "replicate 3 (Validity sample_env 0)" "''k''" sample_cert_lib]
  by (simp add: wf_map_def keys_of_def asks_for_def daily_def numeral_3_eq_3)

text \<open>
  The IP addresses of a certificate are well formed: 4 and 16 bytes make an address of four octets
  or eight 16-bit groups, any other length is refused, and the name an IPv4 address is entered under
  is the text that parses back to it.
\<close>

theorem certificate_ip_typed:
  "case parse_ip_addr data of
     Inr a \<Rightarrow> wf_ip a \<and> (length data = 4 \<longrightarrow> parse_ip (ip_text a) = Inr a)
   | Inl e \<Rightarrow> length data \<noteq> 4 \<and> length data \<noteq> 16"
proof -
  have g: "length (pair_groups bs) = length bs div 2 \<and> (\<forall>g \<in> set (pair_groups bs). g < 65536)"
    if "\<forall>b \<in> set bs. b < 256" for bs
    using that by (induction bs rule: pair_groups.induct) auto
  let ?bs = "map of_char data :: nat list"
  have b: "\<forall>b \<in> set ?bs. b < 256" by (auto simp: of_char_def) 
  show ?thesis
  proof (cases "length data = 4")
    case True
    then obtain x y z w where d: "?bs = [x, y, z, w]" by (auto simp: length_Suc_conv numeral_eq_Suc)
    have r: "read_ipv4 (join ''.'' (map show_nat [x, y, z, w])) = Some ([x, y, z, w], [])"
      using b unfolding d by (intro read_ipv4_dotted) simp_all
    have "parse_ip (ipv4_text [x, y, z, w]) = Inr (V4 [x, y, z, w])"
      unfolding parse_ip_def ipv4_text_def r by simp
    with True b d show ?thesis by (simp add: parse_ip_addr_def Let_def wf_ip_def ip_text_def)
  next
    case False
    then show ?thesis using g[OF b] by (auto simp: parse_ip_addr_def Let_def wf_ip_def)
  qed
qed

theorem certificate_ip_typed_witness:
  "parse_ip_addr [CHR 0xC0, CHR 0xA8, CHR 0x01, CHR 0xFE] = Inr (V4 [192, 168, 1, 254])
   \<and> parse_ip (ip_text (V4 [192, 168, 1, 254])) = Inr (V4 [192, 168, 1, 254])"
proof -
  have "parse_ip_addr [CHR 0xC0, CHR 0xA8, CHR 0x01, CHR 0xFE] = Inr (V4 [192, 168, 1, 254])"
    by (simp add: parse_ip_addr_def)
  then show ?thesis using certificate_ip_typed[of "[CHR 0xC0, CHR 0xA8, CHR 0x01, CHR 0xFE]"] by simp
qed

end
