(* ===== verification/Hot_Reload.thy ===== *)
theory Hot_Reload
  imports Supervisor Tls_Handshake Health_Task
begin

text \<open>
  What the supervision of \<open>src/process\<close> keeps true: the running upstreams and locations stay those of
  the current configuration (a simulation between the process and its configuration), the process
  starts its successor at most once, and the schedule of restarts.
\<close>

section \<open>Unchanged parts of a configuration\<close>

lemma unchanged_part:
  assumes "differ_ok tx" "section_of (descriptions tx a) c text m" "section_of (descriptions tx b) c text m'"
    and "c \<notin> set (fst (conf_diff tx a b))" "wf_map m" "wf_map m'" "inj_on text (entries_of m m')"
  shows "map_of m = map_of m'"
  using section_unchanged[OF assms(1-6)] assms(7) by (simp add: fun_eq_iff map_option_inj)

lemma hot_reload_config_parts:
  assumes "hot_reload_config current new = (hot, changed)"
  shows "upstreams hot = upstreams new" "locations hot = locations new" "plugins hot = plugins new"
    "basic hot = basic current" "storages hot = storages current"
  using assms by (auto simp: hot_reload_config_def Let_def split: prod.splits if_splits)

lemma hot_servers_unchanged:
  assumes "\<And>n srv cur. (n, srv) \<in> set ss \<Longrightarrow> map_of m n = Some cur \<Longrightarrow> sc_locations srv = sc_locations cur"
  shows "fold set_hot_server ss (m, b) = (m, b)"
  using assms
proof (induction ss)
  case (Cons s ss)
  obtain n srv where s: "s = (n, srv)" by (cases s)
  have "set_hot_server s (m, b) = (m, b)"
    using Cons.prems[of n srv] by (auto simp: s set_hot_server_def split: option.splits)
  moreover have "fold set_hot_server ss (m, b) = (m, b)"
    using Cons.prems by (intro Cons.IH) (meson list.set_intros(2))
  ultimately show ?case by simp
qed simp

lemma reload_ok_always:
  "\<exists>ms q. reload_if b (reload_locations lib new) msgs p = (Inr ms, q)"
  "\<exists>ms q. reload_if b (reload_plugins lib new) msgs p = (Inr ms, q)"
  "\<exists>ms q. reload_if b (reload_certificates lib new) msgs p = (Inr ms, q)"
  "\<exists>ms q. reload_if b (reload_server_locations lib new) msgs p = (Inr ms, q)"
  by (auto simp: reload_if_ok reload_locations_def reload_plugins_def reload_certificates_def
      reload_server_locations_def Let_def split: prod.splits sum.splits)

lemma hot_reload_total:
  assumes "is_ok (fst (try_update_upstreams (pr_up lib) (upstreams new) (ps_upstreams p)))"
  shows "\<exists>fails q. hot_reload lib updated changed new p = (Inr fails, q)"
proof -
  from assms have "\<exists>ms q. reload_if (CATEGORY_UPSTREAM \<in> set updated) (reload_upstreams lib new) [] p = (Inr ms, q)"
    by (auto simp: reload_if_ok reload_upstreams_def is_ok_def split: prod.splits sum.splits)
  then show ?thesis unfolding hot_reload_def act_bind_ok using reload_ok_always by meson
qed

lemma hot_reload_fail:
  assumes "hot_reload lib updated changed new p = (Inl e, q)"
  shows "q = p"
proof -
  show ?thesis
  proof (cases "reload_if (CATEGORY_UPSTREAM \<in> set updated) (reload_upstreams lib new) [] p")
    case (Pair r p1)
    show ?thesis
    proof (cases r)
      case (Inl e')
      with Pair assms show ?thesis
        by (auto simp: hot_reload_def act_bind_def reload_if_def reload_upstreams_def
            split: if_splits prod.splits sum.splits upstream_error.splits)
    next
      case (Inr ms)
      have "\<exists>fails q'. hot_reload lib updated changed new p = (Inr fails, q')"
        unfolding hot_reload_def act_bind_ok using Pair Inr reload_ok_always by meson
      with assms show ?thesis by simp
    qed
  qed
qed

section \<open>The configuration as the abstract state\<close>

text \<open>
  The abstract state of the process is its current configuration: every running upstream and
  location carries the hash of its entry there, and nothing else runs.
\<close>

definition in_sync :: "('re, 'b, 's, 'x, 'k, 'f) process_lib \<Rightarrow> pingap_conf \<Rightarrow> ('re, 'b, 's, 'x, 'k, 'f) process \<Rightarrow> bool" where
  "in_sync lib c p \<longleftrightarrow>
     (\<forall>n. map_option up_key (map_of (ps_upstreams p) n) = map_option (ul_hash (pr_up lib)) (map_of (upstreams c) n)) \<and>
     (\<forall>n. map_option loc_key (map_of (ps_locations p) n) = map_option (ll_hash (pr_loc lib)) (map_of (locations c) n))"

definition loads :: "('re, 'b, 's, 'x, 'k, 'f) process_lib \<Rightarrow> ('re, 'b, 's, 'x, 'k, 'f) process \<Rightarrow> pingap_conf \<Rightarrow> bool" where
  "loads lib p new \<longleftrightarrow>
     fst (load_config (pr_store lib) (pr_storage lib) \<lparr>lo_replace_include = True, lo_admin = False\<rparr> (ps_store p)) = Inr new \<and>
     validate_conf (sl_conf (pr_store lib)) new = Inr ()"

definition stored :: "('re, 'b, 's, 'x, 'k, 'f) process_lib \<Rightarrow> ('re, 'b, 's, 'x, 'k, 'f) process \<Rightarrow> ('re, 'b, 's, 'x, 'k, 'f) process" where
  "stored lib p = p\<lparr>ps_store := snd (load_config (pr_store lib) (pr_storage lib) \<lparr>lo_replace_include = True, lo_admin = False\<rparr> (ps_store p))\<rparr>"

lemma stored_simps [simp]:
  "ps_config (stored lib p) = ps_config p" "ps_upstreams (stored lib p) = ps_upstreams p"
  "ps_locations (stored lib p) = ps_locations p" "ps_server_locations (stored lib p) = ps_server_locations p"
  "ps_restarting (stored lib p) = ps_restarting p" "ps_events (stored lib p) = ps_events p"
  by (simp_all add: stored_def)

lemma diff_and_update_loaded:
  assumes "loads lib p new"
  shows "diff_and_update_config lib during hot_only p =
    (let tx = sl_texts (pr_store lib); current = ps_config p; (updated, diffs) = conf_diff tx current new in
     if diffs = [] then (Inr (), stored lib p)
     else
       let (hot, srv_changed) = hot_reload_config current new in
       act_bind (hot_reload lib updated srv_changed new) (\<lambda>fails p1.
         if hot_only then
           (let (_, hot_diffs) = conf_diff tx current hot in
            if hot_diffs = [] then (Inr (), p1)
            else (Inr (), notify_diff lib hot_diffs fails (p1\<lparr>ps_config := hot\<rparr>)))
         else
           (let p2 = notify_diff lib diffs fails (p1\<lparr>ps_config := hot\<rparr>); (_, rest) = conf_diff tx hot new
            in (Inr (), if rest = [] then p2 else restart lib during p2))) (stored lib p))"
proof -
  from assms have l: "on_store (load_config (pr_store lib) (pr_storage lib) \<lparr>lo_replace_include = True, lo_admin = False\<rparr>) p
      = (Inr new, stored lib p)"
    by (cases "load_config (pr_store lib) (pr_storage lib) \<lparr>lo_replace_include = True, lo_admin = False\<rparr> (ps_store p)")
      (simp add: loads_def on_store_def stored_def map_err_def)
  from assms have v: "(\<lambda>p. (map_err ReloadConfig (validate_conf (sl_conf (pr_store lib)) new), p)) (stored lib p)
      = (Inr (), stored lib p)"
    by (simp add: loads_def map_err_def)
  show ?thesis
    unfolding diff_and_update_config_def by (subst act_bind_simps(1), rule l, subst act_bind_simps(1), rule v) simp
qed

lemma hot_reload_syncs:
  assumes tx: "texts_faithful tx cur new" and wf: "wf_conf cur" "wf_conf new" and s: "in_sync lib cur p"
    and up: "is_ok (fst (try_update_upstreams (pr_up lib) (upstreams new) (ps_upstreams p)))"
    and loc: "is_ok (fst (try_init_locations (pr_loc lib) (locations new) (ps_locations p)))"
    and r: "hot_reload lib (fst (conf_diff tx cur new)) changed new p = (Inr fails, q)"
  shows "in_sync lib new q"
proof -
  let ?us = "fst (conf_diff tx cur new)"
  note eff = hot_reload_effect[OF r, unfolded reload_effect_def]
  have df: "differ_ok tx" using tx by (simp add: texts_faithful_def)
  have "map_option up_key (map_of (ps_upstreams q) n) = map_option (ul_hash (pr_up lib)) (map_of (upstreams new) n)" for n
  proof (cases "CATEGORY_UPSTREAM \<in> set ?us")
    case True
    from up obtain upd m where m: "try_update_upstreams (pr_up lib) (upstreams new) (ps_upstreams p) = (Inr upd, m)"
      by (auto simp: is_ok_def split: sum.splits) (metis prod.collapse)
    show ?thesis using try_update_upstreams_refines[OF m, of n] eff True m wf(2) by (simp add: wf_conf_def)
  next
    case False
    have "map_of (upstreams cur) = map_of (upstreams new)"
      using unchanged_part[OF df description_sections(3) description_sections(3) False] tx wf
      by (simp add: wf_conf_def texts_faithful_def)
    with eff False s show ?thesis by (simp add: in_sync_def)
  qed
  moreover have "map_option loc_key (map_of (ps_locations q) n) = map_option (ll_hash (pr_loc lib)) (map_of (locations new) n)" for n
  proof (cases "CATEGORY_LOCATION \<in> set ?us")
    case True
    from loc obtain upd m where m: "try_init_locations (pr_loc lib) (locations new) (ps_locations p) = (Inr upd, m)"
      by (auto simp: is_ok_def split: sum.splits) (metis prod.collapse)
    show ?thesis using try_init_locations_refines[OF m, of n] eff True m wf(2) by (simp add: wf_conf_def)
  next
    case False
    have "map_of (locations cur) = map_of (locations new)"
      using unchanged_part[OF df description_sections(2) description_sections(2) False] tx wf
      by (simp add: wf_conf_def texts_faithful_def)
    with eff False s show ?thesis by (simp add: in_sync_def)
  qed
  ultimately show ?thesis by (simp add: in_sync_def)
qed

text \<open>Two configurations whose comparison is empty agree in what can be reloaded.\<close>

lemma no_diff_parts:
  assumes tx: "texts_faithful tx cur new" and wf: "wf_conf cur" "wf_conf new"
    and e: "snd (conf_diff tx cur c) = []"
    and c: "upstreams c = upstreams new" "locations c = locations new" "plugins c = plugins new"
  shows "map_of (upstreams cur) = map_of (upstreams new)" "map_of (locations cur) = map_of (locations new)"
    "map_of (plugins cur) = map_of (plugins new)"
proof -
  have no: "k \<notin> set (fst (conf_diff tx cur c))" for k using e by (simp add: conf_diff_snd)
  have df: "differ_ok tx" using tx by (simp add: texts_faithful_def)
  note part = unchanged_part[OF df description_sections(3) description_sections(3) no]
    unchanged_part[OF df description_sections(2) description_sections(2) no]
    unchanged_part[OF df description_sections(4) description_sections(4) no]
  show "map_of (upstreams cur) = map_of (upstreams new)" "map_of (locations cur) = map_of (locations new)"
    "map_of (plugins cur) = map_of (plugins new)"
    using part tx wf unfolding c by (simp_all add: wf_conf_def texts_faithful_def)
qed

lemma in_sync_cong:
  "map_of (upstreams c) = map_of (upstreams d) \<Longrightarrow> map_of (locations c) = map_of (locations d) \<Longrightarrow>
   in_sync lib c p \<longleftrightarrow> in_sync lib d p"
  by (simp add: in_sync_def)

section \<open>A concrete process\<close>

text \<open>
  The stored configuration has an upstream, two locations with equal weights and a server; the
  process starts from the configuration \<open>old\<close> with the running objects \<open>ups\<close>, \<open>locs\<close> and \<open>order\<close>.
\<close>

definition stored_server :: server_conf where
  "stored_server = sample_server_conf\<lparr>sc_locations := Some [''l'', ''m'']\<rparr>"

definition stored_conf :: pingap_conf where
  "stored_conf = default_conf\<lparr>upstreams := [(''u'', sample_upstream_conf)],
     locations := [(''l'', sample_location_conf), (''m'', sample_location_conf)], servers := [(''s'', stored_server)]\<rparr>"

definition stored_config_lib :: config_lib where
  "stored_config_lib = sample_config_lib\<lparr>
     cl_toml_config := (\<lambda>_. Inr (sample_toml\<lparr>tc_upstreams := Some [(''u'', TTable [])],
       tc_locations := Some [(''l'', TTable []), (''m'', TTable [])], tc_servers := Some [(''s'', TTable [])]\<rparr>)),
     cl_de_upstream := (\<lambda>_. Inr sample_upstream_conf), cl_de_location := (\<lambda>_. Inr sample_location_conf),
     cl_de_server := (\<lambda>_. Inr stored_server)\<rparr>"

definition sample_process_lib ::
  "(string, nat, sample_state, string, string, (string, string) hash_map) process_lib" where
  "sample_process_lib = \<lparr>pr_store = sample_store_lib\<lparr>sl_conf := stored_config_lib\<rparr>,
     pr_storage = Some (FileStore \<lparr>fst_path = ''c.toml'', fst_separation = False\<rparr>), pr_up = sample_up_lib,
     pr_loc = sample_loc_lib, pr_plugin = sample_plugin_lib, pr_make = (\<lambda>_ _. Inl (PluginNotFound ''none'')),
     pr_admin_conf = None, pr_cert = sample_cert_lib,
     pr_webhook = \<lparr>wl_hostname = ''h'', wl_local_ip = None, wl_local_ipv6 = None\<rparr>, pr_sender = None,
     pr_command = Some \<lparr>rc_exec_path = ''pingap'', rc_log_level = ''INFO'', rc_args = []\<rparr>, pr_pid = 1,
     pr_kill = Inr (), pr_exec = (\<lambda>_. Inr [])\<rparr>"

definition sample_process ::
  "pingap_conf \<Rightarrow> server_locations \<Rightarrow> (string, nat, sample_state, string, string, (string, string) hash_map) process" where
  "sample_process old order = \<lparr>ps_config = old, ps_upstreams = [], ps_locations = [], ps_server_locations = order,
     ps_plugins = [], ps_certs = [], ps_store = [(''c.toml'', ''text'')], ps_restarting = False, ps_restart_count = 0,
     ps_events = [], ps_posts = []\<rparr>"

lemma sample_upstream_builds: "is_ok (new_upstream sample_up_lib name sample_upstream_conf)"
proof -
  let ?d = "\<lparr>disc_addr = [''10.0.0.1:80''], disc_tls = False, disc_ipv4_only = False\<rparr>"
  have g: "guess_discovery sample_upstream_conf \<noteq> TRANSPARENT_DISCOVERY" "uc_algo sample_upstream_conf = None"
    "uc_addrs sample_upstream_conf = [''10.0.0.1:80'']" "uc_sni sample_upstream_conf = None"
    "uc_ipv4_only sample_upstream_conf = None" by code_simp+
  have "is_ok (new_backends sample_up_lib (guess_discovery sample_upstream_conf) ?d)" by code_simp
  then obtain bs where bs: "new_backends sample_up_lib (guess_discovery sample_upstream_conf) ?d = Inr bs"
    by (auto simp: is_ok_def split: sum.splits)
  have "\<exists>lb. update_health_check_params sample_up_lib b sample_upstream_conf = Inr lb" for b
    by (simp add: update_health_check_params_def new_health_check_def sample_up_lib_def sample_upstream_conf_def)
  then obtain lb where "update_health_check_params sample_up_lib (ul_from_backends sample_up_lib RoundRobinKind bs) sample_upstream_conf = Inr lb"
    by blast
  with g bs show ?thesis by (simp add: new_upstream_def new_load_balancer_def Let_def is_ok_def)
qed

lemma sample_location_builds: "is_ok (new_location sample_loc_lib (c # cs) sample_location_conf)"
  by (simp add: new_location_def sample_loc_simps new_path_selector_def format_headers_def Let_def
      trim_def trim_start_def trim_end_def is_ws_def is_ok_def)

lemma stored_conf_loads: "loads sample_process_lib (sample_process old order) stored_conf"
proof -
  have "validate_conf stored_config_lib stored_conf = Inr ()" by code_simp
  moreover have "new_conf stored_config_lib s b = Inr stored_conf" for s b
    by (simp add: new_conf_def convert_pingap_config_def stored_config_lib_def sample_config_lib_def sample_toml_def
        stored_conf_def default_conf_def)
  ultimately show ?thesis
    by (simp add: loads_def sample_process_lib_def sample_process_def sample_store_lib_def load_config_def
        store_load_config_def file_load_config_def act_bind_def pure_op_def ends_with_def)
qed

section \<open>Restarts in the life of a process\<close>

text \<open>
  The life of a process as far as restarts go: the admin server restarts at once, the services
  update the configuration and restart after a minute. During that minute anything of the same
  kind happens, so the argument \<open>during\<close> is itself a run.
\<close>

inductive proc_run ::
  "('re, 'b, 's, 'x, 'k, 'f) process_lib \<Rightarrow> ('re, 'b, 's, 'x, 'k, 'f) process \<Rightarrow> ('re, 'b, 's, 'x, 'k, 'f) process \<Rightarrow> bool"
  for lib where
  run_refl: "proc_run lib p p"
| run_now: "proc_run lib p q \<Longrightarrow> proc_run lib p (snd (restart_now lib q))"
| run_update: "proc_run lib p q \<Longrightarrow> (\<And>r. proc_run lib r (during r)) \<Longrightarrow>
    proc_run lib p (run_diff_and_update_config lib during hot_only q)"

definition once ::
  "('re, 'b, 's, 'x, 'k, 'f) process_lib \<Rightarrow> ('re, 'b, 's, 'x, 'k, 'f) process \<Rightarrow> ('re, 'b, 's, 'x, 'k, 'f) process \<Rightarrow> bool" where
  "once lib p q \<longleftrightarrow> (ps_restarting p \<longrightarrow> ps_restarting q) \<and>
     (ps_events q = ps_events p \<or>
      \<not> ps_restarting p \<and> ps_restarting q \<and>
      (\<exists>cmd. pr_command lib = Some cmd \<and> ps_events q = ps_events p @ [SigQuit, Exec cmd]))"

lemma once_trans: "once lib p q \<Longrightarrow> once lib q r \<Longrightarrow> once lib p r"
  by (auto simp: once_def)

lemma once_same: "ps_restarting q = ps_restarting p \<Longrightarrow> ps_events q = ps_events p \<Longrightarrow> once lib p q"
  by (simp add: once_def)

lemma once_restart_now: "once lib p (snd (restart_now lib p))"
  by (auto simp: once_def restart_now_def Let_def split: option.splits sum.splits)

lemma once_restart:
  assumes "\<And>r. once lib r (during r)"
  shows "once lib p (restart lib during p)"
proof -
  let ?p0 = "p\<lparr>ps_restart_count := ps_restart_count p + 1\<rparr>"
  have 0: "once lib p (during ?p0)" by (rule once_trans[OF once_same assms]) simp_all
  have 1: "once lib p (snd (restart_now lib (during ?p0)))" by (rule once_trans[OF 0 once_restart_now])
  have 2: "once lib p (notify lib c l m (snd (restart_now lib (during ?p0))))" for c l m
    by (rule once_trans[OF 1 once_same]) simp_all
  show ?thesis using 0 1 2 by (cases "restart_now lib (during ?p0)") (auto simp: restart_def Let_def split: sum.splits)
qed

lemma hot_reload_same:
  "ps_restarting (snd (hot_reload lib us ch new p)) = ps_restarting p \<and> ps_events (snd (hot_reload lib us ch new p)) = ps_events p"
proof (cases "hot_reload lib us ch new p")
  case (Pair r q)
  then show ?thesis using hot_reload_fail[of lib us ch new p _ q] hot_reload_effect[of lib us ch new p _ q]
    by (cases r) (auto simp: reload_effect_def)
qed

lemma not_loaded:
  assumes "\<nexists>new. loads lib p new"
  shows "snd (diff_and_update_config lib during hot_only p) = stored lib p"
proof (cases "load_config (pr_store lib) (pr_storage lib) \<lparr>lo_replace_include = True, lo_admin = False\<rparr> (ps_store p)")
  case (Pair r f)
  with assms show ?thesis
    by (cases r) (auto simp: diff_and_update_config_def act_bind_def on_store_def stored_def loads_def map_err_def
        split: sum.splits)
qed

lemma once_update:
  assumes "\<And>r. once lib r (during r)"
  shows "once lib p (run_diff_and_update_config lib during hot_only p)"
proof (cases "\<exists>new. loads lib p new")
  case False
  then show ?thesis unfolding run_diff_and_update_config_def not_loaded[OF False] by (intro once_same) simp_all
next
  case True
  then obtain new where l: "loads lib p new" by blast
  let ?tx = "sl_texts (pr_store lib)"
  obtain us ds where d: "conf_diff ?tx (ps_config p) new = (us, ds)" by fastforce
  obtain hot ch where h: "hot_reload_config (ps_config p) new = (hot, ch)" by fastforce
  obtain r q where q: "hot_reload lib us ch new (stored lib p) = (r, q)" by fastforce
  have same: "ps_restarting q = ps_restarting p" "ps_events q = ps_events p"
    using hot_reload_same[of lib us ch new "stored lib p"] q by auto
  have rs: "once lib p (restart lib during p2)" if "ps_restarting p2 = ps_restarting p" "ps_events p2 = ps_events p" for p2
    by (rule once_trans[OF once_same once_restart[OF assms]]) (rule that)+
  show ?thesis
    unfolding run_diff_and_update_config_def diff_and_update_loaded[OF l] using same
    by (cases r) (auto simp: Let_def d h q act_bind_def intro!: once_same rs split: prod.splits)
qed

lemma proc_run_once: "proc_run lib p q \<Longrightarrow> once lib p q"
proof (induction rule: proc_run.induct)
  case (run_now p q)
  then show ?case using once_trans once_restart_now by blast
next
  case (run_update p q during hot_only)
  then show ?case using once_trans once_update by blast
qed (simp add: once_same)

section \<open>The schedule of restarts\<close>

abbreviation auto_restart_runs ::
  "('re, 'b, 's, 'x, 'k, 'f) process_lib
     \<Rightarrow> (('re, 'b, 's, 'x, 'k, 'f) process \<Rightarrow> ('re, 'b, 's, 'x, 'k, 'f) process)
     \<Rightarrow> nat \<Rightarrow> auto_restart \<times> ('re, 'b, 's, 'x, 'k, 'f) process \<Rightarrow> auto_restart \<times> ('re, 'b, 's, 'x, 'k, 'f) process" where
  "auto_restart_runs lib during k \<equiv> (\<lambda>s. snd (auto_restart_run lib during s)) ^^ k"

lemma auto_restart_runs_state:
  "\<exists>b. fst (auto_restart_runs lib during k (ar, p)) =
     ar\<lparr>ar_count := ar_count ar + of_nat k, ar_running_hot_reload := b\<rparr>"
proof (induction k)
  case (Suc k)
  then obtain b where "fst (auto_restart_runs lib during k (ar, p)) = ar\<lparr>ar_count := ar_count ar + of_nat k, ar_running_hot_reload := b\<rparr>"
    by blast
  then show ?case
    by (cases "auto_restart_runs lib during k (ar, p)") (auto simp: auto_restart_run_def Let_def algebra_simps intro!: exI)
next
  case 0
  show ?case by (intro exI[of _ "ar_running_hot_reload ar"]) simp
qed

lemma auto_restart_runs_turn:
  "ar_running_hot_reload (fst (auto_restart_runs lib during (Suc k) (ar, p))) =
     hot_reload_turn (ar\<lparr>ar_count := ar_count ar + of_nat k\<rparr>)"
proof -
  obtain b where "fst (auto_restart_runs lib during k (ar, p)) = ar\<lparr>ar_count := ar_count ar + of_nat k, ar_running_hot_reload := b\<rparr>"
    using auto_restart_runs_state by blast
  then show ?thesis
    by (cases "auto_restart_runs lib during k (ar, p)") (auto simp: auto_restart_run_def Let_def hot_reload_turn_def)
qed

section \<open>Properties\<close>



text \<open>
  A hot reload sorts the locations of the servers again only when the list of locations of a
  server changes: when only the paths, hosts or weights of locations change, requests are still
  tried in the order of the old weights.
\<close>

theorem reload_leaves_order_stale:
  assumes l: "loads lib p new"
    and same: "\<And>n srv cur. (n, srv) \<in> set (servers new) \<Longrightarrow> map_of (servers (ps_config p)) n = Some cur \<Longrightarrow>
      sc_locations srv = sc_locations cur"
  shows "ps_server_locations (snd (diff_and_update_config lib during True p)) = ps_server_locations p"
proof -
  let ?us = "fst (conf_diff (sl_texts (pr_store lib)) (ps_config p) new)"
  have "fold set_hot_server (servers new) (servers (ps_config p), False) = (servers (ps_config p), False)"
    by (rule hot_servers_unchanged) (rule same)
  then obtain hot where h: "hot_reload_config (ps_config p) new = (hot, False)" by (simp add: hot_reload_config_def Let_def)
  show ?thesis
  proof (cases "hot_reload lib ?us False new (stored lib p)")
    case (Pair r q)
    have "ps_server_locations q = ps_server_locations p"
    proof (cases r)
      case (Inl e)
      with Pair hot_reload_fail[of lib ?us False new "stored lib p" e q] show ?thesis by simp
    next
      case (Inr fails)
      with Pair hot_reload_effect[of lib ?us False new "stored lib p" fails q] show ?thesis by (simp add: reload_effect_def)
    qed
    then show ?thesis
      unfolding diff_and_update_loaded[OF l] by (cases r) (simp_all add: Let_def split_def h act_bind_def Pair)
  qed
qed

text \<open>
  The stored locations weigh the same, so the server should try \<open>l\<close> before \<open>m\<close>, as it lists them; the
  running order is that of the old weights and stays.
\<close>

theorem reload_leaves_order_stale_witness:
  "let old = stored_conf\<lparr>locations := [(''l'', sample_location_conf), (''m'', sample_location_conf\<lparr>lc_weight := Some 1000\<rparr>)]\<rparr>;
       order = snd (try_init_server_locations (servers old) (locations old) [])
   in order = [(''s'', [''m'', ''l''])] \<and>
      ps_server_locations (snd (diff_and_update_config sample_process_lib id True (sample_process old order))) = order \<and>
      snd (try_init_server_locations (servers stored_conf) (locations stored_conf) order) = [(''s'', [''l'', ''m''])]"
proof -
  let ?old = "stored_conf\<lparr>locations := [(''l'', sample_location_conf), (''m'', sample_location_conf\<lparr>lc_weight := Some 1000\<rparr>)]\<rparr>"
  have 1: "snd (try_init_server_locations (servers ?old) (locations ?old) []) = [(''s'', [''m'', ''l''])]" by code_simp
  have 2: "snd (try_init_server_locations (servers stored_conf) (locations stored_conf) [(''s'', [''m'', ''l''])]) =
      [(''s'', [''l'', ''m''])]" by code_simp
  have "ps_server_locations (snd (diff_and_update_config sample_process_lib id True (sample_process ?old [(''s'', [''m'', ''l''])]))) =
      ps_server_locations (sample_process ?old [(''s'', [''m'', ''l''])])"
    by (rule reload_leaves_order_stale[OF stored_conf_loads]) (simp add: sample_process_def stored_conf_def split: if_splits)
  with 1 2 show ?thesis by (simp add: sample_process_def Let_def)
qed

text \<open>
  C33: A process starts its successor at most once. In any run of admin restarts and configuration
  updates, whatever overlaps, the process either executes nothing or sends itself \<open>SIGQUIT\<close> and then
  executes the restart command, once, and only when it was not restarting before. An attempt that
  failed leaves the process restarting, so that nothing is started afterwards.
\<close>

theorem restart_at_most_once:
  assumes "proc_run lib p q"
  shows "(ps_restarting p \<longrightarrow> ps_restarting q \<and> ps_events q = ps_events p) \<and>
    (ps_events q \<noteq> ps_events p \<longrightarrow>
       ps_restarting q \<and> (\<exists>cmd. pr_command lib = Some cmd \<and> ps_events q = ps_events p @ [SigQuit, Exec cmd]))"
  using proc_run_once[OF assms] by (auto simp: once_def)

theorem restart_at_most_once_witness:
  "ps_events (snd (restart_now sample_process_lib (snd (restart_now sample_process_lib (sample_process default_conf []))))) =
     [SigQuit, Exec \<lparr>rc_exec_path = ''pingap'', rc_log_level = ''INFO'', rc_args = []\<rparr>]"
proof -
  let ?p = "sample_process default_conf []" and ?q = "snd (restart_now sample_process_lib (sample_process default_conf []))"
  have e: "ps_restarting ?q" "ps_events ?q = [SigQuit, Exec \<lparr>rc_exec_path = ''pingap'', rc_log_level = ''INFO'', rc_args = []\<rparr>]"
    by (simp_all add: restart_now_def sample_process_lib_def sample_process_def Let_def)
  have "proc_run sample_process_lib ?q (snd (restart_now sample_process_lib ?q))" by (intro run_now run_refl)
  from restart_at_most_once[OF this] e show ?thesis by simp
qed

text \<open>
  The schedule of the auto restart service: its \<open>k\<close>-th run may restart the process exactly when
  restarts are enabled, the interval is at least twenty seconds and \<open>k\<close> is a positive multiple of
  the number of whole ten second units in the interval. With a shorter interval it never restarts.
\<close>

theorem auto_restart_schedule:
  assumes "k < 2 ^ 32" "as_secs interval div 10 < 2 ^ 32"
  shows "ar_running_hot_reload (fst (auto_restart_runs lib during (Suc k) (snd (new_auto_restart_service interval only_hot), p))) \<longleftrightarrow>
    only_hot \<or> interval < from_secs 20 \<or> k = 0 \<or> k mod (as_secs interval div 10) \<noteq> 0"
proof -
  let ?u = "as_secs interval div 10"
  have u: "?u < 2 \<longleftrightarrow> interval < from_secs 20" "interval \<le> from_secs 10 \<Longrightarrow> interval < from_secs 20"
    by (auto simp: as_secs_def from_secs_def)
  have w: "unat (word_of_nat k :: 32 word) = k" "unat (word_of_nat ?u :: 32 word) = ?u"
    using assms by (simp_all add: unat_of_nat take_bit_nat_eq_self)
  have "(word_of_nat k :: 32 word) mod word_of_nat ?u = 0 \<longleftrightarrow> k mod ?u = 0"
    using w by (metis unat_0 unat_eq_zero unat_mod)
  moreover have "(0 :: 32 word) < word_of_nat k \<longleftrightarrow> 0 < k" "(1 :: 32 word) < word_of_nat ?u \<longleftrightarrow> 1 < ?u"
    using w by (simp_all add: word_less_nat_alt)
  ultimately show ?thesis
    using u by (auto simp del: funpow.simps simp: auto_restart_runs_turn new_auto_restart_service_def hot_reload_turn_def)
qed

theorem auto_restart_schedule_witness:
  "\<not> ar_running_hot_reload (fst (auto_restart_runs sample_process_lib id (Suc 6)
     (snd (new_auto_restart_service (from_secs 60) False), sample_process default_conf [])))"
  using auto_restart_schedule[of 6 "from_secs 60" sample_process_lib id False "sample_process default_conf []"]
  by (simp add: as_secs_def from_secs_def del: funpow.simps)

end
