(* ===== verification/Admin_Access.thy ===== *)
theory Admin_Access
  imports Admin
begin

text \<open>
  Who gets past the authentication of the admin server (\<open>src/plugin/admin.rs\<close>): requests with the
  digest of a configured credential and a recent time stamp, and the paths it leaves open.
\<close>

section \<open>Credentials\<close>

text \<open>
  The request carries \<open>token:ts\<close> where the token is the digest of a configured credential and the time
  stamp is no further from the clock than \<open>max_age\<close>, unless the distance overflows.
\<close>

definition has_credentials :: "('re, 's) plugin_lib \<Rightarrow> admin_serve \<Rightarrow> request_header \<Rightarrow> bool" where
  "has_credentials lib a h \<longleftrightarrow>
     (\<exists>cred \<in> set (as_authorizations a). \<exists>ts t.
        get_req_header_value (pl_http lib) h ''Authorization'' = Some (admin_digest lib cred ts @ '':'' @ ts) \<and>
        t = (case parse_i64 ts of Inr t \<Rightarrow> t | Inl _ \<Rightarrow> 0) \<and>
        (int (now_sec (pl_env lib)) - t < 2 ^ 63 \<longrightarrow> \<bar>int (now_sec (pl_env lib)) - t\<bar> \<le> int (as_secs (as_max_age a))))"

definition open_path :: "request_header \<Rightarrow> bool" where
  "open_path h \<longleftrightarrow> length (uri_path (req_uri h)) \<le> 1 \<or> static_path (uri_path (req_uri h))"

lemma auth_validate_sound:
  assumes v: "auth_validate lib a h" and a: "as_authorizations a \<noteq> []" and o: "\<not> open_path h"
    and now: "now_sec (pl_env lib) < 2 ^ 63" and age: "as_secs (as_max_age a) < 2 ^ 63"
  shows "has_credentials lib a h"
proof -
  from v a o obtain v token ts cred where
    h: "get_req_header_value (pl_http lib) h ''Authorization'' = Some v" and sp: "split_once CHR '':'' v = Some (token, ts)" and
    d: "sint (abs_i64 (word_of_nat (now_sec (pl_env lib)) - word_of_int (case parse_i64 ts of Inr t \<Rightarrow> t | Inl _ \<Rightarrow> 0)))
        \<le> sint (word_of_nat (as_secs (as_max_age a)) :: 64 word)" and
    c: "cred \<in> set (as_authorizations a)" "admin_digest lib cred ts = token"
    by (auto simp: auth_validate_def open_path_def Let_def list_ex_iff split: option.splits if_splits)
  let ?t = "case parse_i64 ts of Inr t \<Rightarrow> t | Inl _ \<Rightarrow> 0"
  have "sint (word_of_nat (as_secs (as_max_age a)) :: 64 word) = int (as_secs (as_max_age a))"
    using age sint_self[of "int (as_secs (as_max_age a))"] by simp
  moreover have "- (2 ^ 63) \<le> ?t" "?t < 2 ^ 63" using i64_in_range[of ts] by (auto split: sum.splits)
  ultimately have "\<bar>int (now_sec (pl_env lib)) - ?t\<bar> \<le> int (as_secs (as_max_age a))"
    if "int (now_sec (pl_env lib)) - ?t < 2 ^ 63"
    using d time_distance[OF now _ _ that] by simp
  then show ?thesis using h sp c unfolding has_credentials_def split_once_Some_iff by auto
qed

section \<open>A concrete admin server\<close>

text \<open>An empty file system, no failures so far, and one credential.\<close>

definition admin_store :: "sample_state store_lib" where
  "admin_store = \<lparr>sl_conf = sample_config_lib, sl_texts = sample_texts, sl_util = sample_util_lib,
     sl_query_map = (\<lambda>_. []), sl_parse_duration = Inl, fs_exists = (\<lambda>_ _. False), fs_is_dir = (\<lambda>_ _. False),
     fs_is_file = (\<lambda>_ _. False), fs_create_dir_all = (\<lambda>_ s. (Inr (), s)), fs_read = (\<lambda>_ _. Inl ''not found''),
     fs_write = (\<lambda>_ _ s. (Inr (), s)), fs_remove_file = (\<lambda>_ s. (Inr (), s)), fs_glob = (\<lambda>_ _. Inr []),
     et_connect = (\<lambda>_ _. Inl ''no server''), et_get_prefix = (\<lambda>_ _. Inl ''no server''), et_get = (\<lambda>_ _. Inl ''no server''),
     et_put = (\<lambda>_ _ s. (Inl ''no server'', s)), et_delete = (\<lambda>_ s. (Inl ''no server'', s))\<rparr>"

definition sample_info :: basic_info where
  "sample_info = \<lparr>bi_start_time = 0, bi_version = ''0'', bi_rustc_version = [], bi_config_hash = [], bi_user = [],
     bi_group = [], bi_pid = ''1'',
     bi_system = \<lparr>sy_memory_mb = 0, sy_memory = [], sy_arch = [], sy_cpus = 1, sy_physical_cpus = 1, sy_total_memory = [],
       sy_used_memory = [], sy_kernel = [], sy_pid = 1, sy_threads = 1, sy_fd_count = 0, sy_tcp_count = 0, sy_tcp6_count = 0\<rparr>,
     bi_processing = 0, bi_accepted = 0, bi_features = [], bi_supported_plugins = [], bi_upstream_healthy_status = []\<rparr>"

definition sample_admin_lib :: "sample_state admin_lib" where
  "sample_admin_lib = \<lparr>ad_store = admin_store, ad_storage = Some (FileStore \<lparr>fst_path = ''conf'', fst_separation = False\<rparr>),
     ad_body_reads = (\<lambda>_. []), ad_json = (\<lambda>v. case v of JConf _ \<Rightarrow> Inr ''{conf}'' | _ \<Rightarrow> Inr ''{}''), ad_toml_pretty = (\<lambda>_. Inr []),
     ad_upstream_json = Inl, ad_location_json = Inl, ad_server_json = Inl, ad_plugin_json = Inl, ad_certificate_json = Inl,
     ad_storage_json = Inl, ad_basic_json = Inl, ad_aes_json = Inl, ad_fail_get = (\<lambda>_ _. None), ad_fail_put = (\<lambda>_ _ s. s),
     ad_info = (\<lambda>_. sample_info), ad_restart = (\<lambda>s. (Inr [], s)), ad_cert_infos = (\<lambda>_. []), ad_asset = (\<lambda>_. None),
     ad_gzip = (\<lambda>_. None)\<rparr>"

definition sample_admin :: admin_serve where
  "sample_admin = \<lparr>as_path = ''/admin'', as_authorizations = [(''user'', ''secret'')], as_step = Request,
     as_max_age = from_secs 60, as_hash_value = [], as_fail_limit = 10\<rparr>"

definition sample_admin_conn :: "string \<Rightarrow> conn" where
  "sample_admin_conn path = \<lparr>cn_session = sample_session ''a.com'' path, cn_written = [], cn_write_error = None\<rparr>"

lemmas sample_admin_simps =
  sample_admin_lib_def sample_admin_def sample_admin_conn_def sample_plugin_lib_def sample_http_simps
  conn_req_def upd_req_def

section \<open>Properties\<close>

text \<open>
  C11: A request to an admin server with credentials is either refused (too many failures, or not
  authorized), sent on to the path with a final slash, or it carries the digest of a configured
  credential with a recent time stamp, unless its path is one the server leaves open. A refused
  request changes nothing but the count of failures.
\<close>

theorem admin_requires_credentials:
  assumes r: "handle_request_admin lib ad a (cn, s) = (r, cn', s')" and a: "as_authorizations a \<noteq> []"
    and now: "now_sec (pl_env lib) < 2 ^ 63" and age: "as_secs (as_max_age a) < 2 ^ 63"
  shows "open_path (conn_req cn') \<or> has_credentials lib a (conn_req cn') \<or>
    (let now = sys_now_ms (pl_env lib); ip = get_client_ip (pl_http lib) (cn_session cn);
         s1 = snd (ttl_validate (fail_limit ad a) now ip s)
     in (\<exists>resp. r = Inr (Some resp) \<and> (hr_status resp = 403 \<and> s' = s1 \<or>
           hr_status resp = 401 \<and> s' = ttl_inc (fail_limit ad a) now ip s1)) \<or>
        (case redirect_to (pl_http lib) (with_query (req_uri (conn_req cn)) (uri_path (req_uri (conn_req cn)) @ ''/'')) of
           Inl e \<Rightarrow> r = Inl e | Inr resp \<Rightarrow> r = Inr (Some resp)) \<and> s' = s1)"
proof (cases "auth_validate lib a (conn_req cn')")
  case True
  then show ?thesis using auth_validate_sound[OF True a _ now age] by blast
next
  case False
  then show ?thesis
    using r by (auto simp: handle_request_admin_def Let_def status_body_def split: prod.splits if_splits sum.splits)
qed

theorem admin_requires_credentials_witness:
  "\<exists>resp. fst (handle_request_admin sample_plugin_lib sample_admin_lib sample_admin (sample_admin_conn ''/admin/configs'', [])) =
     Inr (Some resp) \<and> hr_status resp \<in> {401, 403, 307}"
proof -
  let ?cn = "sample_admin_conn ''/admin/configs''"
  let ?r = "handle_request_admin sample_plugin_lib sample_admin_lib sample_admin (?cn, [])"
  let ?u = "\<lparr>uri_host = None, uri_path = ''/configs'', uri_query = None, uri_text = ''/configs''\<rparr>"
  let ?cn1 = "upd_req (\<lambda>h. h\<lparr>req_uri := ?u\<rparr>) ?cn"
  have lib: "pl_http sample_plugin_lib = sample_http" "as_path sample_admin = ''/admin''" "uri_parse sample_http ''/configs'' = Inr ?u"
    and rq: "uri_path (req_uri (conn_req ?cn)) = ''/admin/configs''" "uri_query (req_uri (conn_req ?cn)) = None"
    by (simp_all add: sample_plugin_lib_def sample_admin_def sample_http_simps sample_admin_conn_def conn_req_def)
  have none: "get_req_header_value (pl_http sample_plugin_lib) (conn_req ?cn1) ''Authorization'' = None"
    by (simp add: get_req_header_value_def sample_admin_conn_def sample_session_def sample_request_def conn_req_def upd_req_def)
  have closed: "\<not> open_path (conn_req ?cn1)"
    by (simp add: open_path_def static_path_def ends_with_def starts_with_def)
  have "\<not> auth_validate sample_plugin_lib sample_admin (conn_req ?cn1)"
    using none closed by (simp add: auth_validate_def open_path_def Let_def sample_admin_def)
  moreover have "ttl_validate (fail_limit sample_admin_lib sample_admin) now ip [] = (True, [])" for now ip
    by (simp add: ttl_validate_def fail_limit_def sample_admin_lib_def)
  ultimately have "fst (snd ?r) = ?cn1"
    by (simp add: handle_request_admin_def Let_def lib rq with_query_def)
  then have r: "?r = (fst ?r, ?cn1, snd (snd ?r))" by (metis prod.collapse)
  have "as_authorizations sample_admin \<noteq> []" "now_sec (pl_env sample_plugin_lib) < 2 ^ 63" "as_secs (as_max_age sample_admin) < 2 ^ 63"
    by (simp_all add: sample_admin_def sample_plugin_lib_def sample_env_def now_sec_def as_secs_def from_secs_def)
  from admin_requires_credentials[OF r this] closed none show ?thesis
    by (auto simp: has_credentials_def Let_def redirect_to_def map_err_def lib sample_http_def)
qed

text \<open>
  C38: The exception for static files opens the configuration: the expression for their suffixes does
  not ask for a dot, and any category the server does not know stands for the whole configuration,
  so that \<open>GET /configs/js\<close> returns it, secrets included, without any credential.
\<close>

theorem admin_suffix_bypass:
  assumes ok: "ttl_validate (fail_limit ad a) (sys_now_ms (pl_env lib)) (get_client_ip (pl_http lib) (cn_session cn)) s = (True, s1)"
    and p: "uri_path (req_uri (conn_req cn)) = as_path a @ ''/configs/js''" "uri_query (req_uri (conn_req cn)) = None"
    and u: "uri_parse (pl_http lib) ''/configs/js'' = Inr u" "uri_path u = ''/configs/js''"
    and m: "req_method (conn_req cn) = ''GET''" and d: "pl_url_decode lib ''js'' = Some ''js''"
    and l: "load_config (ad_store ad) (ad_storage ad) \<lparr>lo_replace_include = False, lo_admin = True\<rparr> s1 = (Inr conf, s2)"
    and j: "ad_json ad (JConf conf) = Inr body"
  shows "\<exists>resp. fst (handle_request_admin lib ad a (cn, s)) = Inr (Some resp) \<and> hr_status resp = 200 \<and> hr_body resp = body"
proof -
  let ?cn1 = "upd_req (\<lambda>h. h\<lparr>req_uri := u\<rparr>) cn"
  have "static_path ''/configs/js''" by (simp add: static_path_def ends_with_def starts_with_def)
  then have auth: "auth_validate lib a (conn_req ?cn1)" by (simp add: auth_validate_def u Let_def)
  have "split_on CHR ''/'' ''/configs/js'' = [[], ''configs'', ''js'']" by code_simp
  then have params: "map (\<lambda>item. unwrap_or [] (pl_url_decode lib item)) (split_on CHR ''/'' ''/configs/js'') ! 2 = ''js''"
    "length (map (\<lambda>item. unwrap_or [] (pl_url_decode lib item)) (split_on CHR ''/'' ''/configs/js'')) = 3"
    using d by simp_all
  have g: "fst (get_config ad ''js'' s1) = try_from_json (Inr body)"
    using l j by (simp add: get_config_def admin_load_config_def on_config_def act_bind_def bad_config_def map_err_def category_names)
  have "fst (handle_configs lib ad reads ''GET'' (map (\<lambda>item. unwrap_or [] (pl_url_decode lib item)) (split_on CHR ''/'' ''/configs/js'')) s1) =
      (case try_from_json (Inr body) of Inr resp \<Rightarrow> resp | Inl e \<Rightarrow> error_json lib ad e)" for reads
    using g params by (simp add: handle_configs_def Let_def split_def)
  then have ans: "fst (admin_answer lib ad reads ''GET'' ''/configs/js'' s1) =
      Inr (case try_from_json (Inr body) of Inr resp \<Rightarrow> resp | Inl e \<Rightarrow> error_json lib ad e)" for reads
    by (simp add: admin_answer_def Let_def starts_with_def split_def)
  have "fst (handle_request_admin lib ad a (cn, s)) =
      (case fst (admin_answer lib ad (ad_body_reads ad ?cn1) ''GET'' ''/configs/js'' s1) of Inl e \<Rightarrow> Inl e | Inr resp \<Rightarrow> Inr (Some resp))"
    using ok p u m auth by (simp add: handle_request_admin_def Let_def with_query_def split_def)
  with ans show ?thesis by (simp add: try_from_json_def map_err_def)
qed

theorem admin_suffix_bypass_witness:
  "\<exists>resp. fst (handle_request_admin sample_plugin_lib sample_admin_lib sample_admin (sample_admin_conn ''/admin/configs/js'', [])) =
     Inr (Some resp) \<and> hr_status resp = 200 \<and> hr_body resp = ''{conf}''"
proof (rule admin_suffix_bypass)
  show "ttl_validate (fail_limit sample_admin_lib sample_admin) (sys_now_ms (pl_env sample_plugin_lib))
      (get_client_ip (pl_http sample_plugin_lib) (cn_session (sample_admin_conn ''/admin/configs/js''))) [] = (True, [])"
    by (simp add: ttl_validate_def fail_limit_def sample_admin_lib_def)
  show "uri_path (req_uri (conn_req (sample_admin_conn ''/admin/configs/js''))) = as_path sample_admin @ ''/configs/js''"
    "uri_query (req_uri (conn_req (sample_admin_conn ''/admin/configs/js''))) = None"
    "req_method (conn_req (sample_admin_conn ''/admin/configs/js'')) = ''GET''"
    by (simp_all add: sample_admin_simps)
  show "uri_parse (pl_http sample_plugin_lib) ''/configs/js'' =
      Inr \<lparr>uri_host = None, uri_path = ''/configs/js'', uri_query = None, uri_text = ''/configs/js''\<rparr>"
    by (simp add: sample_plugin_lib_def sample_http_simps)
  show "load_config (ad_store sample_admin_lib) (ad_storage sample_admin_lib) \<lparr>lo_replace_include = False, lo_admin = True\<rparr> [] =
      (Inr default_conf, [])"
    by (simp add: sample_admin_lib_def admin_store_def load_config_def store_load_config_def file_load_config_def)
qed (simp_all add: sample_admin_lib_def sample_plugin_lib_def)

end
