(* ===== verification/Cache_Storage.thy ===== *)
theory Cache_Storage
  imports Content_Plugins
begin

text \<open>
  \<open>pingap-cache\<close>: the encoding of cached objects, the file cache with its hot objects in memory and
  its quotas, the memory cache, and the storage interface pingora calls. \<open>TinyUfo\<close>, the file system
  and pingora's \<open>CacheMeta\<close> are fields of \<open>cache_lib\<close>: \<open>'u\<close> is the state of a \<open>TinyUfo\<close>, \<open>'f\<close> that
  of the file system. An input or output error is whether it is \<open>NotFound\<close>, and its text. What the
  source computes with \<open>usize\<close> lengths of objects in memory is on naturals.
\<close>

section \<open>Errors\<close>

datatype cache_error = CacheIo string | CacheInvalid string | CacheOverQuota nat string | CachePanic string

definition cache_error_text :: "cache_error \<Rightarrow> string" where
  "cache_error_text e = (case e of
     CacheIo s \<Rightarrow> ''Io error: '' @ s
   | CacheInvalid m \<Rightarrow> m
   | CacheOverQuota mx m \<Rightarrow> ''Over quota error, max: '' @ show_nat mx @ '', '' @ m
   | CachePanic m \<Rightarrow> m)"

definition to_pingora :: "cache_error + 'a \<Rightarrow> pingora_error + 'a" where
  "to_pingora r = map_err (\<lambda>e. new_internal_error 500 (cache_error_text e)) r"

definition PAGE_SIZE :: nat where "PAGE_SIZE = 4096"

section \<open>Cached objects\<close>

record cache_object =
  co_meta0 :: string
  co_meta1 :: string
  co_body :: string

definition MAX_OBJECT_CACHE_SIZE :: nat where "MAX_OBJECT_CACHE_SIZE = 10 * 1024 * PAGE_SIZE"

definition cache_weight :: "cache_object \<Rightarrow> u16" where
  "cache_weight o' =
     (let size = length (co_body o') + length (co_meta0 o') + length (co_meta1 o') in
      if size \<le> PAGE_SIZE then 1
      else if size \<ge> MAX_OBJECT_CACHE_SIZE then - 1
      else word_of_nat (size div PAGE_SIZE))"

definition META_SIZE_LENGTH :: nat where "META_SIZE_LENGTH = 8"

text \<open>\<open>put_u32\<close> and \<open>get_u32\<close>: big endian.\<close>

definition put_u32 :: "nat \<Rightarrow> string" where
  "put_u32 n = map (\<lambda>i. char_of (n div 256 ^ i mod 256)) [3, 2, 1, 0]"

definition get_u32 :: "string \<Rightarrow> nat" where
  "get_u32 s = foldl (\<lambda>acc c. 256 * acc + of_char c) 0 (take 4 s)"

text \<open>\<open>split_to\<close> panics beyond the end of the data.\<close>

definition object_of_bytes :: "string \<Rightarrow> cache_error + cache_object" where
  "object_of_bytes data =
     (if length data < META_SIZE_LENGTH then Inr \<lparr>co_meta0 = [], co_meta1 = [], co_body = []\<rparr>
      else
        let meta0_size = get_u32 data; meta1_size = get_u32 (drop 4 data); rest = drop 8 data in
        if length rest < meta0_size then Inl (CachePanic ''split_to out of bounds'')
        else
          let meta0 = take meta0_size rest; rest1 = drop meta0_size rest in
          if length rest1 < meta1_size then Inl (CachePanic ''split_to out of bounds'')
          else Inr \<lparr>co_meta0 = meta0, co_meta1 = take meta1_size rest1, co_body = drop meta1_size rest1\<rparr>)"

definition bytes_of_object :: "cache_object \<Rightarrow> string" where
  "bytes_of_object o' =
     put_u32 (length (co_meta0 o') mod 2 ^ 32) @ put_u32 (length (co_meta1 o') mod 2 ^ 32)
     @ co_meta0 o' @ co_meta1 o' @ co_body o'"

section \<open>External services\<close>

text \<open>An entry of a walk over a directory: its path, whether it is a directory, and its access time if it can be read.\<close>

record walk_entry =
  we_path :: string
  we_is_dir :: bool
  we_accessed :: "nat option"

record ('u, 'f, 'm) cache_lib =
  cl_util :: util_lib
  cl_query_map :: "string \<Rightarrow> (string, string) hash_map"
  tu_new :: "nat \<Rightarrow> nat \<Rightarrow> 'u"
  tu_new_compact :: "nat \<Rightarrow> nat \<Rightarrow> 'u"
  tu_get :: "string \<Rightarrow> 'u \<Rightarrow> cache_object option \<times> 'u"
  tu_put :: "string \<Rightarrow> cache_object \<Rightarrow> u16 \<Rightarrow> 'u \<Rightarrow> 'u"
  tu_remove :: "string \<Rightarrow> 'u \<Rightarrow> cache_object option \<times> 'u"
  cf_exists :: "'f \<Rightarrow> string \<Rightarrow> bool"
  cf_create_dir_all :: "string \<Rightarrow> 'f \<Rightarrow> (string + unit) \<times> 'f"
  cf_read :: "'f \<Rightarrow> string \<Rightarrow> (bool \<times> string) + string"
  cf_write :: "string \<Rightarrow> string \<Rightarrow> 'f \<Rightarrow> (string + unit) \<times> 'f"
  cf_remove :: "string \<Rightarrow> 'f \<Rightarrow> (string + unit) \<times> 'f"
  cf_walk :: "'f \<Rightarrow> string \<Rightarrow> (string + walk_entry) list"
  cm_serialize :: "'m \<Rightarrow> pingora_error + string \<times> string"
  cm_deserialize :: "string \<Rightarrow> string \<Rightarrow> pingora_error + 'm"
  cl_memory :: "nat option"

section \<open>The file cache\<close>

record file_cache =
  fc_directory :: string
  fc_reading_max :: nat
  fc_writing_max :: nat
  fc_hot :: bool
  fc_max_weight :: u16

text \<open>What changes: the readers and writers at work, the hot objects and the files.\<close>

record ('u, 'f) cache_state =
  cs_reading :: nat
  cs_writing :: nat
  cs_hot :: 'u
  cs_files :: 'f

record file_cache_params =
  fp_directory :: string
  fp_reading_max :: nat
  fp_writing_max :: nat
  fp_cache_max :: nat
  fp_max_weight :: nat

definition query_number :: "nat \<Rightarrow> (string, string) hash_map \<Rightarrow> string \<Rightarrow> nat \<Rightarrow> nat" where
  "query_number w m key default_value =
     (case map_of m key of None \<Rightarrow> default_value | Some v \<Rightarrow> unwrap_or default_value (parse_unsigned w v))"

definition parse_params :: "('u, 'f, 'm) cache_lib \<Rightarrow> string \<Rightarrow> file_cache_params" where
  "parse_params lib dir =
     (let (path, query) = (case split_once CHR ''?'' dir of Some pq \<Rightarrow> pq | None \<Rightarrow> (dir, []));
          m = (if query = [] then [] else cl_query_map lib query)
      in \<lparr>fp_directory = resolve_path (cl_util lib) path,
          fp_reading_max = query_number 32 m ''reading_max'' 10000,
          fp_writing_max = query_number 32 m ''writing_max'' 1000,
          fp_cache_max = query_number 64 m ''cache_max'' 0,
          fp_max_weight = (case map_of m ''cache_file_max_size'' of
              None \<Rightarrow> 1024 * 1024 div PAGE_SIZE
            | Some v \<Rightarrow> (case parse_usize v of Some n \<Rightarrow> n div PAGE_SIZE | None \<Rightarrow> 1024 * 1024 div PAGE_SIZE))\<rparr>)"

definition new_file_cache ::
  "('u, 'f, 'm) cache_lib \<Rightarrow> string \<Rightarrow> 'f \<Rightarrow> (cache_error + file_cache \<times> 'u) \<times> 'f" where
  "new_file_cache lib dir f =
     (let p = parse_params lib dir;
          (r, f') = (if cf_exists lib f (fp_directory p) then (Inr (), f) else cf_create_dir_all lib (fp_directory p) f)
      in (try_then (map_err CacheIo r) (\<lambda>_.
            Inr (\<lparr>fc_directory = fp_directory p, fc_reading_max = fp_reading_max p, fc_writing_max = fp_writing_max p,
                   fc_hot = (fp_cache_max p > 0), fc_max_weight = word_of_nat (fp_max_weight p)\<rparr>,
                 tu_new lib (fp_cache_max p) (fp_cache_max p * PAGE_SIZE))), f'))"

definition get_file_path :: "file_cache \<Rightarrow> string \<Rightarrow> string \<Rightarrow> string" where
  "get_file_path fc key namespace =
     (if namespace = [] then path_push (fc_directory fc) key
      else path_push (fc_directory fc) (namespace @ ''/'' @ key))"

text \<open>
  A reader enters with \<open>fetch_add\<close>, checks the count before it and leaves with \<open>fetch_sub\<close> when its
  scope ends, also when it is refused.
\<close>

definition over_quota :: "nat \<Rightarrow> nat \<Rightarrow> bool" where
  "over_quota limit count \<longleftrightarrow> limit > 0 \<and> count \<ge> limit"

definition enter_reading :: "file_cache \<Rightarrow> ('u, 'f) cache_state \<Rightarrow> (cache_error + unit) \<times> ('u, 'f) cache_state" where
  "enter_reading fc st =
     (if over_quota (fc_reading_max fc) (cs_reading st)
      then (Inl (CacheOverQuota (fc_reading_max fc) ''too many reading''), st)
      else (Inr (), st\<lparr>cs_reading := cs_reading st + 1\<rparr>))"

definition leave_reading :: "('u, 'f) cache_state \<Rightarrow> ('u, 'f) cache_state" where
  "leave_reading st = st\<lparr>cs_reading := cs_reading st - 1\<rparr>"

definition enter_writing :: "file_cache \<Rightarrow> ('u, 'f) cache_state \<Rightarrow> (cache_error + unit) \<times> ('u, 'f) cache_state" where
  "enter_writing fc st =
     (if over_quota (fc_writing_max fc) (cs_writing st)
      then (Inl (CacheOverQuota (fc_writing_max fc) ''too many writing''), st)
      else (Inr (), st\<lparr>cs_writing := cs_writing st + 1\<rparr>))"

definition leave_writing :: "('u, 'f) cache_state \<Rightarrow> ('u, 'f) cache_state" where
  "leave_writing st = st\<lparr>cs_writing := cs_writing st - 1\<rparr>"

definition hot_get ::
  "('u, 'f, 'm) cache_lib \<Rightarrow> file_cache \<Rightarrow> string \<Rightarrow> ('u, 'f) cache_state \<Rightarrow> cache_object option \<times> ('u, 'f) cache_state" where
  "hot_get lib fc key st =
     (if fc_hot fc then let (r, u) = tu_get lib key (cs_hot st) in (r, st\<lparr>cs_hot := u\<rparr>) else (None, st))"

definition read_object :: "('u, 'f, 'm) cache_lib \<Rightarrow> 'f \<Rightarrow> string \<Rightarrow> cache_error + cache_object option" where
  "read_object lib f file =
     (case cf_read lib f file of
        Inr buf \<Rightarrow> if length buf \<ge> 8 then try_then (object_of_bytes buf) (\<lambda>o'. Inr (Some o')) else Inr None
      | Inl (missing, e) \<Rightarrow> if missing then Inr None else Inl (CacheIo e))"

definition file_get ::
  "('u, 'f, 'm) cache_lib \<Rightarrow> file_cache \<Rightarrow> string \<Rightarrow> string \<Rightarrow> ('u, 'f) cache_state
     \<Rightarrow> (cache_error + cache_object option) \<times> ('u, 'f) cache_state" where
  "file_get lib fc key namespace st =
     (case hot_get lib fc key st of
        (Some o', st1) \<Rightarrow> (Inr (Some o'), st1)
      | (None, st1) \<Rightarrow>
        (case enter_reading fc st1 of
           (Inl e, st2) \<Rightarrow> (Inl e, st2)
         | (Inr _, st2) \<Rightarrow>
           (case read_object lib (cs_files st2) (get_file_path fc key namespace) of
              Inl e \<Rightarrow> (Inl e, leave_reading st2)
            | Inr None \<Rightarrow> (Inr None, leave_reading st2)
            | Inr (Some o') \<Rightarrow>
                (Inr (Some o'), leave_reading
                   (if fc_hot fc then st2\<lparr>cs_hot := tu_put lib key o' (cache_weight o') (cs_hot st2)\<rparr> else st2)))))"

definition file_put ::
  "('u, 'f, 'm) cache_lib \<Rightarrow> file_cache \<Rightarrow> string \<Rightarrow> string \<Rightarrow> cache_object \<Rightarrow> ('u, 'f) cache_state
     \<Rightarrow> (cache_error + unit) \<times> ('u, 'f) cache_state" where
  "file_put lib fc key namespace o' st =
     (let st1 = (if fc_hot fc \<and> cache_weight o' < fc_max_weight fc
                 then st\<lparr>cs_hot := tu_put lib key o' (cache_weight o') (cs_hot st)\<rparr> else st)
      in case enter_writing fc st1 of
           (Inl e, st2) \<Rightarrow> (Inl e, st2)
         | (Inr _, st2) \<Rightarrow>
             (let (r, f) = cf_write lib (get_file_path fc key namespace) (bytes_of_object o') (cs_files st2)
              in (map_err CacheIo r, leave_writing (st2\<lparr>cs_files := f\<rparr>))))"

definition file_remove ::
  "('u, 'f, 'm) cache_lib \<Rightarrow> file_cache \<Rightarrow> string \<Rightarrow> string \<Rightarrow> ('u, 'f) cache_state
     \<Rightarrow> (cache_error + cache_object option) \<times> ('u, 'f) cache_state" where
  "file_remove lib fc key namespace st =
     (let st1 = (if fc_hot fc then st\<lparr>cs_hot := snd (tu_remove lib key (cs_hot st))\<rparr> else st);
          (r, f) = cf_remove lib (get_file_path fc key namespace) (cs_files st1)
      in (try_then (map_err CacheIo r) (\<lambda>_. Inr None), st1\<lparr>cs_files := f\<rparr>))"

fun clear_entries ::
  "('u, 'f, 'm) cache_lib \<Rightarrow> nat \<Rightarrow> (string + walk_entry) list \<Rightarrow> nat \<times> nat \<Rightarrow> 'f \<Rightarrow> (nat \<times> nat) \<times> 'f" where
  "clear_entries lib access_before [] counts f = (counts, f)"
| "clear_entries lib access_before (Inl _ # es) counts f = clear_entries lib access_before es counts f"
| "clear_entries lib access_before (Inr e # es) (success, fail) f =
     (if we_is_dir e then clear_entries lib access_before es (success, fail) f
      else case we_accessed e of
        None \<Rightarrow> clear_entries lib access_before es (success, fail) f
      | Some accessed \<Rightarrow>
          if accessed > access_before then clear_entries lib access_before es (success, fail) f
          else case cf_remove lib (we_path e) f of
            (Inr _, f') \<Rightarrow> clear_entries lib access_before es (success + 1, fail) f'
          | (Inl _, f') \<Rightarrow> clear_entries lib access_before es (success, fail + 1) f')"

definition file_clear ::
  "('u, 'f, 'm) cache_lib \<Rightarrow> file_cache \<Rightarrow> nat \<Rightarrow> ('u, 'f) cache_state \<Rightarrow> (nat \<times> nat) \<times> ('u, 'f) cache_state" where
  "file_clear lib fc access_before st =
     (let (counts, f) = clear_entries lib access_before (cf_walk lib (cs_files st) (fc_directory fc)) (0, 0) (cs_files st)
      in (counts, st\<lparr>cs_files := f\<rparr>))"

section \<open>The memory cache\<close>

definition new_tiny_ufo_cache :: "('u, 'f, 'm) cache_lib \<Rightarrow> string \<Rightarrow> nat \<Rightarrow> nat \<Rightarrow> 'u" where
  "new_tiny_ufo_cache lib mode total_weight_limit estimated_size =
     (if mode = ''compact'' then tu_new_compact lib total_weight_limit (estimated_size div 32)
      else tu_new lib total_weight_limit (estimated_size div 32))"

definition tiny_get ::
  "('u, 'f, 'm) cache_lib \<Rightarrow> string \<Rightarrow> ('u, 'f) cache_state \<Rightarrow> (cache_error + cache_object option) \<times> ('u, 'f) cache_state" where
  "tiny_get lib key st = (let (r, u) = tu_get lib key (cs_hot st) in (Inr r, st\<lparr>cs_hot := u\<rparr>))"

definition tiny_put ::
  "('u, 'f, 'm) cache_lib \<Rightarrow> string \<Rightarrow> cache_object \<Rightarrow> ('u, 'f) cache_state \<Rightarrow> (cache_error + unit) \<times> ('u, 'f) cache_state" where
  "tiny_put lib key o' st = (Inr (), st\<lparr>cs_hot := tu_put lib key o' (cache_weight o') (cs_hot st)\<rparr>)"

definition tiny_remove ::
  "('u, 'f, 'm) cache_lib \<Rightarrow> string \<Rightarrow> ('u, 'f) cache_state \<Rightarrow> (cache_error + cache_object option) \<times> ('u, 'f) cache_state" where
  "tiny_remove lib key st = (let (r, u) = tu_remove lib key (cs_hot st) in (Inr r, st\<lparr>cs_hot := u\<rparr>))"

section \<open>The backend\<close>

datatype cache_backend = FileBackend file_cache | TinyBackend

definition cache_get where
  "cache_get lib backend key namespace st =
     (case backend of FileBackend fc \<Rightarrow> file_get lib fc key namespace st | TinyBackend \<Rightarrow> tiny_get lib key st)"

definition cache_put where
  "cache_put lib backend key namespace o' st =
     (case backend of FileBackend fc \<Rightarrow> file_put lib fc key namespace o' st | TinyBackend \<Rightarrow> tiny_put lib key o' st)"

definition cache_remove where
  "cache_remove lib backend key namespace st =
     (case backend of FileBackend fc \<Rightarrow> file_remove lib fc key namespace st | TinyBackend \<Rightarrow> tiny_remove lib key st)"

text \<open>\<open>clear\<close> of the trait answers \<open>(-1, -1)\<close> where it is not supported.\<close>

definition support_clear :: "cache_backend \<Rightarrow> bool" where
  "support_clear backend = (case backend of FileBackend _ \<Rightarrow> True | TinyBackend \<Rightarrow> False)"

definition cache_clear ::
  "('u, 'f, 'm) cache_lib \<Rightarrow> cache_backend \<Rightarrow> nat \<Rightarrow> ('u, 'f) cache_state \<Rightarrow> (int \<times> int) \<times> ('u, 'f) cache_state" where
  "cache_clear lib backend access_before st =
     (case backend of
        FileBackend fc \<Rightarrow> (let ((s, n), st') = file_clear lib fc access_before st in ((int s, int n), st'))
      | TinyBackend \<Rightarrow> ((- 1, - 1), st))"

definition cache_stats :: "cache_backend \<Rightarrow> ('u, 'f) cache_state \<Rightarrow> (nat \<times> nat) option" where
  "cache_stats backend st =
     (case backend of FileBackend _ \<Rightarrow> Some (cs_reading st, cs_writing st) | TinyBackend \<Rightarrow> None)"

text \<open>The clearing service: every sixty turns, files not read for a day. \<open>now\<close> is in seconds.\<close>

definition do_file_storage_clear ::
  "('u, 'f, 'm) cache_lib \<Rightarrow> cache_backend \<Rightarrow> nat \<Rightarrow> nat \<Rightarrow> ('u, 'f) cache_state \<Rightarrow> bool \<times> ('u, 'f) cache_state" where
  "do_file_storage_clear lib backend now count st =
     (if count mod 60 \<noteq> 0 then (False, st)
      else if now < 24 * 3600 then (False, st)
      else (True, snd (cache_clear lib backend (now - 24 * 3600) st)))"

definition new_storage_clear_service :: "cache_backend option \<Rightarrow> string option" where
  "new_storage_clear_service backend =
     (case backend of None \<Rightarrow> None
      | Some b \<Rightarrow> if support_clear b then Some ''cache_storage_clear'' else None)"

record cache_backend_option =
  bo_directory :: "string option"
  bo_max_size :: "nat option"

definition MAX_MEMORY_SIZE :: nat where "MAX_MEMORY_SIZE = 100 * 1024 * 1024"

text \<open>The one backend of the process, built by the first successful call.\<close>

definition get_cache_backend ::
  "('u, 'f, 'm) cache_lib \<Rightarrow> cache_backend_option option \<Rightarrow> (cache_backend \<times> 'u) option \<Rightarrow> 'f
     \<Rightarrow> (cache_error + cache_backend) \<times> (cache_backend \<times> 'u) option \<times> 'f" where
  "get_cache_backend lib opts cell f =
     (case cell of
        Some (b, _) \<Rightarrow> (Inr b, cell, f)
      | None \<Rightarrow>
        (case opts of
           None \<Rightarrow> (Inl (CacheInvalid ''cache backend is not initialized''), None, f)
         | Some opt \<Rightarrow>
             let size = unwrap_or MAX_MEMORY_SIZE (bo_max_size opt);
                 dir = (case bo_directory opt of Some d \<Rightarrow> trim d | None \<Rightarrow> []) in
             if dir \<noteq> [] \<and> \<not> starts_with dir ''memory://'' then
               (case new_file_cache lib dir f of
                  (Inl e, f') \<Rightarrow> (Inl (CacheInvalid (cache_error_text e)), None, f')
                | (Inr (fc, u), f') \<Rightarrow> (Inr (FileBackend fc), Some (FileBackend fc, u), f'))
             else
               let max_memory = (case cl_memory lib of Some m \<Rightarrow> m * 1024 div 2 | None \<Rightarrow> 256 * 1000 * 1000);
                   mode = (case split_once CHR ''?'' dir of
                       Some (_, query) \<Rightarrow> unwrap_or [] (map_of (cl_query_map lib query) ''mode'') | None \<Rightarrow> []);
                   sz = min size max_memory
               in (Inr TinyBackend, Some (TinyBackend, new_tiny_ufo_cache lib mode (sz div PAGE_SIZE) sz), f)))"

section \<open>The storage of pingora\<close>

text \<open>A hit hands out a range of the body once per \<open>seek\<close>; a slice out of order or range panics.\<close>

record complete_hit =
  ch_body :: string
  ch_done :: bool
  ch_start :: nat
  ch_end :: nat

definition hit_get :: "complete_hit \<Rightarrow> (cache_error + string option) \<times> complete_hit" where
  "hit_get h =
     (if ch_done h then (Inr None, h)
      else if ch_start h \<le> ch_end h \<and> ch_end h \<le> length (ch_body h)
      then (Inr (Some (take (ch_end h - ch_start h) (drop (ch_start h) (ch_body h)))), h\<lparr>ch_done := True\<rparr>)
      else (Inl (CachePanic ''range out of bounds''), h\<lparr>ch_done := True\<rparr>))"

definition hit_seek :: "nat \<Rightarrow> nat option \<Rightarrow> complete_hit \<Rightarrow> (cache_error + unit) \<times> complete_hit" where
  "hit_seek start stop h =
     (if start \<ge> length (ch_body h)
      then (Inl (CacheInvalid (''seek start out of range '' @ show_nat start @ '' >= '' @ show_nat (length (ch_body h)))), h)
      else (Inr (), h\<lparr>ch_start := start,
              ch_end := (case stop of Some e \<Rightarrow> min (length (ch_body h)) e | None \<Rightarrow> ch_end h), ch_done := False\<rparr>))"

record miss_handler =
  mh_meta :: "string \<times> string"
  mh_body :: string
  mh_key :: string
  mh_namespace :: string

definition write_body :: "string \<Rightarrow> miss_handler \<Rightarrow> miss_handler" where
  "write_body data h = h\<lparr>mh_body := mh_body h @ data\<rparr>"

definition miss_finish ::
  "('u, 'f, 'm) cache_lib \<Rightarrow> cache_backend \<Rightarrow> miss_handler \<Rightarrow> ('u, 'f) cache_state
     \<Rightarrow> (pingora_error + nat) \<times> ('u, 'f) cache_state" where
  "miss_finish lib backend h st =
     (let (r, st') = cache_put lib backend (mh_key h) (mh_namespace h)
            \<lparr>co_meta0 = fst (mh_meta h), co_meta1 = snd (mh_meta h), co_body = mh_body h\<rparr> st
      in (try_then (to_pingora r) (\<lambda>_. Inr (length (mh_body h))), st'))"

definition lookup ::
  "('u, 'f, 'm) cache_lib \<Rightarrow> cache_backend \<Rightarrow> string \<Rightarrow> string \<Rightarrow> ('u, 'f) cache_state
     \<Rightarrow> (pingora_error + ('m \<times> complete_hit) option) \<times> ('u, 'f) cache_state" where
  "lookup lib backend hash namespace st =
     (let (r, st') = cache_get lib backend hash namespace st
      in (try_then (to_pingora r) (\<lambda>found. case found of
            None \<Rightarrow> Inr None
          | Some o' \<Rightarrow> try_then (cm_deserialize lib (co_meta0 o') (co_meta1 o')) (\<lambda>meta.
              Inr (Some (meta, \<lparr>ch_body = co_body o', ch_done = False, ch_start = 0, ch_end = length (co_body o')\<rparr>)))), st'))"

definition get_miss_handler ::
  "('u, 'f, 'm) cache_lib \<Rightarrow> string \<Rightarrow> string \<Rightarrow> 'm \<Rightarrow> pingora_error + miss_handler" where
  "get_miss_handler lib hash namespace meta =
     try_then (cm_serialize lib meta) (\<lambda>m.
     Inr \<lparr>mh_meta = m, mh_body = [], mh_key = hash, mh_namespace = namespace\<rparr>)"

definition purge ::
  "('u, 'f, 'm) cache_lib \<Rightarrow> cache_backend \<Rightarrow> string \<Rightarrow> ('u, 'f) cache_state \<Rightarrow> bool \<times> ('u, 'f) cache_state" where
  "purge lib backend hash st =
     (let (r, st') = cache_remove lib backend hash [] st
      in (case r of Inr found \<Rightarrow> found \<noteq> None | Inl _ \<Rightarrow> False, st'))"

definition update_meta ::
  "('u, 'f, 'm) cache_lib \<Rightarrow> cache_backend \<Rightarrow> string \<Rightarrow> string \<Rightarrow> 'm \<Rightarrow> ('u, 'f) cache_state
     \<Rightarrow> (pingora_error + bool) \<times> ('u, 'f) cache_state" where
  "update_meta lib backend hash namespace meta st =
     (case cache_get lib backend hash namespace st of
        (Inl e, st1) \<Rightarrow> (to_pingora (Inl e), st1)
      | (Inr None, st1) \<Rightarrow> (to_pingora (Inl (CacheInvalid ''no meta found'')), st1)
      | (Inr (Some o'), st1) \<Rightarrow>
          (case cm_serialize lib meta of
             Inl e \<Rightarrow> (Inl e, st1)
           | Inr (m0, m1) \<Rightarrow>
               (let (r, st2) = cache_put lib backend hash namespace (o'\<lparr>co_meta0 := m0, co_meta1 := m1\<rparr>) st1
                in (try_then (to_pingora r) (\<lambda>_. Inr True), st2))))"

section \<open>Encoding\<close>

lemma length_put_u32 [simp]: "length (put_u32 n) = 4"
  by (simp add: put_u32_def)

lemma get_put_u32: "n < 2 ^ 32 \<Longrightarrow> get_u32 (put_u32 n @ s) = n"
proof -
  assume n: "n < 2 ^ 32"
  have "take 4 (put_u32 n @ s) = put_u32 n" by simp
  then have "get_u32 (put_u32 n @ s) =
      256 * (256 * (256 * (n div 16777216 mod 256) + n div 65536 mod 256) + n div 256 mod 256) + n mod 256"
    by (simp add: get_u32_def put_u32_def)
  moreover have "n div 65536 = n div 256 div 256" "n div 16777216 = n div 256 div 256 div 256"
    by (simp_all add: div_mult2_eq[symmetric])
  moreover have "n div 16777216 < 256" using n by (simp add: div_less_iff_less_mult)
  ultimately show ?thesis by (simp add: mult_div_mod_eq add.commute)
qed

lemma object_roundtrip:
  assumes "length (co_meta0 o') < 2 ^ 32" "length (co_meta1 o') < 2 ^ 32"
  shows "object_of_bytes (bytes_of_object o') = Inr o'"
proof -
  let ?a = "put_u32 (length (co_meta0 o'))" and ?b = "put_u32 (length (co_meta1 o'))"
  let ?r = "co_meta0 o' @ co_meta1 o' @ co_body o'"
  have e: "bytes_of_object o' = ?a @ ?b @ ?r" using assms by (simp add: bytes_of_object_def)
  have "get_u32 (?a @ ?b @ ?r) = length (co_meta0 o')" by (rule get_put_u32[OF assms(1)])
  moreover have "get_u32 (drop 4 (?a @ ?b @ ?r)) = length (co_meta1 o')" using get_put_u32[OF assms(2)] by simp
  moreover have "drop 8 (?a @ ?b @ ?r) = ?r" by simp
  ultimately show ?thesis unfolding e object_of_bytes_def META_SIZE_LENGTH_def Let_def by simp
qed

lemma object_of_bytes_cut:
  assumes "8 \<le> length d" "length (drop 8 d) < get_u32 d + get_u32 (drop 4 d)"
  shows "object_of_bytes d = Inl (CachePanic ''split_to out of bounds'')"
  using assms by (auto simp: object_of_bytes_def META_SIZE_LENGTH_def Let_def)

section \<open>Hot objects\<close>

text \<open>
  What is relied on of \<open>TinyUfo\<close>: it may forget an object at any time, but what it returns for a key is
  what was put last for it, and nothing after a removal.
\<close>

definition holds :: "('u, 'f, 'm) cache_lib \<Rightarrow> 'u \<Rightarrow> string \<Rightarrow> cache_object \<Rightarrow> bool" where
  "holds lib u k v \<longleftrightarrow> fst (tu_get lib k u) = Some v"

definition ufo_laws :: "('u, 'f, 'm) cache_lib \<Rightarrow> bool" where
  "ufo_laws lib \<longleftrightarrow>
     (\<forall>u k k' v. holds lib (snd (tu_get lib k' u)) k v \<longrightarrow> holds lib u k v) \<and>
     (\<forall>u k k' v w o'. holds lib (tu_put lib k' o' w u) k v \<longrightarrow> (if k = k' then v = o' else holds lib u k v)) \<and>
     (\<forall>u k k' v. holds lib (snd (tu_remove lib k' u)) k v \<longrightarrow> k \<noteq> k' \<and> holds lib u k v)"

text \<open>What is relied on of the file system: a file that was written reads as it was written.\<close>

definition file_laws :: "('u, 'f, 'm) cache_lib \<Rightarrow> bool" where
  "file_laws lib \<longleftrightarrow> (\<forall>p b f f'. cf_write lib p b f = (Inr (), f') \<longrightarrow> cf_read lib f' p = Inr b)"

definition fits_u32 :: "cache_object \<Rightarrow> bool" where
  "fits_u32 o' \<longleftrightarrow> length (co_meta0 o') < 2 ^ 32 \<and> length (co_meta1 o') < 2 ^ 32"

lemma read_object_written:
  assumes "file_laws lib" "cf_write lib p (bytes_of_object o') f = (Inr (), f')" "fits_u32 o'"
  shows "read_object lib f' p = Inr (Some o')"
proof -
  have "cf_read lib f' p = Inr (bytes_of_object o')" using assms(1,2) by (simp add: file_laws_def)
  moreover have "8 \<le> length (bytes_of_object o')" by (simp add: bytes_of_object_def)
  ultimately show ?thesis using object_roundtrip assms(3) by (simp add: read_object_def fits_u32_def)
qed

section \<open>The contract of a backend\<close>

text \<open>
  What a client of the storage trait relies on: once an object has been stored under a key, a get
  that finds something there finds that object. \<open>ok\<close> says when the backend promises it.
\<close>

locale object_store =
  fixes get :: "string \<Rightarrow> string \<Rightarrow> 's \<Rightarrow> ('e + cache_object option) \<times> 's"
    and put :: "string \<Rightarrow> string \<Rightarrow> cache_object \<Rightarrow> 's \<Rightarrow> ('e + unit) \<times> 's"
    and ok :: "string \<Rightarrow> cache_object \<Rightarrow> 's \<Rightarrow> bool"
  assumes get_put: "ok k v s \<Longrightarrow> put k n v s = (Inr (), s') \<Longrightarrow> get k n s' = (Inr (Some v'), s'') \<Longrightarrow> v' = v"
begin

text \<open>Replacing the meta data of an object keeps its body.\<close>

lemma rewrite_body:
  assumes "get k n s = (Inr (Some v), s1)" "ok k (v\<lparr>co_meta0 := a, co_meta1 := b\<rparr>) s1"
    and "put k n (v\<lparr>co_meta0 := a, co_meta1 := b\<rparr>) s1 = (Inr (), s2)" "get k n s2 = (Inr (Some v'), s3)"
  shows "co_body v' = co_body v \<and> co_meta0 v' = a \<and> co_meta1 v' = b"
  using get_put[OF assms(2-4)] by simp

end

text \<open>
  The file cache promises it when the object is light enough for the hot objects, or nothing is hot
  under its key.
\<close>

definition file_ok ::
  "('u, 'f, 'm) cache_lib \<Rightarrow> file_cache \<Rightarrow> string \<Rightarrow> cache_object \<Rightarrow> ('u, 'f) cache_state \<Rightarrow> bool" where
  "file_ok lib fc k v st \<longleftrightarrow> ufo_laws lib \<and> file_laws lib \<and> fits_u32 v \<and>
     (fc_hot fc \<longrightarrow> cache_weight v < fc_max_weight fc \<or> fst (tu_get lib k (cs_hot st)) = None)"

lemma file_put_ok:
  assumes "file_put lib fc k n v st = (Inr (), st')"
  shows "cs_hot st' = (if fc_hot fc \<and> cache_weight v < fc_max_weight fc
      then tu_put lib k v (cache_weight v) (cs_hot st) else cs_hot st) \<and>
    cs_reading st' = cs_reading st \<and>
    cf_write lib (get_file_path fc k n) (bytes_of_object v) (cs_files st) = (Inr (), cs_files st')"
  using assms
  by (auto simp: file_put_def enter_writing_def leave_writing_def map_err_def Let_def split: if_splits prod.splits sum.splits)

lemma file_get_after:
  assumes hot: "fc_hot fc \<longrightarrow> (fst (tu_get lib k (cs_hot st)) = Some v \<or> fst (tu_get lib k (cs_hot st)) = None)"
    and stored: "read_object lib (cs_files st) (get_file_path fc k n) = Inr (Some v)"
  shows "fst (file_get lib fc k n st) = Inr (Some v) \<or>
    over_quota (fc_reading_max fc) (cs_reading st) \<and>
    fst (file_get lib fc k n st) = Inl (CacheOverQuota (fc_reading_max fc) ''too many reading'')"
  using hot stored
  by (auto simp: file_get_def hot_get_def enter_reading_def leave_reading_def split_def Let_def split: option.splits prod.splits)

lemma file_read_your_write:
  assumes "file_ok lib fc k v st" "file_put lib fc k n v st = (Inr (), st')"
  shows "fst (file_get lib fc k n st') = Inr (Some v) \<or>
    over_quota (fc_reading_max fc) (cs_reading st') \<and>
    fst (file_get lib fc k n st') = Inl (CacheOverQuota (fc_reading_max fc) ''too many reading'')"
proof (rule file_get_after)
  note p = file_put_ok[OF assms(2)]
  have laws: "ufo_laws lib" "file_laws lib" "fits_u32 v" using assms(1) by (simp_all add: file_ok_def)
  show "read_object lib (cs_files st') (get_file_path fc k n) = Inr (Some v)"
    using read_object_written[OF laws(2)] p laws(3) by blast
  show "fc_hot fc \<longrightarrow> fst (tu_get lib k (cs_hot st')) = Some v \<or> fst (tu_get lib k (cs_hot st')) = None"
  proof (cases "cache_weight v < fc_max_weight fc")
    case True
    then show ?thesis using p laws(1) unfolding ufo_laws_def holds_def by (metis option.exhaust)
  next
    case False
    then show ?thesis using p assms(1) by (simp add: file_ok_def)
  qed
qed

interpretation file_store: object_store "file_get lib fc" "file_put lib fc" "file_ok lib fc"
  for lib :: "('u, 'f, 'm) cache_lib" and fc
proof
  fix k v s n s' v' s''
  assume "file_ok lib fc k v s" "file_put lib fc k n v s = (Inr (), s')" "file_get lib fc k n s' = (Inr (Some v'), s'')"
  then show "v' = v" using file_read_your_write[of lib fc k v s n s'] by auto
qed

interpretation tiny_store: object_store "\<lambda>k n. tiny_get lib k" "\<lambda>k n. tiny_put lib k" "\<lambda>k v s. ufo_laws lib"
  for lib :: "('u, 'f, 'm) cache_lib"
proof
  fix k :: string and v v' :: cache_object and s s' s'' :: "('u, 'f) cache_state"
  assume l: "ufo_laws lib" and p: "tiny_put lib k v s = (Inr (), s')" and g: "tiny_get lib k s' = (Inr (Some v'), s'')"
  from p have "cs_hot s' = tu_put lib k v (cache_weight v) (cs_hot s)" by (auto simp: tiny_put_def)
  moreover from g have "holds lib (cs_hot s') k v'" by (auto simp: tiny_get_def holds_def split: prod.splits)
  ultimately show "v' = v" using l unfolding ufo_laws_def by metis
qed

definition backend_ok ::
  "('u, 'f, 'm) cache_lib \<Rightarrow> cache_backend \<Rightarrow> string \<Rightarrow> cache_object \<Rightarrow> ('u, 'f) cache_state \<Rightarrow> bool" where
  "backend_ok lib backend k v st \<longleftrightarrow>
     (case backend of FileBackend fc \<Rightarrow> file_ok lib fc k v st | TinyBackend \<Rightarrow> ufo_laws lib)"

interpretation backend: object_store "cache_get lib b" "cache_put lib b" "backend_ok lib b"
  for lib :: "('u, 'f, 'm) cache_lib" and b
proof
  fix k v s n s' v' s''
  assume "backend_ok lib b k v s" "cache_put lib b k n v s = (Inr (), s')" "cache_get lib b k n s' = (Inr (Some v'), s'')"
  then show "v' = v"
    by (cases b) (auto simp: backend_ok_def cache_put_def cache_get_def intro: file_store.get_put tiny_store.get_put)
qed

section \<open>Readers side by side\<close>

text \<open>
  Between \<open>fetch_add\<close>, the check and \<open>fetch_sub\<close> other readers run. A reader has either seen a count and
  not checked it yet, or it reads its file. The counter and the readers make the state.
\<close>

datatype reader = Seen nat | Reading

inductive reader_step :: "nat \<Rightarrow> nat \<times> reader list \<Rightarrow> nat \<times> reader list \<Rightarrow> bool" for limit where
  arrive: "reader_step limit (c, rs) (c + 1, rs @ [Seen c])"
| admit: "\<not> over_quota limit k \<Longrightarrow> reader_step limit (c, xs @ Seen k # ys) (c, xs @ Reading # ys)"
| refuse: "over_quota limit k \<Longrightarrow> reader_step limit (c, xs @ Seen k # ys) (c - 1, xs @ ys)"
| finish: "reader_step limit (c, xs @ Reading # ys) (c - 1, xs @ ys)"

inductive reader_run :: "nat \<Rightarrow> nat \<times> reader list \<Rightarrow> bool" for limit where
  idle: "reader_run limit (0, [])"
| move: "reader_run limit s \<Longrightarrow> reader_step limit s s' \<Longrightarrow> reader_run limit s'"

inductive_cases reader_stepE: "reader_step limit (c, rs) s'"

definition may_read :: "nat \<Rightarrow> reader \<Rightarrow> bool" where
  "may_read limit r = (case r of Seen k \<Rightarrow> \<not> over_quota limit k | Reading \<Rightarrow> True)"

definition quota_inv :: "nat \<Rightarrow> nat \<times> reader list \<Rightarrow> bool" where
  "quota_inv limit = (\<lambda>(c, rs). c = length rs \<and> (limit > 0 \<longrightarrow> length (filter (may_read limit) rs) \<le> limit))"

lemma quota_step:
  assumes "reader_step limit s s'" "quota_inv limit s"
  shows "quota_inv limit s'"
  using assms
proof (induction rule: reader_step.induct)
  case (arrive c rs)
  then have c: "c = length rs" and l: "limit > 0 \<Longrightarrow> length (filter (may_read limit) rs) \<le> limit" by (auto simp: quota_inv_def)
  have "length (filter (may_read limit) rs) < limit" if "limit > 0" "may_read limit (Seen c)"
    using that c le_less_trans[OF length_filter_le[of "may_read limit" rs]] by (auto simp: may_read_def over_quota_def)
  with c l show ?case by (auto simp: quota_inv_def)
qed (auto simp: quota_inv_def may_read_def split: if_splits)

lemma reader_run_inv: "reader_run limit s \<Longrightarrow> quota_inv limit s"
proof (induction rule: reader_run.induct)
  case idle
  show ?case by (simp add: quota_inv_def)
qed (rule quota_step)

section \<open>A concrete library\<close>

text \<open>A hot cache that forgets nothing, files in a map, meta data that are their text.\<close>

definition sample_cache_lib :: "((string, cache_object) hash_map, (string, string) hash_map, string) cache_lib" where
  "sample_cache_lib = \<lparr>cl_util = sample_util_lib, cl_query_map = (\<lambda>_. []), tu_new = (\<lambda>_ _. []), tu_new_compact = (\<lambda>_ _. []),
     tu_get = (\<lambda>k u. (map_of u k, u)), tu_put = (\<lambda>k v _ u. map_insert k v u), tu_remove = (\<lambda>k u. (map_of u k, map_remove k u)),
     cf_exists = (\<lambda>_ _. True), cf_create_dir_all = (\<lambda>_ f. (Inr (), f)),
     cf_read = (\<lambda>f p. case map_of f p of Some b \<Rightarrow> Inr b | None \<Rightarrow> Inl (True, ''not found'')),
     cf_write = (\<lambda>p b f. (Inr (), map_insert p b f)), cf_remove = (\<lambda>p f. (Inr (), map_remove p f)), cf_walk = (\<lambda>_ _. []),
     cm_serialize = (\<lambda>m. Inr (m, [])), cm_deserialize = (\<lambda>a _. Inr a), cl_memory = None\<rparr>"

definition sample_file_cache :: "u16 \<Rightarrow> file_cache" where
  "sample_file_cache w = \<lparr>fc_directory = ''/cache'', fc_reading_max = 2, fc_writing_max = 2, fc_hot = True, fc_max_weight = w\<rparr>"

definition sample_cache_object :: "string \<Rightarrow> cache_object" where
  "sample_cache_object body = \<lparr>co_meta0 = ''m'', co_meta1 = [], co_body = body\<rparr>"

lemma sample_cache_laws: "ufo_laws sample_cache_lib" "file_laws sample_cache_lib"
  by (auto simp: ufo_laws_def file_laws_def holds_def sample_cache_lib_def)

lemmas sample_cache_simps =
  sample_cache_lib_def sample_file_cache_def sample_cache_object_def cache_put_def cache_get_def file_put_def file_get_def
  hot_get_def enter_reading_def leave_reading_def enter_writing_def leave_writing_def over_quota_def cache_weight_def PAGE_SIZE_def

section \<open>Properties\<close>



text \<open>
  The file cache serves an old object after a heavier one has been stored: an object that is too
  heavy for the hot objects is written to its file only, the hot object under its key stays and is
  what the next get returns.
\<close>

theorem heavy_object_shadowed:
  assumes "fc_hot fc" "fst (tu_get lib key (cs_hot st)) = Some old" "\<not> cache_weight new < fc_max_weight fc"
    and "file_put lib fc key namespace new st = (Inr (), st')"
  shows "fst (file_get lib fc key namespace st') = Inr (Some old)"
proof -
  have "cs_hot st' = cs_hot st" using file_put_ok[OF assms(4)] assms(3) by simp
  with assms(1,2) show ?thesis by (simp add: file_get_def hot_get_def split_def Let_def split: option.splits)
qed

theorem heavy_object_shadowed_witness:
  "fst (file_get sample_cache_lib (sample_file_cache 1) ''k'' []
     (snd (file_put sample_cache_lib (sample_file_cache 1) ''k'' [] (sample_cache_object ''new'')
        \<lparr>cs_reading = 0, cs_writing = 0, cs_hot = [(''k'', sample_cache_object ''old'')], cs_files = []\<rparr>))) =
   Inr (Some (sample_cache_object ''old''))"
proof -
  let ?st = "\<lparr>cs_reading = 0, cs_writing = 0, cs_hot = [(''k'', sample_cache_object ''old'')], cs_files = [] :: (string, string) hash_map\<rparr>"
  obtain st' where p: "file_put sample_cache_lib (sample_file_cache 1) ''k'' [] (sample_cache_object ''new'') ?st = (Inr (), st')"
    by (simp add: map_err_def sample_cache_simps)
  have "fst (file_get sample_cache_lib (sample_file_cache 1) ''k'' [] st') = Inr (Some (sample_cache_object ''old''))"
    by (rule heavy_object_shadowed[OF _ _ _ p])
      (simp_all add: sample_file_cache_def sample_cache_lib_def cache_weight_def sample_cache_object_def PAGE_SIZE_def)
  with p show ?thesis by simp
qed

text \<open>
  C29: However readers arrive, check the count and leave, no more of them read files at a time than
  the quota allows, and the counter is the number of readers that have arrived and not left.
\<close>

theorem reading_within_quota:
  assumes "reader_run limit (count, rs)"
  shows "count = length rs \<and> (limit > 0 \<longrightarrow> length (filter (\<lambda>r. r = Reading) rs) \<le> limit)"
proof -
  have "length (filter (\<lambda>r. r = Reading) rs) \<le> length (filter (may_read limit) rs)"
    by (induction rs) (auto simp: may_read_def)
  with reader_run_inv[OF assms] show ?thesis by (auto simp: quota_inv_def)
qed

theorem reading_within_quota_witness:
  "\<exists>rs. reader_run 1 (2, rs) \<and> length (filter (\<lambda>r. r = Reading) rs) \<le> 1"
proof -
  have "reader_step 1 (0, []) (1, [Seen 0])" using arrive[of 1 0 "[]"] by simp
  moreover have "reader_step 1 (1, [Seen 0]) (1, [Reading])"
    using admit[of 1 0 1 "[]" "[]"] by (simp add: over_quota_def)
  moreover have "reader_step 1 (1, [Reading]) (2, [Reading, Seen 1])" using arrive[of 1 1 "[Reading]"] by (simp add: numeral_2_eq_2)
  ultimately have "reader_run 1 (2, [Reading, Seen 1])" by (meson idle move)
  from reading_within_quota[OF this] this show ?thesis by auto
qed



end
