(* ===== verification/Access_Log.thy ===== *)
theory Access_Log
  imports Content_Plugins
begin

text \<open>
  \<open>pingap-logger/src/access.rs\<close>: the parser of access log formats and the formatting of an entry.
  \<open>substring\<close> of the crate of that name and the calendar texts of \<open>chrono\<close> are fields of \<open>log_lib\<close>;
  the matches of the expression \<open>(\{[a-zA-Z_<>\-~:$]+*\})\<close> are computed here. What an entry needs of
  the session beyond its request is \<open>log_session\<close>.
\<close>

section \<open>Tags\<close>

datatype tag_category =
    TagFill | TagHost | TagMethod | TagPath | TagProto | TagQuery | TagRemote | TagClientIp | TagScheme | TagUri
  | TagReferrer | TagUserAgent | TagWhen | TagWhenUtcIso | TagWhenUnix | TagSize | TagSizeHuman | TagStatus
  | TagLatency | TagLatencyHuman | TagCookie | TagRequestHeader | TagResponseHeader | TagContext
  | TagPayloadSize | TagPayloadSizeHuman | TagRequestId

record log_tag =
  tag_category :: tag_category
  tag_data :: "string option"

record log_lib =
  lg_http :: http_lib
  lg_env :: sys_env
  lg_substring :: "string \<Rightarrow> nat \<Rightarrow> nat \<Rightarrow> string"
  lg_local_time :: "nat \<Rightarrow> string"
  lg_utc_time :: "nat \<Rightarrow> string"

definition new_tag :: "tag_category \<Rightarrow> string \<Rightarrow> log_tag" where
  "new_tag category data = \<lparr>tag_category = category, tag_data = Some data\<rparr>"

definition format_extra_tag :: "log_lib \<Rightarrow> string \<Rightarrow> log_tag option" where
  "format_extra_tag lib key0 =
     (if length key0 < 2 then None
      else
        let key = lg_substring lib key0 1 (length key0 - 1);
            ch = lg_substring lib key 0 1; val = lg_substring lib key 1 (length key) in
        if ch = ''~'' then Some (new_tag TagCookie val)
        else if ch = ''>'' then Some (new_tag TagRequestHeader val)
        else if ch = ''<'' then Some (new_tag TagResponseHeader val)
        else if ch = '':'' then Some (new_tag TagContext val)
        else if ch = ''$'' then
          Some (new_tag TagFill (if key = ''$hostname'' then sys_hostname (lg_env lib)
                                 else unwrap_or [] (env_var (lg_env lib) val)))
        else None)"

definition COMBINED :: string where
  "COMBINED = ''{remote} \"{method} {uri} {proto}\" {status} {size_human} \"{referer}\" \"{user_agent}\"''"

definition COMMON :: string where
  "COMMON = ''{remote} \"{method} {uri} {proto}\" {status} {size_human}''"

definition SHORT :: string where
  "SHORT = ''{remote} {method} {uri} {proto} {status} {size_human} - {latency}ms''"

definition TINY :: string where
  "TINY = ''{method} {uri} {status} {size_human} - {latency}ms''"

definition named_format :: "string \<Rightarrow> string" where
  "named_format v =
     (if v = ''combined'' then COMBINED else if v = ''common'' then COMMON
      else if v = ''short'' then SHORT else if v = ''tiny'' then TINY else v)"

definition plain_tags :: "(string \<times> tag_category) list" where
  "plain_tags =
     [(''{host}'', TagHost), (''{method}'', TagMethod), (''{path}'', TagPath), (''{proto}'', TagProto), (''{query}'', TagQuery),
      (''{remote}'', TagRemote), (''{client_ip}'', TagClientIp), (''{scheme}'', TagScheme), (''{uri}'', TagUri),
      (''{referer}'', TagReferrer), (''{user_agent}'', TagUserAgent), (''{when}'', TagWhen), (''{when_utc_iso}'', TagWhenUtcIso),
      (''{when_unix}'', TagWhenUnix), (''{size}'', TagSize), (''{size_human}'', TagSizeHuman), (''{status}'', TagStatus),
      (''{latency}'', TagLatency), (''{latency_human}'', TagLatencyHuman), (''{payload_size}'', TagPayloadSize),
      (''{payload_size_human}'', TagPayloadSizeHuman), (''{request_id}'', TagRequestId)]"

definition tags_of_key :: "log_lib \<Rightarrow> string \<Rightarrow> log_tag list" where
  "tags_of_key lib key =
     (case map_of plain_tags key of
        Some category \<Rightarrow> [\<lparr>tag_category = category, tag_data = None\<rparr>]
      | None \<Rightarrow> (case format_extra_tag lib key of Some t \<Rightarrow> [t] | None \<Rightarrow> []))"

section \<open>The parser\<close>

text \<open>The letters \<open>a\<close> to \<open>z\<close> (97 to 122), \<open>A\<close> to \<open>Z\<close> (65 to 90) and the signs of the expression.\<close>

definition tag_char :: "char \<Rightarrow> bool" where
  "tag_char c = (of_char c \<in> {97 ..< 123 :: nat} \<or> of_char c \<in> {65 ..< 91 :: nat} \<or> c \<in> set ''_<>-~:$'')"

text \<open>The length of a match at the head of the text, and the first match at or after a position.\<close>

definition match_at :: "string \<Rightarrow> nat option" where
  "match_at s =
     (case s of [] \<Rightarrow> None
      | c # cs \<Rightarrow>
          (let key = takeWhile tag_char cs; rest = dropWhile tag_char cs in
           if c = CHR ''{'' \<and> starts_with rest ''}'' then Some (length key + 2) else None))"

fun find_from :: "nat \<Rightarrow> string \<Rightarrow> (nat \<times> nat) option" where
  "find_from i [] = None"
| "find_from i (c # cs) =
     (case match_at (c # cs) of Some n \<Rightarrow> Some (i, i + n) | None \<Rightarrow> find_from (i + 1) cs)"

definition find_at :: "string \<Rightarrow> nat \<Rightarrow> (nat \<times> nat) option" where
  "find_at s current = find_from current (drop current s)"

definition fill :: "log_lib \<Rightarrow> string \<Rightarrow> nat \<Rightarrow> nat \<Rightarrow> log_tag list" where
  "fill lib s start stop = (if start < stop then [new_tag TagFill (lg_substring lib s start stop)] else [])"

partial_function (option) parse_loop ::
  "log_lib \<Rightarrow> string \<Rightarrow> nat \<Rightarrow> nat \<Rightarrow> log_tag list \<Rightarrow> (nat \<times> log_tag list) option" where
  "parse_loop lib s current stop tags =
     (case find_at s current of
        None \<Rightarrow> Some (stop, tags)
      | Some (a, b) \<Rightarrow>
          parse_loop lib s (a + 1) b (tags @ fill lib s stop a @ tags_of_key lib (take (b - a) (drop a s))))"

declare parse_loop.simps [code]

definition parse_tags :: "log_lib \<Rightarrow> string \<Rightarrow> log_tag list option" where
  "parse_tags lib s =
     (case parse_loop lib s 0 0 [] of
        None \<Rightarrow> None | Some (stop, tags) \<Rightarrow> Some (tags @ fill lib s stop (length s)))"

definition estimate_capacity :: "log_tag list \<Rightarrow> nat" where
  "estimate_capacity tags =
     128 + sum_list (map (\<lambda>t.
        if tag_category t = TagFill then (case tag_data t of Some s \<Rightarrow> length s | None \<Rightarrow> 0)
        else if tag_category t = TagUri \<or> tag_category t = TagPath then 64
        else if tag_category t = TagUserAgent then 100 else 16) tags)"

record log_parser =
  lp_needs_timestamp :: bool
  lp_capacity :: nat
  lp_tags :: "log_tag list"

definition needs_timestamp :: "log_tag list \<Rightarrow> bool" where
  "needs_timestamp tags =
     list_ex (\<lambda>t. tag_category t \<in> {TagWhen, TagWhenUtcIso, TagWhenUnix, TagLatency, TagLatencyHuman}) tags"

definition parser_from :: "log_lib \<Rightarrow> string \<Rightarrow> log_parser option" where
  "parser_from lib v =
     map_option (\<lambda>tags. \<lparr>lp_needs_timestamp = needs_timestamp tags, lp_capacity = estimate_capacity tags, lp_tags = tags\<rparr>)
       (parse_tags lib (named_format v))"

section \<open>Formatting\<close>

record log_session =
  ls_session :: session
  ls_http2 :: bool
  ls_body_bytes_sent :: nat
  ls_response_written :: "response_header option"

definition append_tag :: "log_lib \<Rightarrow> log_session \<Rightarrow> ctx \<Rightarrow> nat option \<Rightarrow> log_tag \<Rightarrow> string \<Rightarrow> string" where
  "append_tag lib ls c now tag buf =
     (let s = ls_session ls; h = req_header s; opt = (\<lambda>v. buf @ unwrap_or [] v) in
      case tag_category tag of
        TagFill \<Rightarrow> opt (tag_data tag)
      | TagHost \<Rightarrow> opt (get_host (lg_http lib) h)
      | TagMethod \<Rightarrow> buf @ req_method h
      | TagPath \<Rightarrow> buf @ uri_path (req_uri h)
      | TagProto \<Rightarrow> buf @ (if ls_http2 ls then ''HTTP/2.0'' else ''HTTP/1.1'')
      | TagQuery \<Rightarrow> opt (uri_query (req_uri h))
      | TagRemote \<Rightarrow> opt (remote_addr c)
      | TagClientIp \<Rightarrow> buf @ (case client_ip c of Some ip \<Rightarrow> ip | None \<Rightarrow> get_client_ip (lg_http lib) s)
      | TagScheme \<Rightarrow> buf @ (if tls_version c \<noteq> None then ''https'' else ''http'')
      | TagUri \<Rightarrow> buf @ path_and_query (req_uri h)
      | TagReferrer \<Rightarrow> buf @ get_header_bytes s ''Referer''
      | TagUserAgent \<Rightarrow> buf @ get_header_bytes s ''User-Agent''
      | TagWhen \<Rightarrow> opt (map_option (lg_local_time lib) now)
      | TagWhenUtcIso \<Rightarrow> opt (map_option (lg_utc_time lib) now)
      | TagWhenUnix \<Rightarrow> opt (map_option show_nat now)
      | TagSize \<Rightarrow> buf @ show_nat (ls_body_bytes_sent ls)
      | TagSizeHuman \<Rightarrow> format_byte_size buf (ls_body_bytes_sent ls)
      | TagStatus \<Rightarrow> buf @ (case ctx_status c of Some st \<Rightarrow> show_nat st | None \<Rightarrow> ''0'')
      | TagLatency \<Rightarrow> opt (map_option (\<lambda>n. show_nat (sub_u64 n (created_at c))) now)
      | TagLatencyHuman \<Rightarrow> (case now of Some n \<Rightarrow> util_format_duration buf (sub_u64 n (created_at c)) | None \<Rightarrow> buf)
      | TagCookie \<Rightarrow> opt (Option.bind (tag_data tag) (get_cookie_value (lg_http lib) h))
      | TagRequestHeader \<Rightarrow> opt (Option.bind (tag_data tag) (hdr_get (req_headers h)))
      | TagResponseHeader \<Rightarrow>
          opt (Option.bind (ls_response_written ls) (\<lambda>r. Option.bind (tag_data tag) (hdr_get (resp_headers r))))
      | TagContext \<Rightarrow> (case tag_data tag of Some key \<Rightarrow> append_value (lg_env lib) c buf key | None \<Rightarrow> buf)
      | TagPayloadSize \<Rightarrow> buf @ show_nat (payload_size c)
      | TagPayloadSizeHuman \<Rightarrow> format_byte_size buf (payload_size c)
      | TagRequestId \<Rightarrow> opt (ctx_request_id c))"

definition log_format :: "log_lib \<Rightarrow> log_parser \<Rightarrow> log_session \<Rightarrow> ctx \<Rightarrow> string" where
  "log_format lib p ls c =
     (let now = (if lp_needs_timestamp p then Some (sys_now_ms (lg_env lib)) else None)
      in unwrap_or [] (from_utf8 (fold (append_tag lib ls c now) (lp_tags p) [])))"

section \<open>Matches\<close>

lemma match_at_Some:
  assumes "match_at s = Some n"
  shows "2 \<le> n \<and> n \<le> length s \<and> CHR ''{'' \<notin> set (tl (take n s))"
proof -
  from assms obtain cs where s: "s = CHR ''{'' # cs" and r: "starts_with (dropWhile tag_char cs) ''}''"
    and n: "n = length (takeWhile tag_char cs) + 2"
    by (auto simp: match_at_def Let_def split: list.splits if_splits)
  from r obtain rest where d: "dropWhile tag_char cs = CHR ''}'' # rest"
    by (cases "dropWhile tag_char cs") (auto simp: starts_with_def)
  obtain k where k: "k = takeWhile tag_char cs" by blast
  have cs: "cs = k @ CHR ''}'' # rest" using d k by (metis takeWhile_dropWhile_id)
  have "CHR ''{'' \<notin> set k" using set_takeWhileD[of "CHR ''{''" tag_char cs] k by (auto simp: tag_char_def)
  moreover have "tl (take n s) = k @ ''}''" using s n[folded k] cs by simp
  ultimately show ?thesis using s n[folded k] cs by simp
qed

lemma find_from_bounds:
  assumes "find_from i s = Some (a, b)"
  shows "i \<le> a \<and> a < i + length s \<and> a + 2 \<le> b \<and> b \<le> i + length s \<and> match_at (drop (a - i) s) = Some (b - a)"
  using assms
proof (induction i s rule: find_from.induct)
  case (2 i c cs)
  show ?case
  proof (cases "match_at (c # cs)")
    case None
    with 2 have "i + 1 \<le> a \<and> a < i + 1 + length cs \<and> a + 2 \<le> b \<and> b \<le> i + 1 + length cs \<and> match_at (drop (a - (i + 1)) cs) = Some (b - a)"
      by simp
    then show ?thesis by (auto simp: drop_Cons')
  next
    case (Some n)
    with 2 match_at_Some[OF Some] show ?thesis by auto
  qed
qed simp

lemma find_from_skip: "CHR ''{'' \<notin> set p \<Longrightarrow> find_from i (p @ s) = find_from (i + length p) s"
  by (induction p arbitrary: i) (auto simp: match_at_def Let_def)

lemma find_at_bounds:
  assumes "find_at s i = Some (a, b)" "i \<le> length s"
  shows "i \<le> a \<and> a < length s \<and> a + 2 \<le> b \<and> b \<le> length s \<and> match_at (drop a s) = Some (b - a)"
  using find_from_bounds[of i "drop i s" a b] assms by (auto simp: find_at_def)

text \<open>Inside a match no other match begins, so looking from its second character or from its end is the same.\<close>

lemma find_at_next:
  assumes "find_at s i = Some (a, b)" "i \<le> length s"
  shows "find_at s (a + 1) = find_at s b"
proof -
  note f = find_at_bounds[OF assms]
  let ?p = "tl (take (b - a) (drop a s))"
  have "CHR ''{'' \<notin> set ?p" using match_at_Some f by blast
  moreover have "drop (a + 1) s = ?p @ drop b s"
  proof -
    have "drop a s = take (b - a) (drop a s) @ drop b s" using f by (metis append_take_drop_id drop_drop le_add_diff_inverse2 add_leD1)
    moreover have "take (b - a) (drop a s) \<noteq> []" using f by simp
    ultimately show ?thesis by (metis drop_Suc drop_drop plus_1_eq_Suc tl_append2 add.commute drop0)
  qed
  moreover have "a + 1 + length ?p = b" using f by (auto simp: min_def)
  ultimately show ?thesis unfolding find_at_def by (metis find_from_skip)
qed

section \<open>A reference scanner\<close>

text \<open>The format cut into literal texts and keys, from left to right.\<close>

datatype segment = Literal string | Key string

definition literal :: "string \<Rightarrow> segment list" where
  "literal s = (if s = [] then [] else [Literal s])"

function scan :: "string \<Rightarrow> string \<Rightarrow> segment list" where
  "scan acc [] = literal acc"
| "scan acc (c # cs) =
     (case match_at (c # cs) of
        Some n \<Rightarrow> literal acc @ Key (take n (c # cs)) # scan [] (drop n (c # cs))
      | None \<Rightarrow> scan (acc @ [c]) cs)"
  by pat_completeness auto
termination
  by (relation "measure (\<lambda>(acc, s). length s)") (auto dest: match_at_Some)

definition segment_text :: "segment \<Rightarrow> string" where
  "segment_text g = (case g of Literal s \<Rightarrow> s | Key s \<Rightarrow> s)"

definition segment_tags :: "log_lib \<Rightarrow> segment \<Rightarrow> log_tag list" where
  "segment_tags lib g = (case g of Literal s \<Rightarrow> [new_tag TagFill s] | Key s \<Rightarrow> tags_of_key lib s)"

lemma scan_text: "concat (map segment_text (scan acc s)) = acc @ s"
proof (induction acc s rule: scan.induct)
  case (2 acc c cs)
  then show ?case
    by (cases "match_at (c # cs)") (auto simp: literal_def segment_text_def simp del: take_Cons drop_Cons)
qed (simp add: literal_def segment_text_def)

lemma scan_find:
  "scan acc s = (case find_from i s of
     None \<Rightarrow> literal (acc @ s)
   | Some (a, b) \<Rightarrow> literal (acc @ take (a - i) s) @ Key (take (b - a) (drop (a - i) s)) # scan [] (drop (b - i) s))"
proof (induction acc s arbitrary: i rule: scan.induct)
  case (2 acc c cs)
  show ?case
  proof (cases "match_at (c # cs)")
    case None
    note IH = 2(1)[OF None, of "i + 1"]
    show ?thesis
    proof (cases "find_from (i + 1) cs")
      case None
      with IH \<open>match_at _ = None\<close> show ?thesis by simp
    next
      case (Some ab)
      obtain a b where ab: "ab = (a, b)" by (cases ab)
      have "i + 1 \<le> a" "a + 2 \<le> b" using find_from_bounds[of "i + 1" cs a b] Some ab by auto
      with IH Some ab \<open>match_at _ = None\<close> show ?thesis by (simp add: take_Cons' drop_Cons')
    qed
  next
    case (Some n)
    then show ?thesis by (simp del: take_Cons drop_Cons)
  qed
qed simp

text \<open>What is relied on of \<open>substring\<close>: on ASCII texts the positions of characters are those of bytes.\<close>

definition ascii :: "string \<Rightarrow> bool" where
  "ascii s \<longleftrightarrow> list_all (in_range 0 127) s"

definition substring_law :: "log_lib \<Rightarrow> bool" where
  "substring_law lib \<longleftrightarrow> (\<forall>s a b. ascii s \<longrightarrow> a \<le> b \<longrightarrow> b \<le> length s \<longrightarrow> lg_substring lib s a b = take (b - a) (drop a s))"

lemma fill_literal:
  assumes "substring_law lib" "ascii s" "a \<le> b" "b \<le> length s"
  shows "fill lib s a b = concat (map (segment_tags lib) (literal (take (b - a) (drop a s))))"
  using assms by (auto simp: fill_def literal_def segment_tags_def substring_law_def)

lemma parse_loop_scan:
  assumes lib: "substring_law lib" "ascii s" and e: "e \<le> length s" and f: "find_at s cur = find_at s e"
  shows "\<exists>stop tags'. parse_loop lib s cur e tags = Some (stop, tags') \<and>
    tags' @ fill lib s stop (length s) = tags @ concat (map (segment_tags lib) (scan [] (drop e s)))"
  using e f
proof (induction "length s - e" arbitrary: cur e tags rule: less_induct)
  case less
  show ?case
  proof (cases "find_at s e")
    case None
    then have "scan [] (drop e s) = literal (drop e s)" by (subst scan_find[of _ _ e]) (simp add: find_at_def)
    then show ?thesis
      using None less.prems fill_literal[OF lib less.prems(1) order_refl] by (subst parse_loop.simps) simp
  next
    case (Some ab)
    obtain a b where ab: "ab = (a, b)" by (cases ab)
    have at: "find_at s e = Some (a, b)" using Some ab by simp
    note bd = find_at_bounds[OF at less.prems(1)]
    have sc: "scan [] (drop e s) = literal (take (a - e) (drop e s)) @ Key (take (b - a) (drop a s)) # scan [] (drop b s)"
      using at bd by (subst scan_find[of _ _ e]) (simp add: find_at_def)
    let ?tags = "tags @ fill lib s e a @ tags_of_key lib (take (b - a) (drop a s))"
    have "length s - b < length s - e" using bd by linarith
    from less.hyps[OF this _ find_at_next[OF at less.prems(1)], of ?tags] bd obtain stop tags' where
      r: "parse_loop lib s (a + 1) b ?tags = Some (stop, tags')"
      "tags' @ fill lib s stop (length s) = ?tags @ concat (map (segment_tags lib) (scan [] (drop b s)))" by auto
    have "parse_loop lib s cur e tags = parse_loop lib s (a + 1) b ?tags"
      using at less.prems(2) by (subst parse_loop.simps) simp
    with r sc fill_literal[OF lib, of e a] bd show ?thesis by (simp add: segment_tags_def)
  qed
qed

lemma parse_tags_scan:
  assumes "substring_law lib" "ascii s"
  shows "parse_tags lib s = Some (concat (map (segment_tags lib) (scan [] s)))"
  using parse_loop_scan[OF assms, of 0 0 "[]"] by (auto simp: parse_tags_def)

section \<open>Values\<close>

lemma append_tag_appends: "append_tag lib ls c now t buf = buf @ append_tag lib ls c now t []"
  unfolding append_tag_def Let_def
  by (cases "tag_category t")
    (simp_all add: format_byte_size_def util_format_duration_def split: option.split, metis append_value_appends)

lemma fold_append_tag: "fold (append_tag lib ls c now) tags buf = buf @ concat (map (\<lambda>t. append_tag lib ls c now t []) tags)"
proof (induction tags arbitrary: buf)
  case (Cons t tags)
  then show ?case using append_tag_appends[of lib ls c now t buf] by simp
qed simp

lemma append_tag_timeless:
  "tag_category t \<notin> {TagWhen, TagWhenUtcIso, TagWhenUnix, TagLatency, TagLatencyHuman} \<Longrightarrow>
   append_tag lib ls c now t buf = append_tag lib ls c now' t buf"
  by (cases "tag_category t") (simp_all add: append_tag_def)

definition segment_value :: "log_lib \<Rightarrow> log_session \<Rightarrow> ctx \<Rightarrow> nat option \<Rightarrow> segment \<Rightarrow> string" where
  "segment_value lib ls c now g =
     (case g of Literal s \<Rightarrow> s | Key k \<Rightarrow> concat (map (\<lambda>t. append_tag lib ls c now t []) (tags_of_key lib k)))"

lemma append_fill: "append_tag lib ls c now (new_tag TagFill s) [] = s"
  by (simp add: append_tag_def new_tag_def)

lemma segment_values:
  "concat (map (\<lambda>t. append_tag lib ls c now t []) (concat (map (segment_tags lib) gs))) =
     concat (map (segment_value lib ls c now) gs)"
  by (induction gs) (auto simp: segment_value_def segment_tags_def append_fill split: segment.split)

section \<open>A concrete library\<close>

definition sample_log_lib :: log_lib where
  "sample_log_lib = \<lparr>lg_http = sample_http, lg_env = sample_env, lg_substring = (\<lambda>s a b. take (b - a) (drop a s)),
     lg_local_time = (\<lambda>_. ''now''), lg_utc_time = (\<lambda>_. ''now'')\<rparr>"

section \<open>Properties\<close>

text \<open>
  C34: The parser of log formats returns on every text, ASCII or not: each turn of its loop looks for
  a match further to the right.
\<close>

theorem log_format_parse_terminates:
  "\<exists>p. parser_from lib v = Some p"
proof -
  have "\<exists>r. parse_loop lib s cur stop tags = Some r" if "cur \<le> length s" for s cur stop tags
    using that
  proof (induction "length s - cur" arbitrary: cur stop tags rule: less_induct)
    case less
    show ?case
    proof (cases "find_at s cur")
      case None
      then show ?thesis by (subst parse_loop.simps) simp
    next
      case (Some ab)
      obtain a b where ab: "ab = (a, b)" by (cases ab)
      note bd = find_at_bounds[OF Some[unfolded ab] less.prems]
      then have "length s - (a + 1) < length s - cur" "a + 1 \<le> length s" by linarith+
      from less.hyps[OF this] show ?thesis using Some ab by (subst parse_loop.simps) simp
    qed
  qed
  from this[of 0 "named_format v" 0 "[]"] show ?thesis by (auto simp: parser_from_def parse_tags_def)
qed



end
