(* ===== verification/Acme.thy ===== *)
theory Acme
  imports Supervisor
begin

text \<open>
  \<open>pingap-acme\<close>: the client of Let's Encrypt and the service that renews certificates. The ACME server,
  seen through \<open>instant_acme\<close>, is a state \<open>'o\<close> with the operations of \<open>acme_lib\<close>, the key and request
  generation of \<open>rcgen\<close> among them; sleeping lets that state go on. The client runs on the storage and
  that state. Its last loop polls until the server has the certificate, which may never happen, so
  what contains it returns an option. The answer to a challenge is \<open>handle_lets_encrypt\<close> of \<open>Proxy\<close>.
\<close>

section \<open>Errors and the ACME server\<close>

datatype acme_error =
  AcmeInstant string string | AcmeRcgen string string | AcmeNotFound string | AcmeFail string string | AcmePanic string

definition acme_error_text :: "acme_error \<Rightarrow> string" where
  "acme_error_text e = (case e of
     AcmeInstant category source \<Rightarrow> ''ACME instant error: '' @ source @ '', category: '' @ category
   | AcmeRcgen category source \<Rightarrow> ''Certificate generation error: '' @ source @ '', category: '' @ category
   | AcmeNotFound m \<Rightarrow> ''ACME challenge not found: '' @ m
   | AcmeFail category m \<Rightarrow> ''Let's Encrypt operation failed: '' @ m @ '', category: '' @ category
   | AcmePanic m \<Rightarrow> m)"

datatype order_status = OrderPending | OrderReady | OrderProcessing | OrderValid | OrderInvalid

datatype authorization_status = AuthPending | AuthValid | AuthInvalid | AuthRevoked | AuthExpired

datatype challenge_type = Http01 | Dns01 | TlsAlpn01

record challenge =
  ch_type :: challenge_type
  ch_url :: string
  ch_token :: string

record authorization =
  au_identifier :: string
  au_status :: authorization_status
  au_challenges :: "challenge list"

record 'o acme_lib =
  ac_production :: string
  ac_staging :: string
  ac_create_account :: "string \<Rightarrow> 'o \<Rightarrow> (string + unit) \<times> 'o"
  ac_new_order :: "string list \<Rightarrow> 'o \<Rightarrow> (string + unit) \<times> 'o"
  ac_state :: "'o \<Rightarrow> order_status"
  ac_authorizations :: "'o \<Rightarrow> (string + authorization list) \<times> 'o"
  ac_key_authorization :: "'o \<Rightarrow> challenge \<Rightarrow> string"
  ac_set_challenge_ready :: "string \<Rightarrow> 'o \<Rightarrow> (string + unit) \<times> 'o"
  ac_refresh :: "'o \<Rightarrow> (string + unit) \<times> 'o"
  ac_sleep :: "nat \<Rightarrow> 'o \<Rightarrow> 'o"
  ac_new_params :: "string list \<Rightarrow> string + unit"
  ac_generate_key :: "string + string"
  ac_serialize_request :: "string list \<Rightarrow> string \<Rightarrow> string + string"
  ac_finalize :: "string \<Rightarrow> 'o \<Rightarrow> (string + unit) \<times> 'o"
  ac_certificate :: "'o \<Rightarrow> (string + string option) \<times> 'o"
  ac_debug_status :: "order_status \<Rightarrow> string"
  ac_debug_authorization :: "authorization option \<Rightarrow> string"

type_synonym ('f, 'o, 'a) acme_op = "('f \<times> 'o, acme_error, 'a) action"

definition instant :: "string \<Rightarrow> ('o \<Rightarrow> (string + 'a) \<times> 'o) \<Rightarrow> ('f, 'o, 'a) acme_op" where
  "instant category m = (\<lambda>(f, s). let (r, s') = m s in (map_err (AcmeInstant category) r, f, s'))"

definition rcgen :: "string \<Rightarrow> string + 'a \<Rightarrow> ('f, 'o, 'a) acme_op" where
  "rcgen category r = (\<lambda>x. (map_err (AcmeRcgen category) r, x))"

definition stored_op :: "string \<Rightarrow> ('f, 'a) store_op \<Rightarrow> ('f, 'o, 'a) acme_op" where
  "stored_op category m =
     (\<lambda>(f, s). let (r, f') = m f in (map_err (\<lambda>e. AcmeFail category (config_error_text e)) r, f', s))"

definition read_order :: "('o \<Rightarrow> 'a) \<Rightarrow> ('f, 'o, 'a) acme_op" where
  "read_order g = (\<lambda>(f, s). (Inr (g s), f, s))"

text \<open>\<open>save\<close> and \<open>load\<close> of the storage trait.\<close>

definition store_save :: "'f store_lib \<Rightarrow> config_storage \<Rightarrow> string \<Rightarrow> string \<Rightarrow> ('f, unit) store_op" where
  "store_save lib st key data =
     (case st of FileStore s \<Rightarrow> file_save lib s key data | EtcdStore s \<Rightarrow> etcd_save lib s key data)"

definition store_load :: "'f store_lib \<Rightarrow> config_storage \<Rightarrow> string \<Rightarrow> ('f, string) store_op" where
  "store_load lib st key = (case st of FileStore s \<Rightarrow> file_load lib s key | EtcdStore s \<Rightarrow> etcd_load lib s key)"

section \<open>A new certificate\<close>

text \<open>
  The challenges of the pending authorizations: their tokens are saved, and identifier and URL
  kept. \<open>todo!()\<close> panics for an authorization that is neither pending nor valid.
\<close>

fun save_challenges ::
  "'f store_lib \<Rightarrow> 'o acme_lib \<Rightarrow> config_storage \<Rightarrow> authorization list \<Rightarrow> ('f, 'o, (string \<times> string) list) acme_op" where
  "save_challenges lib al st [] = act_return []"
| "save_challenges lib al st (authz # rest) =
     (case au_status authz of
        AuthValid \<Rightarrow> save_challenges lib al st rest
      | AuthPending \<Rightarrow>
          (case List.find (\<lambda>c. ch_type c = Http01) (au_challenges authz) of
             None \<Rightarrow> act_fail (AcmeNotFound ''Http01 challenge not found'')
           | Some challenge \<Rightarrow>
               act_bind (read_order (\<lambda>s. ac_key_authorization al s challenge)) (\<lambda>key_auth.
               act_bind (stored_op ''save_token'' (store_save lib st (get_token_path (ch_token challenge)) key_auth)) (\<lambda>_.
               act_bind (save_challenges lib al st rest) (\<lambda>cs.
               act_return ((au_identifier authz, ch_url challenge) # cs)))))
      | _ \<Rightarrow> act_fail (AcmePanic ''not yet implemented''))"

fun set_challenges_ready :: "'o acme_lib \<Rightarrow> string list \<Rightarrow> ('f, 'o, unit) acme_op" where
  "set_challenges_ready al [] = act_return ()"
| "set_challenges_ready al (url # urls) =
     act_bind (instant ''set_challenge_ready'' (ac_set_challenge_ready al url)) (\<lambda>_. set_challenges_ready al urls)"

text \<open>Waiting for the order: at most nine turns, the delay (in milliseconds) doubles every time.\<close>

function wait_order :: "'o acme_lib \<Rightarrow> string \<Rightarrow> nat \<Rightarrow> nat \<Rightarrow> ('f, 'o, order_status) acme_op" where
  "wait_order al detail_url tries delay (f, s) =
     (if ac_state al s \<in> {OrderReady, OrderInvalid, OrderValid} then (Inr (ac_state al s), f, s)
      else case ac_refresh al s of
        (Inl e, s') \<Rightarrow> (Inl (AcmeInstant ''refresh_order'' e), f, s')
      | (Inr _, s') \<Rightarrow>
          if tries + 1 < 10 then wait_order al detail_url (tries + 1) (2 * delay) (f, ac_sleep al (2 * delay) s')
          else (Inl (AcmeFail ''retry_too_many'' (''order is not ready, detail url: '' @ detail_url)), f, s'))"
  by pat_completeness auto
termination by (relation "measure (\<lambda>(_, _, tries, _). 10 - tries)") auto

text \<open>Everything up to the finalized order; the result is the private key.\<close>

definition finalize_order ::
  "'f store_lib \<Rightarrow> 'o acme_lib \<Rightarrow> config_storage \<Rightarrow> string list \<Rightarrow> bool \<Rightarrow> ('f, 'o, string) acme_op" where
  "finalize_order lib al st domains production =
     (let sorted_domains = sort domains; url = (if production then ac_production al else ac_staging al) in
      act_bind (instant ''create_account'' (ac_create_account al url)) (\<lambda>_.
      act_bind (instant ''new_order'' (ac_new_order al sorted_domains)) (\<lambda>_.
      act_bind (read_order (ac_state al)) (\<lambda>status.
      if status \<noteq> OrderPending
      then act_fail (AcmeFail ''order_status'' (''order is not pending, status: '' @ ac_debug_status al status))
      else
        act_bind (instant ''authorizations'' (ac_authorizations al)) (\<lambda>authorizations.
        let detail_url = ac_debug_authorization al (case authorizations of [] \<Rightarrow> None | a # _ \<Rightarrow> Some a) in
        act_bind (save_challenges lib al st authorizations) (\<lambda>challenges.
        act_bind (set_challenges_ready al (map snd challenges)) (\<lambda>_.
        act_bind (wait_order al detail_url 1 250) (\<lambda>state.
        if state = OrderInvalid
        then act_fail (AcmeFail ''order_invalid'' (''order is invalid, detail url: '' @ detail_url))
        else
          let names = map fst challenges in
          act_bind (rcgen ''new_params'' (ac_new_params al names)) (\<lambda>_.
          act_bind (rcgen ''generate_key_pair'' (ac_generate_key al)) (\<lambda>private_key.
          act_bind (rcgen ''serialize_request'' (ac_serialize_request al names private_key)) (\<lambda>csr.
          act_bind (instant ''order_finalize'' (ac_finalize al csr)) (\<lambda>_.
          act_return private_key))))))))))))"

partial_function (option) poll_certificate ::
  "'o acme_lib \<Rightarrow> 'f \<times> 'o \<Rightarrow> ((acme_error + string) \<times> 'f \<times> 'o) option" where
  "poll_certificate al x =
     (case x of (f, s) \<Rightarrow>
        (case ac_certificate al s of
           (Inl e, s') \<Rightarrow> Some (Inl (AcmeInstant ''order_certificate'' e), f, s')
         | (Inr (Some pem), s') \<Rightarrow> Some (Inr pem, f, s')
         | (Inr None, s') \<Rightarrow> poll_certificate al (f, ac_sleep al 1000 s')))"

declare poll_certificate.simps [code]

definition new_lets_encrypt ::
  "'f store_lib \<Rightarrow> 'o acme_lib \<Rightarrow> config_storage \<Rightarrow> string list \<Rightarrow> bool \<Rightarrow> 'f \<times> 'o
     \<Rightarrow> ((acme_error + string \<times> string) \<times> 'f \<times> 'o) option" where
  "new_lets_encrypt lib al st domains production x =
     (case finalize_order lib al st domains production x of
        (Inl e, x') \<Rightarrow> Some (Inl e, x')
      | (Inr private_key, x') \<Rightarrow>
          map_option (\<lambda>(r, x''). (try_then r (\<lambda>pem. Inr (pem, private_key)), x'')) (poll_certificate al x'))"

section \<open>Renewal\<close>

text \<open>The configuration is loaded with the default options: includes are not replaced.\<close>

definition update_certificate_lets_encrypt ::
  "'f store_lib \<Rightarrow> 'o acme_lib \<Rightarrow> config_storage \<Rightarrow> string \<Rightarrow> string list \<Rightarrow> 'f \<times> 'o
     \<Rightarrow> ((acme_error + pingap_conf) \<times> 'f \<times> 'o) option" where
  "update_certificate_lets_encrypt lib al st name domains x =
     (case new_lets_encrypt lib al st domains True x of
        None \<Rightarrow> None
      | Some (Inl e, x') \<Rightarrow> Some (Inl e, x')
      | Some (Inr (pem, key), x') \<Rightarrow>
          Some (act_bind (stored_op ''load_config'' (store_load_config lib st \<lparr>lo_replace_include = False, lo_admin = False\<rparr>)) (\<lambda>conf.
            let new = conf\<lparr>certificates :=
                  map_update name (\<lambda>c. c\<lparr>cc_tls_cert := Some pem, cc_tls_key := Some key\<rparr>) (certificates conf)\<rparr> in
            act_bind (stored_op ''save_config'' (store_save_config lib st new CATEGORY_CERTIFICATE (Some name))) (\<lambda>_.
            act_return new)) x'))"

record update_certificate_params =
  up_name :: string
  up_domains :: "string list"
  up_buffer_days :: nat

definition get_lets_encrypt_certificate ::
  "('x, 'k) cert_lib \<Rightarrow> pingap_conf \<Rightarrow> string \<Rightarrow> acme_error + certificate" where
  "get_lets_encrypt_certificate lib conf name =
     (case map_of (certificates conf) name of
        None \<Rightarrow> Inl (AcmeNotFound ''cert not found'')
      | Some cert \<Rightarrow>
          map_err (\<lambda>e. AcmeFail ''new_certificate'' (cert_error_text e))
            (new_certificate lib (unwrap_or [] (cc_tls_cert cert)) (unwrap_or [] (cc_tls_key cert))))"

definition should_renew :: "('x, 'k) cert_lib \<Rightarrow> pingap_conf \<Rightarrow> update_certificate_params \<Rightarrow> bool" where
  "should_renew lib conf item =
     (case get_lets_encrypt_certificate lib conf (up_name item) of
        Inl _ \<Rightarrow> True
      | Inr ce \<Rightarrow> \<not> cert_valid (ct_env lib) ce (up_buffer_days item) \<or> sort (up_domains item) \<noteq> sort (ce_domains ce))"

text \<open>\<open>{:?}\<close> of the list of domains, whose characters need no escape.\<close>

definition debug_domains :: "string list \<Rightarrow> string" where
  "debug_domains domains = ''['' @ join '', '' (map (\<lambda>d. ''\"'' @ d @ ''\"'') domains) @ '']''"

definition handle_successful_renewal ::
  "('re, 'b, 's, 'x, 'k, 'f) process_lib \<Rightarrow> string list \<Rightarrow> pingap_conf
     \<Rightarrow> ('re, 'b, 's, 'x, 'k, 'f) process \<Rightarrow> ('re, 'b, 's, 'x, 'k, 'f) process" where
  "handle_successful_renewal lib domains conf p =
     (let post = send_notification (pr_webhook lib) (pr_sender lib)
            \<lparr>nt_category = ''lets_encrypt'', nt_level = NInfo, nt_title = ''Generate new cert from let's encrypt'',
             nt_message = ''Domains: '' @ debug_domains domains\<rparr>;
          ((_, error), certs) = try_update_certificates (pr_cert lib) (certificates conf) (ps_certs p);
          p1 = p\<lparr>ps_posts := ps_posts p @ post, ps_certs := certs\<rparr>
      in if error = [] then p1 else notify lib ''parse_certificate_fail'' NError error p1)"

definition renew_certificate ::
  "('re, 'b, 's, 'x, 'k, 'f) process_lib \<Rightarrow> 'o acme_lib \<Rightarrow> config_storage \<Rightarrow> string \<Rightarrow> string list
     \<Rightarrow> ('re, 'b, 's, 'x, 'k, 'f) process \<times> 'o \<Rightarrow> ((acme_error + unit) \<times> ('re, 'b, 's, 'x, 'k, 'f) process \<times> 'o) option" where
  "renew_certificate lib al st name domains = (\<lambda>(p, s).
     case update_certificate_lets_encrypt (pr_store lib) al st name domains (ps_store p, s) of
       None \<Rightarrow> None
     | Some (Inl e, f, s') \<Rightarrow> Some (Inl e, p\<lparr>ps_store := f\<rparr>, s')
     | Some (Inr conf, f, s') \<Rightarrow>
         Some (Inr (), handle_successful_renewal lib domains conf (p\<lparr>ps_store := f, ps_config := conf\<rparr>), s'))"

definition UPDATE_INTERVAL :: nat where "UPDATE_INTERVAL = 10"

text \<open>A failed renewal is logged and tried again with the next check.\<close>

fun renew_each ::
  "('re, 'b, 's, 'x, 'k, 'f) process_lib \<Rightarrow> 'o acme_lib \<Rightarrow> config_storage \<Rightarrow> update_certificate_params list
     \<Rightarrow> ('re, 'b, 's, 'x, 'k, 'f) process \<times> 'o \<Rightarrow> (('re, 'b, 's, 'x, 'k, 'f) process \<times> 'o) option" where
  "renew_each lib al st [] x = Some x"
| "renew_each lib al st (item # items) x =
     (if should_renew (pr_cert lib) (ps_config (fst x)) item then
        (case renew_certificate lib al st (up_name item) (up_domains item) x of
           None \<Rightarrow> None | Some (_, x') \<Rightarrow> renew_each lib al st items x')
      else renew_each lib al st items x)"

definition do_update_certificates ::
  "('re, 'b, 's, 'x, 'k, 'f) process_lib \<Rightarrow> 'o acme_lib \<Rightarrow> config_storage \<Rightarrow> nat \<Rightarrow> update_certificate_params list
     \<Rightarrow> ('re, 'b, 's, 'x, 'k, 'f) process \<times> 'o \<Rightarrow> (bool \<times> ('re, 'b, 's, 'x, 'k, 'f) process \<times> 'o) option" where
  "do_update_certificates lib al st count params x =
     (if params = [] then Some (False, x)
      else if count mod UPDATE_INTERVAL \<noteq> 0 then Some (False, x)
      else map_option (Pair True) (renew_each lib al st params x))"

definition acme_params :: "pingap_conf \<Rightarrow> update_certificate_params list" where
  "acme_params conf =
     concat (map (\<lambda>(name, certificate).
        let acme = unwrap_or [] (cc_acme certificate); domains = unwrap_or [] (cc_domains certificate) in
        if acme = [] \<or> domains = [] then []
        else [\<lparr>up_name = name, up_domains = split_on CHR '','' domains,
               up_buffer_days = unwrap_or 0 (cc_buffer_days certificate)\<rparr>]) (certificates conf))"

definition new_lets_encrypt_service ::
  "('re, 'b, 's, 'x, 'k, 'f) process_lib \<Rightarrow> 'o acme_lib \<Rightarrow> config_storage
     \<Rightarrow> string \<times> (nat \<Rightarrow> ('re, 'b, 's, 'x, 'k, 'f) process \<times> 'o \<Rightarrow> (bool \<times> ('re, 'b, 's, 'x, 'k, 'f) process \<times> 'o) option)" where
  "new_lets_encrypt_service lib al st =
     (''lets_encrypt'', \<lambda>count x. do_update_certificates lib al st count (acme_params (ps_config (fst x))) x)"

end
