(* ===== verification/Acme_Challenge.thy ===== *)
theory Acme_Challenge
  imports Acme Routing
begin

text \<open>
  The challenges of Let's Encrypt across client, storage and proxy: the locale \<open>token_store\<close> is the
  contract of a storage for tokens, interpreted for files, for etcd and for the storage of the
  process; a saved token is what the proxy answers with. Also the end of the polling loop, the names
  in the request for a certificate and what else the path of the challenges reaches.
\<close>

section \<open>Storage of tokens\<close>

text \<open>A token of ACME is base64url, so it is a file name of its own.\<close>

definition plain_token :: "string \<Rightarrow> bool" where
  "plain_token t \<longleftrightarrow> t \<noteq> [] \<and> t \<noteq> ''.'' \<and> t \<noteq> ''..'' \<and> CHR ''/'' \<notin> set t"

fun save_all :: "(string \<Rightarrow> string \<Rightarrow> ('f, unit) store_op) \<Rightarrow> (string \<times> string) list \<Rightarrow> ('f, unit) store_op" where
  "save_all save [] = act_return ()"
| "save_all save ((t, v) # tvs) = act_bind (save (get_token_path t) v) (\<lambda>_. save_all save tvs)"

locale token_store =
  fixes save :: "string \<Rightarrow> string \<Rightarrow> ('f, unit) store_op"
    and has :: "'f \<Rightarrow> string \<Rightarrow> string \<Rightarrow> bool"
    and ok :: "string \<Rightarrow> bool"
  assumes saved: "ok t \<Longrightarrow> save (get_token_path t) v f = (Inr (), f') \<Longrightarrow> has f' t v"
    and kept: "ok t \<Longrightarrow> ok u \<Longrightarrow> t \<noteq> u \<Longrightarrow> has f t v \<Longrightarrow> save (get_token_path u) w f = (Inr (), f') \<Longrightarrow> has f' t v"
begin

lemma save_all_kept:
  assumes "save_all save tvs f = (Inr (), f')" "\<forall>u \<in> fst ` set tvs. ok u" "ok t" "t \<notin> fst ` set tvs" "has f t v"
  shows "has f' t v"
  using assms
proof (induction tvs arbitrary: f)
  case (Cons uw tvs)
  obtain u w where [simp]: "uw = (u, w)" by force
  from Cons.prems(1) obtain f1 where "save (get_token_path u) w f = (Inr (), f1)" "save_all save tvs f1 = (Inr (), f')"
    by (auto simp: act_bind_def split: prod.splits sum.splits)
  with Cons.prems Cons.IH[of f1] kept[of t u f v w f1] show ?case by auto
qed simp

lemma save_all_saved:
  assumes "save_all save tvs f = (Inr (), f')" "\<forall>u \<in> fst ` set tvs. ok u" "distinct (map fst tvs)" "(t, v) \<in> set tvs"
  shows "has f' t v"
  using assms
proof (induction tvs arbitrary: f)
  case (Cons uw tvs)
  obtain u w where [simp]: "uw = (u, w)" by force
  from Cons.prems(1) obtain f1 where s: "save (get_token_path u) w f = (Inr (), f1)" and r: "save_all save tvs f1 = (Inr (), f')"
    by (auto simp: act_bind_def split: prod.splits sum.splits)
  show ?case
  proof (cases "(t, v) = (u, w)")
    case True
    with saved[OF _ s] Cons.prems have "has f1 t v" by simp
    with save_all_kept[OF r, of t v] Cons.prems True show ?thesis by simp
  next
    case False
    with Cons.IH[OF r] Cons.prems show ?thesis by auto
  qed
qed simp

end

text \<open>
  What is assumed of files and of etcd: a read after a write returns the data; writing a file leaves
  the other files of its directory readable as they were, and so does making directories.
\<close>

definition write_laws :: "'f store_lib \<Rightarrow> bool" where
  "write_laws lib \<longleftrightarrow>
     (\<forall>p v f f'. fs_write lib p v f = (Inr (), f') \<longrightarrow> fs_read lib f' p = Inr v) \<and>
     (\<forall>d a b v w f f'. plain_token a \<and> plain_token b \<and> a \<noteq> b \<and> fs_write lib (d @ ''/'' @ a) v f = (Inr (), f') \<and>
        fs_read lib f (d @ ''/'' @ b) = Inr w \<longrightarrow> fs_read lib f' (d @ ''/'' @ b) = Inr w) \<and>
     (\<forall>p q f w. fs_read lib f q = Inr w \<longrightarrow> fs_read lib (snd (fs_create_dir_all lib p f)) q = Inr w)"

definition etcd_laws :: "'f store_lib \<Rightarrow> bool" where
  "etcd_laws lib \<longleftrightarrow>
     (\<forall>k v f f'. et_put lib k v f = (Inr (), f') \<longrightarrow>
        et_get lib f' k = Inr [v] \<and> (\<forall>q. q \<noteq> k \<longrightarrow> et_get lib f' q = et_get lib f q))"

definition has_file :: "'f store_lib \<Rightarrow> file_storage \<Rightarrow> 'f \<Rightarrow> string \<Rightarrow> string \<Rightarrow> bool" where
  "has_file lib st f t v \<longleftrightarrow> fs_read lib f (path_join (fst_path st) (get_token_path t)) = Inr v"

definition has_key :: "'f store_lib \<Rightarrow> etcd_storage \<Rightarrow> 'f \<Rightarrow> string \<Rightarrow> string \<Rightarrow> bool" where
  "has_key lib es f t v \<longleftrightarrow> et_get lib f (path_join (es_path es) (get_token_path t)) = Inr [v]"

definition has_token :: "'f store_lib \<Rightarrow> config_storage \<Rightarrow> 'f \<Rightarrow> string \<Rightarrow> string \<Rightarrow> bool" where
  "has_token lib st = (case st of FileStore s \<Rightarrow> has_file lib s | EtcdStore s \<Rightarrow> has_key lib s)"

definition token_ok :: "'f store_lib \<Rightarrow> config_storage \<Rightarrow> string \<Rightarrow> bool" where
  "token_ok lib st t \<longleftrightarrow>
     (case st of FileStore _ \<Rightarrow> write_laws lib \<and> plain_token t | EtcdStore _ \<Rightarrow> etcd_laws lib)"

lemma token_path: "\<exists>d. \<forall>t. path_join root (get_token_path t) = d @ ''/'' @ t"
proof (cases "ends_with root ''/''")
  case True
  then show ?thesis
    by (intro exI[of _ "root @ ''pingap-acme-tokens''"]) (simp add: path_join_def get_token_path_def starts_with_def)
next
  case False
  then show ?thesis
    by (intro exI[of _ "root @ ''/pingap-acme-tokens''"]) (simp add: path_join_def get_token_path_def starts_with_def)
qed

lemma token_path_inj: "path_join root (get_token_path t) = path_join root (get_token_path u) \<Longrightarrow> t = u"
  using token_path[of root] by force

interpretation file_tokens: token_store "file_save lib st" "has_file lib st" "\<lambda>t. write_laws lib \<and> plain_token t"
  for lib :: "'f store_lib" and st
proof
  fix t v f f'
  assume "write_laws lib \<and> plain_token t" "file_save lib st (get_token_path t) v f = (Inr (), f')"
  then show "has_file lib st f' t v"
    by (auto simp: file_save_def has_file_def write_laws_def io_def Let_def act_bind_def map_err_def
        split: prod.splits sum.splits)
next
  fix t u f v w f'
  assume t: "write_laws lib \<and> plain_token t" and u: "write_laws lib \<and> plain_token u" and ne: "t \<noteq> u"
    and h: "has_file lib st f t v" and s: "file_save lib st (get_token_path u) w f = (Inr (), f')"
  obtain d where d: "path_join (fst_path st) (get_token_path x) = d @ ''/'' @ x" for x using token_path by metis
  from s obtain f1 where c: "f1 = snd (fs_create_dir_all lib (path_parent (d @ ''/'' @ u)) f)"
    and wr: "fs_write lib (d @ ''/'' @ u) w f1 = (Inr (), f')"
    by (auto simp: file_save_def d io_def Let_def act_bind_def map_err_def split: prod.splits sum.splits)
  from h t have "fs_read lib f1 (d @ ''/'' @ t) = Inr v" unfolding c has_file_def d write_laws_def by blast
  with t u ne wr show "has_file lib st f' t v" unfolding has_file_def d write_laws_def by blast
qed

interpretation etcd_tokens: token_store "etcd_save lib es" "has_key lib es" "\<lambda>t. etcd_laws lib"
  for lib :: "'f store_lib" and es
proof
  fix t v f f'
  assume "etcd_laws lib" "etcd_save lib es (get_token_path t) v f = (Inr (), f')"
  then show "has_key lib es f' t v"
    by (auto simp: etcd_save_def has_key_def etcd_laws_def connect_def etcd_def Let_def act_bind_def map_err_def
        split: prod.splits sum.splits)
next
  fix t u f v w f'
  assume l: "etcd_laws lib" and ne: "t \<noteq> u" and h: "has_key lib es f t v"
    and s: "etcd_save lib es (get_token_path u) w f = (Inr (), f')"
  from s have "et_put lib (path_join (es_path es) (get_token_path u)) w f = (Inr (), f')"
    by (auto simp: etcd_save_def connect_def etcd_def Let_def act_bind_def map_err_def split: prod.splits sum.splits)
  with l h ne show "has_key lib es f' t v" unfolding has_key_def etcd_laws_def using token_path_inj by metis
qed

interpretation tokens: token_store "store_save lib st" "has_token lib st" "token_ok lib st"
  for lib :: "'f store_lib" and st
proof
  fix t v f f'
  assume "token_ok lib st t" "store_save lib st (get_token_path t) v f = (Inr (), f')"
  then show "has_token lib st f' t v"
    by (cases st) (auto simp: token_ok_def store_save_def has_token_def intro: file_tokens.saved etcd_tokens.saved)
next
  fix t u f v w f'
  assume "token_ok lib st t" "token_ok lib st u" "t \<noteq> u" "has_token lib st f t v"
    and "store_save lib st (get_token_path u) w f = (Inr (), f')"
  then show "has_token lib st f' t v"
    by (cases st) (auto simp: token_ok_def store_save_def has_token_def intro: file_tokens.kept etcd_tokens.kept)
qed

section \<open>The client\<close>

definition pending :: "authorization list \<Rightarrow> authorization list" where
  "pending authzs = filter (\<lambda>a. au_status a = AuthPending) authzs"

definition http_challenge :: "authorization \<Rightarrow> challenge option" where
  "http_challenge a = List.find (\<lambda>c. ch_type c = Http01) (au_challenges a)"

definition challenge_tokens :: "'o acme_lib \<Rightarrow> 'o \<Rightarrow> authorization list \<Rightarrow> (string \<times> string) list" where
  "challenge_tokens al s authzs =
     map (\<lambda>a. let c = the (http_challenge a) in (ch_token c, ac_key_authorization al s c)) (pending authzs)"

lemma save_challenges_ok:
  assumes "save_challenges lib al st authzs (f, s) = (Inr cs, f', s')"
  shows "s' = s \<and> save_all (store_save lib st) (challenge_tokens al s authzs) f = (Inr (), f') \<and>
    map fst cs = map au_identifier (pending authzs) \<and> (\<forall>a \<in> set (pending authzs). http_challenge a \<noteq> None)"
  using assms
proof (induction authzs arbitrary: f cs)
  case (Cons a authzs)
  show ?case
  proof (cases "au_status a")
    case AuthPending
    with Cons.prems obtain c f1 cs1 where c: "http_challenge a = Some c"
      and sv: "store_save lib st (get_token_path (ch_token c)) (ac_key_authorization al s c) f = (Inr (), f1)"
      and r: "save_challenges lib al st authzs (f1, s) = (Inr cs1, f', s')" and cs: "cs = (au_identifier a, ch_url c) # cs1"
      by (auto simp: http_challenge_def act_bind_def read_order_def stored_op_def map_err_def Let_def
          split: option.splits prod.splits sum.splits)
    from Cons.IH[OF r] AuthPending c sv cs show ?thesis
      by (simp add: pending_def challenge_tokens_def act_bind_def)
  qed (use Cons in \<open>auto simp: pending_def challenge_tokens_def\<close>)
qed (simp add: pending_def challenge_tokens_def)

lemma op_ok:
  "instant category m x = (Inr v, y) \<longleftrightarrow> (\<exists>s'. m (snd x) = (Inr v, s') \<and> y = (fst x, s'))"
  "rcgen category r x = (Inr v, y) \<longleftrightarrow> r = Inr v \<and> y = x"
  "read_order g x = (Inr w, y) \<longleftrightarrow> w = g (snd x) \<and> y = x"
  by (auto simp: instant_def rcgen_def read_order_def map_err_def Let_def split: prod.splits sum.splits)

lemma set_challenges_ready_store: "fst (snd (set_challenges_ready al urls x)) = fst x"
  by (induction urls arbitrary: x)
    (auto simp: act_bind_def instant_def Let_def map_err_def split: prod.splits sum.splits)

lemma wait_order_store: "fst (snd (wait_order al detail_url tries delay x)) = fst x"
proof (induction al detail_url tries delay x rule: wait_order.induct)
  case (1 al detail_url tries delay f s)
  then show ?case by (subst wait_order.simps) (auto split: prod.splits sum.splits)
qed

text \<open>The state of the server before the \<open>n\<close>-th poll for the certificate.\<close>

definition polled :: "'o acme_lib \<Rightarrow> nat \<Rightarrow> 'o \<Rightarrow> 'o" where
  "polled al n = (\<lambda>s. ac_sleep al 1000 (snd (ac_certificate al s))) ^^ n"

lemma polled_Suc: "polled al (Suc n) s = polled al n (ac_sleep al 1000 (snd (ac_certificate al s)))"
  by (simp add: polled_def funpow_Suc_right del: funpow.simps)

lemma poll_certificate_returns:
  assumes "fst (ac_certificate al (polled al n s)) \<noteq> Inr None"
  shows "\<exists>r. poll_certificate al (f, s) = Some r"
  using assms
proof (induction n arbitrary: s)
  case 0
  then show ?case
    by (subst poll_certificate.simps) (auto simp: polled_def split: prod.splits sum.splits option.splits)
next
  case (Suc n)
  obtain r s' where c: "ac_certificate al s = (r, s')" by force
  show ?case
  proof (cases "r = Inr None")
    case True
    with Suc.IH[of "ac_sleep al 1000 s'"] Suc.prems c show ?thesis
      by (subst poll_certificate.simps) (simp add: polled_Suc)
  qed (subst poll_certificate.simps, auto simp: c split: sum.splits option.splits)
qed

text \<open>What the loop returns is what the server answered to some poll.\<close>

definition poll_answer :: "'o acme_lib \<Rightarrow> 'f \<times> 'o \<Rightarrow> (acme_error + string) \<times> 'f \<times> 'o \<Rightarrow> bool" where
  "poll_answer al x y \<longleftrightarrow> fst (snd y) = fst x \<and> (\<exists>n.
     snd (ac_certificate al (polled al n (snd x))) = snd (snd y) \<and>
     (case fst (ac_certificate al (polled al n (snd x))) of
        Inl e \<Rightarrow> fst y = Inl (AcmeInstant ''order_certificate'' e) | Inr None \<Rightarrow> False | Inr (Some pem) \<Rightarrow> fst y = Inr pem))"

lemma poll_certificate_result:
  assumes "poll_certificate al x = Some y"
  shows "poll_answer al x y"
proof -
  have "(case (al, x) of (a, b) \<Rightarrow> poll_answer a b) y"
  proof (rule poll_certificate.raw_induct)
    show "(case (al, x) of (a, b) \<Rightarrow> poll_certificate a b) = Some y" using assms by simp
  next
    fix poll :: "'b acme_lib \<Rightarrow> 'a \<times> 'b \<Rightarrow> ((acme_error + string) \<times> 'a \<times> 'b) option" and al x y
    assume IH: "\<And>al x y. poll al x = Some y \<Longrightarrow> poll_answer al x y"
      and step: "(case x of (f, s) \<Rightarrow>
        (case ac_certificate al s of
           (Inl e, s') \<Rightarrow> Some (Inl (AcmeInstant ''order_certificate'' e), f, s')
         | (Inr (Some pem), s') \<Rightarrow> Some (Inr pem, f, s')
         | (Inr None, s') \<Rightarrow> poll al (f, ac_sleep al 1000 s'))) = Some y"
    obtain f s r s' where x: "x = (f, s)" and c: "ac_certificate al s = (r, s')" by (metis surj_pair)
    show "poll_answer al x y"
    proof (cases "r = Inr None")
      case True
      with IH[of al "(f, ac_sleep al 1000 s')" y] step x c have "poll_answer al (f, ac_sleep al 1000 s') y" by simp
      then obtain n where "snd (ac_certificate al (polled al (Suc n) s)) = snd (snd y)" "fst (snd y) = f"
        "(case fst (ac_certificate al (polled al (Suc n) s)) of
           Inl e \<Rightarrow> fst y = Inl (AcmeInstant ''order_certificate'' e) | Inr None \<Rightarrow> False | Inr (Some pem) \<Rightarrow> fst y = Inr pem)"
        using c by (auto simp: poll_answer_def polled_Suc)
      then show ?thesis unfolding poll_answer_def x by auto
    next
      case False
      with step x c show ?thesis
        by (auto simp: poll_answer_def polled_def split: sum.splits option.splits intro!: exI[of _ 0])
    qed
  qed
  then show ?thesis by simp
qed

section \<open>The proxy\<close>

text \<open>A server that answers challenges from a storage in the state \<open>f\<close>.\<close>

definition answers_challenges ::
  "'f store_lib \<Rightarrow> config_storage \<Rightarrow> 'f \<Rightarrow> ('re, 'b, 's) server_lib \<Rightarrow> ('re, 'b, 's) exch \<Rightarrow> bool" where
  "answers_challenges lib st f slib x \<longleftrightarrow>
     srv_lets_encrypt_enabled (w_server (x_world x)) \<and> \<not> srv_admin (w_server (x_world x)) \<and> cn_write_error (x_conn x) = None \<and>
     sl_acme_load slib = Some (\<lambda>key. map_err config_error_text (fst (store_load lib st key f)))"

definition written_to :: "('re, 'b, 's) exch \<Rightarrow> response_header \<times> string \<Rightarrow> ('re, 'b, 's) exch" where
  "written_to x resp = x\<lparr>x_conn := (x_conn x)\<lparr>cn_written := cn_written (x_conn x) @ [resp]\<rparr>\<rparr>"

lemma challenge_response:
  assumes "answers_challenges lib st f slib x" "uri_path (req_uri (x_req x)) = WELL_KNOWN_PATH_PREFIX @ token"
    and "fst (store_load lib st (get_token_path token) f) = Inr v"
  shows "\<exists>h. resp_status h = 200 \<and> request_filter slib x = (Inr True, written_to x (h, v))"
proof -
  let ?r = "default_response\<lparr>hr_body := v\<rparr>"
  have "run_lets_encrypt slib x = (Inr True, written_to x (new_response_header (sl_http slib) (sl_env slib) ?r, v))"
    using assms
    by (simp add: answers_challenges_def run_lets_encrypt_def handle_lets_encrypt_def starts_with_def send_response_def
        send_def act_bind_def written_to_def map_err_def)
  moreover have "resp_status (new_response_header (sl_http slib) (sl_env slib) ?r) = 200"
    by (simp add: new_response_header_def default_response_def split_def)
  ultimately show ?thesis
    using assms(1) by (auto simp: request_filter_def or_else_def act_bind_def answers_challenges_def)
qed

definition reachable_store :: "'f store_lib \<Rightarrow> config_storage \<Rightarrow> 'f \<Rightarrow> bool" where
  "reachable_store lib st f \<longleftrightarrow>
     (case st of FileStore _ \<Rightarrow> True | EtcdStore es \<Rightarrow> et_connect lib (es_addrs es) f = Inr ())"

lemma load_token:
  assumes "has_token lib st f t v" "reachable_store lib st f"
  shows "fst (store_load lib st (get_token_path t) f) = Inr v"
  using assms
  by (cases st) (auto simp: has_token_def has_file_def has_key_def store_load_def file_load_def etcd_load_def connect_def
      etcd_def reachable_store_def act_bind_def map_err_def Let_def)

section \<open>A concrete ACME server\<close>

text \<open>
  The order of two domains; the first has a pending authorization, the second a valid one. The state
  counts the polls, and the certificate is there at the third one.
\<close>

definition sample_challenge :: challenge where
  "sample_challenge = \<lparr>ch_type = Http01, ch_url = ''u'', ch_token = ''tok''\<rparr>"

definition sample_authorizations :: "authorization list" where
  "sample_authorizations =
     [\<lparr>au_identifier = ''a.com'', au_status = AuthPending, au_challenges = [sample_challenge]\<rparr>,
      \<lparr>au_identifier = ''b.com'', au_status = AuthValid, au_challenges = [sample_challenge\<lparr>ch_token := ''old''\<rparr>]\<rparr>]"

definition sample_acme :: "nat acme_lib" where
  "sample_acme = \<lparr>ac_production = ''p'', ac_staging = ''s'', ac_create_account = (\<lambda>_ s. (Inr (), s)),
     ac_new_order = (\<lambda>_ s. (Inr (), s)), ac_state = (\<lambda>s. if s = 0 then OrderPending else OrderReady),
     ac_authorizations = (\<lambda>s. (Inr sample_authorizations, s)), ac_key_authorization = (\<lambda>_ c. ch_token c @ ''.key''),
     ac_set_challenge_ready = (\<lambda>_ s. (Inr (), 1)), ac_refresh = (\<lambda>s. (Inr (), s)), ac_sleep = (\<lambda>_ s. s + 1),
     ac_new_params = (\<lambda>_. Inr ()), ac_generate_key = Inr ''k'', ac_serialize_request = (\<lambda>names _. Inr (join '','' names)),
     ac_finalize = (\<lambda>_ s. (Inr (), s)), ac_certificate = (\<lambda>s. (Inr (if s < 3 then None else Some ''pem''), s)),
     ac_debug_status = (\<lambda>_. ''Pending''), ac_debug_authorization = (\<lambda>_. [])\<rparr>"

abbreviation sample_storage :: config_storage where
  "sample_storage \<equiv> FileStore \<lparr>fst_path = ''conf'', fst_separation = True\<rparr>"

lemma sample_write_laws: "write_laws sample_store_lib"
  by (auto simp: write_laws_def sample_store_lib_def map_of_map_insert)

lemma sample_save:
  "save_challenges sample_store_lib sample_acme sample_storage sample_authorizations ([], 0) =
     (Inr [(''a.com'', ''u'')], [(''conf/pingap-acme-tokens/tok'', ''tok.key'')], 0)"
  by code_simp

definition challenge_lib :: "(string, string) hash_map \<Rightarrow> (string, nat, unit) server_lib" where
  "challenge_lib f = sample_lib\<lparr>sl_acme_load :=
     Some (\<lambda>key. map_err config_error_text (fst (store_load sample_store_lib sample_storage key f)))\<rparr>"

definition challenge_exch :: "string \<Rightarrow> (string, nat, unit) exch" where
  "challenge_exch path = (sample_exch path)\<lparr>x_world := sample_world\<lparr>w_server := sample_server\<lparr>srv_lets_encrypt_enabled := True\<rparr>\<rparr>\<rparr>"

lemma sample_answers: "answers_challenges sample_store_lib sample_storage f (challenge_lib f) (challenge_exch path)"
  by (simp add: answers_challenges_def challenge_lib_def challenge_exch_def sample_exch_def sample_conn_def sample_world_def
      sample_server_def)

lemma challenge_exch_path: "uri_path (req_uri (x_req (challenge_exch path))) = path"
  by (simp add: challenge_exch_def sample_exch_def sample_conn_def sample_session_def sample_request_def)

section \<open>Properties\<close>

text \<open>
  C14: The challenges of Let's Encrypt are answered: once the client has saved the tokens of an order,
  and that is before it reports any challenge ready, a request for the token of any pending
  authorization is answered by the proxy with status 200 and the key authorization of the challenge,
  whatever location or plugin is configured, with files or etcd as storage.
\<close>

theorem acme_challenge_answered:
  assumes run: "save_challenges lib al st authzs (f, s) = (Inr cs, f', s')"
    and ok: "\<forall>t \<in> fst ` set (challenge_tokens al s authzs). token_ok lib st t"
    and tokens: "distinct (map fst (challenge_tokens al s authzs))"
    and a: "a \<in> set authzs" "au_status a = AuthPending" "http_challenge a = Some c"
    and srv: "reachable_store lib st f'" "answers_challenges lib st f' slib x"
    and path: "uri_path (req_uri (x_req x)) = WELL_KNOWN_PATH_PREFIX @ ch_token c"
  shows "\<exists>h. resp_status h = 200 \<and> request_filter slib x = (Inr True, written_to x (h, ac_key_authorization al s c))"
proof -
  have "(ch_token c, ac_key_authorization al s c) \<in> set (challenge_tokens al s authzs)"
    using a unfolding challenge_tokens_def pending_def by (auto simp: Let_def intro!: image_eqI[of _ _ a])
  then have "has_token lib st f' (ch_token c) (ac_key_authorization al s c)"
    using save_challenges_ok[OF run] ok tokens by (blast intro: tokens.save_all_saved)
  from challenge_response[OF srv(2) path load_token[OF this srv(1)]] show ?thesis .
qed

theorem acme_challenge_answered_witness:
  "\<exists>h. resp_status h = 200 \<and>
     request_filter (challenge_lib [(''conf/pingap-acme-tokens/tok'', ''tok.key'')])
       (challenge_exch ''/.well-known/acme-challenge/tok'') =
     (Inr True, written_to (challenge_exch ''/.well-known/acme-challenge/tok'') (h, ''tok.key''))"
proof -
  have tk: "challenge_tokens sample_acme 0 sample_authorizations = [(''tok'', ''tok.key'')]" by code_simp
  have a: "hd sample_authorizations \<in> set sample_authorizations" "au_status (hd sample_authorizations) = AuthPending"
    "http_challenge (hd sample_authorizations) = Some sample_challenge"
    by (simp_all add: sample_authorizations_def http_challenge_def sample_challenge_def)
  have "token_ok sample_store_lib sample_storage ''tok''"
    using sample_write_laws by (simp add: token_ok_def plain_token_def)
  then have "\<exists>h. resp_status h = 200 \<and>
     request_filter (challenge_lib [(''conf/pingap-acme-tokens/tok'', ''tok.key'')])
       (challenge_exch ''/.well-known/acme-challenge/tok'') =
     (Inr True, written_to (challenge_exch ''/.well-known/acme-challenge/tok'') (h, ac_key_authorization sample_acme 0 sample_challenge))"
    by (intro acme_challenge_answered[OF sample_save _ _ a _ sample_answers])
      (simp_all add: tk reachable_store_def challenge_exch_path WELL_KNOWN_PATH_PREFIX_def sample_challenge_def)
  then show ?thesis by (simp add: sample_acme_def sample_challenge_def)
qed

text \<open>
  The request for a certificate names only the domains whose authorization was still to be
  proved: a domain the server already holds a valid authorization for is left out of it, so the order
  for all domains is finalized with a request for some of them. The storage changes by the tokens of
  the pending authorizations only.
\<close>

theorem acme_request_names:
  assumes "finalize_order lib al st domains production (f, s) = (Inr key, f', s')"
  shows "\<exists>s1 s2 s3 s4 authzs csr.
    ac_create_account al (if production then ac_production al else ac_staging al) s = (Inr (), s1) \<and>
    ac_new_order al (sort domains) s1 = (Inr (), s2) \<and> ac_authorizations al s2 = (Inr authzs, s3) \<and>
    ac_serialize_request al (map au_identifier (filter (\<lambda>a. au_status a = AuthPending) authzs)) key = Inr csr \<and>
    ac_finalize al csr s4 = (Inr (), s') \<and> save_all (store_save lib st) (challenge_tokens al s3 authzs) f = (Inr (), f')"
proof -
  from assms obtain s1 s2 s3 authzs f1 cs s4 x5 s6 s7 csr v d1 d2 where
    "ac_create_account al (if production then ac_production al else ac_staging al) s = (Inr (), s1)"
    and "ac_new_order al (sort domains) s1 = (Inr (), s2)" "ac_authorizations al s2 = (Inr authzs, s3)"
    and c: "save_challenges lib al st authzs (f, s3) = (Inr cs, f1, s4)"
    and "ac_serialize_request al (map fst cs) key = Inr csr" "ac_finalize al csr s7 = (Inr (), s')"
    and w: "set_challenges_ready al (map snd cs) (f1, s4) = (Inr (), x5)" "wait_order al d1 1 d2 x5 = (Inr v, f', s6)"
    unfolding finalize_order_def Let_def act_bind_ok op_ok
    by (auto simp: act_bind_ok op_ok simp del: wait_order.simps split: if_splits)
  moreover from w have "f' = f1"
    using set_challenges_ready_store[of al "map snd cs" "(f1, s4)"] wait_order_store[of al d1 1 d2 x5] by simp
  ultimately show ?thesis using save_challenges_ok[OF c] by (auto simp: pending_def)
qed

theorem acme_request_names_witness:
  "\<exists>authzs. ac_authorizations sample_acme 0 = (Inr authzs, 0) \<and> ''b.com'' \<in> set (map au_identifier authzs) \<and>
     ac_serialize_request sample_acme (map au_identifier (filter (\<lambda>a. au_status a = AuthPending) authzs)) ''k'' = Inr ''a.com''"
proof -
  have "finalize_order sample_store_lib sample_acme sample_storage [''b.com'', ''a.com''] True ([], 0) =
      (Inr ''k'', [(''conf/pingap-acme-tokens/tok'', ''tok.key'')], 1)"
    by code_simp
  from acme_request_names[OF this] show ?thesis by (auto simp: sample_acme_def sample_authorizations_def)
qed

text \<open>
  C35: The loop that waits for a certificate ends exactly when the server ever answers a poll with the
  certificate or an error, and then with that answer; a server that never does keeps the renewal
  service waiting for good.
\<close>

theorem acme_poll_terminates:
  "(\<exists>y. poll_certificate al (f, s) = Some y) \<longleftrightarrow> (\<exists>n. fst (ac_certificate al (polled al n s)) \<noteq> Inr None)"
  using poll_certificate_returns[of al _ s f] poll_certificate_result[of al "(f, s)"]
  by (fastforce simp: poll_answer_def split: sum.splits option.splits)



end
