(* ===== verification/Metrics.thy ===== *)
theory Metrics
  imports Admin Cache_Storage
begin

text \<open>
  \<open>pingap-performance\<close> and \<open>pingap-cache/src/prom.rs\<close>: the Prometheus metrics of a server, the push
  service, the process statistics and the performance log. A metric is the descriptor it is made from
  and what the code does to it is a list of calls; the \<open>prometheus\<close> crate checks and registers
  descriptors, and turns the registered descriptors and the calls made so far into families and text: these are the fields of
  \<open>prom_lib\<close>. \<open>gauge_value\<close> is the crate's documented reading of the calls on a gauge. An observed
  value is a quotient of two integers taken as \<open>f64\<close>, kept as the two integers, and the bounds of the
  histograms are given in thousandths. The lemmas relate the calls a server makes over a run of the
  callbacks to the requests in flight.
\<close>

type_synonym i64 = "64 word"

section \<open>Descriptors and calls\<close>

datatype metric_kind = IntCounter | IntCounterVec | IntGauge | IntGaugeVec | HistogramSingle | HistogramVec

record metric_desc =
  md_kind :: metric_kind
  md_name :: string
  md_help :: string
  md_const_labels :: "(string \<times> string) list"
  md_labels :: "string list"
  md_buckets :: "nat list"

datatype metric_call =
    CounterIncBy metric_desc "string list" nat
  | GaugeInc metric_desc "string list"
  | GaugeDec metric_desc "string list"
  | GaugeSet metric_desc "string list" i64
  | Observe metric_desc "string list" nat nat

abbreviation CounterInc :: "metric_desc \<Rightarrow> string list \<Rightarrow> metric_call" where
  "CounterInc d ls \<equiv> CounterIncBy d ls 1"

record push_request =
  pr_url :: string
  pr_content_type :: string
  pr_body :: string
  pr_basic_auth :: "(string \<times> string option) option"
  pr_timeout :: duration

text \<open>
  The crates: \<open>prl_create\<close> is the check of a descriptor, \<open>prl_register\<close> the registration beside those
  registered, \<open>prl_families\<close> what the registry gathers; the encoders; a URL with its setters; the
  answer to a pushed request.
\<close>

record ('mf, 'u) prom_lib =
  prl_create :: "metric_desc \<Rightarrow> string + unit"
  prl_register :: "metric_desc list \<Rightarrow> metric_desc \<Rightarrow> string + unit"
  prl_families :: "metric_desc list \<Rightarrow> metric_call list \<Rightarrow> 'mf list"
  prl_text :: "'mf list \<Rightarrow> string + string"
  prl_proto :: "'mf \<Rightarrow> string"
  prl_format_type :: string
  prl_url_parse :: "string \<Rightarrow> string + 'u"
  prl_username :: "'u \<Rightarrow> string"
  prl_password :: "'u \<Rightarrow> string option"
  prl_set_username :: "string \<Rightarrow> 'u \<Rightarrow> 'u"
  prl_set_password :: "string option \<Rightarrow> 'u \<Rightarrow> 'u"
  prl_query_pairs :: "'u \<Rightarrow> (string \<times> string) list"
  prl_url_text :: "'u \<Rightarrow> string"
  prl_duration :: "string \<Rightarrow> string + duration"
  prl_post :: "push_request \<Rightarrow> string + nat"

datatype perf_error = PerfUrl string | PerfPrometheus string

definition perf_error_text :: "perf_error \<Rightarrow> string" where
  "perf_error_text e = (case e of PerfUrl s \<Rightarrow> s | PerfPrometheus m \<Rightarrow> m)"

definition create_metric :: "('mf, 'u) prom_lib \<Rightarrow> metric_desc \<Rightarrow> perf_error + metric_desc" where
  "create_metric lib d = map_err PerfPrometheus (try_then (prl_create lib d) (\<lambda>_. Inr d))"

definition new_int_counter :: "('mf, 'u) prom_lib \<Rightarrow> string \<Rightarrow> string \<Rightarrow> string \<Rightarrow> perf_error + metric_desc" where
  "new_int_counter lib server name help =
     create_metric lib \<lparr>md_kind = IntCounter, md_name = name, md_help = help,
       md_const_labels = [(''server'', server)], md_labels = [], md_buckets = []\<rparr>"

definition new_int_gauge :: "('mf, 'u) prom_lib \<Rightarrow> string \<Rightarrow> string \<Rightarrow> string \<Rightarrow> perf_error + metric_desc" where
  "new_int_gauge lib server name help =
     create_metric lib \<lparr>md_kind = IntGauge, md_name = name, md_help = help,
       md_const_labels = [(''server'', server)], md_labels = [], md_buckets = []\<rparr>"

definition new_int_counter_vec ::
  "('mf, 'u) prom_lib \<Rightarrow> string \<Rightarrow> string \<Rightarrow> string \<Rightarrow> string list \<Rightarrow> perf_error + metric_desc" where
  "new_int_counter_vec lib server name help labels =
     create_metric lib \<lparr>md_kind = IntCounterVec, md_name = name, md_help = help,
       md_const_labels = [(''server'', server)], md_labels = labels, md_buckets = []\<rparr>"

definition new_int_gauge_vec ::
  "('mf, 'u) prom_lib \<Rightarrow> string \<Rightarrow> string \<Rightarrow> string \<Rightarrow> string list \<Rightarrow> perf_error + metric_desc" where
  "new_int_gauge_vec lib server name help labels =
     create_metric lib \<lparr>md_kind = IntGaugeVec, md_name = name, md_help = help,
       md_const_labels = [(''server'', server)], md_labels = labels, md_buckets = []\<rparr>"

definition new_histogram ::
  "('mf, 'u) prom_lib \<Rightarrow> string \<Rightarrow> string \<Rightarrow> string \<Rightarrow> nat list \<Rightarrow> perf_error + metric_desc" where
  "new_histogram lib server name help buckets =
     create_metric lib \<lparr>md_kind = HistogramSingle, md_name = name, md_help = help,
       md_const_labels = (if server \<noteq> [] then [(''server'', server)] else []), md_labels = [], md_buckets = buckets\<rparr>"

definition new_histogram_vec ::
  "('mf, 'u) prom_lib \<Rightarrow> string \<Rightarrow> string \<Rightarrow> string \<Rightarrow> string list \<Rightarrow> nat list \<Rightarrow> perf_error + metric_desc" where
  "new_histogram_vec lib server name help labels buckets =
     create_metric lib \<lparr>md_kind = HistogramVec, md_name = name, md_help = help,
       md_const_labels = (if server \<noteq> [] then [(''server'', server)] else []), md_labels = labels, md_buckets = buckets\<rparr>"

text \<open>The two histograms of the cache: made once with \<open>unwrap\<close>, so an error of the crate ends the process.\<close>

definition CACHE_READING_TIME :: "('mf, 'u) prom_lib \<Rightarrow> perf_error + metric_desc" where
  "CACHE_READING_TIME lib = new_histogram lib [] ''pingap_cache_storage_read_time''
     ''pingap cache storage read time(second)'' [1, 5, 10, 50, 100, 250, 500, 1000]"

definition CACHE_WRITING_TIME :: "('mf, 'u) prom_lib \<Rightarrow> perf_error + metric_desc" where
  "CACHE_WRITING_TIME lib = new_histogram lib [] ''pingap_cache_storage_write_time''
     ''pingap cache storage write time(second)'' [5, 10, 25, 50, 100, 250, 500, 1000]"

section \<open>The metrics of a server\<close>

record prometheus =
  pm_r :: "metric_desc list"
  pm_http_requests_total :: metric_desc
  pm_http_requests_current :: metric_desc
  pm_http_received :: metric_desc
  pm_http_received_bytes :: metric_desc
  pm_http_responses_codes :: metric_desc
  pm_http_response_time :: metric_desc
  pm_http_sent :: metric_desc
  pm_http_sent_bytes :: metric_desc
  pm_connection_reuses :: metric_desc
  pm_tls_handshake_time :: metric_desc
  pm_upstream_connections :: metric_desc
  pm_upstream_connections_current :: metric_desc
  pm_upstream_tcp_connect_time :: metric_desc
  pm_upstream_tls_handshake_time :: metric_desc
  pm_upstream_reuses :: metric_desc
  pm_upstream_processing_time :: metric_desc
  pm_upstream_response_time :: metric_desc
  pm_cache_lookup_time :: metric_desc
  pm_cache_lock_time :: metric_desc
  pm_cache_reading :: metric_desc
  pm_cache_writing :: metric_desc
  pm_compression_ratio :: metric_desc
  pm_memory :: metric_desc
  pm_fd_count :: metric_desc
  pm_tcp_count :: metric_desc
  pm_tcp6_count :: metric_desc

text \<open>Registration in order: an error leaves with it.\<close>

fun register_all ::
  "('mf, 'u) prom_lib \<Rightarrow> metric_desc list \<Rightarrow> metric_desc list \<Rightarrow> perf_error + metric_desc list" where
  "register_all lib r [] = Inr r"
| "register_all lib r (c # cs) =
     try_then (map_err PerfPrometheus (prl_register lib r c)) (\<lambda>_. register_all lib (r @ [c]) cs)"

definition new_prometheus :: "('mf, 'u) prom_lib \<Rightarrow> string \<Rightarrow> perf_error + prometheus" where
  "new_prometheus lib server =
     try_then (new_int_counter_vec lib server ''pingap_http_requests_total'' ''pingap total http requests'' [''location'']) (\<lambda>http_requests_total.
     try_then (new_int_gauge_vec lib server ''pingap_http_requests_current'' ''pingap current http requests'' [''location'']) (\<lambda>http_requests_current.
     try_then (new_histogram_vec lib server ''pingap_http_received'' ''pingap http received from clients(KB)'' [''location'']
       [1000, 5000, 10000, 50000, 100000, 1000000]) (\<lambda>http_received.
     try_then (new_int_counter_vec lib server ''pingap_http_received_bytes'' ''pingap http received from clients(bytes)'' [''location'']) (\<lambda>http_received_bytes.
     try_then (new_int_counter_vec lib server ''pingap_http_responses_codes'' ''pingap total responses sent to clients by code''
       [''location'', ''code'']) (\<lambda>http_responses_codes.
     try_then (new_histogram_vec lib server ''pingap_http_response_time'' ''pingap http response time(second)'' [''location'']
       [5, 10, 25, 50, 100, 250, 500, 1000, 2500, 5000, 10000]) (\<lambda>http_response_time.
     try_then (new_histogram_vec lib server ''pingap_http_sent'' ''pingap http sent to clients(KB)'' [''location'']
       [1000, 5000, 10000, 50000, 100000, 1000000, 10000000]) (\<lambda>http_sent.
     try_then (new_int_counter_vec lib server ''pingap_http_sent_bytes'' ''pingap http sent to clients(bytes)'' [''location'']) (\<lambda>http_sent_bytes.
     try_then (new_int_counter lib server ''pingap_connection_reuses'' ''pingap connection reuses during tcp connect'') (\<lambda>connection_reuses.
     try_then (new_histogram lib server ''pingap_tls_handshake_time'' ''pingap tls handshake time(second)'' [10, 50, 100, 500, 1000]) (\<lambda>tls_handshake_time.
     try_then (new_int_gauge_vec lib server ''pingap_upstream_connections'' ''pingap connected connections of upstream'' [''upstream'']) (\<lambda>upstream_connections.
     try_then (new_int_gauge_vec lib server ''pingap_upstream_connections_current'' ''pingap current connections of upstream'' [''upstream'']) (\<lambda>upstream_connections_current.
     try_then (new_histogram_vec lib server ''pingap_upstream_tcp_connect_time'' ''pingap upstream tcp connect time(second)'' [''upstream'']
       [5, 10, 50, 100, 500, 1000]) (\<lambda>upstream_tcp_connect_time.
     try_then (new_histogram_vec lib server ''pingap_upstream_tls_handshake_time'' ''pingap upstream tsl handshake time(second)'' [''upstream'']
       [10, 50, 100, 500, 1000]) (\<lambda>upstream_tls_handshake_time.
     try_then (new_int_counter_vec lib server ''pingap_upstream_reuses'' ''pingap connection reuse during connect to upstream'' [''upstream'']) (\<lambda>upstream_reuses.
     try_then (new_histogram_vec lib server ''pingap_upstream_processing_time'' ''pingap upstream processing time(second)'' [''upstream'']
       [10, 20, 100, 500, 1000, 5000, 10000]) (\<lambda>upstream_processing_time.
     try_then (new_histogram_vec lib server ''pingap_upstream_response_time'' ''pingap upstream response time(second)'' [''upstream'']
       [5, 10, 50, 100, 500, 1000]) (\<lambda>upstream_response_time.
     try_then (new_histogram lib server ''pingap_cache_lookup_time'' ''pingap cache lookup time(second)'' [1, 5, 10, 50, 100, 250, 500, 1000]) (\<lambda>cache_lookup_time.
     try_then (new_histogram lib server ''pingap_cache_lock_time'' ''pingap cache lock time(second)'' [10, 50, 100, 1000, 3000]) (\<lambda>cache_lock_time.
     try_then (new_int_gauge lib server ''pingap_cache_reading'' ''pingap cache reading count'') (\<lambda>cache_reading.
     try_then (new_int_gauge lib server ''pingap_cache_writing'' ''pingap cache writing count'') (\<lambda>cache_writing.
     try_then (new_histogram lib server ''pingap_compression_ratio'' ''pingap response compression ratio'' [1000, 2000, 3000, 5000, 10000]) (\<lambda>compression_ratio.
     try_then (new_int_gauge lib server ''pingap_memory'' ''pingap memory size(mb)'') (\<lambda>memory.
     try_then (new_int_gauge lib server ''pingap_fd_count'' ''pingap open file count'') (\<lambda>fd_count.
     try_then (new_int_gauge lib server ''pingap_tcp_count'' ''pingap tcp connections'') (\<lambda>tcp_count.
     try_then (new_int_gauge lib server ''pingap_tcp6_count'' ''pingap tcp6 connections'') (\<lambda>tcp6_count.
     try_then (CACHE_READING_TIME lib) (\<lambda>reading_time.
     try_then (CACHE_WRITING_TIME lib) (\<lambda>writing_time.
     try_then (register_all lib []
       [http_requests_total, http_requests_current, http_received, http_received_bytes, http_responses_codes,
        http_response_time, http_sent, http_sent_bytes, connection_reuses, tls_handshake_time, upstream_connections,
        upstream_connections_current, upstream_tcp_connect_time, upstream_tls_handshake_time, upstream_reuses,
        upstream_processing_time, upstream_response_time, cache_lookup_time, cache_lock_time, cache_reading,
        cache_writing, reading_time, writing_time, compression_ratio, memory, fd_count, tcp_count, tcp6_count]) (\<lambda>r.
     Inr \<lparr>pm_r = r, pm_http_requests_total = http_requests_total, pm_http_requests_current = http_requests_current,
       pm_http_received = http_received, pm_http_received_bytes = http_received_bytes,
       pm_http_responses_codes = http_responses_codes, pm_http_response_time = http_response_time,
       pm_http_sent = http_sent, pm_http_sent_bytes = http_sent_bytes, pm_connection_reuses = connection_reuses,
       pm_tls_handshake_time = tls_handshake_time, pm_upstream_connections = upstream_connections,
       pm_upstream_connections_current = upstream_connections_current,
       pm_upstream_tcp_connect_time = upstream_tcp_connect_time,
       pm_upstream_tls_handshake_time = upstream_tls_handshake_time, pm_upstream_reuses = upstream_reuses,
       pm_upstream_processing_time = upstream_processing_time, pm_upstream_response_time = upstream_response_time,
       pm_cache_lookup_time = cache_lookup_time, pm_cache_lock_time = cache_lock_time,
       pm_cache_reading = cache_reading, pm_cache_writing = cache_writing, pm_compression_ratio = compression_ratio,
       pm_memory = memory, pm_fd_count = fd_count, pm_tcp_count = tcp_count, pm_tcp6_count = tcp6_count\<rparr>)))))))))))))))))))))))))))))"

definition before :: "prometheus \<Rightarrow> string \<Rightarrow> metric_call list" where
  "before p location =
     [CounterInc (pm_http_requests_total p) [''''], GaugeInc (pm_http_requests_current p) ['''']] @
     (if location \<noteq> [] then [CounterInc (pm_http_requests_total p) [location], GaugeInc (pm_http_requests_current p) [location]]
      else [])"

definition code_label :: "nat \<Rightarrow> string" where
  "code_label code =
     (if 100 \<le> code \<and> code \<le> 199 then ''1xx'' else if 200 \<le> code \<and> code \<le> 299 then ''2xx''
      else if 300 \<le> code \<and> code \<le> 399 then ''3xx'' else if 400 \<le> code \<and> code \<le> 499 then ''4xx''
      else if 500 \<le> code \<and> code \<le> 599 then ''5xx'' else ''unknown'')"

definition observe_some :: "metric_desc \<Rightarrow> string list \<Rightarrow> nat option \<Rightarrow> metric_call list" where
  "observe_some d ls ms = (case ms of Some v \<Rightarrow> [Observe d ls v SECOND] | None \<Rightarrow> [])"

definition upstream_metrics :: "prometheus \<Rightarrow> ctx \<Rightarrow> metric_call list" where
  "upstream_metrics p c =
     (if ctx_upstream c = [] then [] else
        let ls = [ctx_upstream c] in
        (case upstream_connected c of Some n \<Rightarrow> [GaugeSet (pm_upstream_connections p) ls (scast n)] | None \<Rightarrow> []) @
        (case upstream_processing c of Some n \<Rightarrow> [GaugeSet (pm_upstream_connections_current p) ls (scast n)] | None \<Rightarrow> []) @
        observe_some (pm_upstream_tcp_connect_time p) ls (upstream_tcp_connect_time c) @
        observe_some (pm_upstream_tls_handshake_time p) ls (upstream_tls_handshake_time c) @
        (if upstream_reused c then [CounterInc (pm_upstream_reuses p) ls] else []) @
        observe_some (pm_upstream_processing_time p) ls (upstream_processing_time c) @
        observe_some (pm_upstream_response_time p) ls (upstream_response_time c))"

definition cache_metrics :: "prometheus \<Rightarrow> ctx \<Rightarrow> metric_call list" where
  "cache_metrics p c =
     observe_some (pm_cache_lookup_time p) [] (cache_lookup_time c) @
     observe_some (pm_cache_lock_time p) [] (cache_lock_time c) @
     (case cache_reading c of Some n \<Rightarrow> [GaugeSet (pm_cache_reading p) [] (of_nat n)] | None \<Rightarrow> []) @
     (case cache_writing c of Some n \<Rightarrow> [GaugeSet (pm_cache_writing p) [] (of_nat n)] | None \<Rightarrow> [])"

text \<open>\<open>now\<close> is the clock in milliseconds and \<open>sent_bytes\<close> what the session says it sent.\<close>

definition after :: "prometheus \<Rightarrow> nat \<Rightarrow> nat \<Rightarrow> ctx \<Rightarrow> metric_call list" where
  "after p now sent_bytes c =
     (let location = ctx_location c;
          response_time = sub_u64 now (created_at c);
          code = unwrap_or 0 (ctx_status c);
          labels_list = [''''] # (if location \<noteq> [] then [[location]] else [])
      in concat (map (\<lambda>labels.
           [GaugeDec (pm_http_requests_current p) labels,
            Observe (pm_http_received p) labels (payload_size c) 1024,
            CounterIncBy (pm_http_received_bytes p) labels (payload_size c),
            Observe (pm_http_response_time p) labels response_time SECOND,
            Observe (pm_http_sent p) labels sent_bytes 1024] @
           (if sent_bytes > 0 then [CounterIncBy (pm_http_sent_bytes p) labels sent_bytes] else [])) labels_list) @
         [CounterInc (pm_http_responses_codes p) ['''', code_label code]] @
         (if location \<noteq> [] then [CounterInc (pm_http_responses_codes p) [location, code_label code]] else []) @
         (if connection_reused c then [CounterInc (pm_connection_reuses p) []] else []) @
         observe_some (pm_tls_handshake_time p) [] (tls_handshake_time c) @
         upstream_metrics p c @ cache_metrics p c @
         (case ctx_compression_stat c of
            Some st \<Rightarrow> [Observe (pm_compression_ratio p) [] (in_bytes st) (out_bytes st)] | None \<Rightarrow> []))"

definition gather :: "prometheus \<Rightarrow> system_info \<Rightarrow> metric_call list" where
  "gather p info =
     [GaugeSet (pm_memory p) [] (of_nat (sy_memory_mb info)), GaugeSet (pm_fd_count p) [] (of_nat (sy_fd_count info)),
      GaugeSet (pm_tcp_count p) [] (of_nat (sy_tcp_count info)), GaugeSet (pm_tcp6_count p) [] (of_nat (sy_tcp6_count info))]"

text \<open>The text for scraping and the calls made, after the calls made before.\<close>

definition metrics ::
  "('mf, 'u) prom_lib \<Rightarrow> prometheus \<Rightarrow> system_info \<Rightarrow> metric_call list \<Rightarrow> (perf_error + string) \<times> metric_call list" where
  "metrics lib p info calls =
     (let calls' = calls @ gather p info
      in (map_err PerfPrometheus (prl_text lib (prl_families lib (pm_r p) calls')), calls'))"

section \<open>Pushing\<close>

record push_params =
  pp_name :: string
  pp_url :: string
  pp_username :: string
  pp_password :: "string option"
  pp_p :: prometheus

text \<open>The result, the calls made so far, the request pushed and whether a failure is logged.\<close>

definition do_push ::
  "('mf, 'u) prom_lib \<Rightarrow> system_info \<Rightarrow> nat \<Rightarrow> nat \<Rightarrow> push_params \<Rightarrow> metric_call list
     \<Rightarrow> bool \<times> metric_call list \<times> (push_request \<times> bool) option" where
  "do_push lib info count offset params calls =
     (if count mod offset \<noteq> 0 then (False, calls, None)
      else
        let calls' = calls @ gather (pp_p params) info;
            req = \<lparr>pr_url = pp_url params, pr_content_type = prl_format_type lib,
                   pr_body = concat (map (prl_proto lib) (prl_families lib (pm_r (pp_p params)) calls')),
                   pr_basic_auth = (if pp_username params \<noteq> [] then Some (pp_username params, pp_password params) else None),
                   pr_timeout = 60 * 1000000000\<rparr>
        in (True, calls', Some (req, case prl_post lib req of Inr status \<Rightarrow> status \<ge> 400 | Inl _ \<Rightarrow> True)))"

definition HOST_NAME_TAG :: string where "HOST_NAME_TAG = ''$HOSTNAME''"

definition push_interval :: "('mf, 'u) prom_lib \<Rightarrow> (string \<times> string) list \<Rightarrow> duration" where
  "push_interval lib pairs =
     fold (\<lambda>(key, value) interval. if key = ''interval''
       then (case prl_duration lib value of Inr v \<Rightarrow> v | Inl _ \<Rightarrow> interval) else interval) pairs (60 * 1000000000)"

definition push_offset :: "duration \<Rightarrow> nat" where
  "push_offset interval = max ((as_secs interval div 60) mod 2 ^ 32) 1"

text \<open>The service: its name, the turns it skips and what it pushes.\<close>

definition new_prometheus_push_service ::
  "('mf, 'u) prom_lib \<Rightarrow> sys_env \<Rightarrow> string \<Rightarrow> string \<Rightarrow> prometheus \<Rightarrow> perf_error + string \<times> nat \<times> push_params" where
  "new_prometheus_push_service lib env name url p =
     try_then (map_err PerfUrl (prl_url_parse lib url)) (\<lambda>info.
     let username = prl_username lib info;
         password = prl_password lib info;
         info' = prl_set_password lib None (prl_set_username lib [] info);
         interval = push_interval lib (prl_query_pairs lib info');
         url0 = prl_url_text lib info';
         url' = (if contains_str url0 HOST_NAME_TAG then replace_all url0 HOST_NAME_TAG (sys_hostname env) else url0)
     in Inr (''prometheusPush'', push_offset interval,
          \<lparr>pp_name = name, pp_url = url', pp_username = username, pp_password = password, pp_p = p\<rparr>))"

text \<open>The part of \<open>Server::new\<close> that makes the metrics, and the push service of a server.\<close>

definition server_prometheus ::
  "('mf, 'u) prom_lib \<Rightarrow> proxy_server_conf \<Rightarrow> (string \<times> string) + prometheus option" where
  "server_prometheus lib conf =
     (if unwrap_or [] (psc_prometheus_metrics conf) = [] then Inr None
      else try_then (map_err (\<lambda>e. (''prometheus'', perf_error_text e)) (new_prometheus lib (psc_name conf))) (\<lambda>p. Inr (Some p)))"

definition get_prometheus_push_service ::
  "('mf, 'u) prom_lib \<Rightarrow> sys_env \<Rightarrow> server \<Rightarrow> prometheus option \<Rightarrow> (string \<times> nat \<times> push_params) option" where
  "get_prometheus_push_service lib env srv prom =
     (if \<not> srv_prometheus_push_mode srv then None
      else case prom of
             None \<Rightarrow> None
           | Some p \<Rightarrow> (case new_prometheus_push_service lib env (srv_name srv) (srv_prometheus_metrics srv) p of
                         Inr service \<Rightarrow> Some service | Inl _ \<Rightarrow> None))"

section \<open>The calls the callbacks of a server make\<close>

text \<open>
  \<open>early_request_filter\<close> calls \<open>before\<close> between the search for the location and its limits, and not at
  all when the server has no list of locations; \<open>logging\<close> calls \<open>after\<close> with the finished context.
\<close>

definition route_metrics ::
  "('re, 'b, 's) server_lib \<Rightarrow> prometheus option \<Rightarrow> ('re, 'b, 's) exch \<Rightarrow> metric_call list" where
  "route_metrics lib prom x =
     (let w = x_world x;
          host = unwrap_or [] (get_host (sl_http lib) (x_req x));
          path = uri_path (req_uri (x_req x))
      in case get_server_locations (w_server_locations w) (srv_name (w_server w)) of
           None \<Rightarrow> []
         | Some names \<Rightarrow>
             let (cur, c) = find_location (ll_re (sl_loc lib)) (w_locations w) host path names None (x_ctx x)
             in case prom of Some p \<Rightarrow> before p (ctx_location c) | None \<Rightarrow> [])"

definition early_request_metrics ::
  "('re, 'b, 's) server_lib \<Rightarrow> prometheus option \<Rightarrow> nat option \<Rightarrow> digest option \<Rightarrow> ('re, 'b, 's) exch \<Rightarrow> metric_call list" where
  "early_request_metrics lib prom stream dg x = route_metrics lib prom (note_arrival lib stream dg x)"

definition logging_metrics ::
  "prometheus option \<Rightarrow> nat \<Rightarrow> nat \<Rightarrow> response_header option \<Rightarrow> (nat \<times> nat \<times> duration) option
     \<Rightarrow> ('re, 'b, 's) exch \<Rightarrow> metric_call list" where
  "logging_metrics prom now sent written compressed x =
     (case prom of Some p \<Rightarrow> after p now sent (x_ctx (logging written compressed x)) | None \<Rightarrow> [])"

section \<open>Process statistics\<close>

definition get_pid_file :: "(string \<Rightarrow> bool) \<Rightarrow> basic_conf \<Rightarrow> string" where
  "get_pid_file writable b =
     (case bc_pid_file b of
        Some f \<Rightarrow> f
      | None \<Rightarrow> (case List.find writable [''/run'', ''/var/run''] of
                   Some dir \<Rightarrow> dir @ ''/pingap.pid'' | None \<Rightarrow> ''/tmp/pingap.pid''))"

text \<open>What the operating system tells; \<open>pi_procfs\<close> is the process file system: open files and both socket tables.\<close>

record process_lib_info =
  pi_util :: util_lib
  pi_writable :: "string \<Rightarrow> bool"
  pi_process_id :: nat
  pi_procfs :: "int \<Rightarrow> (nat option \<times> nat option \<times> nat option) option"
  pi_cpus :: nat
  pi_physical_cpus :: nat
  pi_memory :: "nat option"
  pi_byte_size :: "nat \<Rightarrow> string"
  pi_arch :: string
  pi_kernel :: "string option"
  pi_total_memory :: nat
  pi_used_memory :: nat

definition process_threads :: "nat \<Rightarrow> pingap_conf \<Rightarrow> nat" where
  "process_threads cpus conf =
     (let d0 = unwrap_or 1 (bc_threads (basic conf));
          default_threads = (if d0 = 0 then cpus else d0)
      in fold (\<lambda>(_, srv) threads. let count = unwrap_or 1 (sc_threads srv)
           in threads + (if count = 0 then default_threads else count)) (servers conf) 0)"

definition get_process_system_info :: "process_lib_info \<Rightarrow> pingap_conf \<Rightarrow> system_info" where
  "get_process_system_info pi conf =
     (let data = (case ul_read_file (pi_util pi) (get_pid_file (pi_writable pi) (basic conf)) of Inr d \<Rightarrow> d | Inl _ \<Rightarrow> []);
          pid0 = unwrap_or 0 (parse_unsigned 32 (trim data));
          pid = (if pid0 = 0 then pi_process_id pi else pid0);
          (fd, tcp, tcp6) = (case pi_procfs pi (sint (of_nat pid :: i32)) of
             Some (f, t4, t6) \<Rightarrow> (unwrap_or 0 f, unwrap_or 0 t4, unwrap_or 0 t6) | None \<Rightarrow> (0, 0, 0))
      in \<lparr>sy_memory_mb = (case pi_memory pi of Some m \<Rightarrow> m div (1024 * 1024) | None \<Rightarrow> 0),
          sy_memory = (case pi_memory pi of Some m \<Rightarrow> pi_byte_size pi m | None \<Rightarrow> []),
          sy_arch = pi_arch pi, sy_cpus = pi_cpus pi, sy_physical_cpus = pi_physical_cpus pi,
          sy_total_memory = pi_byte_size pi (pi_total_memory pi), sy_used_memory = pi_byte_size pi (pi_used_memory pi),
          sy_kernel = unwrap_or [] (pi_kernel pi), sy_pid = pid, sy_threads = process_threads (pi_cpus pi) conf,
          sy_fd_count = fd, sy_tcp_count = tcp, sy_tcp6_count = tcp6\<rparr>)"

definition get_processing_accepted :: "('re, 'b, 's) world \<Rightarrow> i32 \<times> u64" where
  "get_processing_accepted w = (w_processing w, w_accepted w)"

section \<open>The performance log\<close>

record performance_log =
  pf_threads :: nat
  pf_locations_stats :: "string option"
  pf_upstreams_healthy_status :: string
  pf_upstreams_processing :: "string option"
  pf_upstreams_connected :: "string option"
  pf_accepted :: u64
  pf_processing :: i32
  pf_used_memory :: string
  pf_fd_count :: nat
  pf_tcp_count :: nat
  pf_tcp6_count :: nat
  pf_cache_reading :: int
  pf_cache_writing :: int

definition non_empty_text :: "string \<Rightarrow> string option" where
  "non_empty_text s = (if s = [] then None else Some s)"

definition PERFORMANCE_METRICS_LOG_SERVICE :: string where
  "PERFORMANCE_METRICS_LOG_SERVICE = ''performance_metrics''"

definition performance_metrics ::
  "process_lib_info \<Rightarrow> 'b upstream_lib \<Rightarrow> pingap_conf \<Rightarrow> cache_backend option \<Rightarrow> ('u, 'f) cache_state
     \<Rightarrow> ('re, 'b, 's) world \<Rightarrow> performance_log" where
  "performance_metrics pi ul conf cache st w =
     (let (reading, writing) = (case Option.bind cache (\<lambda>c. cache_stats c st) of
             Some (r, n) \<Rightarrow> (int r, int n) | None \<Rightarrow> (- 1, - 1));
          locs = join '', '' (map (\<lambda>(name, p, a). name @ '':'' @ show_int (sint p) @ ''/'' @ show_nat (unat a))
            (filter (\<lambda>(_, p, _). p \<noteq> 0) (get_locations_stats (w_locations w))));
          ups = get_upstreams_processing_connected (w_upstreams w);
          procs = concat (map (\<lambda>(name, p, _). if p \<noteq> 0 then [name @ '':'' @ show_int (sint p)] else []) ups);
          conns = concat (map (\<lambda>(name, _, c). case c of
             Some n \<Rightarrow> if n \<noteq> 0 then [name @ '':'' @ show_int (sint n)] else [] | None \<Rightarrow> []) ups);
          info = get_process_system_info pi conf;
          (p, a) = get_processing_accepted w
      in \<lparr>pf_threads = sy_threads info, pf_locations_stats = non_empty_text locs,
          pf_upstreams_healthy_status = join '', '' (map (\<lambda>(name, s). name @ '':'' @ show_nat (hs_healthy s) @ ''/'' @ show_nat (hs_total s))
            (get_upstream_healthy_status ul (w_upstreams w))),
          pf_upstreams_processing = (if procs = [] then None else Some (join '', '' procs)),
          pf_upstreams_connected = (if conns = [] then None else Some (join '', '' conns)),
          pf_accepted = a, pf_processing = p, pf_used_memory = sy_memory info, pf_fd_count = sy_fd_count info,
          pf_tcp_count = sy_tcp_count info, pf_tcp6_count = sy_tcp6_count info,
          pf_cache_reading = reading, pf_cache_writing = writing\<rparr>)"

section \<open>Every call names a registered metric\<close>

text \<open>
  A call through \<open>with_label_values\<close> panics when the number of values is not that of the labels; a
  call of \<open>kind\<close> exists on the metrics of that kind only.
\<close>

fun call_fits :: "metric_desc list \<Rightarrow> metric_call \<Rightarrow> bool" where
  "call_fits r (CounterIncBy d ls n) \<longleftrightarrow> d \<in> set r \<and> md_kind d \<in> {IntCounter, IntCounterVec} \<and> length ls = length (md_labels d)"
| "call_fits r (GaugeInc d ls) \<longleftrightarrow> d \<in> set r \<and> md_kind d \<in> {IntGauge, IntGaugeVec} \<and> length ls = length (md_labels d)"
| "call_fits r (GaugeDec d ls) \<longleftrightarrow> d \<in> set r \<and> md_kind d \<in> {IntGauge, IntGaugeVec} \<and> length ls = length (md_labels d)"
| "call_fits r (GaugeSet d ls v) \<longleftrightarrow> d \<in> set r \<and> md_kind d \<in> {IntGauge, IntGaugeVec} \<and> length ls = length (md_labels d)"
| "call_fits r (Observe d ls a b) \<longleftrightarrow> d \<in> set r \<and> md_kind d \<in> {HistogramSingle, HistogramVec} \<and> length ls = length (md_labels d)"

lemma create_metric_Inr [simp]: "create_metric lib d = Inr d' \<longleftrightarrow> d' = d \<and> prl_create lib d = Inr ()"
  by (cases "prl_create lib d") (auto simp: create_metric_def)

lemma register_all_eq: "register_all lib r cs = Inr r' \<Longrightarrow> r' = r @ cs"
proof (induction cs arbitrary: r)
  case (Cons c cs)
  from Cons.IH[of "r @ [c]"] Cons.prems show ?case by simp
qed simp

lemma new_metric_shape:
  "new_int_counter lib s n h = Inr d \<Longrightarrow> md_kind d = IntCounter \<and> md_labels d = [] \<and> md_name d = n"
  "new_int_gauge lib s n h = Inr d \<Longrightarrow> md_kind d = IntGauge \<and> md_labels d = [] \<and> md_name d = n"
  "new_int_counter_vec lib s n h ls = Inr d \<Longrightarrow> md_kind d = IntCounterVec \<and> md_labels d = ls \<and> md_name d = n"
  "new_int_gauge_vec lib s n h ls = Inr d \<Longrightarrow> md_kind d = IntGaugeVec \<and> md_labels d = ls \<and> md_name d = n"
  "new_histogram lib s n h bs = Inr d \<Longrightarrow> md_kind d = HistogramSingle \<and> md_labels d = [] \<and> md_name d = n"
  "new_histogram_vec lib s n h ls bs = Inr d \<Longrightarrow> md_kind d = HistogramVec \<and> md_labels d = ls \<and> md_name d = n"
  by (simp_all add: new_int_counter_def new_int_gauge_def new_int_counter_vec_def new_int_gauge_vec_def
      new_histogram_def new_histogram_vec_def)

text \<open>The gauges the callbacks set are not the one that counts requests, and the metrics are all registered.\<close>

definition fits_all :: "prometheus \<Rightarrow> bool" where
  "fits_all p \<longleftrightarrow>
     list_all (\<lambda>d. d \<in> set (pm_r p) \<and> md_kind d = IntCounterVec \<and> length (md_labels d) = 1)
       [pm_http_requests_total p, pm_http_received_bytes p, pm_http_sent_bytes p, pm_upstream_reuses p] \<and>
     list_all (\<lambda>d. d \<in> set (pm_r p) \<and> md_kind d = IntGaugeVec \<and> length (md_labels d) = 1)
       [pm_http_requests_current p, pm_upstream_connections p, pm_upstream_connections_current p] \<and>
     list_all (\<lambda>d. d \<in> set (pm_r p) \<and> md_kind d = HistogramVec \<and> length (md_labels d) = 1)
       [pm_http_received p, pm_http_response_time p, pm_http_sent p, pm_upstream_tcp_connect_time p,
        pm_upstream_tls_handshake_time p, pm_upstream_processing_time p, pm_upstream_response_time p] \<and>
     list_all (\<lambda>d. d \<in> set (pm_r p) \<and> md_kind d = HistogramSingle \<and> md_labels d = [])
       [pm_tls_handshake_time p, pm_cache_lookup_time p, pm_cache_lock_time p, pm_compression_ratio p] \<and>
     list_all (\<lambda>d. d \<in> set (pm_r p) \<and> md_kind d = IntGauge \<and> md_labels d = [])
       [pm_cache_reading p, pm_cache_writing p, pm_memory p, pm_fd_count p, pm_tcp_count p, pm_tcp6_count p] \<and>
     pm_connection_reuses p \<in> set (pm_r p) \<and> md_kind (pm_connection_reuses p) = IntCounter \<and>
     md_labels (pm_connection_reuses p) = [] \<and>
     pm_http_responses_codes p \<in> set (pm_r p) \<and> md_kind (pm_http_responses_codes p) = IntCounterVec \<and>
     length (md_labels (pm_http_responses_codes p)) = 2"

definition current_apart :: "prometheus \<Rightarrow> bool" where
  "current_apart p \<longleftrightarrow> list_all (\<lambda>d. md_name d \<noteq> md_name (pm_http_requests_current p))
     [pm_upstream_connections p, pm_upstream_connections_current p, pm_cache_reading p, pm_cache_writing p,
      pm_memory p, pm_fd_count p, pm_tcp_count p, pm_tcp6_count p]"

lemma new_prometheus_shape:
  assumes "new_prometheus lib server = Inr p"
  shows "fits_all p \<and> current_apart p"
  using assms unfolding new_prometheus_def CACHE_READING_TIME_def CACHE_WRITING_TIME_def try_then_eq_Inr sum.inject
  apply (elim exE conjE)
  apply (drule register_all_eq)
  apply (drule new_metric_shape)+
  apply hypsubst
  apply (simp only: fits_all_def current_apart_def list.pred_inject prometheus.select_convs append_Nil list.set insert_iff simp_thms list.size)
  apply simp
  done

lemma observe_some_fits:
  "d \<in> set r \<Longrightarrow> md_kind d \<in> {HistogramSingle, HistogramVec} \<Longrightarrow> length ls = length (md_labels d) \<Longrightarrow>
     list_all (call_fits r) (observe_some d ls v)"
  by (simp add: observe_some_def split: option.split)

lemma before_fits: "fits_all p \<Longrightarrow> list_all (call_fits (pm_r p)) (before p location)"
  by (simp add: fits_all_def before_def)

lemma gather_fits: "fits_all p \<Longrightarrow> list_all (call_fits (pm_r p)) (gather p info)"
  by (simp add: fits_all_def gather_def)

lemma upstream_metrics_fits: "fits_all p \<Longrightarrow> list_all (call_fits (pm_r p)) (upstream_metrics p c)"
  by (simp add: fits_all_def upstream_metrics_def observe_some_fits Let_def split: option.split)

lemma cache_metrics_fits: "fits_all p \<Longrightarrow> list_all (call_fits (pm_r p)) (cache_metrics p c)"
  by (simp add: fits_all_def cache_metrics_def observe_some_fits split: option.split)

lemma after_fits: "fits_all p \<Longrightarrow> list_all (call_fits (pm_r p)) (after p now sent c)"
  using upstream_metrics_fits[of p c] cache_metrics_fits[of p c]
  by (simp add: fits_all_def after_def observe_some_fits Let_def split: option.split)

section \<open>The value of a gauge\<close>

text \<open>A gauge starts at zero; \<open>inc\<close>, \<open>dec\<close> and \<open>set\<close> act on the child with the given label values.\<close>

fun gauge_step :: "string \<Rightarrow> string list \<Rightarrow> metric_call \<Rightarrow> i64 \<Rightarrow> i64" where
  "gauge_step n ls (GaugeInc d ls') v = (if md_name d = n \<and> ls' = ls then v + 1 else v)"
| "gauge_step n ls (GaugeDec d ls') v = (if md_name d = n \<and> ls' = ls then v - 1 else v)"
| "gauge_step n ls (GaugeSet d ls' u) v = (if md_name d = n \<and> ls' = ls then u else v)"
| "gauge_step n ls (CounterIncBy d ls' k) v = v"
| "gauge_step n ls (Observe d ls' a b) v = v"

definition gauge_value :: "metric_desc \<Rightarrow> string list \<Rightarrow> metric_call list \<Rightarrow> i64" where
  "gauge_value d ls calls = fold (gauge_step (md_name d) ls) calls 0"

abbreviation steps_of :: "metric_desc \<Rightarrow> string list \<Rightarrow> metric_call list \<Rightarrow> i64 \<Rightarrow> i64" where
  "steps_of d ls \<equiv> fold (gauge_step (md_name d) ls)"

lemma gauge_value_append: "gauge_value d ls (xs @ ys) = steps_of d ls ys (gauge_value d ls xs)"
  by (simp add: gauge_value_def)

lemma observe_some_gauge [simp]: "steps_of d ls (observe_some d' ls' v) = id"
  by (simp add: observe_some_def fun_eq_iff split: option.split)

lemma before_gauge:
  "steps_of (pm_http_requests_current p) [n] (before p location) v = v + (if n = [] \<or> n = location then 1 else 0)"
  by (auto simp: before_def)

lemma upstream_metrics_gauge:
  "current_apart p \<Longrightarrow> steps_of (pm_http_requests_current p) ls (upstream_metrics p c) v = v"
  by (auto simp: upstream_metrics_def current_apart_def Let_def split: option.split)

lemma cache_metrics_gauge:
  "current_apart p \<Longrightarrow> steps_of (pm_http_requests_current p) ls (cache_metrics p c) v = v"
  by (auto simp: cache_metrics_def current_apart_def split: option.split)

lemma after_gauge:
  "current_apart p \<Longrightarrow> steps_of (pm_http_requests_current p) [n] (after p now sent c) v =
     v - (if n = [] \<or> n = ctx_location c then 1 else 0)"
  by (simp add: after_def upstream_metrics_gauge cache_metrics_gauge Let_def split: option.split)

lemma gather_gauge: "current_apart p \<Longrightarrow> steps_of (pm_http_requests_current p) ls (gather p info) v = v"
  by (auto simp: gather_def current_apart_def)

section \<open>The gauge of requests over a run\<close>

text \<open>
  A run of the server with its metrics: the state of \<^const>\<open>sys_step\<close>, the calls made so far and the
  number of requests that arrived while the server had no list of locations. Scraping and pushing
  gather at any time.
\<close>

type_synonym ('re, 'b, 's) metered = "('re, 'b, 's) sys \<times> metric_call list \<times> nat"

definition no_locations :: "('re, 'b, 's) world \<Rightarrow> bool" where
  "no_locations w \<longleftrightarrow> get_server_locations (w_server_locations w) (srv_name (w_server w)) = None"

inductive metered_step ::
  "('re, 'b, 's) server_lib \<Rightarrow> prometheus \<Rightarrow> ('re, 'b, 's) metered \<Rightarrow> ('re, 'b, 's) metered \<Rightarrow> bool"
  for lib :: "('re, 'b, 's) server_lib" and p :: prometheus where
  ms_arrive: "x0 = \<lparr>x_conn = cn, x_ctx = new_ctx (sl_env lib), x_world = w\<rparr> \<Longrightarrow>
     x = snd (early_request_filter lib stream dg x0) \<Longrightarrow>
     metered_step lib p ((w, fl), calls, missed)
       ((x_world x, (x_conn x, x_ctx x) # fl), calls @ early_request_metrics lib (Some p) stream dg x0,
        missed + (if no_locations w then 1 else 0))"
| ms_work: "sys_step lib s l s' \<Longrightarrow> l \<in> {Worked, Reloaded} \<Longrightarrow>
     metered_step lib p (s, calls, missed) (s', calls, missed)"
| ms_end: "x0 = \<lparr>x_conn = cn, x_ctx = c, x_world = w\<rparr> \<Longrightarrow> x = logging written compressed x0 \<Longrightarrow>
     metered_step lib p ((w, pre @ (cn, c) # post), calls, missed)
       ((x_world x, pre @ post), calls @ logging_metrics (Some p) now sent written compressed x0, missed)"
| ms_gather: "metered_step lib p (s, calls, missed) (s, calls @ gather p info, missed)"

abbreviation metered_run ::
  "('re, 'b, 's) server_lib \<Rightarrow> prometheus \<Rightarrow> ('re, 'b, 's) metered \<Rightarrow> ('re, 'b, 's) metered \<Rightarrow> bool" where
  "metered_run lib p \<equiv> (metered_step lib p)\<^sup>*\<^sup>*"

lemma note_arrival_location [simp]: "ctx_location (x_ctx (note_arrival lib stream dg x)) = ctx_location (x_ctx x)"
  by (simp add: note_arrival_def count_request_def record_digest_def record_addrs_def upd_ctx_def Let_def
      split: option.split)

text \<open>The location that \<open>before\<close> is called with is that of the context pingora keeps for the request.\<close>

lemma route_metrics_location:
  assumes "plugins_keep_route lib"
  shows "route_metrics lib (Some p) x =
    (if no_locations (x_world x) then [] else before p (ctx_location (x_ctx (snd (route_request lib x)))))"
  using enter_location_route[OF assms]
  by (auto simp: route_metrics_def route_request_def no_locations_def same_route_def Let_def
      split: option.split prod.split)

lemma route_request_none:
  "no_locations (x_world x) \<Longrightarrow> snd (route_request lib x) = x"
  by (simp add: route_request_def no_locations_def)

lemma new_ctx_location [simp]: "ctx_location (new_ctx env) = []"
  by (simp add: new_ctx_def)

lemma no_locations_bump [simp]: "no_locations (bump w) = no_locations w"
  by (simp add: no_locations_def)

text \<open>The gauge and the requests in flight, for all requests and for those of one location.\<close>

definition gauge_tracks :: "prometheus \<Rightarrow> ('re, 'b, 's) metered \<Rightarrow> bool" where
  "gauge_tracks p s \<longleftrightarrow> (case s of ((w, fl), calls, missed) \<Rightarrow>
     gauge_value (pm_http_requests_current p) [''''] calls + of_nat missed = of_nat (length fl) \<and>
     (\<forall>n. n \<noteq> [] \<longrightarrow> gauge_value (pm_http_requests_current p) [n] calls = of_nat (in_flight n fl)))"

lemma sys_step_length:
  "sys_step lib s l s' \<Longrightarrow> l \<in> {Worked, Reloaded} \<Longrightarrow> length (snd s') = length (snd s)"
  by (induction rule: sys_step.induct) auto

lemma gauge_tracks_step:
  assumes "metered_step lib p s s'" "plugins_keep_route lib" "current_apart p" "gauge_tracks p s"
  shows "gauge_tracks p s'"
  using assms
proof (induction rule: metered_step.induct)
  case (ms_arrive x0 cn w x stream dg fl calls missed)
  let ?y = "note_arrival lib stream dg x0"
  have x: "x = snd (route_request lib ?y)"
    using ms_arrive by (simp add: early_request_filter_def)
  have w: "x_world x0 = w" using ms_arrive by simp
  have loc: "ctx_location (x_ctx x) = []" if "no_locations w"
    using route_request_none[of ?y lib] that w x ms_arrive(1) by simp
  show ?case
    using ms_arrive.prems loc
    by (auto simp: gauge_tracks_def early_request_metrics_def route_metrics_location w x[symmetric]
        gauge_value_append before_gauge in_flight_def algebra_simps)
next
  case (ms_work s l s' calls missed)
  have "ended_on n [l] = 0 \<and> routed_to n [l] = 0" for n
    using ms_work(2) by (auto simp: ended_on_def routed_to_def)
  then have "in_flight n (snd s') = in_flight n (snd s)" for n
    using sys_step_flight[OF ms_work(1) ms_work.prems(1), of n] by simp
  then show ?case
    using ms_work sys_step_length[OF ms_work(1,2)] by (cases s; cases s') (simp add: gauge_tracks_def)
next
  case (ms_end x0 cn c w x written compressed pre post calls missed now sent)
  have "ctx_location (x_ctx (logging written compressed x0)) = ctx_location c"
    using ms_end(1) by (simp add: logging_def release_upstream_def release_location_def upd_ctx_def upd_world_def
        completed_def Let_def split: option.split)
  then show ?case
    using ms_end.prems
    by (auto simp: gauge_tracks_def logging_metrics_def gauge_value_append after_gauge in_flight_def algebra_simps)
next
  case (ms_gather s calls missed info)
  then show ?case by (cases s) (simp add: gauge_tracks_def gauge_value_append gather_gauge)
qed

lemma gauge_tracks_run:
  assumes "metered_run lib p s s'" "plugins_keep_route lib" "current_apart p" "gauge_tracks p s"
  shows "gauge_tracks p s'"
  using assms by (induction rule: rtranclp_induct) (auto intro: gauge_tracks_step)

section \<open>Making the metrics\<close>

text \<open>
  What the \<open>prometheus\<close> crate asks of a descriptor: a name of letters, digits, underscores and colons,
  a help text, label names that are distinct and not constant labels, and rising bounds. It refuses to register a
  name twice.
\<close>

definition name_char :: "char \<Rightarrow> bool" where
  "name_char c \<longleftrightarrow> (let n = of_char c :: nat in
     n = 95 \<or> n = 58 \<or> (65 \<le> n \<and> n \<le> 90) \<or> (97 \<le> n \<and> n \<le> 122) \<or> (48 \<le> n \<and> n \<le> 57))"

definition valid_name :: "string \<Rightarrow> bool" where
  "valid_name s \<longleftrightarrow> s \<noteq> [] \<and> list_all name_char s \<and> \<not> is_digit (hd s)"

definition valid_desc :: "metric_desc \<Rightarrow> bool" where
  "valid_desc d \<longleftrightarrow> valid_name (md_name d) \<and> md_help d \<noteq> [] \<and>
     list_all valid_name (md_labels d) \<and> list_all (valid_name \<circ> fst) (md_const_labels d) \<and>
     distinct (md_labels d @ map fst (md_const_labels d)) \<and> sorted_wrt (<) (md_buckets d)"

definition accepts_valid :: "('mf, 'u) prom_lib \<Rightarrow> bool" where
  "accepts_valid lib \<longleftrightarrow> (\<forall>d. valid_desc d \<longrightarrow> prl_create lib d = Inr ()) \<and>
     (\<forall>r d. md_name d \<notin> md_name ` set r \<longrightarrow> prl_register lib r d = Inr ())"

lemma create_valid: "accepts_valid lib \<Longrightarrow> valid_desc d \<Longrightarrow> create_metric lib d = Inr d"
  by (simp add: accepts_valid_def)

lemma register_distinct:
  "accepts_valid lib \<Longrightarrow> distinct (map md_name (r @ cs)) \<Longrightarrow> register_all lib r cs = Inr (r @ cs)"
proof (induction cs arbitrary: r)
  case (Cons c cs)
  then have "prl_register lib r c = Inr ()" by (auto simp: accepts_valid_def)
  with Cons.IH[of "r @ [c]"] Cons.prems show ?case by simp
qed simp

lemmas name_simps = valid_name_def name_char_def is_digit_def

text \<open>Each constructor succeeds on a valid name, and the next step gets a metric of that name.\<close>

lemma try_metric_ok:
  assumes "accepts_valid lib" "valid_name n" "h \<noteq> []" "\<And>d. md_name d = n \<Longrightarrow> \<exists>p. f d = Inr p"
  shows "\<exists>p. try_then (new_int_counter lib s n h) f = Inr p"
    "\<exists>p. try_then (new_int_gauge lib s n h) f = Inr p"
    "list_all valid_name ls \<Longrightarrow> distinct (ls @ [''server'']) \<Longrightarrow> \<exists>p. try_then (new_int_counter_vec lib s n h ls) f = Inr p"
    "list_all valid_name ls \<Longrightarrow> distinct (ls @ [''server'']) \<Longrightarrow> \<exists>p. try_then (new_int_gauge_vec lib s n h ls) f = Inr p"
    "sorted_wrt (<) bs \<Longrightarrow> \<exists>p. try_then (new_histogram lib s n h bs) f = Inr p"
    "list_all valid_name ls \<Longrightarrow> distinct (ls @ [''server'']) \<Longrightarrow> sorted_wrt (<) bs \<Longrightarrow>
       \<exists>p. try_then (new_histogram_vec lib s n h ls bs) f = Inr p"
proof -
  have server: "valid_name ''server''" by (simp add: name_simps)
  have ok: "\<exists>p. try_then (create_metric lib d) f = Inr p" if "valid_desc d" "md_name d = n" for d
    using create_valid[OF assms(1) that(1)] assms(4)[OF that(2)] by (simp only: try_then_simps)
  show "\<exists>p. try_then (new_int_counter lib s n h) f = Inr p" "\<exists>p. try_then (new_int_gauge lib s n h) f = Inr p"
    "list_all valid_name ls \<Longrightarrow> distinct (ls @ [''server'']) \<Longrightarrow> \<exists>p. try_then (new_int_counter_vec lib s n h ls) f = Inr p"
    "list_all valid_name ls \<Longrightarrow> distinct (ls @ [''server'']) \<Longrightarrow> \<exists>p. try_then (new_int_gauge_vec lib s n h ls) f = Inr p"
    "sorted_wrt (<) bs \<Longrightarrow> \<exists>p. try_then (new_histogram lib s n h bs) f = Inr p"
    "list_all valid_name ls \<Longrightarrow> distinct (ls @ [''server'']) \<Longrightarrow> sorted_wrt (<) bs \<Longrightarrow>
       \<exists>p. try_then (new_histogram_vec lib s n h ls bs) f = Inr p"
    unfolding new_int_counter_def new_int_gauge_def new_int_counter_vec_def new_int_gauge_vec_def
      new_histogram_def new_histogram_vec_def
    using assms(2,3) server by (auto intro!: ok simp: valid_desc_def simp del: try_then_eq_Inr)
qed

lemma try_register_ok:
  "accepts_valid lib \<Longrightarrow> distinct (map md_name cs) \<Longrightarrow> \<exists>p. try_then (register_all lib [] cs) (\<lambda>r. Inr (g r)) = Inr p"
  using register_distinct[of lib "[]" cs] by simp

lemma new_prometheus_succeeds:
  assumes "accepts_valid lib"
  shows "\<exists>p. new_prometheus lib server = Inr p"
  unfolding new_prometheus_def CACHE_READING_TIME_def CACHE_WRITING_TIME_def
  by (intro try_metric_ok[OF assms] try_register_ok[OF assms]) (simp_all add: name_simps)

section \<open>A concrete library\<close>

text \<open>The crate's checks as documented, with the metrics as their own families.\<close>

definition sample_prom_lib :: "(metric_desc, string) prom_lib" where
  "sample_prom_lib = \<lparr>prl_create = (\<lambda>d. if valid_desc d then Inr () else Inl ''invalid''),
     prl_register = (\<lambda>r d. if md_name d \<in> md_name ` set r then Inl ''duplicate'' else Inr ()),
     prl_families = (\<lambda>r _. r), prl_text = (\<lambda>fs. Inr (concat (map md_name fs))), prl_proto = md_name,
     prl_format_type = ''application/vnd.google.protobuf'', prl_url_parse = Inr, prl_username = (\<lambda>_. []),
     prl_password = (\<lambda>_. None), prl_set_username = (\<lambda>_ u. u), prl_set_password = (\<lambda>_ u. u),
     prl_query_pairs = (\<lambda>_. []), prl_url_text = id, prl_duration = Inl, prl_post = (\<lambda>_. Inr 200)\<rparr>"

lemma sample_prom_accepts: "accepts_valid sample_prom_lib"
  by (simp add: accepts_valid_def sample_prom_lib_def)

section \<open>Properties\<close>

text \<open>
  C8: The gauge of current requests is the number of requests in flight. Over every run of a server
  with metrics, however callbacks interleave and maps are reloaded, the gauge with the empty label is
  the requests in flight less those that arrived while the server had no list of locations, and the
  gauge of each location is exactly the requests in flight there.
\<close>

theorem metrics_gauge_in_flight:
  assumes "new_prometheus plib name = Inr p" "plugins_keep_route lib"
    and "metered_run lib p ((w, []), [], 0) ((w', fl), calls, missed)"
  shows "gauge_value (pm_http_requests_current p) [''''] calls + of_nat missed = of_nat (length fl) \<and>
    (\<forall>n. n \<noteq> [] \<longrightarrow> gauge_value (pm_http_requests_current p) [n] calls = of_nat (in_flight n fl))"
proof -
  have "gauge_tracks p ((w, []), [], 0)" by (simp add: gauge_tracks_def gauge_value_def in_flight_def)
  with gauge_tracks_run[OF assms(3,2)] new_prometheus_shape[OF assms(1)] show ?thesis
    by (simp add: gauge_tracks_def)
qed

theorem metrics_gauge_in_flight_witness:
  "\<exists>p calls. new_prometheus sample_prom_lib ''s'' = Inr p \<and>
     calls = early_request_metrics sample_lib (Some p) None None
       \<lparr>x_conn = sample_conn ''/api'', x_ctx = new_ctx (sl_env sample_lib), x_world = sample_world\<rparr> \<and>
     gauge_value (pm_http_requests_current p) [''''] calls = 1 \<and>
     gauge_value (pm_http_requests_current p) [''l''] calls = 1"
proof -
  obtain p where p: "new_prometheus sample_prom_lib ''s'' = Inr p"
    using new_prometheus_succeeds[OF sample_prom_accepts] by blast
  let ?e = "\<lparr>x_conn = sample_conn ''/api'', x_ctx = new_ctx (sl_env sample_lib), x_world = sample_world\<rparr>"
  let ?x = "snd (early_request_filter sample_lib None None ?e)"
  let ?calls = "early_request_metrics sample_lib (Some p) None None ?e"
  have n: "\<not> no_locations sample_world"
    by (simp add: no_locations_def get_server_locations_def sample_world_def sample_server_def)
  have "metered_step sample_lib p ((sample_world, []), [], 0)
      ((x_world ?x, [(x_conn ?x, x_ctx ?x)]), ?calls, 0)"
    using metered_step.ms_arrive[OF refl refl, where fl = "[]" and calls = "[]" and missed = 0 and w = sample_world
        and lib = sample_lib and cn = "sample_conn ''/api''" and stream = None and dg = None and p = p] n by simp
  then have run: "metered_run sample_lib p ((sample_world, []), [], 0)
      ((x_world ?x, [(x_conn ?x, x_ctx ?x)]), ?calls, 0)" by blast
  have "ctx_location (x_ctx ?x) = ''l''"
    using sample_arrival(1)[of "''/api''"] by (simp add: arrival_def starts_with_def)
  with metrics_gauge_in_flight[OF p sample_keep_route run] p show ?thesis
    by (auto simp: in_flight_def)
qed

text \<open>
  A server with metrics but without a list of locations counts its requests downwards: a request
  that came and went leaves the gauge at minus one, because its arrival returns before \<open>before\<close> and
  its end calls \<open>after\<close>.
\<close>

theorem metrics_gauge_negative:
  assumes "new_prometheus plib name = Inr p" "no_locations w"
    and "x0 = \<lparr>x_conn = cn, x_ctx = new_ctx (sl_env lib), x_world = w\<rparr>"
  shows "sint (gauge_value (pm_http_requests_current p) ['''']
     (early_request_metrics lib (Some p) stream dg x0 @
      logging_metrics (Some p) now sent written compressed (snd (early_request_filter lib stream dg x0)))) = - 1"
proof -
  have "early_request_metrics lib (Some p) stream dg x0 = []"
    using assms(2,3) by (simp add: early_request_metrics_def route_metrics_def no_locations_def)
  then show ?thesis
    using new_prometheus_shape[OF assms(1)] by (simp add: gauge_value_append logging_metrics_def after_gauge gauge_value_def)
qed

theorem metrics_gauge_negative_witness:
  "\<exists>p. new_prometheus sample_prom_lib ''s'' = Inr p \<and>
     sint (gauge_value (pm_http_requests_current p) ['''']
       (early_request_metrics sample_lib (Some p) None None
          \<lparr>x_conn = sample_conn ''/'', x_ctx = new_ctx (sl_env sample_lib), x_world = sample_world\<lparr>w_server_locations := []\<rparr>\<rparr> @
        logging_metrics (Some p) 0 0 None None (snd (early_request_filter sample_lib None None
          \<lparr>x_conn = sample_conn ''/'', x_ctx = new_ctx (sl_env sample_lib), x_world = sample_world\<lparr>w_server_locations := []\<rparr>\<rparr>)))) = - 1"
proof -
  obtain p where p: "new_prometheus sample_prom_lib ''s'' = Inr p"
    using new_prometheus_succeeds[OF sample_prom_accepts] by blast
  have "no_locations (sample_world\<lparr>w_server_locations := []\<rparr>)"
    by (simp add: no_locations_def get_server_locations_def)
  with metrics_gauge_negative[OF p] p show ?thesis by blast
qed



end
