(* ===== verification/Listener.thy ===== *)
theory Listener
  imports Metrics Tls_Certificates
begin

text \<open>
  \<open>Server::run\<close> of \<open>src/proxy/server.rs\<close> and \<open>new_tls_settings\<close> of
  \<open>pingap-certificate/src/dynamic_certificate.rs\<close>: the endpoints a server listens on, with their
  TLS settings, socket options and threads. The TLS settings of pingora are the type \<open>'t\<close> with the
  setters of \<open>tls_lib\<close>; a setter that fails leaves the settings as they are and is only logged.
\<close>

section \<open>TLS settings\<close>

record tls_setting_params =
  tp_server_name :: string
  tp_enabled_h2 :: bool
  tp_cipher_list :: "string option"
  tp_cipher_suites :: "string option"
  tp_min_version :: "string option"
  tp_max_version :: "string option"

record 't tls_lib =
  tl_with_callbacks :: "string + 't"
  tl_enable_h2 :: "'t \<Rightarrow> 't"
  tl_set_cipher_list :: "string \<Rightarrow> 't \<Rightarrow> string + 't"
  tl_set_ciphersuites :: "string \<Rightarrow> 't \<Rightarrow> string + 't"
  tl_set_min_proto_version :: "ssl_version option \<Rightarrow> 't \<Rightarrow> string + 't"
  tl_set_max_proto_version :: "ssl_version option \<Rightarrow> 't \<Rightarrow> string + 't"
  tl_set_security_level :: "nat \<Rightarrow> 't \<Rightarrow> 't"
  tl_allow_tlsv1_1 :: "'t \<Rightarrow> 't"

definition or_log :: "('t \<Rightarrow> string + 't) \<Rightarrow> 't \<Rightarrow> 't" where
  "or_log f t = (case f t of Inr t' \<Rightarrow> t' | Inl _ \<Rightarrow> t)"

definition new_tls_settings :: "'t tls_lib \<Rightarrow> tls_setting_params \<Rightarrow> cert_error + 't" where
  "new_tls_settings lib params =
     try_then (map_err (CertInvalid ''new_tls_settings'') (tl_with_callbacks lib)) (\<lambda>t0.
     let t1 = (if tp_enabled_h2 params then tl_enable_h2 lib t0 else t0);
         t2 = (case tp_cipher_list params of Some l \<Rightarrow> or_log (tl_set_cipher_list lib l) t1 | None \<Rightarrow> t1);
         t3 = (case tp_cipher_suites params of Some l \<Rightarrow> or_log (tl_set_ciphersuites lib l) t2 | None \<Rightarrow> t2);
         t4 = (case convert_tls_version (tp_min_version params) of
                 Some v \<Rightarrow> (let t = or_log (tl_set_min_proto_version lib (Some v)) t3
                           in if v = TLS1_1 then tl_allow_tlsv1_1 lib (tl_set_security_level lib 0 t) else t)
               | None \<Rightarrow> t3)
     in Inr (or_log (tl_set_max_proto_version lib (convert_tls_version (tp_max_version params))) t4))"

section \<open>Listening\<close>

type_synonym socket_options = "nat option \<times> tcp_keepalive option"

datatype 't listen_endpoint =
    TlsEndpoint (ep_addr: string) "socket_options option" 't
  | TcpSettingsEndpoint (ep_addr: string) socket_options
  | TcpEndpoint (ep_addr: string)

record 't lb_service =
  lb_h2c :: bool
  lb_threads :: "nat option"
  lb_endpoints :: "'t listen_endpoint list"

text \<open>The error of \<open>pingap\<close>'s proxy: a category and a message.\<close>

fun add_endpoints ::
  "'t tls_lib \<Rightarrow> server \<Rightarrow> string list \<Rightarrow> 't lb_service \<Rightarrow> (string \<times> string) + 't lb_service" where
  "add_endpoints lib srv [] lb = Inr lb"
| "add_endpoints lib srv (addr # addrs) lb =
     (let add = (\<lambda>e. lb\<lparr>lb_endpoints := lb_endpoints lb @ [e]\<rparr>);
          (cipher_list, cipher_suites, min_version, max_version) = srv_tls srv
      in if srv_global_certificates srv then
           try_then (map_err (\<lambda>e. (''tls'', cert_error_text e)) (new_tls_settings lib
             \<lparr>tp_server_name = srv_name srv, tp_enabled_h2 = srv_enabled_h2 srv, tp_cipher_list = cipher_list,
              tp_cipher_suites = cipher_suites, tp_min_version = min_version, tp_max_version = max_version\<rparr>)) (\<lambda>t.
           add_endpoints lib srv addrs (add (TlsEndpoint addr (srv_tcp_socket_options srv) t)))
         else (case srv_tcp_socket_options srv of
           Some opt \<Rightarrow> add_endpoints lib srv addrs (add (TcpSettingsEndpoint addr opt))
         | None \<Rightarrow> add_endpoints lib srv addrs (add (TcpEndpoint addr))))"

definition server_threads :: "nat \<Rightarrow> server \<Rightarrow> nat option" where
  "server_threads cpus srv = map_option (\<lambda>n. if n = 0 then cpus else n) (srv_threads srv)"

definition server_run :: "'t tls_lib \<Rightarrow> nat \<Rightarrow> server \<Rightarrow> (string \<times> string) + 't lb_service" where
  "server_run lib cpus srv =
     add_endpoints lib srv (split_on CHR '','' (srv_addr srv))
       \<lparr>lb_h2c = (\<not> srv_global_certificates srv \<and> srv_enabled_h2 srv), lb_threads = server_threads cpus srv,
        lb_endpoints = []\<rparr>"

text \<open>\<open>Error::Common\<close> of the proxy as text.\<close>

definition proxy_error_text :: "string \<times> string \<Rightarrow> string" where
  "proxy_error_text e = ''Common error, category: '' @ fst e @ '', '' @ snd e"

text \<open>\<open>ServerConf::default()\<close>.\<close>

definition default_psc :: proxy_server_conf where
  "default_psc = \<lparr>psc_admin = False, psc_name = [], psc_addr = [], psc_access_log = None, psc_locations = [],
     psc_tls_cipher_list = None, psc_tls_ciphersuites = None, psc_tls_min_version = None, psc_tls_max_version = None,
     psc_threads = None, psc_error_template = [], psc_tcp_keepalive = None, psc_tcp_fastopen = None,
     psc_global_certificates = False, psc_enabled_h2 = False, psc_prometheus_metrics = None, psc_otlp_exporter = None,
     psc_modules = None, psc_enable_server_timing = False\<rparr>"

section \<open>What a server listens on\<close>

fun is_tls :: "'t listen_endpoint \<Rightarrow> bool" where
  "is_tls (TlsEndpoint a opts t) = True"
| "is_tls _ = False"

fun ep_options :: "'t listen_endpoint \<Rightarrow> socket_options option" where
  "ep_options (TlsEndpoint a opts t) = opts"
| "ep_options (TcpSettingsEndpoint a opts) = Some opts"
| "ep_options (TcpEndpoint a) = None"

text \<open>An address adds one endpoint of the server's kind.\<close>

definition endpoint_of :: "server \<Rightarrow> string \<Rightarrow> 't listen_endpoint \<Rightarrow> bool" where
  "endpoint_of srv addr e \<longleftrightarrow> ep_addr e = addr \<and> is_tls e = srv_global_certificates srv \<and>
     ep_options e = srv_tcp_socket_options srv"

lemma add_endpoints_step:
  assumes "add_endpoints lib srv (addr # addrs) lb = Inr lb'"
  shows "\<exists>e. endpoint_of srv addr e \<and> add_endpoints lib srv addrs (lb\<lparr>lb_endpoints := lb_endpoints lb @ [e]\<rparr>) = Inr lb'"
proof (cases "srv_global_certificates srv")
  case True
  then have "endpoint_of srv addr (TlsEndpoint addr (srv_tcp_socket_options srv) t)" for t :: 'a
    by (simp add: endpoint_of_def)
  with True assms show ?thesis by (auto simp: Let_def split: prod.splits)
next
  case False
  then have "endpoint_of srv addr (case srv_tcp_socket_options srv of
      Some opt \<Rightarrow> TcpSettingsEndpoint addr opt :: 'a listen_endpoint | None \<Rightarrow> TcpEndpoint addr)"
    by (simp add: endpoint_of_def split: option.split)
  with False assms show ?thesis by (auto simp: Let_def split: prod.splits option.splits)
qed

lemma add_endpoints_frame:
  assumes "add_endpoints lib srv addrs lb = Inr lb'"
  shows "lb_h2c lb' = lb_h2c lb \<and> lb_threads lb' = lb_threads lb \<and>
    (\<exists>es. lb_endpoints lb' = lb_endpoints lb @ es \<and> map ep_addr es = addrs \<and>
       (\<forall>e \<in> set es. is_tls e = srv_global_certificates srv \<and> ep_options e = srv_tcp_socket_options srv))"
  using assms
proof (induction addrs arbitrary: lb)
  case (Cons addr addrs)
  obtain e where e: "ep_addr e = addr" "is_tls e = srv_global_certificates srv" "ep_options e = srv_tcp_socket_options srv"
    and r: "add_endpoints lib srv addrs (lb\<lparr>lb_endpoints := lb_endpoints lb @ [e]\<rparr>) = Inr lb'"
    using add_endpoints_step[OF Cons.prems] by (auto simp: endpoint_of_def)
  from Cons.IH[OF r] obtain es where "lb_h2c lb' = lb_h2c lb" "lb_threads lb' = lb_threads lb"
    "lb_endpoints lb' = lb_endpoints lb @ e # es" "map ep_addr es = addrs"
    "\<forall>e \<in> set es. is_tls e = srv_global_certificates srv \<and> ep_options e = srv_tcp_socket_options srv" by auto
  with e show ?case by (auto intro!: exI[of _ "e # es"])
qed simp

text \<open>With settings that can be made, every server listens.\<close>

lemma server_run_ok: "tl_with_callbacks lib = Inr t \<Longrightarrow> \<exists>lb. server_run lib cpus srv = Inr lb"
proof -
  assume t: "tl_with_callbacks lib = Inr t"
  have "\<exists>lb'. add_endpoints lib srv addrs lb = Inr lb'" for addrs lb
    by (induction addrs arbitrary: lb)
      (auto simp: new_tls_settings_def t Let_def simp del: try_then_eq_Inr map_err_eq_Inr split: prod.split option.split)
  then show ?thesis by (simp add: server_run_def)
qed

definition sample_tls_lib :: "string list tls_lib" where
  "sample_tls_lib = \<lparr>tl_with_callbacks = Inr [], tl_enable_h2 = (\<lambda>t. t @ [''h2'']),
     tl_set_cipher_list = (\<lambda>l t. if l = [] then Inl ''no cipher'' else Inr (t @ [l])), tl_set_ciphersuites = (\<lambda>l t. Inr (t @ [l])),
     tl_set_min_proto_version = (\<lambda>_ t. Inr (t @ [''min''])), tl_set_max_proto_version = (\<lambda>_ t. Inr (t @ [''max''])),
     tl_set_security_level = (\<lambda>_ t. t), tl_allow_tlsv1_1 = id\<rparr>"

lemma sample_tls_ok: "tl_with_callbacks sample_tls_lib = Inr []"
  by (simp add: sample_tls_lib_def)

section \<open>Properties\<close>



text \<open>
  The number of threads the process reports is not the number the servers run with: a server
  that asks for zero threads runs with one for each processor and is reported with the default of the
  basic configuration.
\<close>

theorem threads_misreported:
  assumes "bc_threads (basic conf) = Some d" "d > 0" "servers conf = [(name, srv)]" "sc_threads srv = Some 0"
    and "server_run lib cpus (new_server (hd (parse_from_conf tmpl conf))) = Inr lb"
  shows "lb_threads lb = Some cpus \<and> process_threads cpus conf = d"
  using assms add_endpoints_frame[OF assms(5)[unfolded server_run_def]]
  by (auto simp: process_threads_def parse_from_conf_def new_server_def server_threads_def Let_def)

end
