(* ===== verification/Log_Writer.thy ===== *)
theory Log_Writer
  imports Plugin_Conf "HOL-Library.Signed_Division"
begin

text \<open>
  \<open>pingap-logger/src/writer.rs\<close> and \<open>syslog.rs\<close>: choosing the writer of the log, the service that
  compresses old log files, and the writer to syslog. The file system is the type \<open>'f\<close> with the
  operations of \<open>writer_lib\<close>, which also has the codecs, the syslog connection and the local clock; the
  functions of \<open>std::path\<close> are written out. The lemmas show that compressing never loses a log, and
  which files it never compresses.
\<close>

section \<open>Paths\<close>

text \<open>The trailing separators and current-directory parts of a path, on the reversed path.\<close>

fun strip_rev :: "string \<Rightarrow> string" where
  "strip_rev [] = []"
| "strip_rev (c # r) =
     (if c = CHR ''/'' then strip_rev r
      else if c = CHR ''.'' \<and> r \<noteq> [] \<and> hd r = CHR ''/'' then strip_rev (tl r) else c # r)"

definition strip_tail :: "string \<Rightarrow> string" where
  "strip_tail p = rev (strip_rev (rev p))"

definition split_name :: "string \<Rightarrow> string \<times> string" where
  "split_name p = (rev (dropWhile (\<lambda>c. c \<noteq> CHR ''/'') (rev p)), rev (takeWhile (\<lambda>c. c \<noteq> CHR ''/'') (rev p)))"

definition path_file_name :: "string \<Rightarrow> string option" where
  "path_file_name p =
     (let n = snd (split_name (strip_tail p)) in if n = [] \<or> n = ''.'' \<or> n = ''..'' then None else Some n)"

text \<open>A file name at its last dot: the stem and the extension; a leading dot is part of the stem.\<close>

definition split_ext :: "string \<Rightarrow> string \<times> string option" where
  "split_ext n =
     (let after = rev (takeWhile (\<lambda>c. c \<noteq> CHR ''.'') (rev n));
          before = dropWhile (\<lambda>c. c \<noteq> CHR ''.'') (rev n)
      in if before = [] \<or> tl before = [] then (n, None) else (rev (tl before), Some after))"

definition path_extension :: "string \<Rightarrow> string option" where
  "path_extension p = Option.bind (path_file_name p) (snd \<circ> split_ext)"

definition with_extension :: "string \<Rightarrow> string \<Rightarrow> string" where
  "with_extension p ext =
     (case path_file_name p of
        None \<Rightarrow> p
      | Some n \<Rightarrow> fst (split_name (strip_tail p)) @ fst (split_ext n) @ ''.'' @ ext)"

definition log_path_parent :: "string \<Rightarrow> string option" where
  "log_path_parent p =
     (let q = strip_tail p in
      if q = [] then None
      else let dir = fst (split_name q); d = strip_tail dir
           in Some (if d = [] \<and> dir \<noteq> [] then ''/'' else d))"

section \<open>The library\<close>

datatype log_error = LogIo string | LogInvalid string

definition log_error_text :: "log_error \<Rightarrow> string" where
  "log_error_text e = (case e of LogIo s \<Rightarrow> ''IO error '' @ s | LogInvalid m \<Rightarrow> ''Invalid '' @ m)"

datatype codec = Zstd | Gzip

datatype syslog_format = Rfc3164 | Rfc5424

record syslog =
  sy_format :: syslog_format
  sy_process :: string
  sy_facility :: nat
  sy_hostname :: string

text \<open>
  \<open>lf_walk\<close> gives the paths \<open>WalkDir\<close> visits without errors, \<open>lf_accessed\<close> the time a path was last
  read, in seconds; \<open>lf_encode\<close> copies one file through an encoder into another that is open, with the bytes read.
  A facility is its number, with the crate's default.
\<close>

record 'f writer_lib =
  lf_util :: util_lib
  lf_url_query :: "string \<Rightarrow> string option option"
  lf_url_encode :: "string \<Rightarrow> string"
  lf_env :: sys_env
  lf_is_dir :: "string \<Rightarrow> 'f \<Rightarrow> bool"
  lf_create_dir_all :: "string \<Rightarrow> 'f \<Rightarrow> (string + unit) \<times> 'f"
  lf_open :: "string \<Rightarrow> 'f \<Rightarrow> string + unit"
  lf_create_new :: "string \<Rightarrow> 'f \<Rightarrow> string + 'f"
  lf_encode :: "codec \<Rightarrow> nat \<Rightarrow> string \<Rightarrow> string \<Rightarrow> 'f \<Rightarrow> (string + nat) \<times> 'f"
  lf_size :: "string \<Rightarrow> 'f \<Rightarrow> nat option"
  lf_remove :: "string \<Rightarrow> 'f \<Rightarrow> 'f"
  lf_walk :: "string \<Rightarrow> 'f \<Rightarrow> string list"
  lf_accessed :: "string \<Rightarrow> 'f \<Rightarrow> int option"
  lf_local_hour :: nat
  lf_local_offset :: int
  lf_debug :: bool
  lf_facility :: "string \<Rightarrow> nat"
  lf_syslog_unix :: "syslog \<Rightarrow> string + unit"
  lf_syslog_send :: "syslog \<Rightarrow> string \<Rightarrow> 'f \<Rightarrow> (string + unit) \<times> 'f"

section \<open>Compressing\<close>

definition DEFAULT_COMPRESSION_LEVEL :: nat where "DEFAULT_COMPRESSION_LEVEL = 9"
definition DEFAULT_DAYS_AGO :: nat where "DEFAULT_DAYS_AGO = 7"
definition MIN_BUFFER_CAPACITY :: nat where "MIN_BUFFER_CAPACITY = 4096"
definition GZIP_EXT :: string where "GZIP_EXT = ''gz''"
definition ZSTD_EXT :: string where "ZSTD_EXT = ''zst''"

text \<open>The sizes after and before, and the file system: a new file is made, and stays when encoding fails.\<close>

definition compress_into ::
  "'f writer_lib \<Rightarrow> codec \<Rightarrow> nat \<Rightarrow> string \<Rightarrow> string \<Rightarrow> 'f \<Rightarrow> (log_error + nat \<times> nat) \<times> 'f" where
  "compress_into lib codec level file target f =
     (case lf_open lib file f of
        Inl e \<Rightarrow> (Inl (LogIo e), f)
      | Inr _ \<Rightarrow> (case lf_create_new lib target f of
          Inl e \<Rightarrow> (Inl (LogIo e), f)
        | Inr f1 \<Rightarrow> (case lf_encode lib codec level file target f1 of
            (Inl e, f2) \<Rightarrow> (Inl (LogIo e), f2)
          | (Inr original_size, f2) \<Rightarrow> (Inr (unwrap_or 0 (lf_size lib target f2), original_size), f2))))"

definition zstd_compress :: "'f writer_lib \<Rightarrow> string \<Rightarrow> nat \<Rightarrow> 'f \<Rightarrow> (log_error + nat \<times> nat) \<times> 'f" where
  "zstd_compress lib file level =
     compress_into lib Zstd (if level = 0 then DEFAULT_COMPRESSION_LEVEL else level) file (with_extension file ZSTD_EXT)"

text \<open>\<open>Compression::best()\<close> is level nine.\<close>

definition gzip_compress :: "'f writer_lib \<Rightarrow> string \<Rightarrow> nat \<Rightarrow> 'f \<Rightarrow> (log_error + nat \<times> nat) \<times> 'f" where
  "gzip_compress lib file level =
     compress_into lib Gzip (if level = 0 then 9 else level) file (with_extension file GZIP_EXT)"

record log_compress_params =
  lc_compression :: string
  lc_path :: string
  lc_level :: nat
  lc_days_ago :: nat
  lc_time_point_hour :: nat

definition compress_entry :: "'f writer_lib \<Rightarrow> log_compress_params \<Rightarrow> int \<Rightarrow> string \<Rightarrow> 'f \<Rightarrow> 'f" where
  "compress_entry lib params access_before path f =
     (if unwrap_or [] (path_extension path) \<in> {GZIP_EXT, ZSTD_EXT} then f
      else case lf_accessed lib path f of
             None \<Rightarrow> f
           | Some accessed \<Rightarrow>
               if accessed > access_before then f
               else case (if lc_compression params = ''gzip'' then gzip_compress lib path (lc_level params) f
                          else zstd_compress lib path (lc_level params) f) of
                      (Inl _, f') \<Rightarrow> f'
                    | (Inr _, f') \<Rightarrow> lf_remove lib path f')"

text \<open>\<open>now\<close> is the clock in seconds; the subtraction is that of a \<open>SystemTime\<close>, whose seconds are an \<open>i64\<close>.\<close>

definition do_compress ::
  "'f writer_lib \<Rightarrow> int \<Rightarrow> nat \<Rightarrow> log_compress_params \<Rightarrow> 'f \<Rightarrow> (string + bool) \<times> 'f" where
  "do_compress lib now count params f =
     (if count mod 60 \<noteq> 0 \<or> lc_time_point_hour params \<noteq> lf_local_hour lib then (Inr False, f)
      else
        let days_ago = (if lc_days_ago params = 0 then DEFAULT_DAYS_AGO else lc_days_ago params);
            access_before = now - 24 * 3600 * int days_ago
        in if access_before < - (2 ^ 63) then (Inl ''Failed to calculate access time'', f)
           else (Inr True, fold (compress_entry lib params access_before) (lf_walk lib (lc_path params) f) f))"

definition new_log_compress_service :: "log_compress_params \<Rightarrow> (string \<times> log_compress_params) option" where
  "new_log_compress_service params = Some (''log_compress'', params)"

section \<open>Writers\<close>

record logger_params =
  lg_capacity :: nat
  lg_log :: string
  lg_level :: string
  lg_json :: bool

datatype rolling = Minutely | Hourly | Daily | Never

datatype log_writer =
    Stderr
  | SyslogWriter syslog
  | FileWriter rolling string string "nat option"

definition rolling_of :: "string \<Rightarrow> rolling" where
  "rolling_of t =
     (if t = ''minutely'' then Minutely else if t = ''hourly'' then Hourly
      else if t = ''never'' then Never else Daily)"

definition query_or :: "nat \<Rightarrow> (string, string) hash_map \<Rightarrow> string \<Rightarrow> nat" where
  "query_or w m key = unwrap_or 0 (Option.bind (map_of m key) (parse_unsigned w))"

definition new_file_writer ::
  "'f writer_lib \<Rightarrow> logger_params \<Rightarrow> 'f \<Rightarrow> (log_error + log_writer \<times> (string \<times> log_compress_params) option) \<times> 'f" where
  "new_file_writer lib params f =
     (let file0 = resolve_path (lf_util lib) (lg_log params);
          (file, m) = (case split_once CHR ''?'' (lg_log params) of
             Some (_, query) \<Rightarrow> (replace_all file0 (''?'' @ query) [], convert_query_map (lf_url_query lib) (lf_url_encode lib) query)
           | None \<Rightarrow> (file0, []));
          compression = unwrap_or [] (map_of m ''compression'')
      in case (if lf_is_dir lib file f then Some file else log_path_parent file) of
           None \<Rightarrow> (Inl (LogInvalid ''parent of file log is invalid''), f)
         | Some dir \<Rightarrow> (case lf_create_dir_all lib dir f of
             (Inl e, f1) \<Rightarrow> (Inl (LogIo e), f1)
           | (Inr _, f1) \<Rightarrow>
               let task = (if compression \<noteq> [] then new_log_compress_service
                      \<lparr>lc_compression = compression, lc_path = dir, lc_level = query_or 8 m ''level'',
                       lc_days_ago = query_or 16 m ''days_ago'', lc_time_point_hour = query_or 8 m ''time_point_hour''\<rparr>
                    else None)
               in case (if lf_is_dir lib file f1 then Some [] else path_file_name file) of
                    None \<Rightarrow> (Inl (LogInvalid ''file log is invalid''), f1)
                  | Some filename \<Rightarrow>
                      (Inr (FileWriter (rolling_of (unwrap_or [] (map_of m ''rolling''))) dir filename
                              (if lg_capacity params < MIN_BUFFER_CAPACITY then None else Some (lg_capacity params)), task), f1)))"

definition new_syslog_writer :: "'f writer_lib \<Rightarrow> string \<Rightarrow> log_error + log_writer" where
  "new_syslog_writer lib value =
     (let m = convert_query_map (lf_url_query lib) (lf_url_encode lib) value;
          s = \<lparr>sy_format = (if unwrap_or [] (map_of m ''format'') = ''5424'' then Rfc5424 else Rfc3164),
               sy_process = unwrap_or ''pingap'' (map_of m ''process''),
               sy_facility = lf_facility lib (unwrap_or [] (map_of m ''facility'')),
               sy_hostname = sys_hostname (lf_env lib)\<rparr>
      in try_then (map_err LogInvalid (lf_syslog_unix lib s)) (\<lambda>_. Inr (SyslogWriter s)))"

text \<open>A line to syslog: without its line ends, as information; an empty line is dropped.\<close>

definition trim_newlines :: "string \<Rightarrow> string" where
  "trim_newlines s = rev (dropWhile (\<lambda>c. c = CHR 0x0A) (rev s))"

definition syslog_write :: "'f writer_lib \<Rightarrow> syslog \<Rightarrow> string \<Rightarrow> 'f \<Rightarrow> (string + nat) \<times> 'f" where
  "syslog_write lib s buf f =
     (case from_utf8 buf of
        None \<Rightarrow> (Inl ''invalid data'', f)
      | Some text \<Rightarrow>
          if trim_newlines text = [] then (Inr (length buf), f)
          else (case lf_syslog_send lib s (trim_newlines text) f of
                  (Inl e, f') \<Rightarrow> (Inl e, f') | (Inr _, f') \<Rightarrow> (Inr (length buf), f')))"

section \<open>The logger\<close>

datatype log_level = TRACE | DEBUG | INFO | WARN | ERROR

definition level_of :: "string \<Rightarrow> log_level" where
  "level_of level =
     (let l = ascii_lower level in
      if l = ''trace'' then TRACE else if l = ''debug'' then DEBUG else if l = ''warn'' then WARN
      else if l = ''error'' then ERROR else INFO)"

record logger =
  lo_level :: log_level
  lo_writer :: log_writer
  lo_ansi :: bool
  lo_target :: bool
  lo_json :: bool
  lo_offset :: "int \<times> int"

text \<open>The subscriber that is installed and the compression service.\<close>

definition logger_try_init ::
  "'f writer_lib \<Rightarrow> logger_params \<Rightarrow> 'f \<Rightarrow> (log_error + logger \<times> (string \<times> log_compress_params) option) \<times> 'f" where
  "logger_try_init lib params f =
     (let level = level_of (if lg_level params = [] then unwrap_or ''INFO'' (env_var (lf_env lib) ''RUST_LOG'') else lg_level params);
          seconds = lf_local_offset lib;
          offset = (seconds sdiv 3600, (seconds smod 3600) sdiv 60);
          (r, f') = (if lg_log params = [] then (Inr (Stderr, None), f)
             else if starts_with (lg_log params) ''syslog://''
             then (try_then (new_syslog_writer lib (lg_log params)) (\<lambda>w. Inr (w, None)), f)
             else new_file_writer lib params f)
      in (try_then r (\<lambda>(w, task).
            Inr (\<lparr>lo_level = level, lo_writer = w, lo_ansi = lf_debug lib, lo_target = lf_debug lib,
                  lo_json = lg_json params, lo_offset = offset\<rparr>, task)), f'))"

section \<open>Paths with a new extension\<close>

lemma strip_tail_plain: "c \<noteq> CHR ''/'' \<Longrightarrow> c \<noteq> CHR ''.'' \<Longrightarrow> strip_tail (s @ [c]) = s @ [c]"
  by (simp add: strip_tail_def)

lemma take_until [simp]:
  "c \<notin> set e \<Longrightarrow> takeWhile (\<lambda>x. x \<noteq> c) (rev e @ c # r) = rev e"
  "c \<notin> set e \<Longrightarrow> dropWhile (\<lambda>x. x \<noteq> c) (rev e @ c # r) = c # r"
  "c \<notin> set e \<Longrightarrow> takeWhile (\<lambda>x. x \<noteq> c) (rev e) = rev e"
  "c \<notin> set e \<Longrightarrow> dropWhile (\<lambda>x. x \<noteq> c) (rev e) = []"
proof -
  assume "c \<notin> set e"
  then have e: "\<And>x. x \<in> set (rev e) \<Longrightarrow> x \<noteq> c" by auto
  from e show "takeWhile (\<lambda>x. x \<noteq> c) (rev e @ c # r) = rev e" by (subst takeWhile_append2) simp_all
  from e show "dropWhile (\<lambda>x. x \<noteq> c) (rev e @ c # r) = c # r" by (subst dropWhile_append2) simp_all
  from e show "takeWhile (\<lambda>x. x \<noteq> c) (rev e) = rev e" by (auto simp: takeWhile_eq_all_conv)
  from e show "dropWhile (\<lambda>x. x \<noteq> c) (rev e) = []" by (auto simp: dropWhile_eq_Nil_conv)
qed

lemma split_name_append:
  assumes "CHR ''/'' \<notin> set n" "dir = [] \<or> last dir = CHR ''/''"
  shows "split_name (dir @ n) = (dir, n)"
proof (cases dir rule: rev_cases)
  case Nil
  with assms(1) show ?thesis by (simp add: split_name_def)
next
  case (snoc d c)
  with assms show ?thesis by (simp add: split_name_def)
qed

lemma split_name_parts:
  assumes "split_name p = (dir, n)"
  shows "p = dir @ n" "CHR ''/'' \<notin> set n" "dir = [] \<or> last dir = CHR ''/''"
proof -
  let ?t = "takeWhile (\<lambda>c. c \<noteq> CHR ''/'') (rev p)" and ?d = "dropWhile (\<lambda>c. c \<noteq> CHR ''/'') (rev p)"
  have d: "dir = rev ?d" and n: "n = rev ?t" using assms by (simp_all add: split_name_def)
  have "rev (?t @ ?d) = p" by (simp only: takeWhile_dropWhile_id rev_rev_ident)
  then show "p = dir @ n" by (simp only: d n rev_append)
  show "CHR ''/'' \<notin> set n" using n by (auto dest: set_takeWhileD)
  have "?d = [] \<or> hd ?d = CHR ''/''" using hd_dropWhile[of "\<lambda>c. c \<noteq> CHR ''/''" "rev p"] by blast
  then show "dir = [] \<or> last dir = CHR ''/''" by (auto simp: d last_rev)
qed

lemma split_ext_append:
  assumes "CHR ''.'' \<notin> set e" "stem \<noteq> []"
  shows "split_ext (stem @ ''.'' @ e) = (stem, Some e)"
  using assms by (simp add: split_ext_def Let_def)

lemma stem_parts:
  assumes "n \<noteq> []"
  shows "fst (split_ext n) \<noteq> []" "set (fst (split_ext n)) \<subseteq> set n"
proof -
  let ?b = "dropWhile (\<lambda>c. c \<noteq> CHR ''.'') (rev n)"
  have tl: "set (tl xs) \<subseteq> set xs" for xs :: string by (cases xs) auto
  have "set (tl ?b) \<subseteq> set ?b" by (rule tl)
  also have "\<dots> \<subseteq> set n" by (auto dest: set_dropWhileD)
  finally show "set (fst (split_ext n)) \<subseteq> set n" by (simp add: split_ext_def Let_def)
  from assms show "fst (split_ext n) \<noteq> []" by (simp add: split_ext_def Let_def)
qed

text \<open>An extension an archive may have.\<close>

definition plain_ext :: "string \<Rightarrow> bool" where
  "plain_ext e \<longleftrightarrow> e \<noteq> [] \<and> CHR ''.'' \<notin> set e \<and> CHR ''/'' \<notin> set e"

lemma named_path:
  assumes "dir = [] \<or> last dir = CHR ''/''" "stem \<noteq> []" "CHR ''/'' \<notin> set stem" "plain_ext e"
  shows "strip_tail (dir @ stem @ ''.'' @ e) = dir @ stem @ ''.'' @ e"
    "path_file_name (dir @ stem @ ''.'' @ e) = Some (stem @ ''.'' @ e)"
    "path_extension (dir @ stem @ ''.'' @ e) = Some e"
    "with_extension (dir @ stem @ ''.'' @ e) e' = dir @ stem @ ''.'' @ e'"
proof -
  obtain s c where e: "e = s @ [c]" using assms(4) by (cases e rule: rev_cases) (auto simp: plain_ext_def)
  then have c: "c \<noteq> CHR ''/''" "c \<noteq> CHR ''.''" using assms(4) by (auto simp: plain_ext_def)
  have strip: "strip_tail (dir @ stem @ ''.'' @ e) = dir @ stem @ ''.'' @ e"
    using strip_tail_plain[OF c, of "dir @ stem @ ''.'' @ s"] by (simp add: e)
  have split: "split_name (dir @ stem @ ''.'' @ e) = (dir, stem @ ''.'' @ e)"
    using assms by (intro split_name_append) (auto simp: plain_ext_def)
  have "stem @ ''.'' @ e \<noteq> []" "stem @ ''.'' @ e \<noteq> ''.''" "stem @ ''.'' @ e \<noteq> ''..''"
    using assms(2,4) by (cases stem; cases e; auto simp: plain_ext_def)+
  then show name: "path_file_name (dir @ stem @ ''.'' @ e) = Some (stem @ ''.'' @ e)"
    unfolding path_file_name_def strip split by (simp add: Let_def)
  show "strip_tail (dir @ stem @ ''.'' @ e) = dir @ stem @ ''.'' @ e" by (rule strip)
  show "path_extension (dir @ stem @ ''.'' @ e) = Some e"
    using name split_ext_append[of e stem] assms(2,4) by (simp add: path_extension_def plain_ext_def)
  show "with_extension (dir @ stem @ ''.'' @ e) e' = dir @ stem @ ''.'' @ e'"
    using name strip split split_ext_append[of e stem] assms(2,4) by (simp add: with_extension_def plain_ext_def)
qed

lemma extension_with_extension:
  assumes "path_file_name p = Some n" "plain_ext e"
  shows "path_extension (with_extension p e) = Some e"
proof -
  obtain dir n' where s: "split_name (strip_tail p) = (dir, n')" by force
  with assms(1) have n: "n' = n" "n \<noteq> []" by (auto simp: path_file_name_def Let_def split: if_splits)
  have "with_extension p e = dir @ fst (split_ext n) @ ''.'' @ e" using assms(1) s by (simp add: with_extension_def)
  moreover have "CHR ''/'' \<notin> set (fst (split_ext n))"
    using stem_parts(2)[OF n(2)] split_name_parts(2)[OF s] n(1) by auto
  ultimately show ?thesis
    using named_path(3)[OF split_name_parts(3)[OF s] stem_parts(1)[OF n(2)] _ assms(2)] by simp
qed

lemma plain_exts: "plain_ext GZIP_EXT" "plain_ext ZSTD_EXT"
  by (simp_all add: plain_ext_def GZIP_EXT_def ZSTD_EXT_def)

section \<open>Compressing loses nothing\<close>

text \<open>
  What a file system and the codecs promise on a set of paths that name different files: a new file is
  only made where there is none; encoding and removing change no other file; a successful encoding
  decodes to what was read.
\<close>

definition log_fs_ok ::
  "'f writer_lib \<Rightarrow> (string \<Rightarrow> 'f \<Rightarrow> string option) \<Rightarrow> (codec \<Rightarrow> string \<Rightarrow> string option) \<Rightarrow> string set \<Rightarrow> bool" where
  "log_fs_ok lib content decode D \<longleftrightarrow>
     (\<forall>p \<in> D. \<forall>f f'. lf_create_new lib p f = Inr f' \<longrightarrow>
        content p f = None \<and> (\<forall>q \<in> D. q \<noteq> p \<longrightarrow> content q f' = content q f)) \<and>
     (\<forall>p \<in> D. \<forall>q \<in> D. \<forall>codec level f r f'. lf_encode lib codec level p q f = (r, f') \<longrightarrow>
        (\<forall>x \<in> D. x \<noteq> q \<longrightarrow> content x f' = content x f) \<and>
        (p \<noteq> q \<longrightarrow> is_ok r \<longrightarrow> (\<exists>c a. content p f = Some c \<and> content q f' = Some a \<and> decode codec a = Some c))) \<and>
     (\<forall>p \<in> D. \<forall>q \<in> D. \<forall>f. q \<noteq> p \<longrightarrow> content q (lf_remove lib p f) = content q f)"

definition codec_ext :: "codec \<Rightarrow> string" where
  "codec_ext c = (case c of Gzip \<Rightarrow> GZIP_EXT | Zstd \<Rightarrow> ZSTD_EXT)"

definition is_archive :: "string \<Rightarrow> bool" where
  "is_archive p \<longleftrightarrow> unwrap_or [] (path_extension p) \<in> {GZIP_EXT, ZSTD_EXT}"

definition recoverable ::
  "(string \<Rightarrow> 'f \<Rightarrow> string option) \<Rightarrow> (codec \<Rightarrow> string \<Rightarrow> string option) \<Rightarrow> string \<Rightarrow> 'f \<Rightarrow> string \<Rightarrow> bool" where
  "recoverable content decode p f c \<longleftrightarrow> content p f = Some c \<or>
     (\<exists>codec a. content (with_extension p (codec_ext codec)) f = Some a \<and> decode codec a = Some c)"

definition log_kept ::
  "(string \<Rightarrow> 'f \<Rightarrow> string option) \<Rightarrow> (codec \<Rightarrow> string \<Rightarrow> string option) \<Rightarrow> string set \<Rightarrow> 'f \<Rightarrow> 'f \<Rightarrow> bool" where
  "log_kept content decode D f0 f \<longleftrightarrow>
     (\<forall>p \<in> D. \<forall>c. content p f0 = Some c \<longrightarrow>
        (if is_archive p then content p f = Some c else recoverable content decode p f c))"

definition closed_paths :: "string set \<Rightarrow> bool" where
  "closed_paths D \<longleftrightarrow> (\<forall>p \<in> D. \<forall>codec. with_extension p (codec_ext codec) \<in> D)"

lemma archive_target: "path_file_name p = Some n \<Longrightarrow> is_archive (with_extension p (codec_ext codec))"
  using extension_with_extension[OF _ plain_exts(1), of p n] extension_with_extension[OF _ plain_exts(2), of p n]
  by (cases codec) (simp_all add: is_archive_def codec_ext_def)

lemma compress_into_effect:
  assumes "log_fs_ok lib content decode D" "e \<in> D" "t \<in> D" "compress_into lib codec level e t f = (r, f')"
  shows "\<forall>x \<in> D. content x f \<noteq> None \<longrightarrow> content x f' = content x f"
    "is_ok r \<Longrightarrow> content t f = None"
    "is_ok r \<Longrightarrow> e \<noteq> t \<Longrightarrow> \<exists>c a. content e f = Some c \<and> content t f' = Some a \<and> decode codec a = Some c"
proof -
  note laws = assms(1)[unfolded log_fs_ok_def]
  have new: "content t f = None \<and> (\<forall>q \<in> D. q \<noteq> t \<longrightarrow> content q f1 = content q f)" if "lf_create_new lib t f = Inr f1" for f1
    using laws assms(3) that by blast
  have enc: "(\<forall>x \<in> D. x \<noteq> t \<longrightarrow> content x f2 = content x f1) \<and>
      (e \<noteq> t \<longrightarrow> is_ok q \<longrightarrow> (\<exists>c a. content e f1 = Some c \<and> content t f2 = Some a \<and> decode codec a = Some c))"
    if "lf_encode lib codec level e t f1 = (q, f2)" for f1 q f2
    using laws assms(2,3) that by blast
  show "\<forall>x \<in> D. content x f \<noteq> None \<longrightarrow> content x f' = content x f"
  proof (cases "f' = f")
    case False
    with assms(4) obtain f1 q where n: "lf_create_new lib t f = Inr f1" "lf_encode lib codec level e t f1 = (q, f')"
      by (auto simp: compress_into_def split: sum.splits prod.splits)
    from enc[OF n(2)] new[OF n(1)] show ?thesis by auto
  qed simp
  show "is_ok r \<Longrightarrow> content t f = None"
    using assms(4) by (auto simp: compress_into_def split: sum.splits prod.splits dest!: new)
  show "\<exists>c a. content e f = Some c \<and> content t f' = Some a \<and> decode codec a = Some c" if "is_ok r" "e \<noteq> t"
  proof -
    from assms(4) that(1) obtain f1 n where n: "lf_create_new lib t f = Inr f1" "lf_encode lib codec level e t f1 = (Inr n, f')"
      by (auto simp: compress_into_def split: sum.splits prod.splits)
    from enc[OF n(2)] that(2) new[OF n(1)] assms(2) show ?thesis by auto
  qed
qed

text \<open>Both compressors write to the archive of their codec.\<close>

lemma compress_forms:
  "gzip_compress lib p level = compress_into lib Gzip (if level = 0 then 9 else level) p (with_extension p (codec_ext Gzip))"
  "zstd_compress lib p level = compress_into lib Zstd (if level = 0 then 9 else level) p (with_extension p (codec_ext Zstd))"
  by (simp_all add: gzip_compress_def zstd_compress_def codec_ext_def DEFAULT_COMPRESSION_LEVEL_def)

lemma compress_entry_cases:
  obtains "compress_entry lib params b e f = f"
  | codec level r f' where "\<not> is_archive e"
      "compress_into lib codec level e (with_extension e (codec_ext codec)) f = (r, f')"
      "compress_entry lib params b e f = (if is_ok r then lf_remove lib e f' else f')"
      "codec = (if lc_compression params = ''gzip'' then Gzip else Zstd)"
proof -
  let ?c = "if lc_compression params = ''gzip'' then Gzip else Zstd"
  let ?l = "if lc_level params = 0 then 9 else lc_level params"
  obtain r f' where r: "compress_into lib ?c ?l e (with_extension e (codec_ext ?c)) f = (r, f')" by force
  have "compress_entry lib params b e f = f \<or>
      \<not> is_archive e \<and> compress_entry lib params b e f = (if is_ok r then lf_remove lib e f' else f')"
    using r by (auto simp: compress_entry_def compress_forms is_archive_def split: option.splits sum.splits if_splits)
  with r that show ?thesis by blast
qed

lemma compress_entry_kept:
  assumes ok: "log_fs_ok lib content decode D" "closed_paths D" "e \<in> D" and kept: "log_kept content decode D f0 f"
  shows "log_kept content decode D f0 (compress_entry lib params b e f)"
proof (cases rule: compress_entry_cases[of lib params b e f])
  case 1
  with kept show ?thesis by simp
next
  case (2 codec level r f')
  let ?t = "with_extension e (codec_ext codec)" and ?g = "compress_entry lib params b e f"
  have t: "?t \<in> D" using ok(2,3) by (simp add: closed_paths_def)
  note into = compress_into_effect[OF ok(1,3) t 2(2)]
  have other: "content x ?g = content x f" if "x \<in> D" "content x f \<noteq> None" "x \<noteq> e \<or> \<not> is_ok r" for x
  proof -
    have "content x f' = content x f" using into(1) that(1,2) by blast
    moreover have "content x (lf_remove lib e f') = content x f'" if "x \<noteq> e"
      using ok(1,3) \<open>x \<in> D\<close> that by (auto simp: log_fs_ok_def)
    ultimately show ?thesis using that(3) by (auto simp: 2(3))
  qed
  have mine: "recoverable content decode e ?g c" if "content e f = Some c" for c
  proof (cases "is_ok r")
    case True
    then have "?t \<noteq> e" using into(2) that by auto
    moreover obtain a where a: "content ?t f' = Some a" "decode codec a = Some c"
      using into(3)[OF True not_sym[OF calculation]] \<open>content e f = Some c\<close> by auto
    moreover have "content ?t ?g = content ?t f'" using ok(1,3) t calculation(1) True by (auto simp: 2(3) log_fs_ok_def)
    ultimately show ?thesis by (auto simp: recoverable_def)
  next
    case False
    with other[OF ok(3)] that show ?thesis by (simp add: recoverable_def)
  qed
  have arch: "content x ?g = content x f" if "x \<in> D" "content x f \<noteq> None" "is_archive x" for x
    using other[OF that(1,2)] that(3) 2(1) by blast
  have rec: "recoverable content decode p ?g c" if p: "p \<in> D" and r: "recoverable content decode p f c" for p c
  proof (cases "content p f = Some c")
    case True
    with mine[of c] other[OF p] show ?thesis by (cases "p = e") (auto simp: recoverable_def)
  next
    case False
    with r obtain k a where a: "content (with_extension p (codec_ext k)) f = Some a" "decode k a = Some c"
      by (auto simp: recoverable_def)
    let ?x = "with_extension p (codec_ext k)"
    have x: "?x \<in> D" using ok(2) p by (simp add: closed_paths_def)
    have "\<not> is_ok r" if "?x = e"
    proof -
      have "path_file_name p = None" using that archive_target[of p _ k] 2(1) by fastforce
      then have "?x = p" by (simp add: with_extension_def)
      with that have "?t = e" using \<open>path_file_name p = None\<close> by (simp add: with_extension_def)
      with into(2) a(1) that show ?thesis by auto
    qed
    with other[OF x] a show ?thesis by (auto simp: recoverable_def)
  qed
  show ?thesis
    using kept arch rec unfolding log_kept_def by (metis option.distinct(1))
qed

lemma log_kept_refl: "log_kept content decode D f f"
  by (simp add: log_kept_def recoverable_def)

lemma compress_entries_kept:
  assumes "log_fs_ok lib content decode D" "closed_paths D" "set es \<subseteq> D" "log_kept content decode D f0 f"
  shows "log_kept content decode D f0 (fold (compress_entry lib params b) es f)"
  using assms(3,4) by (induction es arbitrary: f) (auto intro: compress_entry_kept[OF assms(1,2)])

section \<open>A concrete file system\<close>

definition sample_writer_lib :: "(string, string) hash_map writer_lib" where
  "sample_writer_lib = \<lparr>lf_util = sample_util_lib, lf_url_query = (\<lambda>_. None), lf_url_encode = id, lf_env = sample_env,
     lf_is_dir = (\<lambda>_ _. False), lf_create_dir_all = (\<lambda>_ f. (Inr (), f)),
     lf_open = (\<lambda>p f. if map_of f p = None then Inl ''not found'' else Inr ()),
     lf_create_new = (\<lambda>p f. if map_of f p = None then Inr (map_insert p [] f) else Inl ''file exists''),
     lf_encode = (\<lambda>codec _ p q f. case map_of f p of None \<Rightarrow> (Inl ''not found'', f)
        | Some c \<Rightarrow> (Inr (length c), map_insert q ((if codec = Gzip then CHR ''g'' else CHR ''z'') # c) f)),
     lf_size = (\<lambda>p f. map_option length (map_of f p)), lf_remove = map_remove, lf_walk = (\<lambda>_ f. keys_of f),
     lf_accessed = (\<lambda>_ _. Some 0), lf_local_hour = 0, lf_local_offset = 3600, lf_debug = False, lf_facility = (\<lambda>_. 8),
     lf_syslog_unix = (\<lambda>_. Inl ''no syslog''), lf_syslog_send = (\<lambda>_ _ f. (Inl ''closed'', f))\<rparr>"

definition sample_content :: "string \<Rightarrow> (string, string) hash_map \<Rightarrow> string option" where
  "sample_content p f = map_of f p"

definition sample_log_decode :: "codec \<Rightarrow> string \<Rightarrow> string option" where
  "sample_log_decode codec a = (case a of [] \<Rightarrow> None
     | c # r \<Rightarrow> if c = (if codec = Gzip then CHR ''g'' else CHR ''z'') then Some r else None)"

lemma sample_log_fs: "log_fs_ok sample_writer_lib sample_content sample_log_decode D" "closed_paths UNIV"
  by (auto simp: log_fs_ok_def closed_paths_def sample_writer_lib_def sample_content_def sample_log_decode_def map_of_map_insert
      map_of_map_remove split: option.splits if_splits)

section \<open>Properties\<close>

text \<open>
  C13: Compressing old logs loses nothing. Whatever the state of the directory and whatever fails on
  the way, every file that was there still has its content, or its content can be decoded from the
  archive beside it; archives that were there are unchanged.
\<close>

theorem compression_loses_no_log:
  assumes "log_fs_ok lib content decode D" "closed_paths D" "set (lf_walk lib (lc_path params) f) \<subseteq> D"
    and "do_compress lib now count params f = (r, f')" "p \<in> D" "content p f = Some c"
  shows "content p f' = Some c \<or>
    \<not> is_archive p \<and> (\<exists>codec a. content (with_extension p (codec_ext codec)) f' = Some a \<and> decode codec a = Some c)"
proof -
  have "log_kept content decode D f f'"
    using assms(4) compress_entries_kept[OF assms(1-3) log_kept_refl]
    by (auto simp: do_compress_def Let_def log_kept_refl split: if_splits)
  with assms(5,6) show ?thesis by (auto simp: log_kept_def recoverable_def split: if_splits)
qed

definition old_log :: "(string, string) hash_map" where
  "old_log = [(''/l/a.2024-01-01'', ''first''), (''/l/a.2024-01-02'', ''second'')]"

definition gzip_params :: log_compress_params where
  "gzip_params = \<lparr>lc_compression = ''gzip'', lc_path = ''/l'', lc_level = 0, lc_days_ago = 0, lc_time_point_hour = 0\<rparr>"

theorem compression_loses_no_log_witness:
  "sample_content ''/l/a.2024-01-01'' (snd (do_compress sample_writer_lib 1000000 60 gzip_params old_log)) = Some ''first'' \<or>
   \<not> is_archive ''/l/a.2024-01-01'' \<and> (\<exists>codec a. sample_content (with_extension ''/l/a.2024-01-01'' (codec_ext codec))
       (snd (do_compress sample_writer_lib 1000000 60 gzip_params old_log)) = Some a \<and> sample_log_decode codec a = Some ''first'')"
proof -
  obtain r f' where d: "do_compress sample_writer_lib 1000000 60 gzip_params old_log = (r, f')" by force
  have "sample_content ''/l/a.2024-01-01'' old_log = Some ''first''" by (simp add: sample_content_def old_log_def)
  from compression_loses_no_log[where lib = sample_writer_lib and content = sample_content and decode = sample_log_decode,
      OF sample_log_fs(1) sample_log_fs(2) subset_UNIV d UNIV_I this] d show ?thesis by simp
qed

text \<open>The name of the file a rolling appender writes for a day, an hour or a minute.\<close>

definition rolled :: "string \<Rightarrow> string \<Rightarrow> string \<Rightarrow> string" where
  "rolled dir name date = dir @ name @ ''.'' @ date"

text \<open>
  Of the rolled files of a log only one is ever compressed. The archive's name replaces the date, so all days
  share one archive; once it is there the file of any other day is left as it is.
\<close>

theorem rolled_log_never_compressed:
  assumes "log_fs_ok lib content decode D" "dir @ name @ ''.'' @ codec_ext codec \<in> D"
    and "dir = [] \<or> last dir = CHR ''/''" "name \<noteq> []" "CHR ''/'' \<notin> set name" "plain_ext date"
    and "codec = (if lc_compression params = ''gzip'' then Gzip else Zstd)"
    and "content (dir @ name @ ''.'' @ codec_ext codec) f = Some archive"
  shows "with_extension (rolled dir name date) (codec_ext codec) = dir @ name @ ''.'' @ codec_ext codec \<and>
    compress_entry lib params before (rolled dir name date) f = f"
proof -
  have t: "with_extension (rolled dir name date) (codec_ext codec) = dir @ name @ ''.'' @ codec_ext codec"
    unfolding rolled_def by (rule named_path(4)[OF assms(3-6)])
  have "\<not> is_ok (lf_create_new lib (dir @ name @ ''.'' @ codec_ext codec) f)"
    using assms(1,2,8) by (auto simp: log_fs_ok_def is_ok_iff)
  then have "\<exists>e. compress_into lib codec level (rolled dir name date) (dir @ name @ ''.'' @ codec_ext codec) f = (Inl e, f)" for level
    by (auto simp: compress_into_def is_ok_iff split: sum.splits)
  then have "\<not> is_ok r \<and> f' = f" if "compress_into lib codec level (rolled dir name date)
      (with_extension (rolled dir name date) (codec_ext codec)) f = (r, f')" for level r f'
    using that unfolding t by (metis is_ok_simps(1) prod.inject)
  then have "compress_entry lib params before (rolled dir name date) f = f"
    by (cases rule: compress_entry_cases[of lib params before "rolled dir name date" f]) (use assms(7) in auto)
  with t show ?thesis by simp
qed

theorem rolled_log_never_compressed_witness:
  "compress_entry sample_writer_lib gzip_params 0 (rolled ''/l/'' ''a.log'' ''2024-01-02'')
     [(''/l/a.log.gz'', ''gfirst''), (''/l/a.log.2024-01-02'', ''second'')] =
   [(''/l/a.log.gz'', ''gfirst''), (''/l/a.log.2024-01-02'', ''second'')]"
proof -
  have "plain_ext ''2024-01-02''" by (simp add: plain_ext_def)
  moreover have "sample_content (''/l/'' @ ''a.log'' @ ''.'' @ codec_ext Gzip)
      [(''/l/a.log.gz'', ''gfirst''), (''/l/a.log.2024-01-02'', ''second'')] = Some ''gfirst''"
    by (simp add: sample_content_def codec_ext_def GZIP_EXT_def)
  ultimately show ?thesis
    using rolled_log_never_compressed[OF sample_log_fs(1)[of UNIV] UNIV_I, of "''/l/''" "''a.log''" "''2024-01-02''" Gzip gzip_params
        _ "''gfirst''" 0]
    by (simp add: gzip_params_def)
qed

end
