(* ===== verification/Startup.thy ===== *)
theory Startup
  imports Hot_Reload Acme Listener Log_Writer
begin

text \<open>
  \<open>src/main.rs\<close>: the arguments with their environment variables, loading and validating the
  configuration, building the running objects, choosing the servers to listen and the background
  services. The state \<open>startup\<close> is the globals that are set once (storage, admin address, webhook sender,
  restart command), the process and the services added to the pingora server. The command line
  parser is a parameter; the services behind the optional features (Sentry, OpenTelemetry, Pyroscope)
  are left out.
\<close>

section \<open>Arguments\<close>

record args =
  arg_conf :: string
  arg_daemon :: bool
  arg_upgrade :: bool
  arg_test :: bool
  arg_log :: "string option"
  arg_admin :: "string option"
  arg_cp :: bool
  arg_autorestart :: bool
  arg_autoreload :: bool
  arg_sync :: "string option"
  arg_template :: bool

definition default_args :: args where
  "default_args = \<lparr>arg_conf = [], arg_daemon = False, arg_upgrade = False, arg_test = False, arg_log = None,
     arg_admin = None, arg_cp = False, arg_autorestart = False, arg_autoreload = False, arg_sync = None,
     arg_template = False\<rparr>"

definition TEMPLATE_CONFIG :: string where
  "TEMPLATE_CONFIG = concat (map (\<lambda>l. ''\<newline>'' @ l)
     [''[basic]'', ''log_level = \"INFO\"'', ''name = \"pingap\"'', ''pid_file = \"/run/pingap.pid\"'', '''',
      ''[locations.httpLocation]'', ''path = \"/\"'', ''upstream = \"httpUpstream\"'', '''',
      ''[servers.httpServer]'', ''access_log = \"combined\"'', ''addr = \"0.0.0.0:80\"'', ''locations = [\"httpLocation\"]'', '''',
      ''[upstreams.httpUpstream]'', ''addrs = [\"127.0.0.1:5000\"]'', ''''])"

text \<open>The server configuration of pingora, as far as it is set.\<close>

record pingora_conf =
  pc_pid_file :: string
  pc_upgrade_sock :: string
  pc_user :: "string option"
  pc_group :: "string option"
  pc_daemon :: bool
  pc_grace_period_seconds :: "nat option"
  pc_graceful_shutdown_timeout_seconds :: "nat option"
  pc_upstream_keepalive_pool_size :: nat
  pc_threads :: nat
  pc_work_stealing :: bool
  pc_listener_tasks_per_fd :: nat

record ('tl, 'mf, 'ul, 'lf) start_env =
  se_var :: "string \<Rightarrow> string option"
  se_args :: "string list"
  se_parse :: "string list \<Rightarrow> string + args"
  se_util :: util_lib
  se_exe :: "string option"
  se_log :: "'lf writer_lib"
  se_log_files :: 'lf
  se_pingora :: pingora_conf
  se_writable :: "string \<Rightarrow> bool"
  se_new_server :: "(bool \<times> bool) option \<Rightarrow> string + unit"
  se_tls :: "'tl tls_lib"
  se_cpus :: nat
  se_parse_url :: "string \<Rightarrow> string + url"
  se_query_map :: "string \<Rightarrow> (string, string) hash_map"
  se_admin_plugin :: string
  se_error_template :: string
  se_prom :: "('mf, 'ul) prom_lib"
  se_sys :: sys_env
  se_cache :: "cache_backend option"

definition get_from_env :: "('tl, 'mf, 'ul, 'lf) start_env \<Rightarrow> string \<Rightarrow> string" where
  "get_from_env env key = unwrap_or [] (se_var env (ascii_upper (''PINGAP_'' @ key)))"

definition is_conf_argument :: "string \<Rightarrow> bool" where
  "is_conf_argument arg =
     list_ex (\<lambda>item. arg = item \<or> starts_with arg (item @ ''='')) [''-c'', ''--conf'']"

definition env_flag :: "('tl, 'mf, 'ul, 'lf) start_env \<Rightarrow> string \<Rightarrow> bool \<Rightarrow> bool" where
  "env_flag env key v = (v \<or> get_from_env env key \<noteq> [])"

definition env_option :: "('tl, 'mf, 'ul, 'lf) start_env \<Rightarrow> string \<Rightarrow> string option \<Rightarrow> string option" where
  "env_option env key v =
     (case v of Some _ \<Rightarrow> v | None \<Rightarrow> if get_from_env env key = [] then None else Some (get_from_env env key))"

definition env_admin :: "('tl, 'mf, 'ul, 'lf) start_env \<Rightarrow> string option \<Rightarrow> string option" where
  "env_admin env v =
     (let addr = get_from_env env ''admin_addr'' in
      if v \<noteq> None \<or> addr = [] then v
      else
        let user = get_from_env env ''admin_user''; password = get_from_env env ''admin_password'' in
        Some (if user \<noteq> [] \<and> password \<noteq> [] then base64_encode (se_util env) (user @ '':'' @ password) @ ''@'' @ addr else addr))"

definition parse_arguments :: "('tl, 'mf, 'ul, 'lf) start_env \<Rightarrow> string + args" where
  "parse_arguments env =
     (let conf = get_from_env env ''conf'';
          arr = (if \<not> list_ex is_conf_argument (se_args env) \<and> conf \<noteq> [] then se_args env @ [''-c='' @ conf] else se_args env)
      in if ''--template'' \<in> set arr then Inr (default_args\<lparr>arg_template := True\<rparr>)
         else try_then (se_parse env arr) (\<lambda>a.
           Inr (a\<lparr>arg_daemon := env_flag env ''daemon'' (arg_daemon a), arg_upgrade := env_flag env ''upgrade'' (arg_upgrade a),
                  arg_log := env_option env ''log'' (arg_log a), arg_admin := env_admin env (arg_admin a),
                  arg_cp := env_flag env ''cp'' (arg_cp a), arg_autorestart := env_flag env ''autorestart'' (arg_autorestart a),
                  arg_autoreload := env_flag env ''autoreload'' (arg_autoreload a)\<rparr>)))"

section \<open>Configuration of the pingora server\<close>

definition new_server_conf :: "('tl, 'mf, 'ul, 'lf) start_env \<Rightarrow> args \<Rightarrow> pingap_conf \<Rightarrow> pingora_conf" where
  "new_server_conf env a conf =
     (let b = basic conf; d = se_pingora env in
      d\<lparr>pc_pid_file := get_pid_file (se_writable env) b,
        pc_upgrade_sock := unwrap_or ''/tmp/pingap_upgrade.sock'' (bc_upgrade_sock b),
        pc_user := bc_user b, pc_group := bc_group b, pc_daemon := arg_daemon a,
        pc_grace_period_seconds := (case bc_grace_period b of Some v \<Rightarrow> Some (as_secs v) | None \<Rightarrow> pc_grace_period_seconds d),
        pc_graceful_shutdown_timeout_seconds :=
          (case bc_graceful_shutdown_timeout b of Some v \<Rightarrow> Some (as_secs v) | None \<Rightarrow> pc_graceful_shutdown_timeout_seconds d),
        pc_upstream_keepalive_pool_size := unwrap_or (pc_upstream_keepalive_pool_size d) (bc_upstream_keepalive_pool_size b),
        pc_threads := (case bc_threads b of Some n \<Rightarrow> max n 1 | None \<Rightarrow> pc_threads d),
        pc_work_stealing := unwrap_or (pc_work_stealing d) (bc_work_stealing b),
        pc_listener_tasks_per_fd := unwrap_or (pc_listener_tasks_per_fd d) (bc_listener_tasks_per_fd b)\<rparr>)"

text \<open>The command the process restarts itself with.\<close>

definition restart_command :: "('tl, 'mf, 'ul, 'lf) start_env \<Rightarrow> args \<Rightarrow> restart_process_command option" where
  "restart_command env a =
     (case se_exe env of
        None \<Rightarrow> None
      | Some exec_path \<Rightarrow>
          (let conf_path = (if starts_with (arg_conf a) ETCD_PROTOCOL then arg_conf a else resolve_path (se_util env) (arg_conf a))
           in Some \<lparr>rc_exec_path = exec_path, rc_log_level = unwrap_or [] (se_var env ''RUST_LOG''),
                rc_args = [''-c='' @ conf_path, ''-d'', ''-u'']
                  @ (case arg_log a of Some l \<Rightarrow> [''--log='' @ l] | None \<Rightarrow> [])
                  @ (case arg_admin a of Some ad \<Rightarrow> [''--admin='' @ ad] | None \<Rightarrow> [])
                  @ (if arg_autorestart a then [''--autorestart''] else [])\<rparr>))"

section \<open>Servers\<close>

definition parse_admin ::
  "('re, 's) plugin_lib \<Rightarrow> ('tl, 'mf, 'ul, 'lf) start_env \<Rightarrow> string \<Rightarrow> init_error + proxy_server_conf \<times> string \<times> plugin_conf" where
  "parse_admin lib env addr =
     try_then (parse_admin_plugin lib (se_parse_url env) (se_query_map env) (se_admin_plugin env) addr) (\<lambda>(host, name, conf).
     Inr (default_psc\<lparr>psc_name := ''pingap:admin'', psc_admin := True, psc_addr := host\<rparr>, name, conf))"

definition admin_conf :: "('re, 's) plugin_lib \<Rightarrow> ('tl, 'mf, 'ul, 'lf) start_env \<Rightarrow> string option \<Rightarrow> (init_error + string \<times> plugin_conf) option" where
  "admin_conf lib env addr =
     map_option (\<lambda>a. try_then (parse_admin lib env a) (\<lambda>(_, name, conf). Inr (name, conf))) addr"

fun mark_admin :: "proxy_server_conf \<Rightarrow> proxy_server_conf list \<Rightarrow> proxy_server_conf list" where
  "mark_admin ad [] = [ad]"
| "mark_admin ad (c # cs) = (if psc_addr c = psc_addr ad then c\<lparr>psc_admin := True\<rparr> # cs else c # mark_admin ad cs)"

definition add_admin_server ::
  "('re, 's) plugin_lib \<Rightarrow> ('tl, 'mf, 'ul, 'lf) start_env \<Rightarrow> string option \<Rightarrow> proxy_server_conf list \<Rightarrow> string + proxy_server_conf list" where
  "add_admin_server lib env addr confs =
     (case addr of
        None \<Rightarrow> Inr confs
      | Some a \<Rightarrow> try_then (map_err init_error_text (parse_admin lib env a)) (\<lambda>(ad, _). Inr (mark_admin ad confs)))"

definition listens_80 :: "proxy_server_conf \<Rightarrow> bool" where
  "listens_80 c = ends_with (psc_addr c) '':80''"

definition enabled_lets_encrypt :: "(string, certificate_conf) hash_map \<Rightarrow> bool" where
  "enabled_lets_encrypt certs =
     list_ex (\<lambda>(_, c). unwrap_or [] (cc_acme c) \<noteq> [] \<and> unwrap_or [] (cc_domains c) \<noteq> []) certs"

definition add_challenge_server :: "(string, certificate_conf) hash_map \<Rightarrow> proxy_server_conf list \<Rightarrow> proxy_server_conf list" where
  "add_challenge_server certs confs =
     (if \<not> list_ex listens_80 confs \<and> enabled_lets_encrypt certs
      then confs @ [default_psc\<lparr>psc_name := ''lets encrypt'', psc_addr := ''0.0.0.0:80''\<rparr>] else confs)"

text \<open>\<open>Server::new\<close> with its metrics, and \<open>run\<close>: a server listens or says why it cannot.\<close>

definition make_server ::
  "('tl, 'mf, 'ul, 'lf) start_env \<Rightarrow> proxy_server_conf \<Rightarrow> string + server \<times> prometheus option" where
  "make_server env c =
     try_then (map_err proxy_error_text (server_prometheus (se_prom env) c)) (\<lambda>prom. Inr (new_server c, prom))"

definition listen :: "('tl, 'mf, 'ul, 'lf) start_env \<Rightarrow> server \<Rightarrow> string + 'tl lb_service" where
  "listen env srv = map_err proxy_error_text (server_run (se_tls env) (se_cpus env) srv)"

text \<open>The servers that listen and the push services they add; the first that cannot listen ends the start.\<close>

fun start_servers ::
  "('tl, 'mf, 'ul, 'lf) start_env \<Rightarrow> bool \<Rightarrow> proxy_server_conf list \<Rightarrow> string + server list \<times> string list" where
  "start_servers env acme [] = Inr ([], [])"
| "start_servers env acme (c # cs) =
     try_then (make_server env c) (\<lambda>(srv, prom).
     let ps = (if acme \<and> listens_80 c then enable_lets_encrypt srv else srv) in
      try_then (listen env ps) (\<lambda>_.
      try_then (start_servers env acme cs) (\<lambda>(servers, tasks).
      Inr (ps # servers, (case get_prometheus_push_service (se_prom env) (se_sys env) ps prom of
          Some (name, _) \<Rightarrow> [name] | None \<Rightarrow> []) @ tasks))))"

text \<open>The logger, with the name of the service that compresses its files.\<close>

definition start_logger :: "('tl, 'mf, 'ul, 'lf) start_env \<Rightarrow> logger_params \<Rightarrow> string + string option" where
  "start_logger env params =
     try_then (map_err log_error_text (fst (logger_try_init (se_log env) params (se_log_files env)))) (\<lambda>(_, task).
     Inr (map_option fst task))"

section \<open>The start\<close>

datatype service =
  LbService server
| ObserverService config_observer
| AutoRestartService "duration \<times> auto_restart"
| SimpleTaskService duration "string list"
| HealthCheckService health_check_task

datatype outcome = PrintedTemplate string | AdminNode | Synced | Validated | Running

record ('re, 'b, 's, 'x, 'k, 'f) startup =
  su_storage :: "config_storage option"
  su_admin_addr :: "string option"
  su_sender :: "webhook_sender option"
  su_command :: "restart_process_command option"
  su_process :: "('re, 'b, 's, 'x, 'k, 'f) process"
  su_services :: "service list"
  su_pingora :: "pingora_conf option"

type_synonym ('re, 'b, 's, 'x, 'k, 'f, 'a) start_op = "(('re, 'b, 's, 'x, 'k, 'f) startup, string, 'a) action"

definition upd_process ::
  "(('re, 'b, 's, 'x, 'k, 'f) process \<Rightarrow> ('re, 'b, 's, 'x, 'k, 'f) process)
     \<Rightarrow> ('re, 'b, 's, 'x, 'k, 'f) startup \<Rightarrow> ('re, 'b, 's, 'x, 'k, 'f) startup" where
  "upd_process g su = su\<lparr>su_process := g (su_process su)\<rparr>"

definition init_storage :: "('re, 'b, 's, 'x, 'k, 'f) process_lib \<Rightarrow> string \<Rightarrow> ('re, 'b, 's, 'x, 'k, 'f, unit) start_op" where
  "init_storage lib path su =
     (let (r, cell) = try_init_config_storage (pr_store lib) path (su_storage su)
      in (try_then (map_err config_error_text r) (\<lambda>_. Inr ()), su\<lparr>su_storage := cell\<rparr>))"

definition on_files :: "('f, 'a) store_op \<Rightarrow> ('re, 'b, 's, 'x, 'k, 'f, 'a) start_op" where
  "on_files m su = (let (r, f) = m (ps_store (su_process su)) in (map_err config_error_text r, upd_process (\<lambda>p. p\<lparr>ps_store := f\<rparr>) su))"

definition pure_start :: "string + 'a \<Rightarrow> ('re, 'b, 's, 'x, 'k, 'f, 'a) start_op" where
  "pure_start r su = (r, su)"

definition init_plugins ::
  "('re, 'b, 's, 'x, 'k, 'f) process_lib \<Rightarrow> ('tl, 'mf, 'ul, 'lf) start_env \<Rightarrow> (string, plugin_conf) hash_map \<Rightarrow> ('re, 'b, 's, 'x, 'k, 'f, unit) start_op" where
  "init_plugins lib env confs su =
     (let (_, _, ps) = try_init_plugins (pr_plugin lib) (pr_make lib) (admin_conf (pr_plugin lib) env (su_admin_addr su)) confs
            (ps_plugins (su_process su))
      in (Inr (), upd_process (\<lambda>p. p\<lparr>ps_plugins := ps\<rparr>) su))"

definition run_admin_node ::
  "('re, 'b, 's, 'x, 'k, 'f) process_lib \<Rightarrow> ('tl, 'mf, 'ul, 'lf) start_env \<Rightarrow> args \<Rightarrow> ('re, 'b, 's, 'x, 'k, 'f, outcome) start_op" where
  "run_admin_node lib env a =
     act_bind (pure_start (start_logger env \<lparr>lg_capacity = 0, lg_log = [], lg_level = [], lg_json = False\<rparr>)) (\<lambda>_.
     act_bind (pure_start (map_err init_error_text (parse_admin (pr_plugin lib) env (unwrap_or [] (arg_admin a))))) (\<lambda>(conf, name, plugin).
     act_bind (init_plugins lib env [(name, plugin)]) (\<lambda>_.
     act_bind (init_storage lib (arg_conf a)) (\<lambda>_.
     act_bind (pure_start (se_new_server env None)) (\<lambda>_.
     act_bind (pure_start (make_server env conf)) (\<lambda>(srv, _).
     act_bind (pure_start (listen env srv)) (\<lambda>_.
     act_bind (act_modify (\<lambda>su. su\<lparr>su_services := su_services su @ [LbService srv]\<rparr>)) (\<lambda>_.
     act_return AdminNode))))))))"

text \<open>Upstreams, locations and the order of the locations of the servers.\<close>

definition build_tables :: "('re, 'b, 's, 'x, 'k, 'f) process_lib \<Rightarrow> pingap_conf \<Rightarrow> ('re, 'b, 's, 'x, 'k, 'f, unit) start_op" where
  "build_tables lib conf =
     act_bind (\<lambda>su. let (r, m) = try_init_upstreams (pr_up lib) (upstreams conf) (ps_upstreams (su_process su))
                  in (map_err upstream_error_text r, upd_process (\<lambda>p. p\<lparr>ps_upstreams := m\<rparr>) su)) (\<lambda>_.
     act_bind (\<lambda>su. let (r, m) = try_init_locations (pr_loc lib) (locations conf) (ps_locations (su_process su))
                  in (map_err location_error_text r, upd_process (\<lambda>p. p\<lparr>ps_locations := m\<rparr>) su)) (\<lambda>_ su.
     let (_, m) = try_init_server_locations (servers conf) (locations conf) (ps_server_locations (su_process su))
     in (Inr (), upd_process (\<lambda>p. p\<lparr>ps_server_locations := m\<rparr>) su)))"

definition reload_service :: "config_storage option \<Rightarrow> duration \<Rightarrow> args \<Rightarrow> service list" where
  "reload_service cell interval a =
     (if arg_autorestart a \<or> arg_autoreload a then
        (let only_hot_reload = (\<not> arg_autorestart a) in
         if support_observer cell then [ObserverService (new_observer_service interval only_hot_reload)]
         else [AutoRestartService (new_auto_restart_service interval only_hot_reload)])
      else [])"

definition simple_task_names :: "('tl, 'mf, 'ul, 'lf) start_env \<Rightarrow> config_storage option \<Rightarrow> string option \<Rightarrow> string list" where
  "simple_task_names env cell compression =
     [''validity_checker'', ''self_signed_certificate_stale'', ''performance_metrics'']
     @ (case new_storage_clear_service (se_cache env) of Some t \<Rightarrow> [t] | None \<Rightarrow> [])
     @ (case compression of Some t \<Rightarrow> [t] | None \<Rightarrow> [])
     @ (if unwrap_or [] (se_var env ''PINGAP_DISABLE_ACME'') = [] \<and> cell \<noteq> None then [''lets_encrypt''] else [])"

text \<open>From the validated configuration to the running server.\<close>

definition start_services ::
  "('re, 'b, 's, 'x, 'k, 'f) process_lib \<Rightarrow> ('tl, 'mf, 'ul, 'lf) start_env \<Rightarrow> args \<Rightarrow> pingap_conf \<Rightarrow> string option \<Rightarrow> ('re, 'b, 's, 'x, 'k, 'f, outcome) start_op" where
  "start_services lib env a conf compression =
     act_bind (act_modify (\<lambda>su. case restart_command env a of None \<Rightarrow> su | Some cmd \<Rightarrow> su\<lparr>su_command := set_once cmd (su_command su)\<rparr>)) (\<lambda>_.
     act_bind (build_tables lib conf) (\<lambda>_.
     act_bind (pure_start (se_new_server env (Some (arg_upgrade a, arg_daemon a)))) (\<lambda>_.
     act_bind (act_modify (\<lambda>su. su\<lparr>su_pingora := Some (new_server_conf env a conf)\<rparr>)) (\<lambda>_.
     act_bind (init_plugins lib env (plugins conf)) (\<lambda>_ su.
     act_bind (pure_start (add_admin_server (pr_plugin lib) env (su_admin_addr su) (parse_from_conf (se_error_template env) conf))) (\<lambda>confs.
     act_bind (act_modify (upd_process (\<lambda>p. p\<lparr>ps_certs := snd (try_update_certificates (pr_cert lib) (certificates conf) (ps_certs p))\<rparr>))) (\<lambda>_.
     act_bind (pure_start (start_servers env (enabled_lets_encrypt (certificates conf)) (add_challenge_server (certificates conf) confs))) (\<lambda>(started, push) su.
       (Inr Running, su\<lparr>su_services := su_services su @ map LbService started
          @ reload_service (su_storage su) (unwrap_or (from_secs 90) (bc_auto_restart_check_interval (basic conf))) a
          @ [SimpleTaskService (from_secs 60) (simple_task_names env (su_storage su) compression @ push),
             HealthCheckService (new_upstream_health_check_task (from_secs 10) (su_sender su \<noteq> None))]\<rparr>)))) su)))))"

text \<open>What follows the loading of the configuration.\<close>

definition run_conf ::
  "('re, 'b, 's, 'x, 'k, 'f) process_lib \<Rightarrow> ('tl, 'mf, 'ul, 'lf) start_env \<Rightarrow> args \<Rightarrow> pingap_conf \<Rightarrow> ('re, 'b, 's, 'x, 'k, 'f, outcome) start_op" where
  "run_conf lib env a conf =
     act_bind (pure_start (start_logger env \<lparr>lg_capacity = unwrap_or 0 (bc_log_buffered_size (basic conf)), lg_log = unwrap_or [] (arg_log a),
         lg_level = unwrap_or [] (bc_log_level (basic conf)), lg_json = unwrap_or False (bc_log_format_json (basic conf))\<rparr>)) (\<lambda>compression.
     act_bind (act_modify (upd_process (\<lambda>p. p\<lparr>ps_config := conf\<rparr>))) (\<lambda>_.
     act_bind (pure_start (map_err config_error_text (validate_conf (sl_conf (pr_store lib)) conf))) (\<lambda>_.
     case arg_sync a of
       Some path \<Rightarrow> act_bind (on_files (sync_to_path (pr_store lib) conf path)) (\<lambda>_. act_return Synced)
     | None \<Rightarrow>
         act_bind (act_modify (\<lambda>su. su\<lparr>su_sender := init_webhook_notification_sender
             \<lparr>ws_url = unwrap_or [] (bc_webhook (basic conf)), ws_category = unwrap_or [] (bc_webhook_type (basic conf)),
              ws_notifications = unwrap_or [] (bc_webhook_notifications (basic conf))\<rparr> (su_sender su)\<rparr>)) (\<lambda>_.
         if arg_test a then act_return Validated else start_services lib env a conf compression))))"

definition run :: "('re, 'b, 's, 'x, 'k, 'f) process_lib \<Rightarrow> ('tl, 'mf, 'ul, 'lf) start_env \<Rightarrow> ('re, 'b, 's, 'x, 'k, 'f, outcome) start_op" where
  "run lib env =
     act_bind (pure_start (parse_arguments env)) (\<lambda>a.
     if arg_template a then act_return (PrintedTemplate TEMPLATE_CONFIG)
     else
       act_bind (act_modify (\<lambda>su. case arg_admin a of None \<Rightarrow> su | Some ad \<Rightarrow> su\<lparr>su_admin_addr := set_once ad (su_admin_addr su)\<rparr>)) (\<lambda>_.
       if arg_cp a \<and> arg_admin a \<noteq> None then run_admin_node lib env a
       else
         act_bind (init_storage lib (arg_conf a)) (\<lambda>_.
         act_bind (\<lambda>su. on_files (load_config (pr_store lib) (su_storage su) \<lparr>lo_replace_include = True, lo_admin = (arg_admin a \<noteq> None)\<rparr>) su)
           (run_conf lib env a))))"

end
