(* ===== verification/Startup_Sync.thy ===== *)
theory Startup_Sync
  imports Startup
begin

text \<open>
  What holds of a process when \<open>run\<close> of \<open>src/main.rs\<close> has started it: it runs the valid configuration it
  loaded, its running objects are those of that configuration, which is what every hot reload
  starts from, and the challenges of Let's Encrypt have a server.
\<close>

section \<open>Phases of the start\<close>

lemma start_op_ok:
  "pure_start r su = (Inr v, su') \<longleftrightarrow> r = Inr v \<and> su' = su"
  "init_storage lib path su = (Inr (), su') \<Longrightarrow> su_process su' = su_process su"
  "on_files m su = (Inr v, su') \<Longrightarrow> su_storage su' = su_storage su"
  by (auto simp: pure_start_def init_storage_def on_files_def upd_process_def Let_def split: prod.splits)

lemma run_conf_running:
  assumes "run_conf lib env a conf su = (Inr Running, su')"
  shows "validate_conf (sl_conf (pr_store lib)) conf = Inr () \<and>
    (\<exists>compression su1. start_services lib env a conf compression su1 = (Inr Running, su') \<and> ps_config (su_process su1) = conf)"
proof -
  from assms obtain compression v where v: "map_err config_error_text (validate_conf (sl_conf (pr_store lib)) conf) = Inr v"
    and r: "\<exists>s. start_services lib env a conf compression ((upd_process (\<lambda>p. p\<lparr>ps_config := conf\<rparr>) su)\<lparr>su_sender := s\<rparr>) = (Inr Running, su')"
    unfolding run_conf_def
    by (cases "arg_sync a"; cases "arg_test a") (auto simp: act_bind_ok start_op_ok(1))
  moreover have "ps_config (su_process ((upd_process (\<lambda>p. p\<lparr>ps_config := conf\<rparr>) su)\<lparr>su_sender := s\<rparr>)) = conf" for s
    by (simp add: upd_process_def)
  moreover from v have "validate_conf (sl_conf (pr_store lib)) conf = Inr ()" by (auto simp: map_err_def split: sum.splits)
  ultimately show ?thesis by blast
qed

lemma run_running:
  assumes "run lib env su = (Inr Running, su')"
  shows "\<exists>a conf su1. parse_arguments env = Inr a \<and> run_conf lib env a conf su1 = (Inr Running, su')"
proof -
  have no_admin: "run_admin_node lib env a x \<noteq> (Inr Running, su')" for a x
    by (auto simp: run_admin_node_def act_bind_ok split_beta)
  with assms show ?thesis
    unfolding run_def act_bind_ok start_op_ok by (auto simp: act_bind_ok split: if_splits)
qed

lemma try_init_upstreams_refines:
  assumes "try_init_upstreams lib confs old = (Inr u, m)" "wf_map confs"
  shows "map_option up_key (map_of m n) = map_option (ul_hash lib) (map_of confs n)"
proof -
  from assms(1) obtain upd where "build_upstreams lib old confs [] [] = Inr (m, upd)"
    by (auto simp: try_init_upstreams_def new_ahash_upstreams_def split: sum.splits)
  from up_keyed.build_refines[OF this assms(2)] show ?thesis .
qed

lemma build_tables_sync:
  assumes "build_tables lib conf su = (Inr (), su')" "wf_conf conf"
  shows "in_sync lib conf (su_process su')"
proof -
  from assms(1) obtain u m upd l o' where
    u: "try_init_upstreams (pr_up lib) (upstreams conf) (ps_upstreams (su_process su)) = (Inr u, m)"
    and l: "try_init_locations (pr_loc lib) (locations conf) (ps_locations (su_process su)) = (Inr upd, l)"
    and s: "su_process su' = (su_process su)\<lparr>ps_upstreams := m, ps_locations := l, ps_server_locations := o'\<rparr>"
    by (auto simp: build_tables_def act_bind_ok upd_process_def map_err_def Let_def split_beta
        split: sum.splits) (metis prod.collapse)+
  show ?thesis
    using try_init_upstreams_refines[OF u] try_init_locations_refines[OF l] assms(2)
    by (simp add: s in_sync_def wf_conf_def)
qed

lemma make_server_ok: "make_server env c = Inr (srv, prom) \<Longrightarrow> srv = new_server c"
  by (auto simp: make_server_def)

lemma start_servers_ok:
  assumes "start_servers env acme confs = Inr (srvs, tasks)"
  shows "srvs = map (\<lambda>c. if acme \<and> listens_80 c then enable_lets_encrypt (new_server c) else new_server c) confs"
  using assms by (induction confs arbitrary: srvs tasks) (auto simp: Let_def dest!: make_server_ok)

definition started :: "('re, 'b, 's, 'x, 'k, 'f) process_lib \<Rightarrow> ('tl, 'mf, 'ul, 'lf) start_env \<Rightarrow> pingap_conf \<Rightarrow> ('re, 'b, 's, 'x, 'k, 'f) startup \<Rightarrow> bool" where
  "started lib env conf su \<longleftrightarrow>
     in_sync lib conf (su_process su) \<and> ps_config (su_process su) = conf \<and>
     ps_certs (su_process su) = fst (parse_certificates (pr_cert lib) (certificates conf)) \<and>
     (\<exists>confs. \<forall>c \<in> set (add_challenge_server (certificates conf) confs).
        LbService (if enabled_lets_encrypt (certificates conf) \<and> listens_80 c then enable_lets_encrypt (new_server c) else new_server c)
          \<in> set (su_services su))"

definition with_command :: "restart_process_command option \<Rightarrow> ('re, 'b, 's, 'x, 'k, 'f) startup \<Rightarrow> ('re, 'b, 's, 'x, 'k, 'f) startup" where
  "with_command cmd su = (case cmd of None \<Rightarrow> su | Some c \<Rightarrow> su\<lparr>su_command := set_once c (su_command su)\<rparr>)"

lemma with_command_process [simp]: "su_process (with_command cmd su) = su_process su"
  by (simp add: with_command_def split: option.split)

lemma start_services_phases:
  assumes "start_services lib env a conf compression su = (Inr Running, su')"
  obtains su1 su2 confs servers tasks post where "build_tables lib conf (with_command (restart_command env a) su) = (Inr (), su1)"
    "init_plugins lib env (plugins conf) (su1\<lparr>su_pingora := Some (new_server_conf env a conf)\<rparr>) = (Inr (), su2)"
    "start_servers env (enabled_lets_encrypt (certificates conf)) (add_challenge_server (certificates conf) confs) = Inr (servers, tasks)"
    "su' = su2\<lparr>su_process := (su_process su2)\<lparr>ps_certs :=
          snd (try_update_certificates (pr_cert lib) (certificates conf) (ps_certs (su_process su2)))\<rparr>,
        su_services := su_services su2 @ map LbService servers @ post\<rparr>"
  using assms unfolding start_services_def act_bind_ok start_op_ok(1) with_command_def
  by (auto simp: act_bind_ok start_op_ok(1) upd_process_def split_beta)

lemma init_plugins_process:
  assumes "init_plugins lib env ps su = (Inr (), su')"
  shows "\<exists>pl. su_process su' = (su_process su)\<lparr>ps_plugins := pl\<rparr>"
  using assms by (auto simp: init_plugins_def upd_process_def Let_def split_beta)

lemma build_tables_config: "ps_config (su_process (snd (build_tables lib conf su))) = ps_config (su_process su)"
  by (auto simp: build_tables_def act_bind_def upd_process_def Let_def map_err_def split: prod.splits sum.splits)

lemma start_services_config:
  assumes "start_services lib env a conf compression su = (Inr Running, su')"
  shows "ps_config (su_process su') = ps_config (su_process su)"
proof -
  from assms obtain su1 su2 confs servers tasks post where b: "build_tables lib conf (with_command (restart_command env a) su) = (Inr (), su1)"
    and i: "init_plugins lib env (plugins conf) (su1\<lparr>su_pingora := Some (new_server_conf env a conf)\<rparr>) = (Inr (), su2)"
    and su': "su' = su2\<lparr>su_process := (su_process su2)\<lparr>ps_certs :=
          snd (try_update_certificates (pr_cert lib) (certificates conf) (ps_certs (su_process su2)))\<rparr>,
        su_services := su_services su2 @ map LbService servers @ post\<rparr>"
    by (rule start_services_phases)
  from init_plugins_process[OF i] build_tables_config[of lib conf "with_command (restart_command env a) su"]
  show ?thesis by (auto simp: b su')
qed

lemma start_services_started:
  assumes "start_services lib env a conf compression su = (Inr Running, su')" "ps_config (su_process su) = conf" "wf_conf conf"
  shows "started lib env conf su'"
proof -
  from assms(1) obtain su1 su2 confs servers tasks post where b: "build_tables lib conf (with_command (restart_command env a) su) = (Inr (), su1)"
    and i: "init_plugins lib env (plugins conf) (su1\<lparr>su_pingora := Some (new_server_conf env a conf)\<rparr>) = (Inr (), su2)"
    and s: "start_servers env (enabled_lets_encrypt (certificates conf)) (add_challenge_server (certificates conf) confs) = Inr (servers, tasks)"
    and su': "su' = su2\<lparr>su_process := (su_process su2)\<lparr>ps_certs :=
          snd (try_update_certificates (pr_cert lib) (certificates conf) (ps_certs (su_process su2)))\<rparr>,
        su_services := su_services su2 @ map LbService servers @ post\<rparr>"
    by (rule start_services_phases)
  from init_plugins_process[OF i] build_tables_sync[OF b assms(3)]
  have "in_sync lib conf (su_process su')" by (auto simp: su' in_sync_def)
  moreover have "ps_certs (su_process su') = fst (parse_certificates (pr_cert lib) (certificates conf))"
    by (simp add: su' try_update_certificates_def Let_def split_beta)
  moreover have "\<forall>c \<in> set (add_challenge_server (certificates conf) confs).
      LbService (if enabled_lets_encrypt (certificates conf) \<and> listens_80 c then enable_lets_encrypt (new_server c) else new_server c)
        \<in> set (su_services su')"
    by (auto simp: su' start_servers_ok[OF s])
  ultimately show ?thesis unfolding started_def using start_services_config[OF assms(1)] assms(2) by blast
qed

section \<open>A concrete start\<close>

text \<open>A configuration file with an upstream, two locations, a server on two ports and an ACME certificate.\<close>

definition acme_cert :: certificate_conf where
  "acme_cert = sample_cert_conf\<lparr>cc_acme := Some ''lets_encrypt'', cc_domains := Some ''a.com'', cc_tls_cert := None, cc_tls_key := None\<rparr>"

definition start_conf :: pingap_conf where
  "start_conf = stored_conf\<lparr>certificates := [(''c'', acme_cert)]\<rparr>"

definition start_config_lib :: config_lib where
  "start_config_lib = stored_config_lib\<lparr>
     cl_toml_config := (\<lambda>_. Inr (sample_toml\<lparr>tc_upstreams := Some [(''u'', TTable [])],
       tc_locations := Some [(''l'', TTable []), (''m'', TTable [])], tc_servers := Some [(''s'', TTable [])],
       tc_certificates := Some [(''c'', TTable [])]\<rparr>)),
     cl_de_certificate := (\<lambda>_. Inr acme_cert)\<rparr>"

definition start_lib :: "(string, nat, sample_state, string, string, (string, string) hash_map) process_lib" where
  "start_lib = sample_process_lib\<lparr>pr_store := sample_store_lib\<lparr>sl_conf := start_config_lib\<rparr>\<rparr>"

definition sample_start_env :: "(string list, metric_desc, string, (string, string) hash_map) start_env" where
  "sample_start_env = \<lparr>se_var = (\<lambda>_. None), se_args = [''pingap'', ''-c=c.toml''], 
     se_parse = (\<lambda>_. Inr (default_args\<lparr>arg_conf := ''c.toml''\<rparr>)), se_util = sample_util_lib, se_exe = Some ''pingap'',
     se_log = sample_writer_lib, se_log_files = [], se_pingora = \<lparr>pc_pid_file = [], pc_upgrade_sock = [], pc_user = None, pc_group = None,
       pc_daemon = False, pc_grace_period_seconds = None, pc_graceful_shutdown_timeout_seconds = None,
       pc_upstream_keepalive_pool_size = 128, pc_threads = 1, pc_work_stealing = True, pc_listener_tasks_per_fd = 1\<rparr>,
     se_writable = (\<lambda>_. True), se_new_server = (\<lambda>_. Inr ()), se_tls = sample_tls_lib, se_cpus = 4, se_parse_url = Inl,
     se_query_map = (\<lambda>_. []), se_admin_plugin = ''admin'', se_error_template = [], se_prom = sample_prom_lib, se_sys = sample_env, se_cache = None\<rparr>"

definition empty_startup :: "(string, nat, sample_state, string, string, (string, string) hash_map) startup" where
  "empty_startup = \<lparr>su_storage = None, su_admin_addr = None, su_sender = None, su_command = None,
     su_process = sample_process default_conf [], su_services = [], su_pingora = None\<rparr>"

lemma start_conf_wf: "wf_conf start_conf"
  by (simp add: wf_conf_def start_conf_def stored_conf_def default_conf_def wf_map_def keys_of_def)

lemma start_conf_valid: "validate_conf start_config_lib start_conf = Inr ()" by code_simp

lemma start_conf_parsed: "new_conf start_config_lib s b = Inr start_conf"
    by (simp add: new_conf_def convert_pingap_config_def start_config_lib_def stored_config_lib_def sample_config_lib_def sample_toml_def
        start_conf_def stored_conf_def default_conf_def)

lemma start_conf_loaded:
  "load_config (pr_store start_lib) (Some (FileStore \<lparr>fst_path = ''c.toml'', fst_separation = False\<rparr>))
     \<lparr>lo_replace_include = True, lo_admin = False\<rparr> [(''c.toml'', ''text'')] = (Inr start_conf, [(''c.toml'', ''text'')])"
  by (simp add: load_config_def store_load_config_def file_load_config_def start_lib_def sample_store_lib_def act_bind_def pure_op_def ends_with_def
      start_conf_parsed)

lemma sample_resolve: "resolve_path sample_util_lib ''c.toml'' = ''c.toml''" by code_simp

lemma sample_init_storage: "init_storage start_lib ''c.toml'' empty_startup = (Inr (), empty_startup\<lparr>su_storage := Some (FileStore \<lparr>fst_path = ''c.toml'', fst_separation = False\<rparr>)\<rparr>)"
  by (simp add: init_storage_def try_init_config_storage_def new_config_storage_def starts_with_def ETCD_PROTOCOL_def new_file_storage_def
    start_lib_def sample_store_lib_def sample_resolve empty_startup_def)

definition start_args :: args where "start_args = default_args\<lparr>arg_conf := ''c.toml''\<rparr>"


lemma sample_tables: "\<exists>su'. build_tables start_lib start_conf su = (Inr (), su')" if "ps_upstreams (su_process su) = []" "ps_locations (su_process su) = []"
proof -
  obtain up where u: "new_upstream sample_up_lib ''u'' sample_upstream_conf = Inr up"
    using sample_upstream_builds by (auto simp: is_ok_iff)
  obtain l m where l: "new_location sample_loc_lib ''l'' sample_location_conf = Inr l" "new_location sample_loc_lib ''m'' sample_location_conf = Inr m"
    using sample_location_builds by (metis is_ok_iff)
  have c: "upstreams start_conf = [(''u'', sample_upstream_conf)]" "locations start_conf = [(''l'', sample_location_conf), (''m'', sample_location_conf)]"
    by (simp_all add: start_conf_def stored_conf_def)
  have "pr_up start_lib = sample_up_lib" "pr_loc start_lib = sample_loc_lib" by (simp_all add: start_lib_def sample_process_lib_def)
  then show ?thesis
    using that by (simp add: build_tables_def act_bind_def c u l try_init_upstreams_def new_ahash_upstreams_def get_upstream_def get_location_def
      try_init_locations_def upd_process_def map_err_def Let_def split_beta)
qed

lemma sample_env_parts:
  "se_prom sample_start_env = sample_prom_lib" "se_tls sample_start_env = sample_tls_lib"
  "se_log sample_start_env = sample_writer_lib" "se_new_server sample_start_env = (\<lambda>_. Inr ())"
  "se_var sample_start_env = (\<lambda>_. None)" "se_args sample_start_env = [''pingap'', ''-c=c.toml'']"
  "se_parse sample_start_env = (\<lambda>_. Inr (default_args\<lparr>arg_conf := ''c.toml''\<rparr>))"
  by (simp_all add: sample_start_env_def)

lemma sample_arguments: "parse_arguments sample_start_env = Inr start_args"
  by (simp add: parse_arguments_def sample_env_parts get_from_env_def env_flag_def env_option_def env_admin_def
      start_args_def default_args_def is_conf_argument_def starts_with_def Let_def)

lemma sample_logger: "lg_log params = [] \<Longrightarrow> start_logger sample_start_env params = Inr None"
  by (simp add: start_logger_def logger_try_init_def Let_def)

lemma sample_servers_start: "\<exists>srvs tasks. start_servers sample_start_env acme cs = Inr (srvs, tasks)"
proof (induction cs)
  case (Cons c cs)
  have "\<exists>prom. server_prometheus sample_prom_lib c = Inr prom"
    using new_prometheus_succeeds[OF sample_prom_accepts, of "psc_name c"] by (auto simp: server_prometheus_def)
  then obtain prom where p: "make_server sample_start_env c = Inr (new_server c, prom)"
    by (auto simp: make_server_def sample_env_parts)
  have l: "\<exists>lb. listen sample_start_env srv = Inr lb" for srv
    using server_run_ok[OF sample_tls_ok] by (simp add: listen_def sample_env_parts)
  from p l[of "if acme \<and> listens_80 c then enable_lets_encrypt (new_server c) else new_server c"] Cons.IH
  show ?case by (auto simp: Let_def)
qed simp

lemma build_tables_admin_addr: "su_admin_addr (snd (build_tables lib conf su)) = su_admin_addr su"
  by (auto simp: build_tables_def act_bind_def upd_process_def Let_def map_err_def split: prod.splits sum.splits)

lemma sample_services: "\<exists>su'. start_services start_lib sample_start_env start_args start_conf None su = (Inr Running, su')" if h: "ps_upstreams (su_process su) = []" "ps_locations (su_process su) = []" "su_admin_addr su = None"
proof -
  let ?su = "with_command (restart_command sample_start_env start_args) su"
  obtain su1 where b: "build_tables start_lib start_conf ?su = (Inr (), su1)" using sample_tables[of ?su] h by auto
  obtain su2 where p: "init_plugins start_lib sample_start_env (plugins start_conf) (su1\<lparr>su_pingora := Some (new_server_conf sample_start_env start_args start_conf)\<rparr>) = (Inr (), su2)"
    and a2: "su_admin_addr su2 = su_admin_addr su1"
    by (simp add: init_plugins_def Let_def split_beta upd_process_def)
  have "su_admin_addr ?su = None" using h(3) by (simp add: with_command_def split: option.split)
  with build_tables_admin_addr[of start_lib start_conf ?su] b a2 have a: "su_admin_addr su2 = None" by simp
  obtain srvs tasks where s: "start_servers sample_start_env (enabled_lets_encrypt (certificates start_conf))
      (add_challenge_server (certificates start_conf) (parse_from_conf (se_error_template sample_start_env) start_conf)) = Inr (srvs, tasks)"
    using sample_servers_start by blast
  have e: "se_new_server sample_start_env x = Inr ()" for x by (simp add: sample_start_env_def)
  show ?thesis
    unfolding start_services_def with_command_def[symmetric]
    by (simp add: act_bind_def with_command_def[symmetric] b p e s a pure_start_def add_admin_server_def)
qed

lemma sample_start: "\<exists>su'. run start_lib sample_start_env empty_startup = (Inr Running, su') \<and> ps_config (su_process su') = start_conf"
proof -
  let ?su = "empty_startup\<lparr>su_storage := Some (FileStore \<lparr>fst_path = ''c.toml'', fst_separation = False\<rparr>)\<rparr>"
  let ?s1 = "upd_process (\<lambda>p. p\<lparr>ps_config := start_conf\<rparr>) ?su"
  have st: "ps_store (su_process empty_startup) = [(''c.toml'', ''text'')]" by (simp add: empty_startup_def sample_process_def)
  have f: "on_files (load_config (pr_store start_lib) (su_storage ?su) \<lparr>lo_replace_include = True, lo_admin = False\<rparr>) ?su = (Inr start_conf, ?su)"
    using start_conf_loaded by (simp add: on_files_def st upd_process_def map_err_def)
  have args: "\<not> arg_template start_args" "arg_admin start_args = None" "arg_conf start_args = ''c.toml''" "arg_sync start_args = None" "\<not> arg_test start_args" "arg_log start_args = None"
    by (simp_all add: start_args_def default_args_def)
  have k: "\<exists>su'. start_services start_lib sample_start_env start_args start_conf None (?s1\<lparr>su_sender := x\<rparr>) = (Inr Running, su') \<and>
      ps_config (su_process su') = start_conf" for x
  proof -
    obtain su' where r: "start_services start_lib sample_start_env start_args start_conf None (?s1\<lparr>su_sender := x\<rparr>) = (Inr Running, su')"
      using sample_services[of "?s1\<lparr>su_sender := x\<rparr>"] by (auto simp: upd_process_def empty_startup_def sample_process_def)
    from start_services_config[OF r] r show ?thesis by (simp add: upd_process_def)
  qed
  have v: "map_err config_error_text (validate_conf (sl_conf (pr_store start_lib)) start_conf) = Inr ()"
    using start_conf_valid by (simp add: map_err_def start_lib_def)
  show ?thesis
    using f k by (simp add: run_def act_bind_def pure_start_def sample_arguments args sample_init_storage run_conf_def sample_logger v)
qed

section \<open>Properties\<close>

lemma run_started:
  assumes "run lib env su = (Inr Running, su')" "wf_conf (ps_config (su_process su'))"
  shows "validate_conf (sl_conf (pr_store lib)) (ps_config (su_process su')) = Inr () \<and> started lib env (ps_config (su_process su')) su'"
proof -
  from run_running[OF assms(1)] obtain a conf su1 where "run_conf lib env a conf su1 = (Inr Running, su')" by blast
  from run_conf_running[OF this] obtain compression su2 where v: "validate_conf (sl_conf (pr_store lib)) conf = Inr ()"
    and s: "start_services lib env a conf compression su2 = (Inr Running, su')" "ps_config (su_process su2) = conf" by blast
  have "ps_config (su_process su') = conf" using start_services_config[OF s(1)] s(2) by simp
  with v start_services_started[OF s] assms(2) show ?thesis by simp
qed

text \<open>
  C5: A process that has started runs a valid configuration, and its upstreams, locations and
  certificates are exactly those of that configuration: the state every hot reload starts from.
\<close>

theorem startup_in_sync:
  assumes "run lib env su = (Inr Running, su')" "wf_conf (ps_config (su_process su'))"
  shows "let p = su_process su' in validate_conf (sl_conf (pr_store lib)) (ps_config p) = Inr () \<and>
    in_sync lib (ps_config p) p \<and> ps_certs p = fst (parse_certificates (pr_cert lib) (certificates (ps_config p)))"
  using run_started[OF assms] by (simp add: started_def Let_def)

theorem startup_in_sync_witness:
  "\<exists>su'. run start_lib sample_start_env empty_startup = (Inr Running, su') \<and> in_sync start_lib start_conf (su_process su')"
proof -
  obtain su' where r: "run start_lib sample_start_env empty_startup = (Inr Running, su')" and c: "ps_config (su_process su') = start_conf"
    using sample_start by blast
  from startup_in_sync[OF r] show ?thesis using r start_conf_wf by (auto simp: c Let_def)
qed

text \<open>
  C15: Where a certificate is to be renewed by Let's Encrypt, a started process has a server on port 80
  that answers its challenges, a configured one or one of its own.
\<close>

theorem startup_serves_challenges:
  assumes "run lib env su = (Inr Running, su')" "wf_conf (ps_config (su_process su'))"
    and "(n, c) \<in> set (certificates (ps_config (su_process su')))" "unwrap_or [] (cc_acme c) \<noteq> []" "unwrap_or [] (cc_domains c) \<noteq> []"
  shows "\<exists>srv. LbService srv \<in> set (su_services su') \<and> srv_lets_encrypt_enabled srv \<and> ends_with (srv_addr srv) '':80''"
proof -
  let ?certs = "certificates (ps_config (su_process su'))"
  have e: "enabled_lets_encrypt ?certs" using assms(3-5) by (force simp: enabled_lets_encrypt_def list_ex_iff)
  from run_started[OF assms(1,2)] obtain confs where s: "\<forall>x \<in> set (add_challenge_server ?certs confs).
      LbService (if enabled_lets_encrypt ?certs \<and> listens_80 x then enable_lets_encrypt (new_server x) else new_server x) \<in> set (su_services su')"
    by (auto simp: started_def)
  have "listens_80 (default_psc\<lparr>psc_name := ''lets encrypt'', psc_addr := ''0.0.0.0:80''\<rparr>)"
    by (simp add: listens_80_def ends_with_def starts_with_def)
  then have "list_ex listens_80 (add_challenge_server ?certs confs)" using e by (simp add: add_challenge_server_def)
  then obtain x where "x \<in> set (add_challenge_server ?certs confs)" and x: "listens_80 x" by (auto simp: list_ex_iff)
  with s e have "LbService (enable_lets_encrypt (new_server x)) \<in> set (su_services su')" by auto
  moreover have "srv_lets_encrypt_enabled (enable_lets_encrypt (new_server x)) \<and> ends_with (srv_addr (enable_lets_encrypt (new_server x))) '':80''"
    using x by (simp add: enable_lets_encrypt_def new_server_def listens_80_def Let_def)
  ultimately show ?thesis by blast
qed

theorem startup_serves_challenges_witness:
  "\<exists>su' srv. run start_lib sample_start_env empty_startup = (Inr Running, su') \<and> LbService srv \<in> set (su_services su') \<and>
     srv_lets_encrypt_enabled srv"
proof -
  obtain su' where r: "run start_lib sample_start_env empty_startup = (Inr Running, su')" and c: "ps_config (su_process su') = start_conf"
    using sample_start by blast
  have "(''c'', acme_cert) \<in> set (certificates start_conf)" "unwrap_or [] (cc_acme acme_cert) \<noteq> []" "unwrap_or [] (cc_domains acme_cert) \<noteq> []"
    by (simp_all add: start_conf_def acme_cert_def)
  from startup_serves_challenges[OF r, unfolded c, OF start_conf_wf this] r show ?thesis by blast
qed

end
