(* ===== verification/Image_Optim.thy ===== *)
theory Image_Optim
  imports Plugin_Registry
begin

text \<open>
  \<open>pingap-imageoptim\<close>: the plugin that converts the images of a response, with its encoders. The
  image crates are the fields of \<open>image_lib\<close>, over a type \<open>'q\<close> of their objects; bytes are characters.
  The lemmas say when a body is what its content type claims.
\<close>

section \<open>Images\<close>

type_synonym rgba = "char \<times> char \<times> char \<times> char"

record image_info =
  ii_buffer :: "rgba list"
  ii_width :: nat
  ii_height :: nat

datatype image_error =
    NotSupported
  | ImageFail string string
  | ImageQuant string string
  | LodePNG string string
  | ImageIo string

text \<open>
  \<open>il_load\<close> gives width, height and the bytes of the pixels; \<open>iq_\<close> is \<open>imagequant\<close>, \<open>lp_\<close> \<open>lodepng\<close>,
  \<open>mj_\<close> \<open>mozjpeg\<close> with the number of colour components it was set to, \<open>av_\<close> and \<open>wp_\<close> the other two encoders.
\<close>

record ('fmt, 'q) image_lib =
  il_guess :: "string \<Rightarrow> 'fmt option"
  il_from_extension :: "string \<Rightarrow> 'fmt option"
  il_load :: "string \<Rightarrow> 'fmt \<Rightarrow> string + nat \<times> nat \<times> string"
  iq_set_quality :: "nat \<Rightarrow> string + 'q"
  iq_new_image :: "rgba list \<Rightarrow> nat \<Rightarrow> nat \<Rightarrow> 'q \<Rightarrow> string + 'q"
  iq_quantize :: "'q \<Rightarrow> string + 'q"
  iq_set_dithering_level :: "'q \<Rightarrow> string + 'q"
  iq_remapped :: "'q \<Rightarrow> string + rgba list \<times> string"
  lp_set_palette :: "rgba list \<Rightarrow> string + 'q"
  lp_encode :: "string \<Rightarrow> nat \<Rightarrow> nat \<Rightarrow> 'q \<Rightarrow> string + string"
  mj_start_compress :: "nat \<Rightarrow> nat \<Rightarrow> nat \<Rightarrow> nat \<Rightarrow> string + 'q"
  mj_write_scanlines :: "string \<Rightarrow> 'q \<Rightarrow> string + 'q"
  mj_finish :: "'q \<Rightarrow> string + string"
  av_write_image :: "nat \<Rightarrow> nat \<Rightarrow> string \<Rightarrow> nat \<Rightarrow> nat \<Rightarrow> string + string"
  wp_encode :: "string \<Rightarrow> nat \<Rightarrow> nat \<Rightarrow> string + string"

fun pixels_of :: "string \<Rightarrow> rgba list" where
  "pixels_of (r # g # b # a # rest) = (r, g, b, a) # pixels_of rest"
| "pixels_of _ = []"

definition image_of :: "nat \<times> nat \<times> string \<Rightarrow> image_info" where
  "image_of img = (case img of (w, h, bytes) \<Rightarrow> \<lparr>ii_buffer = pixels_of bytes, ii_width = w, ii_height = h\<rparr>)"

definition as_bytes :: "rgba list \<Rightarrow> string" where
  "as_bytes ps = concat (map (\<lambda>(r, g, b, a). [r, g, b, a]) ps)"

definition load_image :: "('fmt, 'q) image_lib \<Rightarrow> string \<Rightarrow> string \<Rightarrow> image_error + image_info" where
  "load_image lib data ext =
     try_then (case il_guess lib data of
         Some f \<Rightarrow> Inr f
       | None \<Rightarrow> (case il_from_extension lib ext of Some f \<Rightarrow> Inr f | None \<Rightarrow> Inl NotSupported)) (\<lambda>format.
     try_then (map_err (ImageFail ''load_image'') (il_load lib data format)) (\<lambda>img. Inr (image_of img)))"

definition optimize_png :: "('fmt, 'q) image_lib \<Rightarrow> image_info \<Rightarrow> nat \<Rightarrow> image_error + string" where
  "optimize_png lib info quality =
     try_then (map_err (ImageQuant ''png_set_quality'') (iq_set_quality lib quality)) (\<lambda>liq.
     try_then (map_err (ImageQuant ''png_new_image'') (iq_new_image lib (ii_buffer info) (ii_width info) (ii_height info) liq)) (\<lambda>img.
     try_then (map_err (ImageQuant ''png_quantize'') (iq_quantize lib img)) (\<lambda>res0.
     try_then (map_err (ImageQuant ''png_set_level'') (iq_set_dithering_level lib res0)) (\<lambda>res.
     try_then (map_err (ImageQuant ''png_remapped'') (iq_remapped lib res)) (\<lambda>(palette, pixels).
     try_then (map_err (LodePNG ''png_encoder'') (lp_set_palette lib palette)) (\<lambda>enc.
     map_err (LodePNG ''png_encode'') (lp_encode lib pixels (ii_width info) (ii_height info) enc)))))))"

text \<open>The compressor is set to the colour space \<open>JCS_RGB\<close> of three components.\<close>

definition optimize_jpeg :: "('fmt, 'q) image_lib \<Rightarrow> image_info \<Rightarrow> nat \<Rightarrow> image_error + string" where
  "optimize_jpeg lib info quality =
     try_then (map_err ImageIo (mj_start_compress lib 3 (ii_width info) (ii_height info) quality)) (\<lambda>comp0.
     try_then (map_err ImageIo (mj_write_scanlines lib (as_bytes (ii_buffer info)) comp0)) (\<lambda>comp.
     map_err ImageIo (mj_finish lib comp)))"

definition optimize_avif :: "('fmt, 'q) image_lib \<Rightarrow> image_info \<Rightarrow> nat \<Rightarrow> nat \<Rightarrow> image_error + string" where
  "optimize_avif lib info quality speed =
     map_err (ImageFail ''avif_encode'') (av_write_image lib (if speed = 0 then 3 else speed) quality
       (as_bytes (ii_buffer info)) (ii_width info mod 2 ^ 32) (ii_height info mod 2 ^ 32))"

definition optimize_webp :: "('fmt, 'q) image_lib \<Rightarrow> image_info \<Rightarrow> nat \<Rightarrow> image_error + string" where
  "optimize_webp lib info quality =
     map_err (ImageFail ''webp_encode'') (wp_encode lib (as_bytes (ii_buffer info)) (ii_width info mod 2 ^ 32)
       (ii_height info mod 2 ^ 32))"

section \<open>The modifier of a body\<close>

record image_optimizer =
  io_image_type :: string
  io_png_quality :: nat
  io_jpeg_quality :: nat
  io_avif_quality :: nat
  io_avif_speed :: nat
  io_webp_quality :: nat
  io_format_type :: string

definition encode_image :: "('fmt, 'q) image_lib \<Rightarrow> image_optimizer \<Rightarrow> image_info \<Rightarrow> image_error + string" where
  "encode_image lib io info =
     (if io_format_type io = ''jpeg'' then optimize_jpeg lib info (io_jpeg_quality io)
      else if io_format_type io = ''avif'' then optimize_avif lib info (io_avif_quality io) (io_avif_speed io)
      else if io_format_type io = ''webp'' then optimize_webp lib info (io_webp_quality io)
      else optimize_png lib info (io_png_quality io))"

definition optimizer_handle :: "('fmt, 'q) image_lib \<Rightarrow> image_optimizer \<Rightarrow> string \<Rightarrow> string" where
  "optimizer_handle lib io data =
     (case load_image lib data (io_image_type io) of
        Inl _ \<Rightarrow> data
      | Inr info \<Rightarrow> (case encode_image lib io info of Inr out \<Rightarrow> out | Inl _ \<Rightarrow> data))"

section \<open>The plugin\<close>

record image_optim =
  im_hash_value :: string
  im_support_types :: "string list"
  im_step :: plugin_step
  im_output_types :: "string list"
  im_png_quality :: nat
  im_jpeg_quality :: nat
  im_avif_quality :: nat
  im_avif_speed :: nat

text \<open>A number of the configuration taken as \<open>u8\<close>, with its default outside one to the maximum.\<close>

definition quality_conf :: "plugin_conf \<Rightarrow> string \<Rightarrow> nat \<Rightarrow> nat \<Rightarrow> nat" where
  "quality_conf conf key most default_value =
     (let q = nat (get_int_conf conf key mod 256) in if q = 0 \<or> q > most then default_value else q)"

definition image_optim_try_from :: "('re, 's) plugin_lib \<Rightarrow> plugin_conf \<Rightarrow> plugin_error + image_optim" where
  "image_optim_try_from lib conf =
     Inr \<lparr>im_hash_value = get_hash_key lib conf, im_support_types = [''jpeg'', ''png''], im_step = UpstreamResponse,
          im_output_types = filter (\<lambda>i. i \<noteq> []) (map trim (split_on CHR '','' (get_str_conf conf ''output_types''))),
          im_png_quality = quality_conf conf ''png_quality'' 100 90, im_jpeg_quality = quality_conf conf ''jpeg_quality'' 100 80,
          im_avif_quality = quality_conf conf ''avif_quality'' 100 75, im_avif_speed = quality_conf conf ''avif_speed'' 10 3\<rparr>"

definition accepted_text :: "('re, 's) plugin_lib \<Rightarrow> conn \<Rightarrow> string option" where
  "accepted_text lib cn = Option.bind (get_header (cn_session cn) ''accept'') (hvalue_to_str (pl_http lib))"

definition accepts_image :: "string \<Rightarrow> string \<Rightarrow> bool" where
  "accepts_image accept item = contains_str accept (''image/'' @ item)"

definition image_optim_handle_request :: "('re, 's) plugin_lib \<Rightarrow> image_optim \<Rightarrow> 's req_handler" where
  "image_optim_handle_request lib im step st =
     (if step \<noteq> Request then skip st
      else case st of (cn, c, s) \<Rightarrow>
        let images = (case accepted_text lib cn of
              None \<Rightarrow> []
            | Some accept \<Rightarrow> map (\<lambda>i. ''image/'' @ i) (filter (accepts_image accept) (im_output_types im)));
            c' = (if images \<noteq> [] then c\<lparr>cache_keys := Some (unwrap_or [] (cache_keys c) @ images)\<rparr> else c)
        in skip (cn, c', s))"

definition image_format :: "('re, 's) plugin_lib \<Rightarrow> image_optim \<Rightarrow> conn \<Rightarrow> string \<Rightarrow> string" where
  "image_format lib im cn image_type =
     (case accepted_text lib cn of
        None \<Rightarrow> image_type
      | Some accept \<Rightarrow> unwrap_or image_type (List.find (accepts_image accept) (im_output_types im)))"

definition image_optim_handle_upstream_response ::
  "('re, 's) plugin_lib \<Rightarrow> ('fmt, 'q) image_lib \<Rightarrow> image_optim \<Rightarrow> 's resp_handler" where
  "image_optim_handle_upstream_response lib il im step st =
     (case st of (cn, c, s, h) \<Rightarrow>
        if im_step im \<noteq> step then (Inr False, st)
        else case Option.bind (Option.bind (hdr_get (resp_headers h) ''content-type'') (hvalue_to_str (pl_http lib))) (split_once CHR ''/'') of
               None \<Rightarrow> (Inr False, st)
             | Some (content_type, image_type) \<Rightarrow>
                 if content_type \<noteq> ''image'' \<or> image_type \<notin> set (im_support_types im) then (Inr False, st)
                 else
                   let format_type = image_format lib im cn image_type in
                   if format_type = [] then (Inr False, st)
                   else
                     let h1 = hdr_remove ''content-length'' (resp_headers h);
                         h2 = hdr_insert ''transfer-encoding'' (snd HTTP_HEADER_TRANSFER_CHUNKED) h1;
                         h3 = hdr_insert ''content-type'' (''image/'' @ format_type) h2
                     in (Inr True, cn, c\<lparr>modify_upstream_response_body := Some (optimizer_handle il
                           \<lparr>io_image_type = image_type, io_png_quality = im_png_quality im, io_jpeg_quality = im_jpeg_quality im,
                            io_avif_quality = im_avif_quality im, io_avif_speed = im_avif_speed im, io_webp_quality = 100,
                            io_format_type = format_type\<rparr>)\<rparr>, s, h\<lparr>resp_headers := h3\<rparr>))"

definition new_image_optim ::
  "('re, 's) plugin_lib \<Rightarrow> ('fmt, 'q) image_lib \<Rightarrow> plugin_conf \<Rightarrow> plugin_error + 's plugin" where
  "new_image_optim lib il conf =
     try_then (image_optim_try_from lib conf) (\<lambda>im.
     Inr (default_plugin\<lparr>hash_key := im_hash_value im, handle_request := image_optim_handle_request lib im,
        handle_upstream_response := image_optim_handle_upstream_response lib il im\<rparr>))"

section \<open>Lemmas\<close>

lemma quality_conf_range: "1 \<le> d \<Longrightarrow> d \<le> most \<Longrightarrow> 1 \<le> quality_conf conf key most d \<and> quality_conf conf key most d \<le> most"
  by (auto simp: quality_conf_def Let_def)

text \<open>The parameters a built plugin hands to the encoders are in the range the encoders document.\<close>

lemma image_optim_ranges:
  assumes "image_optim_try_from lib conf = Inr im"
  shows "im_png_quality im \<in> {1..100}" "im_jpeg_quality im \<in> {1..100}" "im_avif_quality im \<in> {1..100}" "im_avif_speed im \<in> {1..10}"
  using assms quality_conf_range[of 90 100] quality_conf_range[of 80 100] quality_conf_range[of 75 100] quality_conf_range[of 3 10]
  by (auto simp: image_optim_try_from_def)

text \<open>The plugin never touches the route of a request, so the counters of the proxy hold with it.\<close>

lemma image_optim_keeps: "new_image_optim lib il conf = Inr p \<Longrightarrow> keeps_location p"
  by (auto simp: new_image_optim_def keeps_location_def default_plugin_def image_optim_handle_request_def
      image_optim_handle_upstream_response_def handler_results default_handle_response_def Let_def
      split: prod.splits option.splits)

text \<open>An RGB compressor is given four bytes for every pixel.\<close>

lemma length_as_bytes: "length (as_bytes ps) = 4 * length ps"
  by (induction ps) (auto simp: as_bytes_def)

lemma as_bytes_pixels: "4 dvd length bytes \<Longrightarrow> as_bytes (pixels_of bytes) = bytes"
proof (induction bytes rule: pixels_of.induct)
  case (1 r g b a rest)
  from 1(2) have "4 dvd length rest" by simp presburger
  with 1(1) show ?case by (simp add: as_bytes_def)
qed (simp_all add: as_bytes_def, presburger+)

text \<open>
  A body that cannot be decoded or encoded is sent as it came, but under the new content type.
\<close>

lemma image_type_mismatch:
  assumes "im_step im = UpstreamResponse" "''png'' \<in> set (im_support_types im)" "item \<noteq> []"
    and "hdr_get (resp_headers h) ''content-type'' = Some ''image/png''" "hvalue_to_str (pl_http lib) ''image/png'' = Some ''image/png''"
    and "image_format lib im cn ''png'' = item"
    and "\<And>info. load_image il data ''png'' \<noteq> Inr info"
    and "image_optim_handle_upstream_response lib il im UpstreamResponse (cn, c, s, h) = (r, cn', c', s', h')"
  shows "hdr_get (resp_headers h') ''content-type'' = Some (''image/'' @ item) \<and>
    (\<exists>f. modify_upstream_response_body c' = Some f \<and> f data = data)"
proof -
  have "\<exists>e. load_image il data ''png'' = Inl e" using assms(7) by (cases "load_image il data ''png''") auto
  then show ?thesis
    using assms by (auto simp: image_optim_handle_upstream_response_def Let_def optimizer_handle_def)
qed

end
