(* ===== verification/Telemetry.thy ===== *)
theory Telemetry
  imports Upstream Plugin_Conf
begin

text \<open>
  \<open>pingap-otel\<close>, \<open>pingap-pyroscope\<close> and \<open>pingap-sentry\<close>: what the exporters are configured with, and the
  map of tracer providers that the server callbacks read. The exporters themselves are other crates:
  what they are given is a record, and whether they can be built is a field of \<open>telemetry_lib\<close>. Adding
  a provider copies the map and stores the copy, in two steps; the property says which
  interleavings of two services keep both providers.
\<close>

section \<open>The tracer service\<close>

datatype otlp_compression = OtlpZstd | OtlpGzip

record tracer_config =
  tc_timeout :: duration
  tc_max_attributes :: nat
  tc_max_events :: nat
  tc_max_queue_size :: nat
  tc_scheduled_delay :: duration
  tc_max_export_batch_size :: nat
  tc_max_export_timeout :: duration
  tc_jaeger :: bool
  tc_baggage :: bool
  tc_compression :: "otlp_compression option"

definition secs :: "nat \<Rightarrow> duration" where "secs n = n * 1000000000"

definition default_tracer_config :: tracer_config where
  "default_tracer_config = \<lparr>tc_timeout = secs 3, tc_max_attributes = 16, tc_max_events = 16, tc_max_queue_size = 2048,
     tc_scheduled_delay = secs 5, tc_max_export_batch_size = 512, tc_max_export_timeout = secs 30,
     tc_jaeger = False, tc_baggage = False, tc_compression = None\<rparr>"

record tracer_service =
  ts_name :: string
  ts_endpoint :: string
  ts_config :: tracer_config

record tracer_service_builder =
  tb_name :: "string option"
  tb_endpoint :: "string option"
  tb_config :: tracer_config

definition tracer_param :: "health_lib \<Rightarrow> string \<times> string \<Rightarrow> tracer_config \<Rightarrow> tracer_config" where
  "tracer_param lib kv c =
     (let (key, value) = kv;
          dur = (\<lambda>f. case hl_duration lib value of Inr v \<Rightarrow> f v | Inl _ \<Rightarrow> c);
          num = (\<lambda>w f. case parse_unsigned w value of Some v \<Rightarrow> f v | None \<Rightarrow> c)
      in if key = ''timeout'' then dur (\<lambda>v. c\<lparr>tc_timeout := v\<rparr>)
         else if key = ''max_queue_size'' then num 64 (\<lambda>v. c\<lparr>tc_max_queue_size := v\<rparr>)
         else if key = ''scheduled_delay'' then dur (\<lambda>v. c\<lparr>tc_scheduled_delay := v\<rparr>)
         else if key = ''max_export_batch_size'' then num 64 (\<lambda>v. c\<lparr>tc_max_export_batch_size := v\<rparr>)
         else if key = ''max_export_timeout'' then dur (\<lambda>v. c\<lparr>tc_max_export_timeout := v\<rparr>)
         else if key = ''max_attributes'' then num 32 (\<lambda>v. c\<lparr>tc_max_attributes := v\<rparr>)
         else if key = ''max_events'' then num 32 (\<lambda>v. c\<lparr>tc_max_events := v\<rparr>)
         else if key = ''jaeger'' then c\<lparr>tc_jaeger := True\<rparr>
         else if key = ''baggage'' then c\<lparr>tc_baggage := True\<rparr>
         else if key = ''compression'' then c\<lparr>tc_compression := Some (if ascii_lower value = ''zstd'' then OtlpZstd else OtlpGzip)\<rparr>
         else c)"

definition parse_query_params :: "health_lib \<Rightarrow> url \<Rightarrow> tracer_service_builder \<Rightarrow> tracer_service_builder" where
  "parse_query_params lib u b = b\<lparr>tb_config := fold (tracer_param lib) (url_query_pairs u) (tb_config b)\<rparr>"

definition builder_name :: "string \<Rightarrow> tracer_service_builder \<Rightarrow> tracer_service_builder" where
  "builder_name name b = b\<lparr>tb_name := Some name\<rparr>"

definition builder_endpoint :: "health_lib \<Rightarrow> string \<Rightarrow> tracer_service_builder \<Rightarrow> tracer_service_builder" where
  "builder_endpoint lib endpoint b =
     (let b1 = b\<lparr>tb_endpoint := Some endpoint\<rparr>
      in case hl_url lib endpoint of Inr u \<Rightarrow> parse_query_params lib u b1 | Inl _ \<Rightarrow> b1)"

definition builder_build :: "tracer_service_builder \<Rightarrow> tracer_service" where
  "builder_build b = \<lparr>ts_name = unwrap_or ''default'' (tb_name b),
     ts_endpoint = unwrap_or ''http://localhost:4317'' (tb_endpoint b), ts_config = tb_config b\<rparr>"

definition new_tracer_service :: "health_lib \<Rightarrow> string \<Rightarrow> string \<Rightarrow> tracer_service" where
  "new_tracer_service lib name endpoint =
     builder_build (builder_endpoint lib endpoint (builder_name name
       \<lparr>tb_name = None, tb_endpoint = None, tb_config = default_tracer_config\<rparr>))"

definition get_service_name :: "string \<Rightarrow> string" where
  "get_service_name name = ''pingap:'' @ name"

section \<open>Providers\<close>

datatype propagator = TraceContext | Jaeger | Baggage

record provider_options =
  po_endpoint :: string
  po_timeout :: duration
  po_compression :: "otlp_compression option"
  po_max_queue_size :: nat
  po_scheduled_delay :: duration
  po_max_export_batch_size :: nat
  po_max_attributes :: nat
  po_max_events :: nat
  po_service_name :: string

text \<open>\<open>'p\<close> is a tracer provider of the SDK.\<close>

record 'p telemetry_lib =
  te_build_provider :: "provider_options \<Rightarrow> string + 'p"

type_synonym 'p providers = "(string, 'p) hash_map"

definition get_provider :: "'p providers \<Rightarrow> string \<Rightarrow> 'p option" where
  "get_provider m name = map_of m name"

text \<open>The two accesses of \<open>add_provider\<close> to the shared map: what it makes of the map it loaded, and the store of that.\<close>

definition copy_providers :: "string \<Rightarrow> 'p \<Rightarrow> 'p providers \<Rightarrow> 'p providers" where
  "copy_providers name p loaded = map_insert name p (fold (\<lambda>(k, v) m. map_insert k v m) loaded [])"

definition add_provider :: "string \<Rightarrow> 'p \<Rightarrow> 'p providers \<Rightarrow> 'p providers" where
  "add_provider name p m = copy_providers name p m"

definition provider_options_of :: "tracer_service \<Rightarrow> provider_options" where
  "provider_options_of ts =
     (let c = ts_config ts in
      \<lparr>po_endpoint = ts_endpoint ts, po_timeout = tc_timeout c, po_compression = tc_compression c,
       po_max_queue_size = tc_max_queue_size c, po_scheduled_delay = tc_scheduled_delay c,
       po_max_export_batch_size = tc_max_export_batch_size c, po_max_attributes = tc_max_attributes c,
       po_max_events = tc_max_events c, po_service_name = get_service_name (ts_name ts)\<rparr>)"

definition propagators_of :: "tracer_config \<Rightarrow> propagator list" where
  "propagators_of c = [TraceContext] @ (if tc_jaeger c then [Jaeger] else []) @ (if tc_baggage c then [Baggage] else [])"

text \<open>Starting the service: the propagators it sets for the process and the providers afterwards.\<close>

definition tracer_start ::
  "'p telemetry_lib \<Rightarrow> tracer_service \<Rightarrow> propagator list \<times> 'p providers \<Rightarrow> propagator list \<times> 'p providers" where
  "tracer_start lib ts st =
     (case te_build_provider lib (provider_options_of ts) of
        Inl _ \<Rightarrow> st
      | Inr p \<Rightarrow> (propagators_of (ts_config ts), add_provider (ts_name ts) p (snd st)))"

definition new_http_proxy_tracer :: "'p providers \<Rightarrow> string \<Rightarrow> ('p \<times> string) option" where
  "new_http_proxy_tracer m name = map_option (\<lambda>p. (p, ''http_proxy'')) (get_provider m name)"

section \<open>Pyroscope and Sentry\<close>

record pyroscope_params =
  py_url :: string
  py_application_name :: string
  py_user :: string
  py_password :: string
  py_sample_rate :: nat
  py_tags :: "(string \<times> string) list"

definition format_tag_value :: "sys_env \<Rightarrow> string \<Rightarrow> string" where
  "format_tag_value env value =
     (if starts_with value ''$'' then unwrap_or value (env_var env (drop 1 value)) else value)"

definition pyroscope_param :: "sys_env \<Rightarrow> string \<times> string \<Rightarrow> pyroscope_params \<Rightarrow> pyroscope_params" where
  "pyroscope_param env kv p =
     (let (key, value) = kv in
      if key = ''app'' then p\<lparr>py_application_name := value\<rparr>
      else if key = ''user'' then p\<lparr>py_user := value\<rparr>
      else if key = ''password'' then p\<lparr>py_password := value\<rparr>
      else if key = ''sample_rate'' then (case parse_unsigned 32 value of Some v \<Rightarrow> p\<lparr>py_sample_rate := v\<rparr> | None \<Rightarrow> p)
      else if starts_with key ''tag:'' then p\<lparr>py_tags := py_tags p @ [(drop 4 key, format_tag_value env value)]\<rparr>
      else p)"

text \<open>\<open>query\<close> reads the raw query of a URL; the error is the text of the parser.\<close>

definition pyroscope_options ::
  "health_lib \<Rightarrow> (url \<Rightarrow> string option) \<Rightarrow> sys_env \<Rightarrow> string \<Rightarrow> string + pyroscope_params" where
  "pyroscope_options lib query env value =
     try_then (map_err (\<lambda>e. ''Url parse error '' @ e @ '', '' @ value) (hl_url lib value)) (\<lambda>u.
     let p = fold (pyroscope_param env) (url_query_pairs u)
           \<lparr>py_url = value, py_application_name = ''pingap'', py_user = [], py_password = [], py_sample_rate = 100, py_tags = []\<rparr>
     in Inr (case query u of Some q \<Rightarrow> p\<lparr>py_url := replace_all value (''?'' @ q) []\<rparr> | None \<Rightarrow> p))"

definition new_sentry_options :: "(string \<Rightarrow> string + 'dsn) \<Rightarrow> string \<Rightarrow> string + 'dsn option" where
  "new_sentry_options parse dsn = try_then (parse dsn) (\<lambda>d. Inr (Some d))"

section \<open>Adding providers one after the other and at the same time\<close>

lemma map_of_copy: "map_of (fold (\<lambda>(k, v) m. map_insert k v m) loaded acc) = map_of acc ++ map_of (rev loaded)"
  by (induction loaded arbitrary: acc) (auto simp: fun_eq_iff map_add_def split: option.split)

lemma get_provider_copy [simp]:
  "wf_map m \<Longrightarrow> get_provider (copy_providers name p m) n = (if n = name then Some p else get_provider m n)"
  by (simp add: get_provider_def copy_providers_def map_of_copy map_of_rev_wf)

text \<open>
  The services of two servers that start together: each loads the map, then stores its copy with its
  own provider in it. A state is the shared map and what either has loaded.
\<close>

datatype access = Load bool | Store bool

fun provider_access ::
  "(bool \<Rightarrow> string \<times> 'p) \<Rightarrow> access \<Rightarrow> 'p providers \<times> (bool \<Rightarrow> 'p providers) \<Rightarrow> 'p providers \<times> (bool \<Rightarrow> 'p providers)" where
  "provider_access sv (Load i) (m, l) = (m, l(i := m))"
| "provider_access sv (Store i) (m, l) = (copy_providers (fst (sv i)) (snd (sv i)) (l i), l)"

definition interleaved ::
  "(bool \<Rightarrow> string \<times> 'p) \<Rightarrow> access list \<Rightarrow> 'p providers \<Rightarrow> 'p providers" where
  "interleaved sv schedule m = fst (fold (provider_access sv) schedule (m, \<lambda>_. []))"

lemma wf_copy: "wf_map (copy_providers name p m)"
proof -
  have "wf_map acc \<Longrightarrow> wf_map (fold (\<lambda>(k, v) m. map_insert k v m) m acc)" for acc
    by (induction m arbitrary: acc) (auto intro: wf_intros)
  from this[of "[]"] show ?thesis by (simp add: copy_providers_def wf_map_def[of "[]"] keys_of_def wf_map_insert)
qed

lemma serial_add_provider:
  "interleaved sv [Load i, Store i] m = add_provider (fst (sv i)) (snd (sv i)) m"
  by (simp add: interleaved_def add_provider_def)

section \<open>Properties\<close>

text \<open>
  C37: Two tracer services that start at the same time both have their provider registered exactly when
  one stores before the other loads; in every other interleaving the one that stores first is lost,
  and its server is never traced.
\<close>

theorem provider_race:
  assumes "schedule \<in> shuffles [Load True, Store True] [Load False, Store False]"
    and "wf_map m" "get_provider m (fst (sv True)) = None" "get_provider m (fst (sv False)) = None"
    and "fst (sv True) \<noteq> fst (sv False)"
  shows "get_provider (interleaved sv schedule m) (fst (sv True)) = Some (snd (sv True)) \<and>
      get_provider (interleaved sv schedule m) (fst (sv False)) = Some (snd (sv False)) \<longleftrightarrow>
    schedule \<in> {[Load True, Store True, Load False, Store False], [Load False, Store False, Load True, Store True]}"
proof -
  from assms(1) have "schedule \<in>
      {[Load True, Store True, Load False, Store False], [Load True, Load False, Store True, Store False],
       [Load True, Load False, Store False, Store True], [Load False, Load True, Store True, Store False],
       [Load False, Load True, Store False, Store True], [Load False, Store False, Load True, Store True]}"
    by (auto simp: shuffles.simps)
  then show ?thesis
    using assms(2-5) by (elim insertE emptyE; hypsubst) (simp_all add: interleaved_def wf_copy not_sym)
qed

theorem provider_race_witness:
  "get_provider (interleaved (\<lambda>i. if i then (''a'', 1) else (''b'', 2 :: nat))
     [Load True, Load False, Store True, Store False] []) ''a'' = None"
proof -
  let ?sv = "\<lambda>i. if i then (''a'', 1) else (''b'', 2 :: nat)"
  have "[Load True, Load False, Store True, Store False] \<in> shuffles [Load True, Store True] [Load False, Store False]"
    by (auto simp: shuffles.simps)
  from provider_race[OF this, of "[]" ?sv]
  have "\<not> (get_provider (interleaved ?sv [Load True, Load False, Store True, Store False] []) ''a'' = Some 1 \<and>
      get_provider (interleaved ?sv [Load True, Load False, Store True, Store False] []) ''b'' = Some 2)"
    by (simp add: get_provider_def wf_map_def keys_of_def)
  moreover have "get_provider (interleaved ?sv [Load True, Load False, Store True, Store False] []) ''b'' = Some 2"
    by (simp add: interleaved_def get_provider_def copy_providers_def)
  ultimately show ?thesis
    by (simp add: interleaved_def get_provider_def copy_providers_def)
qed

end
