(* ===== verification/Health_Probe.thy ===== *)
theory Health_Probe
  imports Upstream Plugin
begin

text \<open>
  The probes of \<open>pingap-health\<close> and the \<open>discover\<close> of \<open>pingap-discovery\<close> that pingora calls: what a TCP or HTTP
  probe is set to, the check of a gRPC server, and which notifications a discovery sends. The probes of pingora are
  records of what this code sets on them; connections and requests of other crates are fields of \<open>probe_lib\<close>.
\<close>

section \<open>TCP and HTTP probes\<close>

record peer_options =
  ho_verify_hostname :: bool
  ho_verify_cert :: bool
  ho_connection_timeout :: "duration option"
  ho_total_connection_timeout :: "duration option"
  ho_read_timeout :: "duration option"
  ho_write_timeout :: "duration option"
  ho_idle_timeout :: "duration option"

record probe =
  pb_options :: peer_options
  pb_consecutive_success :: nat
  pb_consecutive_failure :: nat
  pb_reuse_connection :: bool
  pb_req :: "request_header option"
  pb_observed :: bool

record 'c probe_lib =
  hp_tcp_default :: probe
  hp_http_new :: "string \<Rightarrow> bool \<Rightarrow> probe"
  hp_build_request :: "string \<Rightarrow> string \<Rightarrow> string + request_header"
  hp_append_header :: "string \<Rightarrow> string \<Rightarrow> request_header \<Rightarrow> string + request_header"
  hp_from_shared :: "string \<Rightarrow> string + unit"
  hp_connect :: "string \<Rightarrow> string \<Rightarrow> duration \<Rightarrow> string + 'c"
  hp_grpc_serving :: "'c \<Rightarrow> string \<Rightarrow> string + bool"

definition update_peer_options :: "health_check_conf \<Rightarrow> peer_options \<Rightarrow> peer_options" where
  "update_peer_options conf opt =
     opt\<lparr>ho_verify_hostname := False, ho_verify_cert := False,
         ho_connection_timeout := Some (hc_connection_timeout conf), ho_total_connection_timeout := Some (hc_connection_timeout conf),
         ho_read_timeout := Some (hc_read_timeout conf), ho_write_timeout := Some (hc_read_timeout conf),
         ho_idle_timeout := Some 0\<rparr>"

text \<open>\<open>observed\<close>: a callback for changes of the health is given.\<close>

definition new_tcp_health_check :: "'c probe_lib \<Rightarrow> health_check_conf \<Rightarrow> bool \<Rightarrow> probe" where
  "new_tcp_health_check lib conf observed =
     (let check = hp_tcp_default lib in
      check\<lparr>pb_options := update_peer_options conf (pb_options check), pb_consecutive_success := hc_consecutive_success conf,
            pb_consecutive_failure := hc_consecutive_failure conf, pb_observed := observed\<rparr>)"

definition new_http_health_check :: "'c probe_lib \<Rightarrow> health_check_conf \<Rightarrow> bool \<Rightarrow> probe" where
  "new_http_health_check lib conf observed =
     (let check0 = hp_http_new lib (hc_host conf) (hc_schema conf = Https);
          check = check0\<lparr>pb_options := update_peer_options conf (pb_options check0),
            pb_consecutive_success := hc_consecutive_success conf, pb_consecutive_failure := hc_consecutive_failure conf,
            pb_reuse_connection := hc_reuse_connection conf, pb_observed := observed\<rparr>
      in case hp_build_request lib ''GET'' (hc_path conf) of
           Inl _ \<Rightarrow> check
         | Inr req \<Rightarrow> check\<lparr>pb_req := Some (case hp_append_header lib ''Host'' (hc_host conf) req of Inr r \<Rightarrow> r | Inl _ \<Rightarrow> req)\<rparr>)"

section \<open>gRPC probes\<close>

record grpc_health_check =
  gh_scheme :: string
  gh_service :: string
  gh_origin :: string
  gh_consecutive_success :: nat
  gh_consecutive_failure :: nat
  gh_connection_timeout :: duration
  gh_observed :: bool

definition grpc_of :: "health_check_conf \<Rightarrow> string \<Rightarrow> bool \<Rightarrow> grpc_health_check" where
  "grpc_of conf scheme observed = \<lparr>gh_scheme = scheme, gh_service = hc_service conf, gh_origin = scheme @ ''://'' @ hc_host conf,
     gh_consecutive_success = hc_consecutive_success conf, gh_consecutive_failure = hc_consecutive_failure conf,
     gh_connection_timeout = hc_connection_timeout conf, gh_observed = observed\<rparr>"

definition grpc_check :: "'c probe_lib \<Rightarrow> grpc_health_check \<Rightarrow> backend \<Rightarrow> pingora_error + unit" where
  "grpc_check lib g target =
     (let uri = gh_scheme g @ ''://'' @ sock_text (backend_addr target) in
      try_then (map_err (new_internal_error 500) (hp_from_shared lib uri)) (\<lambda>_.
      try_then (map_err (new_internal_error 500) (hp_connect lib uri (gh_origin g) (gh_connection_timeout g))) (\<lambda>conn.
      try_then (map_err (new_internal_error 500) (hp_grpc_serving lib conn (gh_service g))) (\<lambda>serving.
      if serving then Inr () else Inl (new_internal_error 500 ''grpc server is not serving'')))))"

text \<open>The calls of the callback.\<close>

definition health_status_change :: "grpc_health_check \<Rightarrow> backend \<Rightarrow> bool \<Rightarrow> (backend \<times> bool) list" where
  "health_status_change g target healthy = (if gh_observed g then [(target, healthy)] else [])"

definition health_threshold :: "grpc_health_check \<Rightarrow> bool \<Rightarrow> nat" where
  "health_threshold g success = (if success then gh_consecutive_success g else gh_consecutive_failure g)"

text \<open>The probe of the check that \<^const>\<open>new_health_check\<close> chose.\<close>

datatype probe_kind = PingoraProbe probe | GrpcProbe grpc_health_check

definition probe_of :: "'c probe_lib \<Rightarrow> bool \<Rightarrow> health_check \<Rightarrow> probe_kind" where
  "probe_of lib observed hc =
     (case hc of
        DefaultTcpCheck d \<Rightarrow>
          (let check = hp_tcp_default lib in
           PingoraProbe (check\<lparr>pb_options := (pb_options check)\<lparr>ho_connection_timeout := Some d\<rparr>, pb_observed := observed\<rparr>))
      | TcpCheck c \<Rightarrow> PingoraProbe (new_tcp_health_check lib c observed)
      | HttpCheck c \<Rightarrow> PingoraProbe (new_http_health_check lib c observed)
      | GrpcCheck c scheme \<Rightarrow> GrpcProbe (grpc_of c scheme observed))"

section \<open>Discovery with its notifications\<close>

definition discover_warning :: "string \<Rightarrow> notification" where
  "discover_warning message =
     \<lparr>nt_category = ''service_discover_fail'', nt_level = NWarn, nt_title = [], nt_message = message\<rparr>"

text \<open>\<open>debug\<close> is the debug text of a list; \<open>sender\<close> says whether there is a receiver of notifications.\<close>

definition dns_discover ::
  "discovery_lib \<Rightarrow> (string list \<Rightarrow> string) \<Rightarrow> ((string \<times> string \<times> nat) list \<Rightarrow> string) \<Rightarrow> bool \<Rightarrow> dns
     \<Rightarrow> (discovery_error + backend set) \<times> notification list" where
  "dns_discover lib debug debug_hosts sender d =
     (case dns_run_discover lib d of
        Inr (bs, failed) \<Rightarrow>
          (Inr bs, if failed \<noteq> [] \<and> sender then [discover_warning (''dns discovery resolve failed: '' @ debug failed)] else [])
      | Inl e \<Rightarrow>
          (Inl e, if sender then [discover_warning (''dns discovery '' @ debug_hosts (dns_hosts d) @ '', error: '' @ discovery_error_text e)]
                  else []))"

definition docker_discover ::
  "discovery_lib \<Rightarrow> (string list \<Rightarrow> string) \<Rightarrow> bool \<Rightarrow> docker \<Rightarrow> (discovery_error + backend set) \<times> notification list" where
  "docker_discover lib debug sender d =
     (case docker_run_discover lib d of
        Inr bs \<Rightarrow> (Inr bs, [])
      | Inl e \<Rightarrow>
          (Inl e, if sender then [discover_warning (''docker discovery '' @ debug (map ct_label (docker_containers d))
              @ '', error: '' @ discovery_error_text e)] else []))"

section \<open>Lemmas\<close>

text \<open>A gRPC server is healthy exactly when a connection can be made and it says that it serves.\<close>

lemma grpc_check_ok_iff:
  "is_ok (grpc_check lib g target) \<longleftrightarrow>
     (let uri = gh_scheme g @ ''://'' @ sock_text (backend_addr target) in
      is_ok (hp_from_shared lib uri) \<and>
      (\<exists>conn. hp_connect lib uri (gh_origin g) (gh_connection_timeout g) = Inr conn \<and>
         hp_grpc_serving lib conn (gh_service g) = Inr True))"
  by (auto simp: is_ok_iff grpc_check_def Let_def split: if_splits)

text \<open>Which check a configuration gives.\<close>

lemma new_health_check_cases:
  assumes "new_health_check lib text = Inr (conf, hc)" "text \<noteq> []"
  shows "hc = TcpCheck conf \<or> hc = HttpCheck conf \<or> (\<exists>scheme. hc = GrpcCheck conf scheme)"
proof -
  obtain c where c: "health_conf_try_from lib text = Inr c"
    using assms by (auto simp: new_health_check_def)
  show ?thesis
    using assms c by (cases "hc_schema c") (auto simp: new_health_check_def new_grpc_health_check_def Let_def)
qed

text \<open>Every probe of a configured check has the time limits and thresholds of its configuration.\<close>

lemma probe_of_configured:
  assumes "new_health_check lib text = Inr (conf, hc)" "text \<noteq> []"
  shows "case probe_of pl observed hc of
      PingoraProbe p \<Rightarrow> ho_total_connection_timeout (pb_options p) = Some (hc_connection_timeout conf) \<and>
        ho_read_timeout (pb_options p) = Some (hc_read_timeout conf) \<and>
        pb_consecutive_success p = hc_consecutive_success conf \<and> pb_consecutive_failure p = hc_consecutive_failure conf \<and>
        pb_observed p = observed
    | GrpcProbe g \<Rightarrow> gh_connection_timeout g = hc_connection_timeout conf \<and>
        health_threshold g True = hc_consecutive_success conf \<and> health_threshold g False = hc_consecutive_failure conf \<and>
        health_status_change g target healthy = (if observed then [(target, healthy)] else [])"
  using new_health_check_cases [OF assms]
  by (auto simp: probe_of_def new_tcp_health_check_def new_http_health_check_def update_peer_options_def grpc_of_def
      health_threshold_def health_status_change_def Let_def split: sum.split)

text \<open>A discovery that fails, or leaves out a host, is announced exactly once when there is a receiver.\<close>

lemma dns_discover_announced:
  "length (snd (dns_discover lib debug debug_hosts True d)) = 1 \<longleftrightarrow>
     (\<forall>bs. dns_run_discover lib d \<noteq> Inr (bs, []))"
  by (auto simp: dns_discover_def split: sum.split)

end
