(* ===== verification/Spec2Isabelle.thy ===== *)
theory Spec2Isabelle
  imports Routing Access_Control Hot_Reload Admin_Access Cache_Storage Access_Log Acme_Challenge Startup_Sync
    Image_Optim Telemetry Health_Probe
begin

text \<open>
  \<^bold>\<open>pingap, a reverse proxy on pingora: verification development.\<close>

  pingap reads a configuration (servers, locations, upstreams, plugins, certificates), builds the
  running objects from it and serves requests: the server finds the location that accepts host and
  path, runs the plugins of the location, selects a peer of the upstream of the location, rewrites
  headers and bodies and counts the requests in flight. Background services check the health of the
  upstreams, compare the stored configuration with the running one and reload or restart, renew
  certificates and announce what happened to a webhook. The admin server edits the stored
  configuration.

  \<^bold>\<open>Theories and what they model\<close> (paths below \<open>src/\<close>):
  \<^item> \<open>Prelude\<close>: result and option combinators, actions (state passing with errors), hash maps as
    association lists with distinct keys, strings as the Rust code uses them (splitting, trimming,
    parsing of numbers), words; \<open>Http_Types\<close>: headers, URIs, sessions, responses of pingora.
  \<^item> \<open>Ctx\<close>, \<open>Http_Header\<close>, \<open>Http_Response\<close>, \<open>Plugin\<close>: \<open>pingap-core\<close>, the request context, header
    helpers, responses (chunked ones too) and the interface of a plugin.
  \<^item> \<open>Config\<close>, \<open>Conf_Storage\<close>: \<open>pingap-config\<close>, the structs, loading with includes, validation,
    weights, removal, export, hash and comparison of configurations; file and etcd storage.
  \<^item> \<open>Discovery\<close>, \<open>Health\<close>, \<open>Upstream\<close>, \<open>Health_Task\<close>, \<open>Health_Probe\<close>: \<open>pingap-discovery\<close>, \<open>pingap-health\<close>,
    \<open>pingap-upstream\<close>: addresses, DNS and Docker discovery, the health check task, the probes, peers, counters, reload.
  \<^item> \<open>Location\<close>: \<open>pingap-location\<close>, selectors, matching, rewriting, limits, reload. \<open>Registry\<close> holds the
    locales \<open>registry\<close> and \<open>keyed_registry\<close> for rebuilding a table of running objects from a
    configuration; they are interpreted for locations and for upstreams.
  \<^item> \<open>Server\<close>, \<open>Proxy\<close>, \<open>Lifecycle\<close>, \<open>Routing\<close>: \<open>src/proxy/server.rs\<close> and \<open>server_conf.rs\<close>, the
    routing table, plugin chains and every callback of a request; \<open>Lifecycle\<close> is the step relation of
    a server with many requests in flight.
  \<^item> \<open>Util\<close>: \<open>pingap-util\<close>. \<open>Plugin_Conf\<close>, \<open>Guard\<close>, \<open>Auth_Plugins\<close>, \<open>Token_Plugins\<close>, \<open>Access_Plugins\<close>,
    \<open>Header_Plugins\<close>, \<open>Content_Plugins\<close>: \<open>pingap-plugin\<close>, all its plugins; \<open>Guard\<close> holds the locale
    \<open>request_guard\<close>, the contract of a plugin that decides on a request, interpreted for every access plugin.
  \<^item> \<open>Plugin_Registry\<close>, \<open>Access_Control\<close>: \<open>src/plugin/mod.rs\<close> and \<open>stats.rs\<close>, building and reloading the
    plugins, and what a guarded location admits.
  \<^item> \<open>Tls_Certificates\<close>, \<open>Tls_Handshake\<close>: \<open>pingap-certificate\<close>, and what a handshake presents and the
    cache of signed certificates keeps. \<open>Webhook\<close>: \<open>pingap-webhook\<close>, \<open>src/webhook.rs\<close> and the service
    loops of \<open>pingap-core/src/service.rs\<close>. \<open>Supervisor\<close>, \<open>Hot_Reload\<close>: \<open>src/process\<close>, and that a hot
    reload brings the running objects in step with the stored configuration. \<open>Admin\<close>, \<open>Admin_Access\<close>:
    \<open>src/plugin/admin.rs\<close>, and who is answered.
  \<^item> \<open>Cache_Storage\<close>: \<open>pingap-cache\<close>, the encoding of objects, the file and the memory cache and the
    storage interface of pingora; its locale \<open>object_store\<close> is the contract of a store (a get after a
    put returns the object or misses), interpreted for both caches and for the chosen backend.
    \<open>Access_Log\<close>, \<open>Log_Writer\<close>: \<open>pingap-logger\<close>, log formats and entries; the writers of the log and the
    compression of old files.
  \<^item> \<open>Metrics\<close>: \<open>pingap-performance\<close>, the Prometheus metrics of a server as the calls made on them, scraping,
    pushing, process statistics. \<open>Listener\<close>: \<open>Server::run\<close> and \<open>new_tls_settings\<close>, the endpoints of a server.
    \<open>Telemetry\<close>: \<open>pingap-otel\<close>, \<open>pingap-pyroscope\<close>, \<open>pingap-sentry\<close>, what the exporters are configured with and the map
    of tracer providers. \<open>Image_Optim\<close>: \<open>pingap-imageoptim\<close>, the plugin that converts images.
  \<^item> \<open>Acme\<close>, \<open>Acme_Challenge\<close>: \<open>pingap-acme\<close>, the ACME client and the renewal of certificates, and how client,
    storage and proxy answer a challenge; the locale \<open>token_store\<close> is the contract of the storage for
    tokens, interpreted for files, for etcd and for the storage of the process.
  \<^item> \<open>Startup\<close>, \<open>Startup_Sync\<close>: \<open>src/main.rs\<close>, from the arguments to the running servers and services (with
    the logger, metrics and endpoints above), and what holds of a started process.

  \<^bold>\<open>How code becomes definitions.\<close> A struct is a record, an enum a datatype; a fallible function
  returns \<open>'e + 'a\<close> with the error on the left; \<open>Ctx\<close>, the connection and the globals of the process are
  passed as state. \<open>i32\<close>, \<open>u16\<close>, \<open>u32\<close> counters, weights and limits are words of that width, with
  wrap-around; \<open>usize\<close> and \<open>u64\<close> values that only measure are naturals. Panics the source can reach are
  errors of their own. Loops over a list are structural recursion and the service loops consume
  the list of their events, so no definition needs fuel; the loop of the log format parser is a
  partial function whose termination is proved, and the loop that polls for a certificate one that
  ends exactly when the server answers.

  \<^bold>\<open>Parameters.\<close> Code outside the repository is a field of a library record: pingora (load balancers,
  sessions, cache), regular expressions, TOML and JSON, cryptography, X.509, resolver and Docker,
  file system and etcd, clocks and random identifiers. Where a property needs a law of such a
  parameter (base64 decoding undoes encoding, a printer is injective) the law is a named
  hypothesis, and the witness of the property instantiates the parameter.

  \<^bold>\<open>What the properties show.\<close> Counting: the counters of the server, of locations and of upstreams under
  every interleaving, with the requests that escape them, and the gauge of current requests among the
  metrics, whose calls never name a metric that is not there. Routing: the heaviest accepting location
  wins and the matcher decides the specified match. Access: a request that reaches the upstream was
  admitted by every access plugin, what the token and authentication plugins accept, and, as lemmas, the two
  ways around them (upgrade requests, plugins that fail to build). Configuration: no dangling
  reference passes validation or arises by removal, comparison finds every difference. Reload: unchanged objects are kept, changed ones rebuilt, a failed reload
  changes nothing. Bodies, headers, health checks and discovery: the functional behaviour of the
  operations on every branch. Supervision: a process starts in step
  with its configuration, a hot reload ends in step with the stored one, a
  process starts its successor at most once, the schedule of restarts. Certificates: a handshake
  presents only what is configured for the name, idle signed certificates go away. Admin: answers need
  credentials, with the paths that do not. Cache: what was stored is served, readers stay within
  their quota. Log: the parser ends, an entry is the format with its keys replaced, and compressing old files loses
  none. Listening: a server uses TLS on all its addresses or on none. Tracing: which starts of two
  services keep both providers. ACME:
  challenges are answered, when the client ends, what its requests name and what the path of the
  challenges reaches.

  \<^bold>\<open>Not modelled.\<close> The spans of a request that OpenTelemetry exports, the
  stream of etcd watch events and the text of a server configuration in the debug log: they are calls into other
  crates or output nothing reads back. Where the exporters, image codecs, encoders and sockets begin,
  the model ends: they are parameters.
\<close>

section \<open>Counters across the life of requests\<close>

lemma sample_run:
  "\<exists>w cn c. sys_run sample_lib (sample_world, []) [Arrived (Some ''l'') ''l''] (w, [(cn, c)]) \<and> ctx_location c = ''l''"
proof -
  let ?x = "snd (arrival sample_lib None None (sample_conn ''/api'') sample_world)"
  have "ctx_location (x_ctx ?x) = ''l''" by (simp add: sample_arrival starts_with_def)
  moreover have "sys_step sample_lib (sample_world, []) (Arrived (Some ''l'') (ctx_location (x_ctx ?x)))
      (x_world ?x, [(x_conn ?x, x_ctx ?x)])"
    using s_arrive[OF refl, where lib = sample_lib and w = sample_world and fl = "[]" and stream = None and dg = None
        and cn = "sample_conn ''/api''"]
    by (simp add: sample_arrival(2))
  ultimately show ?thesis using run_step[OF run_nil] by fastforce
qed

text \<open>
  C1: The server's \<open>processing\<close> counter is the number of requests in flight, and \<open>accepted\<close> the
  number of requests that arrived, for every interleaving of callbacks, plugins, failures and
  reloads; both wrap at their width.
\<close>

theorem server_counts_in_flight:
  assumes "sys_run lib (w0, []) ls (w, fl)" "wf_map (w_locations w0)" "srv_processing (w_server w0) = 0"
  shows "srv_processing (w_server w) = of_nat (length fl) \<and>
    srv_accepted (w_server w) = srv_accepted (w_server w0) + of_nat (arrivals ls)"
  using sys_run_server[OF assms(1)] assms(2,3) by (simp add: server_balance_def)

theorem server_counts_in_flight_witness:
  "\<exists>w fl. sys_run sample_lib (sample_world, []) [Arrived (Some ''l'') ''l''] (w, fl) \<and> srv_processing (w_server w) = 1"
proof -
  obtain w cn c where r: "sys_run sample_lib (sample_world, []) [Arrived (Some ''l'') ''l''] (w, [(cn, c)])"
    using sample_run by blast
  have "wf_map (w_locations sample_world)" using sample_wf by (simp add: wf_locations_def)
  from server_counts_in_flight[OF r this] r show ?thesis by (auto simp: sample_world_def sample_server_def)
qed

text \<open>
  Between reloads the \<open>processing\<close> counter of a location moves by exactly its own requests: up
  by one for every arrival counted on it, down by one for every request that ends with it as
  its location.
\<close>

theorem location_counter_law:
  assumes "sys_run lib (w0, fl0) ls (w, fl)" "wf_map (w_locations w0)" "Reloaded \<notin> set ls" "n \<noteq> []"
  shows "loc_processing w n =
    map_option (\<lambda>p. p + of_nat (adds_on n ls) - of_nat (ended_on n ls)) (loc_processing w0 n)"
  using sys_run_location[OF assms(1)] assms(2-4) by simp

theorem location_counter_law_witness:
  "\<exists>w fl. sys_run sample_lib (sample_world, []) [Arrived (Some ''l'') ''l''] (w, fl) \<and> loc_processing w ''l'' = Some 1"
proof -
  obtain w cn c where r: "sys_run sample_lib (sample_world, []) [Arrived (Some ''l'') ''l''] (w, [(cn, c)])"
    using sample_run by blast
  have "wf_map (w_locations sample_world)" using sample_wf by (simp add: wf_locations_def)
  from location_counter_law[OF r this, of "''l''"] r show ?thesis
    by (auto simp: loc_processing_def sample_world_def sample_location_def adds_on_def ended_on_def)
qed





text \<open>
  A request refused for its \<open>Content-Length\<close> is not counted but is released when it ends: the
  counter of its location drops by one, below zero on an idle location.
\<close>

theorem refused_request_undercounts:
  fixes lib :: "('re, 'b, 's) server_lib" and w stream dg cn
  defines "x \<equiv> snd (arrival lib stream dg cn w)"
  assumes "wf_map (w_locations w)" "counted lib cn w = None" "ctx_location (x_ctx x) = n" "n \<noteq> []"
  shows "loc_processing (x_world (logging written compressed x)) n = map_option (\<lambda>p. p - 1) (loc_processing w n)"
proof -
  have "w_locations (x_world (logging written compressed x)) = map_update n sub_processing (w_locations (x_world x))"
    using logging_effect(1)[of written compressed x] assms(4,5) by simp
  then show ?thesis
    using arrival_effect(1)[OF assms(2), of lib stream dg cn] assms(3)
    by (simp add: x_def loc_processing_def map_of_map_update add_to_def option.map_comp comp_def)
qed

theorem refused_request_undercounts_witness:
  "\<exists>w cn. loc_processing w ''l'' = Some 0 \<and>
     loc_processing (x_world (logging None None (snd (arrival sample_lib None None cn w)))) ''l'' = Some (-1)"
proof -
  let ?l = "sample_location\<lparr>client_max_body_size := 4\<rparr>"
  let ?w = "sample_world\<lparr>w_locations := [(''l'', ?l)]\<rparr>"
  let ?s = "(sample_session ''a.com'' ''/api'')\<lparr>req_header := (sample_request ''a.com'' ''/api'')\<lparr>req_headers :=
      hdr_insert ''content-length'' ''99'' no_headers\<rparr>\<rparr>"
  let ?cn = "(sample_conn ''/api'')\<lparr>cn_session := ?s\<rparr>"
  have wf: "wf_locations (w_locations ?w)"
    by (simp add: wf_locations_def wf_map_def keys_of_def sample_location_def)
  have wfm: "wf_map (w_locations ?w)" using wf by (simp add: wf_locations_def)
  have m: "match_host_path sample_re ?l host ''/api'' = (True, None)" for host
    by (simp add: match_host_path_def match_path_def sample_location_def starts_with_def)
  have acc: "accepts sample_re [(''l'', ?l)] host ''/api'' ''l''" for host
    using match_host_path_iff[of sample_re ?l host "''/api''"] m[of host] by (simp add: accepts_def get_location_def)
  have names: "get_server_locations (w_server_locations ?w) (srv_name (w_server ?w)) = Some [''l'']"
    by (simp add: get_server_locations_def sample_world_def sample_server_def)
  have re: "ll_re (sl_loc sample_lib) = sample_re" and locs: "w_locations ?w = [(''l'', ?l)]"
    and p: "uri_path (req_uri (req_header (cn_session ?cn))) = ''/api''"
    by (simp_all add: sample_lib_def sample_loc_lib_def sample_request_def)
  have route: "ctx_location (x_ctx (snd (arrival sample_lib None None ?cn ?w))) = ''l''"
    using arrival_route[OF sample_keep_route wf, of None None ?cn]
    unfolding names re p locs by (simp add: acc)
  have "parse_usize ''99'' = Some 99"
    by (simp add: parse_unsigned_def is_digit_def digits_val_def digit_val_def)
  then have len: "\<not> is_ok (validate_content_length (sl_http sample_lib) ?l (req_header (cn_session ?cn)))"
    by (simp add: validate_content_length_def get_content_length_def to_str_or_default_def sample_lib_def sample_loc_lib_def
        sample_http_def sample_location_def)
  have "fst (find_location sample_re [(''l'', ?l)] host ''/api'' [''l''] None c) = Some ''l''" for host c
    by (simp add: get_location_def m)
  then have cnt: "counted sample_lib ?cn ?w = None"
    using len unfolding counted_def Let_def names re locs p by (simp add: get_location_def)
  have p0: "loc_processing ?w ''l'' = Some 0" by (simp add: loc_processing_def sample_location_def)
  from refused_request_undercounts[OF wfm cnt route] p0 show ?thesis by auto
qed

end
